(* ===== verification/Prelude.thy ===== *)
theory Prelude
  imports Main "HOL-Library.Word" "HOL-Library.Product_Lexorder"
begin

text \<open>
  Shared vocabulary of the development: the Go types every component uses (time,
  duration, uuid, the error-or-value result), the handful of SQL statements the
  repositories issue, as operations on a table (the list of its rows in physical order),
  and the string functions of the standard library that the services call.
  The collections \<open>sql_defs\<close> and \<open>sql_facts\<close> carry the facts the
  repository proofs share.
\<close>

named_theorems sql_defs "definitions of the SQL statement operations"
named_theorems sql_facts "facts about the SQL statement operations"

section \<open>Time, durations, identifiers\<close>

text \<open>
  A \<open>time.Time\<close> is its number of nanoseconds since the Unix epoch; the zero value of
  the Go type is the first instant of the year 1. A \<open>time.Duration\<close> is an int64 of
  nanoseconds and is kept at its width.
\<close>

type_synonym time = int
type_synonym duration = "64 word"
type_synonym uuid = nat

definition zero_time :: time where
  "zero_time = - 62135596800000000000"

definition time_IsZero :: "time \<Rightarrow> bool" where
  "time_IsZero t \<longleftrightarrow> t = zero_time"

definition time_Add :: "time \<Rightarrow> duration \<Rightarrow> time" where
  "time_Add t d = t + sint d"

definition time_After :: "time \<Rightarrow> time \<Rightarrow> bool" where
  "time_After t u \<longleftrightarrow> u < t"

definition time_Second :: duration where "time_Second = 1000000000"
definition time_Hour :: duration where "time_Hour = 3600000000000"

text \<open>The untyped conversion \<open>time.Duration(n)\<close> of a Go int.\<close>

definition Duration_of :: "int \<Rightarrow> duration" where
  "Duration_of n = word_of_int n"

text \<open>\<open>int(d.Seconds())\<close>: whole seconds, truncated towards zero (the float64 that
  Go passes through is exact for durations below 2^23 seconds).\<close>

definition whole_seconds :: "duration \<Rightarrow> int" where
  "whole_seconds d = sgn (sint d) * (\<bar>sint d\<bar> div 1000000000)"

definition uuid_Nil :: uuid where "uuid_Nil = 0"

section \<open>SQL statements on one table\<close>

definition sql_select :: "('r \<Rightarrow> bool) \<Rightarrow> 'r list \<Rightarrow> 'r list" where
  [sql_defs]: "sql_select P rows = filter P rows"

definition sql_count :: "('r \<Rightarrow> bool) \<Rightarrow> 'r list \<Rightarrow> nat" where
  [sql_defs]: "sql_count P rows = length (filter P rows)"

definition sql_update :: "('r \<Rightarrow> bool) \<Rightarrow> ('r \<Rightarrow> 'r) \<Rightarrow> 'r list \<Rightarrow> 'r list" where
  [sql_defs]: "sql_update P f rows = map (\<lambda>r. if P r then f r else r) rows"

definition sql_delete :: "('r \<Rightarrow> bool) \<Rightarrow> 'r list \<Rightarrow> 'r list" where
  [sql_defs]: "sql_delete P rows = filter (\<lambda>r. \<not> P r) rows"

definition sql_order :: "('r \<Rightarrow> 'k::linorder) \<Rightarrow> 'r list \<Rightarrow> 'r list" where
  [sql_defs]: "sql_order k rows = sort_key k rows"

text \<open>\<open>QueryRow\<close>: the first row of the result, if there is one.\<close>

definition sql_row :: "('r \<Rightarrow> bool) \<Rightarrow> 'r list \<Rightarrow> 'r option" where
  [sql_defs]: "sql_row P rows = find P rows"

text \<open>Comparisons with NULL are not true, so the row is not selected.\<close>

definition null_le :: "time option \<Rightarrow> time \<Rightarrow> bool" where
  "null_le a b = (case a of None \<Rightarrow> False | Some t \<Rightarrow> t \<le> b)"

definition null_less :: "time option \<Rightarrow> time \<Rightarrow> bool" where
  "null_less a b = (case a of None \<Rightarrow> False | Some t \<Rightarrow> t < b)"

lemma null_le_simps [simp]: "null_le None b = False" "null_le (Some t) b = (t \<le> b)"
  by (simp_all add: null_le_def)

lemma null_less_simps [simp]: "null_less None b = False" "null_less (Some t) b = (t < b)"
  by (simp_all add: null_less_def)

lemma sql_update_empty [simp]: "sql_update P f [] = []"
  by (simp add: sql_defs)

lemma sql_update_length [simp]: "length (sql_update P f rows) = length rows"
  by (simp add: sql_defs)

lemma sql_update_none [sql_facts]: "\<forall>r\<in>set rows. \<not> P r \<Longrightarrow> sql_update P f rows = rows"
  by (induction rows) (auto simp: sql_defs)

lemma sql_update_keys [sql_facts]:
  "(\<And>r. k (f r) = k r) \<Longrightarrow> map k (sql_update P f rows) = map k rows"
  by (simp add: sql_defs)

lemma sql_update_mem [sql_facts]:
  "r' \<in> set (sql_update P f rows) \<longleftrightarrow>
     (\<exists>r\<in>set rows. (P r \<and> r' = f r) \<or> (\<not> P r \<and> r' = r))"
  by (auto simp: sql_defs image_iff)

lemma sql_count_0 [sql_facts]: "sql_count P rows = 0 \<longleftrightarrow> (\<forall>r\<in>set rows. \<not> P r)"
  by (auto simp: sql_defs filter_empty_conv)

lemma sql_count_Cons [simp]: "sql_count P (r # rows) = (if P r then 1 else 0) + sql_count P rows"
  by (simp add: sql_defs)

lemma sql_count_Nil [simp]: "sql_count P [] = 0"
  by (simp add: sql_defs)

lemma sql_update_Cons [simp]:
  "sql_update P f (r # rows) = (if P r then f r else r) # sql_update P f rows"
  by (simp add: sql_defs)

lemma sql_row_Some [sql_facts]: "sql_row P rows = Some r \<Longrightarrow> r \<in> set rows \<and> P r"
  by (auto simp: sql_defs find_Some_iff)

lemma sql_row_None [sql_facts]: "sql_row P rows = None \<longleftrightarrow> (\<forall>r\<in>set rows. \<not> P r)"
  by (auto simp: sql_defs find_None_iff)

lemma sql_row_simps [simp]:
  "sql_row P [] = None" "sql_row P (r # rows) = (if P r then Some r else sql_row P rows)"
  by (simp_all add: sql_defs)

text \<open>A table whose rows have distinct keys has at most one row of a key, and a lookup finds it.\<close>

lemma distinct_key_eq [sql_facts]:
  "distinct (map k rows) \<Longrightarrow> r \<in> set rows \<Longrightarrow> s \<in> set rows \<Longrightarrow> k r = k s \<Longrightarrow> r = s"
  by (simp add: distinct_map inj_on_def)

lemma sql_row_key [sql_facts]:
  "distinct (map k rows) \<Longrightarrow> r \<in> set rows \<Longrightarrow> sql_row (\<lambda>s. k s = k r) rows = Some r"
  by (induction rows) (auto simp: image_iff)

lemma sql_row_update_key [sql_facts]:
  assumes "\<And>r. k (f r) = k r"
  shows "sql_row (\<lambda>s. k s = i) (sql_update (\<lambda>s. k s = i) f rows) =
    map_option f (sql_row (\<lambda>s. k s = i) rows)"
  by (induction rows) (auto simp: assms)

lemma sql_row_update_other [sql_facts]:
  assumes "\<And>r. k (f r) = k r" and "i \<noteq> i'"
  shows "sql_row (\<lambda>s. k s = i') (sql_update (\<lambda>s. k s = i) f rows) = sql_row (\<lambda>s. k s = i') rows"
  using assms by (induction rows) auto

section \<open>Order and limit\<close>

text \<open>
  \<open>ORDER BY k LIMIT n\<close>: whatever is cut off ranks no better than what is kept.
\<close>

lemma sorted_take_drop_le:
  "sorted (map k xs) \<Longrightarrow> x \<in> set (take n xs) \<Longrightarrow> y \<in> set (drop n xs) \<Longrightarrow> k x \<le> k y"
proof -
  assume s: "sorted (map k xs)" and x: "x \<in> set (take n xs)" and y: "y \<in> set (drop n xs)"
  have "sorted (map k (take n xs) @ map k (drop n xs))"
    using s by (metis append_take_drop_id map_append)
  with x y show "k x \<le> k y" by (auto simp: sorted_append)
qed

lemma order_limit_best:
  assumes "x \<in> set (take n (sql_order k xs))" and "y \<in> set xs"
    and "y \<notin> set (take n (sql_order k xs))"
  shows "k x \<le> k y"
proof -
  have "y \<in> set (sql_order k xs)" using assms(2) by (simp add: sql_defs)
  then have "y \<in> set (drop n (sql_order k xs))"
    using assms(3) by (metis UnE append_take_drop_id set_append)
  with assms(1) show ?thesis
    by (intro sorted_take_drop_le [of k "sql_order k xs"]) (auto simp: sql_defs)
qed

lemma set_order_limit: "set (take n (sql_order k xs)) \<subseteq> set xs"
  by (metis set_take_subset set_sort sql_order_def)

lemma length_order_limit: "length (take n (sql_order k xs)) = min n (length xs)"
  by (simp add: sql_defs min.commute)

lemma order_sorted: "sorted (map k (sql_order k xs))"
  by (simp add: sql_defs)

lemma distinct_order_limit: "distinct (map h xs) \<Longrightarrow> distinct (map h (take n (sql_order k xs)))"
  by (simp add: sql_order_def distinct_map distinct_sort inj_on_def)
    (meson in_set_takeD set_sort [THEN equalityD1, THEN subsetD])

lemma distinct_map_filter': "distinct (map k xs) \<Longrightarrow> distinct (map k (filter P xs))"
  by (rule distinct_map_filter)

section \<open>Strings\<close>

text \<open>
  Go strings are byte strings; \<open>strings.TrimSpace\<close> and \<open>strings.ToLower\<close> are
  modelled on the ASCII characters.
\<close>

definition is_space :: "char \<Rightarrow> bool" where
  "is_space c = (let n = of_char c :: nat in n = 32 \<or> (9 \<le> n \<and> n \<le> 13))"

definition TrimLeft :: "string \<Rightarrow> string" where
  "TrimLeft s = dropWhile is_space s"

definition TrimSpace :: "string \<Rightarrow> string" where
  "TrimSpace s = rev (TrimLeft (rev (TrimLeft s)))"

definition lower_char :: "char \<Rightarrow> char" where
  "lower_char c = (let n = of_char c :: nat in if 65 \<le> n \<and> n \<le> 90 then char_of (n + 32) else c)"

definition ToLower :: "string \<Rightarrow> string" where
  "ToLower s = map lower_char s"

definition EqualFold :: "string \<Rightarrow> string \<Rightarrow> bool" where
  "EqualFold s t \<longleftrightarrow> ToLower s = ToLower t"

text \<open>\<open>%d\<close> of a Go integer.\<close>

fun show_nat :: "nat \<Rightarrow> string" where
  "show_nat n = (if n < 10 then [char_of (48 + n)] else show_nat (n div 10) @ [char_of (48 + n mod 10)])"

declare show_nat.simps [simp del]

definition show_int :: "int \<Rightarrow> string" where
  "show_int i = (if i < 0 then CHR ''-'' # show_nat (nat (- i)) else show_nat (nat i))"

text \<open>\<open>strings.Contains\<close>\<close>

fun has_prefix :: "string \<Rightarrow> string \<Rightarrow> bool" where
  "has_prefix [] s = True"
| "has_prefix (x # xs) [] = False"
| "has_prefix (x # xs) (y # ys) = (x = y \<and> has_prefix xs ys)"

fun Contains :: "string \<Rightarrow> string \<Rightarrow> bool" where
  "Contains [] p = (p = [])"
| "Contains (x # xs) p = (has_prefix p (x # xs) \<or> Contains xs p)"

lemma lower_char_idem [simp]: "lower_char (lower_char c) = lower_char c"
proof (cases "65 \<le> (of_char c :: nat) \<and> (of_char c :: nat) \<le> 90")
  case True
  then have "(of_char (char_of ((of_char c :: nat) + 32) :: char) :: nat) = of_char c + 32"
    by (simp add: of_char_of)
  with True show ?thesis by (simp add: lower_char_def Let_def)
next
  case False
  then show ?thesis by (auto simp: lower_char_def Let_def)
qed

lemma ToLower_idem [simp]: "ToLower (ToLower s) = ToLower s"
  by (simp add: ToLower_def)

lemma ToLower_append: "ToLower (s @ t) = ToLower s @ ToLower t"
  by (simp add: ToLower_def)

lemma TrimLeft_hd: "TrimLeft s \<noteq> [] \<Longrightarrow> \<not> is_space (hd (TrimLeft s))"
  unfolding TrimLeft_def by (rule hd_dropWhile)

lemma dropWhile_keeps_last: "dropWhile P s \<noteq> [] \<Longrightarrow> last (dropWhile P s) = last s"
  by (induction s) auto

lemma TrimSpace_ends:
  assumes "TrimSpace s \<noteq> []"
  shows "\<not> is_space (hd (TrimSpace s)) \<and> \<not> is_space (last (TrimSpace s))"
proof -
  let ?l = "TrimLeft s" and ?r = "TrimLeft (rev (TrimLeft s))"
  have ne: "?r \<noteq> []" using assms by (simp add: TrimSpace_def)
  then have l: "?l \<noteq> []" by (metis TrimLeft_def dropWhile.simps(1) rev.simps(1))
  have "hd (TrimSpace s) = last ?r" using ne by (simp add: TrimSpace_def hd_rev)
  also have "\<dots> = last (rev ?l)"
    using ne dropWhile_keeps_last [of is_space "rev ?l"] by (simp add: TrimLeft_def)
  also have "\<dots> = hd ?l" using l by (simp add: last_rev)
  finally have "\<not> is_space (hd (TrimSpace s))" using TrimLeft_hd [OF l] by simp
  moreover have "last (TrimSpace s) = hd ?r" using ne by (simp add: TrimSpace_def last_rev)
  ultimately show ?thesis using TrimLeft_hd [OF ne] by simp
qed

end
