(* ===== verification/Retry.thy ===== *)
theory Retry
  imports Prelude
begin

text \<open>
  Backoff (\<open>pkg/retry/backoff.go\<close>): the policy, \<open>NextDelay\<close> with its int64
  arithmetic, its passage through float64 and its jitter, and \<open>NextRunAt\<close>.
\<close>

type_synonym Strategy = string

definition StrategyFixed :: Strategy where "StrategyFixed = ''fixed''"
definition StrategyLinear :: Strategy where "StrategyLinear = ''linear''"
definition StrategyExponential :: Strategy where "StrategyExponential = ''exponential''"

lemmas strategy_defs = StrategyFixed_def StrategyLinear_def StrategyExponential_def

record Policy =
  MaxRetries :: int
  Strategy :: Strategy
  BaseDelay :: duration
  MaxDelay :: duration
  Jitter :: bool

definition DefaultPolicy :: Policy where
  "DefaultPolicy = \<lparr>MaxRetries = 3, Strategy = StrategyExponential,
     BaseDelay = 60 * time_Second, MaxDelay = 24 * time_Hour, Jitter = True\<rparr>"

section \<open>The float64 passage\<close>

text \<open>
  \<open>float64(p.BaseDelay)\<close> rounds an integer to 53 significant bits, ties to even;
  \<open>math.Pow(2, k)\<close> is exact up to \<open>k = 1023\<close> and +Inf beyond, and the product with a
  power of two is exact. The conversion back to int64 truncates; Go leaves its value to the
  implementation when the float does not fit. \<open>conv\<close> is that value, by the sign of the
  float (0 stands for NaN); on amd64 it is the least int64.
\<close>

function bit_len :: "int \<Rightarrow> nat" where
  "bit_len n = (if n \<le> 0 then 0 else Suc (bit_len (n div 2)))"
  by pat_completeness auto
termination
  by (relation "measure nat") auto

declare bit_len.simps [simp del]

definition f64_of_int :: "int \<Rightarrow> int" where
  "f64_of_int n = (let a = \<bar>n\<bar> in
     if a < 2 ^ 53 then n
     else let m = 2 ^ (bit_len a - 53); q = a div m; r = a mod m in
       sgn n * (if 2 * r < m \<or> (2 * r = m \<and> even q) then q else q + 1) * m)"

definition amd64_conv :: "int \<Rightarrow> duration" where
  "amd64_conv s = - (2 ^ 63)"

definition exp_delay :: "(int \<Rightarrow> duration) \<Rightarrow> duration \<Rightarrow> int \<Rightarrow> duration" where
  "exp_delay conv base attempt =
     (let b = f64_of_int (sint base); k = nat (attempt - 1); v = b * 2 ^ k in
      if 1024 \<le> k then conv (sgn b)
      else if - (2 ^ 63) \<le> v \<and> v < 2 ^ 63 then word_of_int v else conv (sgn v))"

section \<open>NextDelay\<close>

text \<open>
  \<open>rnd n\<close> is the value \<open>rand.Int63n(n)\<close> draws and \<open>coin\<close> the one \<open>rand.Intn(2)\<close>
  draws. \<open>Int63n\<close> panics on an argument below 1: the result is then None.
\<close>

definition add_jitter :: "(int \<Rightarrow> int) \<Rightarrow> nat \<Rightarrow> duration \<Rightarrow> duration option" where
  "add_jitter rnd coin delay =
     (let n = sint delay div 2 in
      if n \<le> 0 then None
      else let jitter = word_of_int (rnd n) in
        Some (if coin = 0 then delay + jitter else delay - jitter))"

definition raw_delay :: "(int \<Rightarrow> duration) \<Rightarrow> (int \<Rightarrow> int) \<Rightarrow> nat \<Rightarrow> Policy \<Rightarrow> int \<Rightarrow> duration option" where
  "raw_delay conv rnd coin p attempt =
     (if Strategy p = StrategyFixed then Some (BaseDelay p)
      else if Strategy p = StrategyLinear then Some (BaseDelay p * Duration_of attempt)
      else if Strategy p = StrategyExponential then
        (let delay = exp_delay conv (BaseDelay p) attempt in
         if Jitter p \<and> 0 < sint delay then add_jitter rnd coin delay else Some delay)
      else Some (BaseDelay p))"

definition effective_cap :: "Policy \<Rightarrow> duration" where
  "effective_cap p = (if MaxDelay p = 0 then 24 * time_Hour else MaxDelay p)"

definition cap_delay :: "Policy \<Rightarrow> duration \<Rightarrow> duration" where
  "cap_delay p delay =
     (let delay = (if sint (effective_cap p) < sint delay then effective_cap p else delay)
      in if sint delay < 0 then BaseDelay p else delay)"

definition NextDelay :: "(int \<Rightarrow> duration) \<Rightarrow> (int \<Rightarrow> int) \<Rightarrow> nat \<Rightarrow> Policy \<Rightarrow> int \<Rightarrow> duration option" where
  "NextDelay conv rnd coin p attempt0 =
     (let attempt = (if attempt0 \<le> 0 then 1 else attempt0)
      in map_option (cap_delay p) (raw_delay conv rnd coin p attempt))"

definition NextRunAt :: "(int \<Rightarrow> duration) \<Rightarrow> (int \<Rightarrow> int) \<Rightarrow> nat \<Rightarrow> Policy \<Rightarrow> int \<Rightarrow> time \<Rightarrow> time option" where
  "NextRunAt conv rnd coin p attempt now = map_option (time_Add now) (NextDelay conv rnd coin p attempt)"

section \<open>Ranges\<close>

lemma int64_range: "- (2 ^ 63) \<le> sint (w :: duration)" "sint (w :: duration) < 2 ^ 63"
  using sint_ge [of w] sint_lt [of w] by simp_all

lemma sint_int64: "- (2 ^ 63) \<le> v \<Longrightarrow> v < 2 ^ 63 \<Longrightarrow> sint (word_of_int v :: duration) = v"
  by (simp add: sint_sbintrunc' signed_take_bit_int_eq_self)

lemma bit_len_bound: "(n::int) < 2 ^ k \<Longrightarrow> bit_len n \<le> k"
proof (induction k arbitrary: n)
  case 0
  then show ?case by (subst bit_len.simps) simp
next
  case (Suc k)
  have "n div 2 < 2 ^ k" using Suc.prems by simp
  then have "bit_len (n div 2) \<le> k" by (rule Suc.IH)
  then show ?case by (simp add: bit_len.simps [of n])
qed

lemma f64_small: "\<bar>n\<bar> < 2 ^ 53 \<Longrightarrow> f64_of_int n = n"
  by (simp add: f64_of_int_def Let_def)

lemma f64_dvd: "0 < a \<Longrightarrow> 2 ^ (bit_len a - 53) dvd a \<Longrightarrow> f64_of_int a = a"
  by (simp add: f64_of_int_def Let_def)

text \<open>A whole number of seconds below 2^31 passes through float64 unchanged.\<close>

lemma f64_seconds:
  assumes "0 \<le> s" and "s < 2 ^ 31"
  shows "f64_of_int (s * 1000000000) = s * 1000000000"
proof (cases "s = 0")
  case True
  then show ?thesis by (simp add: f64_small)
next
  case False
  let ?a = "s * 1000000000"
  have "?a < 2 ^ 61" using assms by simp
  then have le: "bit_len ?a - 53 \<le> 9" using bit_len_bound [of ?a 61] by simp
  have "(2::int) ^ 9 dvd 2 ^ 9 * (s * 1953125)" by (rule dvd_triv_left)
  then have "(2::int) ^ 9 dvd ?a" by simp
  then have "2 ^ (bit_len ?a - 53) dvd ?a" using le_imp_power_dvd [OF le] by (rule dvd_trans [rotated])
  then show ?thesis using assms(1) False by (intro f64_dvd) simp_all
qed

lemma exp_delay_fits:
  assumes "f64_of_int (sint base) = sint base" and "0 \<le> sint base" and "1 \<le> attempt"
    and "attempt \<le> 1024" and "sint base * 2 ^ nat (attempt - 1) < 2 ^ 63"
  shows "sint (exp_delay conv base attempt) = sint base * 2 ^ nat (attempt - 1)"
proof -
  let ?v = "sint base * 2 ^ nat (attempt - 1)"
  have "0 \<le> ?v" using assms(2) by simp
  then have v: "- (2 ^ 63) \<le> ?v" by (rule order_trans [rotated]) simp
  have "\<not> 1024 \<le> nat (attempt - 1)" using assms(3,4) by simp
  then have "exp_delay conv base attempt = word_of_int ?v"
    using assms(1,5) v unfolding exp_delay_def Let_def by (simp only: if_True if_False simp_thms)
  then show ?thesis using sint_int64 [OF v assms(5)] by (simp only:)
qed

lemma exp_delay_overflow:
  assumes "f64_of_int (sint base) = sint base" and "0 < sint base"
    and "2 ^ 63 \<le> sint base * 2 ^ nat (attempt - 1)"
  shows "exp_delay conv base attempt = conv 1"
  using assms by (simp add: exp_delay_def Let_def sgn_mult)

lemma cap_delay_bounds:
  assumes "0 \<le> sint (BaseDelay p)"
  shows "0 \<le> sint (cap_delay p d)"
    and "sint (cap_delay p d) \<le> max (sint (effective_cap p)) (sint (BaseDelay p))"
  using assms by (auto simp: cap_delay_def Let_def)

lemma cap_delay_min:
  "0 \<le> sint d \<Longrightarrow> 0 \<le> sint (effective_cap p) \<Longrightarrow>
   sint (cap_delay p d) = min (sint d) (sint (effective_cap p))"
  by (auto simp: cap_delay_def Let_def)

section \<open>The delay promised by a policy\<close>

text \<open>
  The documented formulas, over unbounded integers: a constant, a multiple of the attempt, a
  power of two times the base, all cut at the cap.
\<close>

definition backoff_spec :: "Strategy \<Rightarrow> int \<Rightarrow> int \<Rightarrow> int \<Rightarrow> int" where
  "backoff_spec strategy base cap attempt = min cap
     (if strategy = StrategyLinear then base * attempt
      else if strategy = StrategyExponential then base * 2 ^ nat (attempt - 1)
      else base)"

lemma raw_delay_spec:
  assumes "0 \<le> sint (BaseDelay p)" and "1 \<le> attempt" and "attempt \<le> 1024"
    and "f64_of_int (sint (BaseDelay p)) = sint (BaseDelay p)"
    and "sint (BaseDelay p) * 2 ^ nat (attempt - 1) < 2 ^ 63" and "\<not> Jitter p"
  shows "\<exists>d. raw_delay conv rnd coin p attempt = Some d \<and> 0 \<le> sint d \<and>
    min c (sint d) = backoff_spec (Strategy p) (sint (BaseDelay p)) c attempt"
proof -
  let ?b = "sint (BaseDelay p)"
  have "attempt \<le> 2 ^ nat (attempt - 1)"
  proof -
    have "nat (attempt - 1) < 2 ^ nat (attempt - 1)" by (rule less_exp)
    then have "int (nat (attempt - 1)) < int (2 ^ nat (attempt - 1))" by (simp only: of_nat_less_iff)
    with assms(2) show ?thesis by simp
  qed
  then have "?b * attempt \<le> ?b * 2 ^ nat (attempt - 1)" using assms(1) by (simp add: mult_left_mono)
  then have lin: "?b * attempt < 2 ^ 63" using assms(5) by simp
  have "0 \<le> ?b * attempt" using assms(1,2) by simp
  then have "sint (word_of_int (?b * attempt) :: duration) = ?b * attempt"
    using lin by (intro sint_int64) simp_all
  then have l: "sint (BaseDelay p * Duration_of attempt) = ?b * attempt"
    by (simp add: Duration_of_def)
  show ?thesis
    using assms l exp_delay_fits [OF assms(4,1,2,3,5)]
    by (auto simp: raw_delay_def backoff_spec_def Let_def strategy_defs)
qed

text \<open>C37: without jitter and while the exponential delay fits an int64, \<open>NextDelay\<close> returns
  exactly the documented delay of its strategy (constant, linear, doubling), cut at the cap.\<close>

theorem NextDelay_refines_spec:
  assumes "0 \<le> sint (BaseDelay p)" and "1 \<le> attempt" and "attempt \<le> 1024"
    and "f64_of_int (sint (BaseDelay p)) = sint (BaseDelay p)"
    and "sint (BaseDelay p) * 2 ^ nat (attempt - 1) < 2 ^ 63"
    and "\<not> Jitter p" and "0 \<le> sint (effective_cap p)"
  shows "map_option sint (NextDelay conv rnd coin p attempt) =
    Some (backoff_spec (Strategy p) (sint (BaseDelay p)) (sint (effective_cap p)) attempt)"
proof -
  obtain d where "raw_delay conv rnd coin p attempt = Some d" "0 \<le> sint d"
    "min (sint (effective_cap p)) (sint d) =
      backoff_spec (Strategy p) (sint (BaseDelay p)) (sint (effective_cap p)) attempt"
    using raw_delay_spec [OF assms(1-6)] by blast
  then show ?thesis using assms(2,7) by (simp add: NextDelay_def cap_delay_min min.commute)
qed

definition sample_policy :: "Strategy \<Rightarrow> bool \<Rightarrow> Policy" where
  "sample_policy st jit = \<lparr>MaxRetries = 100, Strategy = st, BaseDelay = 60 * time_Second,
     MaxDelay = 24 * time_Hour, Jitter = jit\<rparr>"

lemma sample_policy_delays [simp]:
  "sint (BaseDelay (sample_policy st jit)) = 60000000000"
  "sint (effective_cap (sample_policy st jit)) = 86400000000000"
  "Strategy (sample_policy st jit) = st" "Jitter (sample_policy st jit) = jit"
  by (simp_all add: sample_policy_def effective_cap_def time_Second_def time_Hour_def)

theorem NextDelay_refines_spec_witness:
  "map_option sint (NextDelay amd64_conv (\<lambda>n. 0) 0 (sample_policy StrategyExponential False) 4) =
     Some (backoff_spec StrategyExponential 60000000000 86400000000000 4)
   \<and> backoff_spec StrategyExponential 60000000000 86400000000000 4 = 480000000000"
  using NextDelay_refines_spec [of "sample_policy StrategyExponential False" 4 amd64_conv "\<lambda>n. 0" 0]
  by (simp add: f64_small backoff_spec_def strategy_defs)

lemma NextDelay_capped:
  assumes "0 \<le> sint (BaseDelay p)" and "NextDelay conv rnd coin p attempt = Some d"
  shows "0 \<le> sint d" "sint d \<le> max (sint (effective_cap p)) (sint (BaseDelay p))"
  using assms cap_delay_bounds [OF assms(1)] by (auto simp: NextDelay_def Let_def)

text \<open>C38: whatever the strategy, the overflow and the jitter draw, a delay computed from a
  non-negative base is non-negative and never exceeds the larger of the cap and the base.\<close>

theorem NextDelay_bounds:
  assumes "0 \<le> sint (BaseDelay p)" and "NextDelay conv rnd coin p attempt = Some d"
  shows "0 \<le> sint d \<and> sint d \<le> max (sint (effective_cap p)) (sint (BaseDelay p))"
  using NextDelay_capped [OF assms] by simp

theorem NextDelay_bounds_witness:
  "NextDelay amd64_conv (\<lambda>n. 0) 0 (sample_policy StrategyFixed False) 7 = Some (60 * time_Second) \<and>
   sint (60 * time_Second) \<le> max 86400000000000 60000000000"
proof -
  have h: "NextDelay amd64_conv (\<lambda>n. 0) 0 (sample_policy StrategyFixed False) 7 = Some (60 * time_Second)"
    by (simp add: NextDelay_def raw_delay_def cap_delay_def Let_def strategy_defs)
      (simp add: sample_policy_def time_Second_def)
  show ?thesis using h NextDelay_bounds [OF _ h] by simp
qed

text \<open>On amd64 an exponential delay that no longer fits an int64 does not saturate at the
  cap: \<open>NextDelay\<close> falls back to the base delay, so late attempts retry fastest.\<close>

theorem NextDelay_overflow_falls_to_base:
  assumes "Strategy p = StrategyExponential" and "1 \<le> attempt"
    and "f64_of_int (sint (BaseDelay p)) = sint (BaseDelay p)" and "0 < sint (BaseDelay p)"
    and "2 ^ 63 \<le> sint (BaseDelay p) * 2 ^ nat (attempt - 1)" and "0 \<le> sint (effective_cap p)"
  shows "NextDelay amd64_conv rnd coin p attempt = Some (BaseDelay p)"
proof -
  have d: "exp_delay amd64_conv (BaseDelay p) attempt = - (2 ^ 63)"
    using exp_delay_overflow [OF assms(3,4,5)] by (simp add: amd64_conv_def)
  show ?thesis using assms(1,2,6) d
    by (simp add: NextDelay_def raw_delay_def cap_delay_def Let_def strategy_defs)
qed

theorem NextDelay_overflow_falls_to_base_witness:
  "NextDelay amd64_conv (\<lambda>n. 0) 0 (sample_policy StrategyExponential True) 29 =
     Some (BaseDelay (sample_policy StrategyExponential True))"
  by (rule NextDelay_overflow_falls_to_base) (simp_all add: f64_small)

text \<open>The jitter moves the delay by less than half of it, in either direction.\<close>

lemma add_jitter_range:
  assumes "1 < sint d" and "sint d + sint d div 2 < 2 ^ 63"
    and "0 \<le> rnd (sint d div 2)" and "rnd (sint d div 2) < sint d div 2"
  shows "\<exists>j. add_jitter rnd coin d = Some j \<and>
    sint j = (if coin = 0 then sint d + rnd (sint d div 2) else sint d - rnd (sint d div 2))"
proof -
  define r where "r = rnd (sint d div 2)"
  define j where "j = (if coin = 0 then d + word_of_int r else d - word_of_int r)"
  have "sint (word_of_int (sint d + r) :: duration) = sint d + r"
    "sint (word_of_int (sint d - r) :: duration) = sint d - r"
    using assms unfolding r_def by (intro sint_int64; simp)+
  then have "sint j = (if coin = 0 then sint d + r else sint d - r)" by (simp add: j_def)
  moreover have "add_jitter rnd coin d = Some j"
    using assms(3,4) by (simp add: add_jitter_def Let_def j_def r_def)
  ultimately show ?thesis unfolding r_def by blast
qed

text \<open>With jitter, the exponential delay \<open>D\<close> becomes \<open>D + r\<close> or \<open>D - r\<close> for the drawn
  \<open>r < D/2\<close>, cut at the cap (the band is 50 per cent wide, not the documented 25).\<close>

theorem NextDelay_jitter_range:
  fixes D :: int
  assumes "Strategy p = StrategyExponential" and "Jitter p" and "1 \<le> attempt" and "attempt \<le> 1024"
    and "f64_of_int (sint (BaseDelay p)) = sint (BaseDelay p)"
    and "D = sint (BaseDelay p) * 2 ^ nat (attempt - 1)" and "1 < D" and "D + D div 2 < 2 ^ 63"
    and "0 \<le> rnd (D div 2)" and "rnd (D div 2) < D div 2" and "0 \<le> sint (effective_cap p)"
  shows "map_option sint (NextDelay conv rnd coin p attempt) =
    Some (min (if coin = 0 then D + rnd (D div 2) else D - rnd (D div 2)) (sint (effective_cap p)))"
proof -
  have base: "0 \<le> sint (BaseDelay p)"
  proof (rule ccontr)
    assume "\<not> 0 \<le> sint (BaseDelay p)"
    then have "D < 0" unfolding assms(6) by (simp add: mult_less_0_iff)
    with assms(7) show False by simp
  qed
  have fits: "sint (BaseDelay p) * 2 ^ nat (attempt - 1) < 2 ^ 63" using assms(6,7,8) by simp
  have d: "sint (exp_delay conv (BaseDelay p) attempt) = D"
    using exp_delay_fits [OF assms(5) base assms(3,4) fits] assms(6) by simp
  obtain j where j: "add_jitter rnd coin (exp_delay conv (BaseDelay p) attempt) = Some j"
    "sint j = (if coin = 0 then D + rnd (D div 2) else D - rnd (D div 2))"
    using add_jitter_range [of "exp_delay conv (BaseDelay p) attempt" rnd coin,
        unfolded d, OF assms(7,8,9,10)] by blast
  have pos: "0 \<le> sint j" using j(2) assms(7,9,10) by (simp split: if_splits)
  have "raw_delay conv rnd coin p attempt = Some j"
    using assms(1,2,7) d j(1) by (simp add: raw_delay_def Let_def strategy_defs)
  then have "map_option sint (NextDelay conv rnd coin p attempt) = Some (sint (cap_delay p j))"
    using assms(3) by (simp add: NextDelay_def)
  then show ?thesis using cap_delay_min [OF pos assms(11)] j(2) by simp
qed

theorem NextDelay_jitter_range_witness:
  "map_option sint (NextDelay amd64_conv (\<lambda>n. n - 1) 0 (sample_policy StrategyExponential True) 2) =
     Some 179999999999 \<and> 179999999999 > 120000000000 + 120000000000 div (4::int)"
  using NextDelay_jitter_range [of "sample_policy StrategyExponential True" 2 120000000000
      "\<lambda>n. n - 1" amd64_conv 0]
  by (simp add: f64_small)

text \<open>No draw is impossible: \<open>rand.Int63n\<close> panics only when the delay is one nanosecond.\<close>

lemma NextDelay_no_panic:
  assumes "sint (exp_delay conv (BaseDelay p) (max 1 attempt)) \<noteq> 1"
  shows "NextDelay conv rnd coin p attempt \<noteq> None"
proof -
  have "(if attempt \<le> 0 then 1 else attempt) = max 1 attempt" by simp
  then show ?thesis using assms by (auto simp: NextDelay_def raw_delay_def add_jitter_def Let_def)
qed

end
