(* ===== verification/AppErrors.thy ===== *)
theory AppErrors
  imports Prelude
begin

text \<open>
  The error values of the program (\<open>internal/platform/errors\<close>): the typed AppError with
  its code, the errors of the database driver, and the wrapping of \<open>fmt.Errorf("...: %w")\<close>;
  \<open>errors.As\<close> and \<open>errors.Is\<close> as traversals of the chain; the map to HTTP statuses.
\<close>

datatype Code =
    CodeNotFound | CodeAlreadyExists | CodeInvalidInput | CodeUnauthorized | CodeForbidden
  | CodeConflict | CodeInternal | CodeTimeout | CodeRateLimited | CodeUnprocessable
  | CodeServiceUnavailable

record FieldError =
  FE_Field :: string
  FE_Tag :: string
  FE_Message :: string

text \<open>
  \<open>AppErr\<close> is \<open>*AppError\<close> (code, message, details, cause); \<open>PgErr\<close> is
  \<open>*pgconn.PgError\<close> with its SQLSTATE; \<open>ErrNoRows\<close> is pgx's sentinel;
  \<open>ErrNotAcquired\<close> is the lock package's; \<open>WrapErr\<close> is an error built with
  \<open>%w\<close>, \<open>PlainErr\<close> any other error, known only by its text.
\<close>

datatype goerr =
    AppErr Code string "FieldError list option" "goerr option"
  | PgErr string string
  | ErrNoRows
  | ErrNotAcquired
  | PlainErr string
  | WrapErr string goerr

type_synonym 'a res = "goerr + 'a"

fun code_str :: "Code \<Rightarrow> string" where
  "code_str CodeNotFound = ''NOT_FOUND''"
| "code_str CodeAlreadyExists = ''ALREADY_EXISTS''"
| "code_str CodeInvalidInput = ''INVALID_INPUT''"
| "code_str CodeUnauthorized = ''UNAUTHORIZED''"
| "code_str CodeForbidden = ''FORBIDDEN''"
| "code_str CodeConflict = ''CONFLICT''"
| "code_str CodeInternal = ''INTERNAL''"
| "code_str CodeTimeout = ''TIMEOUT''"
| "code_str CodeRateLimited = ''RATE_LIMITED''"
| "code_str CodeUnprocessable = ''UNPROCESSABLE''"
| "code_str CodeServiceUnavailable = ''SERVICE_UNAVAILABLE''"

text \<open>\<open>Error()\<close>: the AppError's text with its cause; \<open>msg: inner\<close> for a wrapped error.\<close>

fun err_Error :: "goerr \<Rightarrow> string" where
  "err_Error (AppErr c m d (Some e)) = ''['' @ code_str c @ ''] '' @ m @ '': '' @ err_Error e"
| "err_Error (AppErr c m d None) = ''['' @ code_str c @ ''] '' @ m"
| "err_Error (PgErr st m) = ''ERROR: '' @ m @ '' (SQLSTATE '' @ st @ '')''"
| "err_Error ErrNoRows = ''no rows in result set''"
| "err_Error ErrNotAcquired = ''lock not acquired: already held''"
| "err_Error (PlainErr m) = m"
| "err_Error (WrapErr m e) = m @ '': '' @ err_Error e"

fun err_Unwrap :: "goerr \<Rightarrow> goerr option" where
  "err_Unwrap (AppErr c m d cause) = cause"
| "err_Unwrap (WrapErr m e) = Some e"
| "err_Unwrap _ = None"

fun HTTPStatus :: "Code \<Rightarrow> int" where
  "HTTPStatus CodeNotFound = 404"
| "HTTPStatus CodeAlreadyExists = 409"
| "HTTPStatus CodeConflict = 409"
| "HTTPStatus CodeInvalidInput = 400"
| "HTTPStatus CodeUnprocessable = 400"
| "HTTPStatus CodeUnauthorized = 401"
| "HTTPStatus CodeForbidden = 403"
| "HTTPStatus CodeRateLimited = 429"
| "HTTPStatus CodeTimeout = 504"
| "HTTPStatus CodeServiceUnavailable = 503"
| "HTTPStatus CodeInternal = 500"

section \<open>Constructors\<close>

definition err_New :: "Code \<Rightarrow> string \<Rightarrow> goerr" where
  "err_New code message = AppErr code message None None"

definition err_Wrap :: "Code \<Rightarrow> string \<Rightarrow> goerr \<Rightarrow> goerr" where
  "err_Wrap code message cause = AppErr code message None (Some cause)"

definition err_WithDetails :: "Code \<Rightarrow> string \<Rightarrow> FieldError list \<Rightarrow> goerr" where
  "err_WithDetails code message details = AppErr code message (Some details) None"

definition NotFound :: "string \<Rightarrow> goerr" where
  "NotFound resource = err_New CodeNotFound (resource @ '' not found'')"

definition AlreadyExists :: "string \<Rightarrow> goerr" where
  "AlreadyExists resource = err_New CodeAlreadyExists (resource @ '' already exists'')"

definition InvalidInput :: "string \<Rightarrow> goerr" where
  "InvalidInput message = err_New CodeInvalidInput message"

definition InvalidInputWithDetails :: "string \<Rightarrow> FieldError list \<Rightarrow> goerr" where
  "InvalidInputWithDetails message details = err_WithDetails CodeInvalidInput message details"

definition Unauthorized :: "string \<Rightarrow> goerr" where
  "Unauthorized message = err_New CodeUnauthorized message"

definition Forbidden :: "string \<Rightarrow> goerr" where
  "Forbidden message = err_New CodeForbidden message"

definition Conflict :: "string \<Rightarrow> goerr" where
  "Conflict message = err_New CodeConflict message"

definition err_Internal :: "string \<Rightarrow> goerr \<Rightarrow> goerr" where
  "err_Internal message cause = err_Wrap CodeInternal message cause"

definition err_Timeout :: "string \<Rightarrow> goerr" where
  "err_Timeout message = err_New CodeTimeout message"

definition RateLimited :: goerr where
  "RateLimited = err_New CodeRateLimited ''rate limit exceeded''"

lemmas err_defs = err_New_def err_Wrap_def err_WithDetails_def NotFound_def AlreadyExists_def
  InvalidInput_def InvalidInputWithDetails_def Unauthorized_def Forbidden_def Conflict_def
  err_Internal_def err_Timeout_def RateLimited_def

section \<open>Inspection\<close>

text \<open>\<open>errors.As\<close> with an \<open>*AppError\<close> target: the first AppError of the chain.\<close>

fun err_As :: "goerr \<Rightarrow> (Code \<times> string \<times> FieldError list option) option" where
  "err_As (AppErr c m d cause) = Some (c, m, d)"
| "err_As (WrapErr m e) = err_As e"
| "err_As _ = None"

definition IsNotFound :: "goerr \<Rightarrow> bool" where
  "IsNotFound e = (case err_As e of Some (c, _) \<Rightarrow> c = CodeNotFound | None \<Rightarrow> False)"

definition IsConflict :: "goerr \<Rightarrow> bool" where
  "IsConflict e = (case err_As e of
     Some (c, _) \<Rightarrow> c = CodeConflict \<or> c = CodeAlreadyExists | None \<Rightarrow> False)"

definition IsUnauthorized :: "goerr \<Rightarrow> bool" where
  "IsUnauthorized e = (case err_As e of Some (c, _) \<Rightarrow> c = CodeUnauthorized | None \<Rightarrow> False)"

text \<open>\<open>errors.As\<close> with a \<open>*pgconn.PgError\<close> target, reading its SQLSTATE.\<close>

fun pg_state :: "goerr \<Rightarrow> string option" where
  "pg_state (PgErr st m) = Some st"
| "pg_state (WrapErr m e) = pg_state e"
| "pg_state (AppErr c m d (Some e)) = pg_state e"
| "pg_state _ = None"

definition isUniqueViolation :: "goerr \<Rightarrow> bool" where
  "isUniqueViolation e \<longleftrightarrow> pg_state e = Some ''23505''"

definition isForeignKeyViolation :: "goerr \<Rightarrow> bool" where
  "isForeignKeyViolation e \<longleftrightarrow> pg_state e = Some ''23503''"

fun is_ErrNoRows :: "goerr \<Rightarrow> bool" where
  "is_ErrNoRows ErrNoRows = True"
| "is_ErrNoRows (WrapErr m e) = is_ErrNoRows e"
| "is_ErrNoRows (AppErr c m d (Some e)) = is_ErrNoRows e"
| "is_ErrNoRows _ = False"

lemma err_As_simps [simp]:
  "err_As (NotFound r) = Some (CodeNotFound, r @ '' not found'', None)"
  "err_As (AlreadyExists r) = Some (CodeAlreadyExists, r @ '' already exists'', None)"
  "err_As (InvalidInput m) = Some (CodeInvalidInput, m, None)"
  "err_As (InvalidInputWithDetails m ds) = Some (CodeInvalidInput, m, Some ds)"
  "err_As (Unauthorized m) = Some (CodeUnauthorized, m, None)"
  "err_As (Forbidden m) = Some (CodeForbidden, m, None)"
  "err_As (Conflict m) = Some (CodeConflict, m, None)"
  "err_As (err_Internal m e) = Some (CodeInternal, m, None)"
  by (simp_all add: err_defs)

lemma IsNotFound_simps [simp]:
  "IsNotFound (NotFound r)" "\<not> IsNotFound (Conflict m)" "\<not> IsNotFound (PlainErr m)"
  "\<not> IsNotFound (PgErr st m)" "IsNotFound (WrapErr m e) = IsNotFound e"
  by (simp_all add: IsNotFound_def)

lemma pg_errors [simp]:
  "isUniqueViolation (PgErr st m) = (st = ''23505'')" "\<not> isUniqueViolation (PlainErr m)"
  "isForeignKeyViolation (PgErr st m) = (st = ''23503'')" "\<not> isForeignKeyViolation (PlainErr m)"
  by (simp_all add: isUniqueViolation_def isForeignKeyViolation_def)

section \<open>Calls to the database\<close>

text \<open>
  Every call to the driver may fail before the statement takes effect (connection lost,
  context done). \<open>fault\<close> is that failure, with the driver's text: an error that is
  neither a PgError nor ErrNoRows. A transaction that fails is rolled back.
\<close>

type_synonym fault = "string option"

definition db_call :: "fault \<Rightarrow> ('s \<Rightarrow> 'a res \<times> 's) \<Rightarrow> 's \<Rightarrow> 'a res \<times> 's" where
  "db_call f stmt s = (case f of Some m \<Rightarrow> (Inl (PlainErr m), s) | None \<Rightarrow> stmt s)"

lemma db_call_simps [simp]:
  "db_call None stmt s = stmt s" "db_call (Some m) stmt s = (Inl (PlainErr m), s)"
  by (simp_all add: db_call_def)

text \<open>\<open>return nil, fmt.Errorf("msg: %w", err)\<close>\<close>

definition wrap_err :: "string \<Rightarrow> 'a res \<Rightarrow> 'a res" where
  "wrap_err m r = (case r of Inl e \<Rightarrow> Inl (WrapErr m e) | Inr x \<Rightarrow> Inr x)"

lemma wrap_err_simps [simp]:
  "wrap_err m (Inl e) = Inl (WrapErr m e)" "wrap_err m (Inr x) = Inr x"
  by (simp_all add: wrap_err_def)

lemma wrap_err_call [simp]:
  "map_prod (wrap_err m) id r = (Inr x, s) \<longleftrightarrow> r = (Inr x, s)"
  by (cases r) (auto simp: wrap_err_def split: sum.splits)

definition is_ok :: "'a res \<Rightarrow> bool" where
  "is_ok r = (case r of Inl e \<Rightarrow> False | Inr x \<Rightarrow> True)"

lemma is_ok_simps [simp]: "\<not> is_ok (Inl e)" "is_ok (Inr x)"
  by (simp_all add: is_ok_def)

end
