(* ===== verification/Domain.thy ===== *)
theory Domain
  imports AppErrors Complex_Main
begin

text \<open>
  The domain entities (\<open>internal/domain/*\<close>): the structs as records, the named string
  enumerations as datatypes, and the methods the packages define on them.
  A Go pointer field is an option; a nil map or slice is None.
\<close>

datatype json =
    JNull | JBool bool | JNumber rat | JString string | JArray "json list"
  | JObject "(string \<times> json) list"

type_synonym jsonmap = "(string \<times> json) list"

section \<open>Jobs\<close>

datatype JobStatus =
    StatusPending | StatusScheduled | StatusRunning | StatusSucceeded | StatusFailed
  | StatusDead | StatusCancelled

fun job_status_str :: "JobStatus \<Rightarrow> string" where
  "job_status_str StatusPending = ''pending''"
| "job_status_str StatusScheduled = ''scheduled''"
| "job_status_str StatusRunning = ''running''"
| "job_status_str StatusSucceeded = ''succeeded''"
| "job_status_str StatusFailed = ''failed''"
| "job_status_str StatusDead = ''dead''"
| "job_status_str StatusCancelled = ''cancelled''"

definition all_job_status :: "JobStatus list" where
  "all_job_status = [StatusPending, StatusScheduled, StatusRunning, StatusSucceeded,
     StatusFailed, StatusDead, StatusCancelled]"

definition parse_job_status :: "string \<Rightarrow> JobStatus option" where
  "parse_job_status s = find (\<lambda>st. job_status_str st = s) all_job_status"

lemma parse_job_status_str [simp]: "parse_job_status (job_status_str st) = Some st"
  by (cases st) (simp_all add: parse_job_status_def all_job_status_def)

lemma parse_job_status_sound: "parse_job_status s = Some st \<Longrightarrow> job_status_str st = s"
  by (auto simp: parse_job_status_def find_Some_iff)

record Job =
  J_ID :: uuid
  J_QueueID :: uuid
  J_BatchID :: "uuid option"
  J_ParentJobID :: "uuid option"
  J_CronJobID :: "uuid option"
  J_Type :: string
  J_Payload :: "jsonmap option"
  J_IdempotencyKey :: "string option"
  J_Status :: JobStatus
  J_Priority :: int
  J_RunAt :: time
  J_MaxRetries :: int
  J_AttemptCount :: int
  J_RetryStrategy :: string
  J_RetryDelaySec :: int
  J_LastError :: "string option"
  J_LastErrorAt :: "time option"
  J_TimeoutSec :: int
  J_ClaimedBy :: "uuid option"
  J_ClaimedAt :: "time option"
  J_StartedAt :: "time option"
  J_CompletedAt :: "time option"
  J_Tags :: "string list option"
  J_Metadata :: "jsonmap option"
  J_CreatedAt :: time
  J_UpdatedAt :: time

definition IsTerminal :: "Job \<Rightarrow> bool" where
  "IsTerminal j \<longleftrightarrow> J_Status j = StatusSucceeded \<or> J_Status j = StatusDead \<or>
     J_Status j = StatusCancelled"

definition CanRetry :: "Job \<Rightarrow> bool" where
  "CanRetry j \<longleftrightarrow> J_AttemptCount j < J_MaxRetries j"

text \<open>
  The zero \<open>job.Job{}\<close>. Go's zero Status is the empty string, which the enumeration does
  not hold; every user of the zero job writes Status before it is read.
\<close>

definition zero_Job :: Job where
  "zero_Job = \<lparr>J_ID = uuid_Nil, J_QueueID = uuid_Nil, J_BatchID = None, J_ParentJobID = None,
     J_CronJobID = None, J_Type = [], J_Payload = None, J_IdempotencyKey = None,
     J_Status = StatusPending, J_Priority = 0, J_RunAt = zero_time, J_MaxRetries = 0,
     J_AttemptCount = 0, J_RetryStrategy = [], J_RetryDelaySec = 0, J_LastError = None,
     J_LastErrorAt = None, J_TimeoutSec = 0, J_ClaimedBy = None, J_ClaimedAt = None,
     J_StartedAt = None, J_CompletedAt = None, J_Tags = None, J_Metadata = None,
     J_CreatedAt = zero_time, J_UpdatedAt = zero_time\<rparr>"

record ListFilter =
  F_Status :: "string option"
  F_Type :: "string option"
  F_Tags :: "string list option"
  F_RunAfter :: "time option"
  F_RunBefore :: "time option"
  F_Limit :: int
  F_Offset :: int

section \<open>Queues\<close>

record Queue =
  Q_ID :: uuid
  Q_ProjectID :: uuid
  Q_Name :: string
  Q_Description :: string
  Q_Priority :: int
  Q_Concurrency :: int
  Q_MaxRetries :: int
  Q_RetryStrategy :: string
  Q_RetryDelaySec :: int
  Q_VisibilityTimeoutSec :: int
  Q_JobTimeoutSec :: int
  Q_IsPaused :: bool
  Q_IsDLQ :: bool
  Q_DLQQueueID :: "uuid option"
  Q_Metadata :: "jsonmap option"
  Q_CreatedAt :: time
  Q_UpdatedAt :: time

record Stats =
  ST_QueueID :: uuid
  PendingCount :: nat
  ScheduledCount :: nat
  RunningCount :: nat
  SucceededCount :: nat
  FailedCount :: nat
  DeadCount :: nat
  CancelledCount :: nat

section \<open>Organizations and projects\<close>

datatype OrgRole = RoleOwner | RoleAdmin | RoleMember

fun CanManageMembers :: "OrgRole \<Rightarrow> bool" where
  "CanManageMembers r = (r = RoleOwner \<or> r = RoleAdmin)"

fun CanDeleteOrg :: "OrgRole \<Rightarrow> bool" where
  "CanDeleteOrg r = (r = RoleOwner)"

record Organization =
  O_ID :: uuid
  O_Name :: string
  O_Slug :: string
  O_Description :: string
  O_CreatedAt :: time
  O_UpdatedAt :: time

record OrgMember =
  OM_OrgID :: uuid
  OM_UserID :: uuid
  OM_Role :: OrgRole
  OM_JoinedAt :: time
  OM_UserEmail :: string
  OM_UserFullName :: string

datatype ProjectRole = ProjAdmin | ProjDeveloper | ProjViewer

fun CanManageQueues :: "ProjectRole \<Rightarrow> bool" where
  "CanManageQueues r = (r = ProjAdmin \<or> r = ProjDeveloper)"

fun CanEnqueueJobs :: "ProjectRole \<Rightarrow> bool" where
  "CanEnqueueJobs r = (r = ProjAdmin \<or> r = ProjDeveloper)"

fun CanView :: "ProjectRole \<Rightarrow> bool" where
  "CanView r = True"

record Project =
  P_ID :: uuid
  P_OrgID :: uuid
  P_Name :: string
  P_Slug :: string
  P_Description :: string
  P_APIKeyHash :: string
  P_APIKeyPrefix :: string
  P_IsActive :: bool
  P_CreatedAt :: time
  P_UpdatedAt :: time

record ProjectMember =
  PM_ProjectID :: uuid
  PM_UserID :: uuid
  PM_Role :: ProjectRole
  PM_JoinedAt :: time
  PM_UserEmail :: string
  PM_UserFullName :: string

section \<open>Users and refresh tokens\<close>

record User =
  U_ID :: uuid
  U_Email :: string
  U_PasswordHash :: string
  U_FullName :: string
  U_IsActive :: bool
  U_CreatedAt :: time
  U_UpdatedAt :: time

record RefreshToken =
  RT_ID :: uuid
  RT_UserID :: uuid
  RT_TokenHash :: string
  RT_ExpiresAt :: time
  RT_Revoked :: bool
  RT_UserAgent :: string
  RT_IPAddress :: string
  RT_CreatedAt :: time

definition IsExpired :: "RefreshToken \<Rightarrow> time \<Rightarrow> bool" where
  "IsExpired rt now = time_After now (RT_ExpiresAt rt)"

definition IsValid :: "RefreshToken \<Rightarrow> time \<Rightarrow> bool" where
  "IsValid rt now \<longleftrightarrow> \<not> RT_Revoked rt \<and> \<not> IsExpired rt now"

section \<open>Cron definitions, batches, workers\<close>

record CronJob =
  C_ID :: uuid
  C_QueueID :: uuid
  C_Name :: string
  C_Description :: string
  C_CronExpr :: string
  C_Timezone :: string
  C_JobType :: string
  C_Payload :: "jsonmap option"
  C_MaxRetries :: "int option"
  C_RetryStrategy :: "string option"
  C_IsActive :: bool
  C_LastFiredAt :: "time option"
  C_NextFireAt :: "time option"
  C_CreatedAt :: time
  C_UpdatedAt :: time

datatype BatchStatus = BatchPending | BatchRunning | BatchCompleted | BatchPartialFailure

record Batch =
  B_ID :: uuid
  B_QueueID :: uuid
  B_Name :: string
  B_TotalJobs :: int
  B_PendingCount :: int
  B_SucceededCount :: int
  B_FailedCount :: int
  B_Status :: BatchStatus
  B_CreatedAt :: time
  B_UpdatedAt :: time

datatype WorkerStatus = WorkerActive | WorkerDraining | WorkerDead

record Worker =
  W_ID :: uuid
  W_Hostname :: string
  W_PID :: int
  W_Version :: string
  W_Status :: WorkerStatus
  W_Concurrency :: int
  W_Queues :: "string list"
  W_LastHeartbeatAt :: time
  W_RegisteredAt :: time

section \<open>Metrics and execution logs\<close>

record QueueMetricsSnapshot =
  QM_ID :: uuid
  QM_QueueID :: uuid
  QM_WindowStart :: time
  QM_WindowEnd :: time
  QM_JobsEnqueued :: int
  QM_JobsSucceeded :: int
  QM_JobsFailed :: int
  QM_JobsDead :: int
  QM_AvgWaitMs :: int
  QM_AvgDurationMs :: int

record SystemMetrics =
  ActiveWorkers :: nat
  DrainingWorkers :: nat
  TotalQueues :: nat
  TotalJobsPending :: nat
  TotalJobsRunning :: nat

datatype LogLevel = LevelDebug | LevelInfo | LevelWarn | LevelError

record ExecutionLog =
  EL_ID :: uuid
  EL_ExecutionID :: uuid
  EL_JobID :: uuid
  EL_Level :: LogLevel
  EL_Message :: string
  EL_Metadata :: "jsonmap option"
  EL_LoggedAt :: time

record JobExecution =
  JE_ID :: uuid
  JE_JobID :: uuid
  JE_WorkerID :: uuid
  JE_Attempt :: int
  JE_Status :: string
  JE_StartedAt :: time
  JE_CompletedAt :: "time option"
  JE_DurationMs :: "int option"
  JE_ErrorMessage :: "string option"
  JE_StackTrace :: "string option"
  JE_Result :: "jsonmap option"

end
