(* ===== verification/Database.thy ===== *)
theory Database
  imports Domain
begin

text \<open>
  The database the repositories read and write (\<open>migrations/000001_init_schema.up.sql\<close>): one
  list of rows per table, the constraints an INSERT is checked against, and the cascades of a
  DELETE. A row of a table is the domain record it is scanned into; the two membership tables
  hold the columns without the joined user fields.
\<close>

record OrgMemberRow =
  omr_org_id :: uuid
  omr_user_id :: uuid
  omr_role :: OrgRole
  omr_joined_at :: time

record ProjectMemberRow =
  pmr_project_id :: uuid
  pmr_user_id :: uuid
  pmr_role :: ProjectRole
  pmr_joined_at :: time

record db =
  users :: "User list"
  refresh_tokens :: "RefreshToken list"
  organizations :: "Organization list"
  org_members :: "OrgMemberRow list"
  projects :: "Project list"
  project_members :: "ProjectMemberRow list"
  queues :: "Queue list"
  cron_jobs :: "CronJob list"
  batches :: "Batch list"
  jobs :: "Job list"
  workers :: "Worker list"
  job_executions :: "JobExecution list"
  execution_logs :: "ExecutionLog list"
  queue_metrics :: "QueueMetricsSnapshot list"

definition empty_db :: db where
  "empty_db = \<lparr>users = [], refresh_tokens = [], organizations = [], org_members = [],
     projects = [], project_members = [], queues = [], cron_jobs = [], batches = [], jobs = [],
     workers = [], job_executions = [], execution_logs = [], queue_metrics = []\<rparr>"

text \<open>The SQLSTATEs PostgreSQL reports.\<close>

definition unique_violation :: goerr where
  "unique_violation = PgErr ''23505'' ''duplicate key value violates unique constraint''"
definition foreign_key_violation :: goerr where
  "foreign_key_violation = PgErr ''23503'' ''insert or update violates foreign key constraint''"
definition check_violation :: goerr where
  "check_violation = PgErr ''23514'' ''new row violates check constraint''"
definition not_null_violation :: goerr where
  "not_null_violation = PgErr ''23502'' ''null value violates not-null constraint''"
definition invalid_text :: goerr where
  "invalid_text = PgErr ''22P02'' ''invalid input value for enum''"
definition string_too_long :: goerr where
  "string_too_long = PgErr ''22001'' ''value too long for type character varying''"
definition out_of_range :: goerr where
  "out_of_range = PlainErr ''value is out of range for int4''"
definition negative_limit :: goerr where
  "negative_limit = PgErr ''2201W'' ''LIMIT must not be negative''"
definition negative_offset :: goerr where
  "negative_offset = PgErr ''2201X'' ''OFFSET must not be negative''"

lemmas pg_error_defs = unique_violation_def foreign_key_violation_def check_violation_def
  not_null_violation_def invalid_text_def string_too_long_def out_of_range_def
  negative_limit_def negative_offset_def

definition int4 :: "int \<Rightarrow> bool" where
  "int4 n \<longleftrightarrow> - (2 ^ 31) \<le> n \<and> n < 2 ^ 31"

definition valid_strategy :: "string \<Rightarrow> bool" where
  "valid_strategy s \<longleftrightarrow> s \<in> set [''fixed'', ''linear'', ''exponential'']"

text \<open>The first violated constraint of a list of (holds, error) pairs.\<close>

fun first_violation :: "(bool \<times> goerr) list \<Rightarrow> goerr option" where
  "first_violation [] = None"
| "first_violation ((ok, e) # cs) = (if ok then first_violation cs else Some e)"

lemma first_violation_None: "first_violation cs = None \<longleftrightarrow> (\<forall>c\<in>set cs. fst c)"
  by (induction cs rule: first_violation.induct) auto

definition exists_id :: "('r \<Rightarrow> uuid) \<Rightarrow> uuid \<Rightarrow> 'r list \<Rightarrow> bool" where
  "exists_id k i rows \<longleftrightarrow> (\<exists>r\<in>set rows. k r = i)"

definition fk_opt :: "('r \<Rightarrow> uuid) \<Rightarrow> uuid option \<Rightarrow> 'r list \<Rightarrow> bool" where
  "fk_opt k i rows = (case i of None \<Rightarrow> True | Some v \<Rightarrow> exists_id k v rows)"

section \<open>Cascades\<close>

text \<open>
  Deleting rows of a table deletes the rows that reference them with ON DELETE CASCADE and
  clears the references with ON DELETE SET NULL. Each step takes the set of deleted
  identifiers as a predicate.
\<close>

definition cascade_executions :: "(uuid \<Rightarrow> bool) \<Rightarrow> db \<Rightarrow> db" where
  "cascade_executions X d = d\<lparr>
     job_executions := sql_delete (\<lambda>e. X (JE_ID e)) (job_executions d),
     execution_logs := sql_delete (\<lambda>l. X (EL_ExecutionID l)) (execution_logs d)\<rparr>"

definition clear_opt :: "(uuid \<Rightarrow> bool) \<Rightarrow> uuid option \<Rightarrow> uuid option" where
  "clear_opt X r = (case r of None \<Rightarrow> None | Some i \<Rightarrow> if X i then None else Some i)"

definition cascade_jobs :: "(uuid \<Rightarrow> bool) \<Rightarrow> db \<Rightarrow> db" where
  "cascade_jobs X d =
     (let gone = (\<lambda>e. exists_id JE_ID e (sql_select (\<lambda>x. X (JE_JobID x)) (job_executions d)))
      in cascade_executions gone
        (d\<lparr>jobs := map (\<lambda>j. j\<lparr>J_ParentJobID := clear_opt X (J_ParentJobID j)\<rparr>)
             (sql_delete (\<lambda>j. X (J_ID j)) (jobs d))\<rparr>))"

definition cascade_crons :: "(uuid \<Rightarrow> bool) \<Rightarrow> db \<Rightarrow> db" where
  "cascade_crons X d = d\<lparr>cron_jobs := sql_delete (\<lambda>c. X (C_ID c)) (cron_jobs d),
     jobs := map (\<lambda>j. j\<lparr>J_CronJobID := clear_opt X (J_CronJobID j)\<rparr>) (jobs d)\<rparr>"

definition cascade_batches :: "(uuid \<Rightarrow> bool) \<Rightarrow> db \<Rightarrow> db" where
  "cascade_batches X d = d\<lparr>batches := sql_delete (\<lambda>b. X (B_ID b)) (batches d),
     jobs := map (\<lambda>j. j\<lparr>J_BatchID := clear_opt X (J_BatchID j)\<rparr>) (jobs d)\<rparr>"

definition cascade_queues :: "(uuid \<Rightarrow> bool) \<Rightarrow> db \<Rightarrow> db" where
  "cascade_queues X d =
     (let gone_job = (\<lambda>i. exists_id J_ID i (sql_select (\<lambda>j. X (J_QueueID j)) (jobs d)));
          gone_cron = (\<lambda>i. exists_id C_ID i (sql_select (\<lambda>c. X (C_QueueID c)) (cron_jobs d)));
          gone_batch = (\<lambda>i. exists_id B_ID i (sql_select (\<lambda>b. X (B_QueueID b)) (batches d)));
          d1 = cascade_batches gone_batch (cascade_crons gone_cron (cascade_jobs gone_job d))
      in d1\<lparr>queues := map (\<lambda>q. q\<lparr>Q_DLQQueueID := clear_opt X (Q_DLQQueueID q)\<rparr>)
             (sql_delete (\<lambda>q. X (Q_ID q)) (queues d1)),
            queue_metrics := sql_delete (\<lambda>m. X (QM_QueueID m)) (queue_metrics d1)\<rparr>)"

definition cascade_projects :: "(uuid \<Rightarrow> bool) \<Rightarrow> db \<Rightarrow> db" where
  "cascade_projects X d =
     (let gone = (\<lambda>i. exists_id Q_ID i (sql_select (\<lambda>q. X (Q_ProjectID q)) (queues d)));
          d1 = cascade_queues gone d
      in d1\<lparr>projects := sql_delete (\<lambda>p. X (P_ID p)) (projects d1),
            project_members := sql_delete (\<lambda>m. X (pmr_project_id m)) (project_members d1)\<rparr>)"

definition cascade_orgs :: "(uuid \<Rightarrow> bool) \<Rightarrow> db \<Rightarrow> db" where
  "cascade_orgs X d =
     (let gone = (\<lambda>i. exists_id P_ID i (sql_select (\<lambda>p. X (P_OrgID p)) (projects d)));
          d1 = cascade_projects gone d
      in d1\<lparr>organizations := sql_delete (\<lambda>p. X (O_ID p)) (organizations d1),
            org_members := sql_delete (\<lambda>m. X (omr_org_id m)) (org_members d1)\<rparr>)"

section \<open>Integrity of the database\<close>

text \<open>
  The constraints of the schema that the job subsystem relies on: primary keys, the unique
  idempotency key, every job in an existing queue, the priority check.
\<close>

definition jobs_ok :: "db \<Rightarrow> bool" where
  "jobs_ok d \<longleftrightarrow> distinct (map J_ID (jobs d)) \<and>
     distinct (filter (\<lambda>k. k \<noteq> None) (map J_IdempotencyKey (jobs d))) \<and>
     (\<forall>j\<in>set (jobs d). exists_id Q_ID (J_QueueID j) (queues d) \<and>
        1 \<le> J_Priority j \<and> J_Priority j \<le> 10 \<and> valid_strategy (J_RetryStrategy j) \<and>
        J_Tags j \<noteq> None)"

lemma jobs_okD:
  "jobs_ok d \<Longrightarrow> distinct (map J_ID (jobs d))"
  "jobs_ok d \<Longrightarrow> j \<in> set (jobs d) \<Longrightarrow> exists_id Q_ID (J_QueueID j) (queues d)"
  by (simp_all add: jobs_ok_def)

section \<open>The shapes of a repository method\<close>

text \<open>
  \<open>QueryRow(...).Scan\<close>: no row gives the method's not-found error, any other error is wrapped.
  A list query only wraps. An Exec that reports the rows affected turns zero rows into the
  not-found error.
\<close>

definition get_row :: "goerr \<Rightarrow> string \<Rightarrow> fault \<Rightarrow> 'r option \<Rightarrow> 'r res" where
  "get_row nf msg f row =
     (case (case f of Some m \<Rightarrow> Inl (PlainErr m)
            | None \<Rightarrow> (case row of None \<Rightarrow> Inl ErrNoRows | Some r \<Rightarrow> Inr r)) of
        Inl e \<Rightarrow> if is_ErrNoRows e then Inl nf else Inl (WrapErr msg e)
      | Inr r \<Rightarrow> Inr r)"

definition list_rows :: "string \<Rightarrow> fault \<Rightarrow> 'r list \<Rightarrow> 'r list res" where
  "list_rows msg f rows = (case f of Some m \<Rightarrow> Inl (WrapErr msg (PlainErr m)) | None \<Rightarrow> Inr rows)"

definition exec_tag :: "goerr \<Rightarrow> string \<Rightarrow> fault \<Rightarrow> (db \<Rightarrow> nat res \<times> db) \<Rightarrow> db \<Rightarrow> unit res \<times> db" where
  "exec_tag nf msg f stmt d =
     (case db_call f stmt d of
        (Inl e, d') \<Rightarrow> (Inl (WrapErr msg e), d')
      | (Inr n, d') \<Rightarrow> (if n = 0 then Inl nf else Inr (), d'))"

text \<open>An INSERT whose unique violation has its own error.\<close>

definition insert_err :: "goerr \<Rightarrow> string \<Rightarrow> unit res \<Rightarrow> unit res" where
  "insert_err dup msg r =
     (case r of Inl e \<Rightarrow> if isUniqueViolation e then Inl dup else Inl (WrapErr msg e) | Inr u \<Rightarrow> Inr u)"

lemma get_row_simps [simp]:
  "get_row nf msg None (Some r) = Inr r" "get_row nf msg None None = Inl nf"
  "get_row nf msg (Some m) row = Inl (WrapErr msg (PlainErr m))"
  by (simp_all add: get_row_def)

lemma get_row_ok: "get_row nf msg f row = Inr r \<longleftrightarrow> f = None \<and> row = Some r"
  by (cases f; cases row) simp_all

lemma list_rows_simps [simp]:
  "list_rows msg None rows = Inr rows" "list_rows msg (Some m) rows = Inl (WrapErr msg (PlainErr m))"
  by (simp_all add: list_rows_def)

lemma exec_tag_simps [simp]:
  "exec_tag nf msg (Some m) stmt d = (Inl (WrapErr msg (PlainErr m)), d)"
  by (simp add: exec_tag_def)

lemma insert_err_simps [simp]:
  "insert_err dup msg (Inr u) = Inr u"
  "insert_err dup msg (Inl (PgErr ''23505'' m)) = Inl dup"
  "insert_err dup msg (Inl (PlainErr m)) = Inl (WrapErr msg (PlainErr m))"
  by (simp_all add: insert_err_def)

lemma insert_err_Inl:
  "insert_err dup msg (Inl e) = Inl (if isUniqueViolation e then dup else WrapErr msg e)"
  by (simp add: insert_err_def)

end
