(* ===== verification/JobRepo.thy ===== *)
theory JobRepo
  imports Database
begin

text \<open>
  \<open>JobRepo\<close> (\<open>internal/repository/postgres/job.go\<close>): one operation per method, on the jobs
  table of the database. \<open>now\<close> is the database's NOW() of the statement's transaction (the
  update trigger stores it in updated_at); a \<open>fault\<close> is a failure of the driver.
\<close>

section \<open>Create\<close>

definition job_violation :: "Job \<Rightarrow> goerr option" where
  "job_violation j = first_violation
     [(int4 (J_Priority j) \<and> int4 (J_MaxRetries j) \<and> int4 (J_AttemptCount j) \<and>
        int4 (J_RetryDelaySec j) \<and> int4 (J_TimeoutSec j), out_of_range),
      (valid_strategy (J_RetryStrategy j), invalid_text),
      (length (J_Type j) \<le> 255, string_too_long),
      (case J_IdempotencyKey j of None \<Rightarrow> True | Some k \<Rightarrow> length k \<le> 255, string_too_long),
      (J_Tags j \<noteq> None, not_null_violation),
      (1 \<le> J_Priority j \<and> J_Priority j \<le> 10, check_violation)]"

definition job_key_conflict :: "Job \<Rightarrow> Job list \<Rightarrow> bool" where
  "job_key_conflict j rows \<longleftrightarrow> J_IdempotencyKey j \<noteq> None \<and>
     (\<exists>r\<in>set rows. J_IdempotencyKey r = J_IdempotencyKey j)"

definition job_fks :: "Job \<Rightarrow> db \<Rightarrow> bool" where
  "job_fks j d \<longleftrightarrow> exists_id Q_ID (J_QueueID j) (queues d) \<and> fk_opt B_ID (J_BatchID j) (batches d) \<and>
     (J_ParentJobID j = Some (J_ID j) \<or> fk_opt J_ID (J_ParentJobID j) (jobs d)) \<and>
     fk_opt C_ID (J_CronJobID j) (cron_jobs d)"

text \<open>The columns Create does not name take their defaults, NULL.\<close>

definition inserted_job :: "Job \<Rightarrow> Job" where
  "inserted_job j = j\<lparr>J_LastError := None, J_LastErrorAt := None, J_ClaimedBy := None,
     J_ClaimedAt := None, J_StartedAt := None, J_CompletedAt := None\<rparr>"

definition insert_job :: "Job \<Rightarrow> db \<Rightarrow> unit res \<times> db" where
  "insert_job j d =
     (case job_violation j of
        Some e \<Rightarrow> (Inl e, d)
      | None \<Rightarrow>
          if job_key_conflict j (jobs d) then (Inr (), d) \<comment> \<open>ON CONFLICT DO NOTHING\<close>
          else if exists_id J_ID (J_ID j) (jobs d) then (Inl unique_violation, d)
          else if \<not> job_fks j d then (Inl foreign_key_violation, d)
          else (Inr (), d\<lparr>jobs := jobs d @ [inserted_job j]\<rparr>))"

definition JobRepo_Create :: "fault \<Rightarrow> Job \<Rightarrow> db \<Rightarrow> unit res \<times> db" where
  "JobRepo_Create f j d = map_prod (wrap_err ''create job'') id (db_call f (insert_job j) d)"

section \<open>Queries\<close>

definition job_row :: "(Job \<Rightarrow> bool) \<Rightarrow> db \<Rightarrow> Job res" where
  "job_row P d = (case sql_row P (jobs d) of None \<Rightarrow> Inl ErrNoRows | Some j \<Rightarrow> Inr j)"

definition JobRepo_GetByID :: "fault \<Rightarrow> uuid \<Rightarrow> db \<Rightarrow> Job res" where
  "JobRepo_GetByID f i d =
     (case fst (db_call f (\<lambda>d. (job_row (\<lambda>j. J_ID j = i) d, d)) d) of
        Inl e \<Rightarrow> if is_ErrNoRows e then Inl (NotFound ''job'') else Inl (WrapErr ''get job by id'' e)
      | Inr j \<Rightarrow> Inr j)"

definition JobRepo_GetByIdempotencyKey :: "fault \<Rightarrow> string \<Rightarrow> db \<Rightarrow> Job res" where
  "JobRepo_GetByIdempotencyKey f key d =
     (case fst (db_call f (\<lambda>d. (job_row (\<lambda>j. J_IdempotencyKey j = Some key) d, d)) d) of
        Inl e \<Rightarrow> if is_ErrNoRows e then Inl (NotFound ''job'')
                 else Inl (WrapErr ''get job by idempotency key'' e)
      | Inr j \<Rightarrow> Inr j)"

definition list_where :: "uuid \<Rightarrow> ListFilter \<Rightarrow> Job \<Rightarrow> bool" where
  "list_where qid flt j \<longleftrightarrow> J_QueueID j = qid \<and>
     (case F_Status flt of None \<Rightarrow> True | Some s \<Rightarrow> parse_job_status s = Some (J_Status j)) \<and>
     (case F_Type flt of None \<Rightarrow> True | Some t \<Rightarrow> J_Type j = t)"

definition list_limit :: "ListFilter \<Rightarrow> int" where
  "list_limit flt = (if F_Limit flt \<le> 0 \<or> 200 < F_Limit flt then 50 else F_Limit flt)"

definition JobRepo_List :: "fault \<Rightarrow> fault \<Rightarrow> uuid \<Rightarrow> ListFilter \<Rightarrow> db \<Rightarrow> (Job list \<times> nat) res" where
  "JobRepo_List f_count f_data qid flt d =
     (let bad = (case F_Status flt of None \<Rightarrow> False | Some s \<Rightarrow> parse_job_status s = None);
          matching = sql_select (list_where qid flt) (jobs d)
      in case db_call f_count (\<lambda>d. (if bad then Inl invalid_text else Inr (length matching), d)) d of
           (Inl e, _) \<Rightarrow> Inl (WrapErr ''count jobs'' e)
         | (Inr n_total, _) \<Rightarrow>
             (case db_call f_data (\<lambda>d. (if F_Offset flt < 0 then Inl negative_offset
                  else Inr (take (nat (list_limit flt)) (drop (nat (F_Offset flt))
                    (sql_order (\<lambda>j. - J_CreatedAt j) matching))), d)) d of
                (Inl e, _) \<Rightarrow> Inl (WrapErr ''list jobs'' e)
              | (Inr rows, _) \<Rightarrow> Inr (rows, n_total)))"

section \<open>ClaimBatch\<close>

text \<open>
  The transaction: count the running jobs of the queue, cut the batch to what the concurrency
  limit leaves, select the eligible rows (skipping those \<open>locked\<close> by other transactions), mark
  them running. Any failure rolls back. The jobs returned are the rows as selected.
\<close>

definition running_count :: "uuid \<Rightarrow> db \<Rightarrow> int" where
  "running_count qid d = int (sql_count (\<lambda>j. J_QueueID j = qid \<and> J_Status j = StatusRunning) (jobs d))"

definition claim_eligible :: "(uuid \<Rightarrow> bool) \<Rightarrow> time \<Rightarrow> uuid \<Rightarrow> Job \<Rightarrow> bool" where
  "claim_eligible locked now qid j \<longleftrightarrow> J_QueueID j = qid \<and> J_Status j = StatusPending \<and>
     J_RunAt j \<le> now \<and> \<not> locked (J_ID j)"

definition claim_key :: "Job \<Rightarrow> int \<times> time" where
  "claim_key j = (- J_Priority j, J_RunAt j)"

definition claim_select :: "(uuid \<Rightarrow> bool) \<Rightarrow> time \<Rightarrow> uuid \<Rightarrow> int \<Rightarrow> Job list \<Rightarrow> Job list" where
  "claim_select locked now qid n rows =
     take (nat n) (sql_order claim_key (sql_select (claim_eligible locked now qid) rows))"

definition mark_running :: "uuid \<Rightarrow> time \<Rightarrow> Job \<Rightarrow> Job" where
  "mark_running wid now j = j\<lparr>J_Status := StatusRunning, J_ClaimedBy := Some wid,
     J_ClaimedAt := Some now, J_StartedAt := Some now, J_UpdatedAt := now\<rparr>"

definition claim_update :: "uuid \<Rightarrow> time \<Rightarrow> uuid list \<Rightarrow> db \<Rightarrow> db" where
  "claim_update wid now ids d =
     d\<lparr>jobs := sql_update (\<lambda>j. J_ID j \<in> set ids) (mark_running wid now) (jobs d)\<rparr>"

record claim_faults =
  cf_begin :: fault
  cf_count :: fault
  cf_select :: fault
  cf_update :: fault
  cf_commit :: fault

definition no_claim_faults :: claim_faults where
  "no_claim_faults = \<lparr>cf_begin = None, cf_count = None, cf_select = None, cf_update = None,
     cf_commit = None\<rparr>"

definition claim_error :: "fault \<Rightarrow> string \<Rightarrow> db \<Rightarrow> Job list res \<times> db" where
  "claim_error f msg d = (Inl (WrapErr msg (PlainErr (case f of None \<Rightarrow> [] | Some m \<Rightarrow> m))), d)"

definition JobRepo_ClaimBatch ::
  "claim_faults \<Rightarrow> (uuid \<Rightarrow> bool) \<Rightarrow> time \<Rightarrow> uuid \<Rightarrow> uuid \<Rightarrow> int \<Rightarrow> int \<Rightarrow> db \<Rightarrow> Job list res \<times> db" where
  "JobRepo_ClaimBatch cf locked now qid wid batchSize0 concurrencyLimit d =
     (if cf_begin cf \<noteq> None then claim_error (cf_begin cf) ''begin claim transaction'' d
      else if cf_count cf \<noteq> None then claim_error (cf_count cf) ''count running jobs'' d
      else let available = concurrencyLimit - running_count qid d in
        if available \<le> 0 then (Inr [], d)
        else let batchSize = (if available < batchSize0 then available else batchSize0) in
          if cf_select cf \<noteq> None then claim_error (cf_select cf) ''claim query'' d
          else if batchSize < 0 then (Inl (WrapErr ''claim query'' negative_limit), d)
          else let claimed = claim_select locked now qid batchSize (jobs d);
                   claimedIDs = map J_ID claimed in
            if claimedIDs = [] then (Inr [], d)
            else if cf_update cf \<noteq> None then claim_error (cf_update cf) ''update claimed jobs'' d
            else if cf_commit cf \<noteq> None then claim_error (cf_commit cf) ''commit claim'' d
            else (Inr claimed, claim_update wid now claimedIDs d))"

section \<open>Updates of one job\<close>

definition job_exec :: "fault \<Rightarrow> (Job \<Rightarrow> bool) \<Rightarrow> (Job \<Rightarrow> Job) \<Rightarrow> db \<Rightarrow> nat res \<times> db" where
  "job_exec f P u d =
     db_call f (\<lambda>d. (Inr (sql_count P (jobs d)), d\<lparr>jobs := sql_update P u (jobs d)\<rparr>)) d"

definition ignore_tag :: "nat res \<times> db \<Rightarrow> unit res \<times> db" where
  "ignore_tag r = (case fst r of Inl e \<Rightarrow> Inl e | Inr _ \<Rightarrow> Inr (), snd r)"

definition JobRepo_UpdateStatus :: "fault \<Rightarrow> time \<Rightarrow> uuid \<Rightarrow> JobStatus \<Rightarrow> db \<Rightarrow> unit res \<times> db" where
  "JobRepo_UpdateStatus f now i st d = ignore_tag (job_exec f (\<lambda>j. J_ID j = i)
     (\<lambda>j. j\<lparr>J_Status := st, J_UpdatedAt := now\<rparr>) d)"

definition JobRepo_MarkSucceeded :: "fault \<Rightarrow> time \<Rightarrow> uuid \<Rightarrow> time \<Rightarrow> db \<Rightarrow> unit res \<times> db" where
  "JobRepo_MarkSucceeded f now i completedAt d = ignore_tag (job_exec f (\<lambda>j. J_ID j = i)
     (\<lambda>j. j\<lparr>J_Status := StatusSucceeded, J_CompletedAt := Some completedAt, J_UpdatedAt := now\<rparr>) d)"

definition JobRepo_MarkFailed :: "fault \<Rightarrow> time \<Rightarrow> uuid \<Rightarrow> string \<Rightarrow> time \<Rightarrow> db \<Rightarrow> unit res \<times> db" where
  "JobRepo_MarkFailed f now i errMsg failedAt d = ignore_tag (job_exec f (\<lambda>j. J_ID j = i)
     (\<lambda>j. j\<lparr>J_Status := StatusFailed, J_AttemptCount := J_AttemptCount j + 1,
        J_LastError := Some errMsg, J_LastErrorAt := Some failedAt, J_UpdatedAt := now\<rparr>) d)"

definition JobRepo_MarkDead :: "fault \<Rightarrow> time \<Rightarrow> uuid \<Rightarrow> string \<Rightarrow> time \<Rightarrow> db \<Rightarrow> unit res \<times> db" where
  "JobRepo_MarkDead f now i errMsg failedAt d = ignore_tag (job_exec f (\<lambda>j. J_ID j = i)
     (\<lambda>j. j\<lparr>J_Status := StatusDead, J_AttemptCount := J_AttemptCount j + 1,
        J_LastError := Some errMsg, J_LastErrorAt := Some failedAt,
        J_CompletedAt := Some failedAt, J_UpdatedAt := now\<rparr>) d)"

definition JobRepo_ScheduleRetry :: "fault \<Rightarrow> time \<Rightarrow> uuid \<Rightarrow> time \<Rightarrow> int \<Rightarrow> db \<Rightarrow> unit res \<times> db" where
  "JobRepo_ScheduleRetry f now i runAt attemptCount d = ignore_tag (job_exec f (\<lambda>j. J_ID j = i)
     (\<lambda>j. j\<lparr>J_Status := StatusPending, J_RunAt := runAt, J_AttemptCount := attemptCount,
        J_ClaimedBy := None, J_ClaimedAt := None, J_UpdatedAt := now\<rparr>) d)"

definition cancellable :: "Job \<Rightarrow> bool" where
  "cancellable j \<longleftrightarrow> J_Status j = StatusPending \<or> J_Status j = StatusScheduled"

definition JobRepo_Cancel :: "fault \<Rightarrow> time \<Rightarrow> uuid \<Rightarrow> db \<Rightarrow> unit res \<times> db" where
  "JobRepo_Cancel f now i d =
     (case job_exec f (\<lambda>j. J_ID j = i \<and> cancellable j)
        (\<lambda>j. j\<lparr>J_Status := StatusCancelled, J_UpdatedAt := now\<rparr>) d of
        (Inl e, d') \<Rightarrow> (Inl (WrapErr ''cancel job'' e), d')
      | (Inr n, d') \<Rightarrow>
          (if n = 0 then Inl (Conflict ''job cannot be cancelled in its current state'') else Inr (), d'))"

section \<open>Background updates\<close>

definition due_scheduled :: "time \<Rightarrow> Job \<Rightarrow> bool" where
  "due_scheduled now j \<longleftrightarrow> J_Status j = StatusScheduled \<and> J_RunAt j \<le> now"

definition JobRepo_PromoteScheduled :: "fault \<Rightarrow> time \<Rightarrow> db \<Rightarrow> nat res \<times> db" where
  "JobRepo_PromoteScheduled f now d = map_prod (wrap_err ''promote scheduled'') id
     (job_exec f (due_scheduled now) (\<lambda>j. j\<lparr>J_Status := StatusPending, J_UpdatedAt := now\<rparr>) d)"

definition stale_running :: "time \<Rightarrow> int \<Rightarrow> Job \<Rightarrow> bool" where
  "stale_running now secs j \<longleftrightarrow> J_Status j = StatusRunning \<and>
     null_less (J_ClaimedAt j) (now - secs * 1000000000)"

definition JobRepo_ReclaimStale :: "fault \<Rightarrow> time \<Rightarrow> duration \<Rightarrow> db \<Rightarrow> nat res \<times> db" where
  "JobRepo_ReclaimStale f now visibilityTimeout d = map_prod (wrap_err ''reclaim stale'') id
     (job_exec f (stale_running now (whole_seconds visibilityTimeout))
        (\<lambda>j. j\<lparr>J_Status := StatusPending, J_ClaimedBy := None, J_ClaimedAt := None,
           J_UpdatedAt := now\<rparr>) d)"

lemmas job_update_defs = JobRepo_UpdateStatus_def JobRepo_MarkSucceeded_def JobRepo_MarkFailed_def
  JobRepo_MarkDead_def JobRepo_ScheduleRetry_def ignore_tag_def job_exec_def

section \<open>What a successful ClaimBatch has done\<close>

lemma mark_running_sel [simp]:
  "J_ID (mark_running wid now j) = J_ID j" "J_Status (mark_running wid now j) = StatusRunning"
  "J_ClaimedBy (mark_running wid now j) = Some wid" "J_QueueID (mark_running wid now j) = J_QueueID j"
  "J_IdempotencyKey (mark_running wid now j) = J_IdempotencyKey j"
  "J_Priority (mark_running wid now j) = J_Priority j"
  "J_RetryStrategy (mark_running wid now j) = J_RetryStrategy j"
  "J_Tags (mark_running wid now j) = J_Tags j" "J_AttemptCount (mark_running wid now j) = J_AttemptCount j"
  "J_ClaimedAt (mark_running wid now j) = Some now"
  by (simp_all add: mark_running_def)

lemma claim_select_mem:
  "j \<in> set (claim_select locked now qid n rows) \<Longrightarrow>
   j \<in> set rows \<and> claim_eligible locked now qid j"
  using set_order_limit [of "nat n" claim_key "sql_select (claim_eligible locked now qid) rows"]
  by (auto simp: claim_select_def sql_select_def)

lemma claim_select_distinct:
  "distinct (map J_ID rows) \<Longrightarrow> distinct (map J_ID (claim_select locked now qid n rows))"
  by (simp add: claim_select_def sql_select_def distinct_order_limit distinct_map_filter)

text \<open>The two ways ClaimBatch returns without error: nothing to do, or a committed claim.\<close>

lemma ClaimBatch_cases:
  assumes "JobRepo_ClaimBatch cf locked now qid wid n conc d = (Inr claimed, d')"
  obtains (idle) "claimed = []" "d' = d"
    | (claim) b where "b = min n (conc - running_count qid d)" "0 \<le> b"
        "0 < conc - running_count qid d"
        "claimed = claim_select locked now qid b (jobs d)" "claimed \<noteq> []"
        "d' = claim_update wid now (map J_ID claimed) d"
  using assms
  by (auto simp: JobRepo_ClaimBatch_def claim_error_def Let_def min_def split: if_splits)

lemma ClaimBatch_error:
  "JobRepo_ClaimBatch cf locked now qid wid n conc d = (Inl e, d') \<Longrightarrow> d' = d"
  by (auto simp: JobRepo_ClaimBatch_def claim_error_def Let_def split: if_splits)

lemma claim_update_mem:
  assumes "distinct (map J_ID (jobs d))" and "set claimed \<subseteq> set (jobs d)" and "j \<in> set (jobs d)"
  shows "J_ID j \<in> set (map J_ID claimed) \<longleftrightarrow> j \<in> set claimed"
proof
  assume "J_ID j \<in> set (map J_ID claimed)"
  then obtain c where c: "c \<in> set claimed" "J_ID c = J_ID j" by (auto simp: image_iff)
  then have "c = j" using assms by (intro distinct_key_eq [of J_ID "jobs d"]) auto
  with c show "j \<in> set claimed" by simp
qed simp

lemma claim_update_row:
  assumes "distinct (map J_ID (jobs d))" and "set claimed \<subseteq> set (jobs d)" and "j \<in> set claimed"
  shows "sql_row (\<lambda>r. J_ID r = J_ID j) (jobs (claim_update wid now (map J_ID claimed) d)) =
    Some (mark_running wid now j)"
proof -
  let ?rows = "jobs (claim_update wid now (map J_ID claimed) d)"
  have "map J_ID ?rows = map J_ID (jobs d)"
    by (simp add: claim_update_def sql_update_keys)
  then have d: "distinct (map J_ID ?rows)" using assms(1) by simp
  have "mark_running wid now j \<in> set ?rows"
    using assms(2,3) by (auto simp: claim_update_def sql_update_mem)
  from sql_row_key [OF d this] show ?thesis by simp
qed

lemma ClaimBatch_rows:
  assumes "JobRepo_ClaimBatch cf locked now qid wid n conc d = (Inr claimed, d')"
    and "distinct (map J_ID (jobs d))"
  shows "distinct (map J_ID claimed) \<and>
    (\<forall>j\<in>set claimed. j \<in> set (jobs d) \<and> claim_eligible locked now qid j \<and>
       sql_row (\<lambda>r. J_ID r = J_ID j) (jobs d') = Some (mark_running wid now j)) \<and>
    (\<forall>j\<in>set (jobs d). j \<notin> set claimed \<longrightarrow> sql_row (\<lambda>r. J_ID r = J_ID j) (jobs d') = Some j)"
  using assms(1)
proof (cases rule: ClaimBatch_cases)
  case idle
  then show ?thesis using assms(2) sql_row_key [of J_ID "jobs d"] by simp
next
  case (claim b)
  have sub: "set claimed \<subseteq> set (jobs d)" using claim(4) claim_select_mem by blast
  have ids: "map J_ID (jobs d') = map J_ID (jobs d)"
    by (simp add: claim(6) claim_update_def sql_update_keys)
  have other: "sql_row (\<lambda>r. J_ID r = J_ID j) (jobs d') = Some j"
    if "j \<in> set (jobs d)" "j \<notin> set claimed" for j
  proof -
    have "j \<in> set (jobs d')"
      using that claim_update_mem [OF assms(2) sub that(1)]
      by (auto simp: claim(6) claim_update_def sql_update_mem)
    then show ?thesis using assms(2) ids by (intro sql_row_key) simp_all
  qed
  have "distinct (map J_ID claimed)" using claim(4) claim_select_distinct [OF assms(2)] by simp
  moreover have "\<forall>j\<in>set claimed. j \<in> set (jobs d) \<and> claim_eligible locked now qid j"
    using claim(4) claim_select_mem by blast
  moreover have "\<forall>j\<in>set claimed. sql_row (\<lambda>r. J_ID r = J_ID j) (jobs d') = Some (mark_running wid now j)"
    using claim_update_row [OF assms(2) sub] claim(6) by simp
  ultimately show ?thesis using other by blast
qed

text \<open>C9: every job ClaimBatch returns was pending, due, unlocked and in the queue asked for, and
  is now running and claimed by this worker; every other row of the table is untouched.\<close>

theorem ClaimBatch_correct:
  assumes "JobRepo_ClaimBatch cf locked now qid wid n conc d = (Inr claimed, d')"
    and "distinct (map J_ID (jobs d))"
  shows "distinct (map J_ID claimed) \<and>
    (\<forall>j\<in>set claimed. j \<in> set (jobs d) \<and> J_QueueID j = qid \<and> J_Status j = StatusPending \<and> J_RunAt j \<le> now \<and>
       \<not> locked (J_ID j) \<and> sql_row (\<lambda>r. J_ID r = J_ID j) (jobs d') =
         Some (j\<lparr>J_Status := StatusRunning, J_ClaimedBy := Some wid, J_ClaimedAt := Some now,
           J_StartedAt := Some now, J_UpdatedAt := now\<rparr>)) \<and>
    (\<forall>j\<in>set (jobs d). j \<notin> set claimed \<longrightarrow> sql_row (\<lambda>r. J_ID r = J_ID j) (jobs d') = Some j)"
  using ClaimBatch_rows [OF assms] by (simp add: claim_eligible_def mark_running_def)

section \<open>A sample table for the witnesses\<close>

definition sample_queue :: Queue where
  "sample_queue = \<lparr>Q_ID = 7, Q_ProjectID = 70, Q_Name = ''emails'', Q_Description = [],
     Q_Priority = 5, Q_Concurrency = 10, Q_MaxRetries = 3, Q_RetryStrategy = ''exponential'',
     Q_RetryDelaySec = 60, Q_VisibilityTimeoutSec = 300, Q_JobTimeoutSec = 300,
     Q_IsPaused = False, Q_IsDLQ = False, Q_DLQQueueID = None, Q_Metadata = None,
     Q_CreatedAt = 0, Q_UpdatedAt = 0\<rparr>"

definition sample_job :: "uuid \<Rightarrow> JobStatus \<Rightarrow> int \<Rightarrow> time \<Rightarrow> Job" where
  "sample_job i st prio t = zero_Job\<lparr>J_ID := i, J_QueueID := 7, J_Type := ''demo.echo'',
     J_Status := st, J_Priority := prio, J_RunAt := t, J_MaxRetries := 3,
     J_RetryStrategy := ''fixed'', J_RetryDelaySec := 60, J_TimeoutSec := 300, J_Tags := Some []\<rparr>"

definition sample_db :: "Job list \<Rightarrow> db" where
  "sample_db js = empty_db\<lparr>queues := [sample_queue], jobs := js\<rparr>"

lemma sample_job_sel [simp]:
  "J_ID (sample_job i st prio t) = i" "J_QueueID (sample_job i st prio t) = 7"
  "J_Status (sample_job i st prio t) = st" "J_Priority (sample_job i st prio t) = prio"
  "J_RunAt (sample_job i st prio t) = t" "J_IdempotencyKey (sample_job i st prio t) = None"
  "J_AttemptCount (sample_job i st prio t) = 0" "J_MaxRetries (sample_job i st prio t) = 3"
  "J_Tags (sample_job i st prio t) = Some []" "J_RetryStrategy (sample_job i st prio t) = ''fixed''"
  "J_ClaimedAt (sample_job i st prio t) = None" "J_Type (sample_job i st prio t) = ''demo.echo''"
  "J_RetryDelaySec (sample_job i st prio t) = 60" "J_TimeoutSec (sample_job i st prio t) = 300"
  by (simp_all add: sample_job_def zero_Job_def)

lemma sample_job_eq [simp]:
  "sample_job i st prio t = sample_job i' st' prio' t' \<longleftrightarrow>
     i = i' \<and> st = st' \<and> prio = prio' \<and> t = t'"
  by (metis sample_job_sel(1,3,4,5))

lemma sample_db_sel [simp]: "jobs (sample_db js) = js" "queues (sample_db js) = [sample_queue]"
  "cron_jobs (sample_db js) = []" "batches (sample_db js) = []"
  by (simp_all add: sample_db_def empty_db_def)

lemma sample_queue_sel [simp]: "Q_ID sample_queue = 7" "Q_Concurrency sample_queue = 10"
  "Q_IsPaused sample_queue = False" "Q_Priority sample_queue = 5"
  by (simp_all add: sample_queue_def)

text \<open>Two claimable jobs of queue 7, one in the future; the one of the larger number goes first.\<close>

definition claim_db :: db where
  "claim_db = sample_db [sample_job 1 StatusPending 1 10, sample_job 2 StatusPending 9 20,
     sample_job 3 StatusPending 9 500, sample_job 4 StatusRunning 5 0]"

lemma claim_db_select:
  "claim_select (\<lambda>_. False) 100 7 n (jobs claim_db) =
     take (nat n) [sample_job 2 StatusPending 9 20, sample_job 1 StatusPending 1 10]"
  by (simp add: claim_select_def claim_db_def sql_select_def sql_order_def claim_eligible_def
      claim_key_def sort_key_def insort_key_def less_eq_prod_def)

lemma claim_db_running: "running_count 7 claim_db = 1"
  by (simp add: running_count_def claim_db_def)

lemma claim_db_ids: "distinct (map J_ID (jobs claim_db))"
  by (simp add: claim_db_def)

lemma claim_db_batch:
  "JobRepo_ClaimBatch no_claim_faults (\<lambda>_. False) 100 7 77 5 2 claim_db =
     (Inr [sample_job 2 StatusPending 9 20], claim_update 77 100 [2] claim_db)"
  by (simp add: JobRepo_ClaimBatch_def no_claim_faults_def claim_db_running claim_db_select Let_def)

theorem ClaimBatch_correct_witness:
  "sql_row (\<lambda>r. J_ID r = 2) (jobs (claim_update 77 100 [2] claim_db)) =
     Some (mark_running 77 100 (sample_job 2 StatusPending 9 20))"
  using ClaimBatch_correct [OF claim_db_batch claim_db_ids] by (simp add: mark_running_def)

section \<open>Bounds and order of a claim\<close>

lemma running_count_claim:
  assumes "distinct (map J_ID (jobs d))"
    and "claimed = claim_select locked now qid b (jobs d)"
  shows "running_count qid (claim_update wid now (map J_ID claimed) d) =
    running_count qid d + int (length claimed)"
proof -
  let ?C = "set (map J_ID claimed)"
  have sub: "set claimed \<subseteq> set (jobs d)" using assms(2) claim_select_mem by blast
  have el: "claim_eligible locked now qid j" if "j \<in> set (jobs d)" "J_ID j \<in> ?C" for j
    using that claim_update_mem [OF assms(1) sub that(1)] assms(2) claim_select_mem by blast
  have "sql_count (\<lambda>j. J_QueueID j = qid \<and> J_Status j = StatusRunning)
      (sql_update (\<lambda>j. J_ID j \<in> ?C) (mark_running wid now) rows) =
    sql_count (\<lambda>j. J_QueueID j = qid \<and> J_Status j = StatusRunning) rows +
    length (filter (\<lambda>j. J_ID j \<in> ?C) rows)" if "set rows \<subseteq> set (jobs d)" for rows
    using that el by (induction rows) (auto simp: claim_eligible_def)
  then have cnt: "running_count qid (claim_update wid now (map J_ID claimed) d) =
      running_count qid d + int (length (filter (\<lambda>j. J_ID j \<in> ?C) (jobs d)))"
    by (simp add: running_count_def claim_update_def)
  have "set (filter (\<lambda>j. J_ID j \<in> ?C) (jobs d)) = set claimed"
    using claim_update_mem [OF assms(1) sub] sub by auto
  moreover have "distinct (filter (\<lambda>j. J_ID j \<in> ?C) (jobs d))" "distinct claimed"
    using assms(1) claim_select_distinct [OF assms(1)] assms(2)
    by (auto simp: distinct_map)
  ultimately have "length (filter (\<lambda>j. J_ID j \<in> ?C) (jobs d)) = length claimed"
    by (metis distinct_card)
  with cnt show ?thesis by simp
qed

lemma length_claim_select: "0 \<le> n \<Longrightarrow> int (length (claim_select locked now qid n rows)) \<le> n"
  by (simp add: claim_select_def length_order_limit)

lemma ClaimBatch_length:
  assumes "JobRepo_ClaimBatch cf locked now qid wid n conc d = (Inr claimed, d')"
  shows "int (length claimed) \<le> max 0 n"
  using assms
proof (cases rule: ClaimBatch_cases)
  case (claim b)
  have "int (length claimed) \<le> b" using claim(2,4) length_claim_select by simp
  then show ?thesis using claim(1) by simp
qed simp

text \<open>A claim adds exactly its jobs to the running ones of the queue, never more than the
  batch size, and (run on its own) never takes the queue past its concurrency limit.\<close>

theorem ClaimBatch_concurrency:
  assumes "JobRepo_ClaimBatch cf locked now qid wid n conc d = (Inr claimed, d')"
    and "distinct (map J_ID (jobs d))"
  shows "running_count qid d' = running_count qid d + int (length claimed) \<and>
    int (length claimed) \<le> max 0 n \<and> running_count qid d' \<le> max conc (running_count qid d)"
  using assms(1)
proof (cases rule: ClaimBatch_cases)
  case idle
  then show ?thesis by simp
next
  case (claim b)
  have "int (length claimed) \<le> b" using claim(2,4) length_claim_select by simp
  then show ?thesis using running_count_claim [OF assms(2) claim(4)] claim(1,6) by simp
qed

theorem ClaimBatch_concurrency_witness:
  "running_count 7 (claim_update 77 100 [2] claim_db) = 2 \<and> running_count 7 claim_db = 1"
  using ClaimBatch_concurrency [OF claim_db_batch claim_db_ids] claim_db_running by simp

lemma claim_select_best:
  assumes "x \<in> set (claim_select locked now qid n rows)" and "y \<in> set rows"
    and "claim_eligible locked now qid y" and "y \<notin> set (claim_select locked now qid n rows)"
  shows "claim_key x \<le> claim_key y"
  using assms unfolding claim_select_def
  by (intro order_limit_best [of x "nat n" claim_key "sql_select (claim_eligible locked now qid) rows"])
    (auto simp: sql_select_def)

lemma claim_select_full:
  assumes "y \<in> set rows" and "claim_eligible locked now qid y"
    and "y \<notin> set (claim_select locked now qid n rows)" and "0 \<le> n"
  shows "int (length (claim_select locked now qid n rows)) = n"
proof -
  let ?el = "sql_select (claim_eligible locked now qid) rows"
  have "y \<in> set ?el" using assms(1,2) by (simp add: sql_select_def)
  then have "y \<in> set (sql_order claim_key ?el)" by (simp add: sql_order_def)
  then have "\<not> length ?el \<le> nat n"
    using assms(3) by (auto simp: claim_select_def sql_order_def)
  then show ?thesis using assms(4) by (simp add: claim_select_def sql_order_def)
qed

text \<open>ClaimBatch serves the largest priority number first and, within one priority, the
  earliest run_at; it leaves an eligible job behind only when the batch size or the concurrency
  limit is used up.\<close>

theorem ClaimBatch_priority_order:
  assumes "JobRepo_ClaimBatch cf locked now qid wid n conc d = (Inr claimed, d')"
    and "y \<in> set (jobs d)" and "claim_eligible locked now qid y" and "y \<notin> set claimed"
    and "0 \<le> n" and "running_count qid d < conc"
    and "cf = no_claim_faults"
  shows "(\<forall>x\<in>set claimed. J_Priority y < J_Priority x \<or>
       (J_Priority y = J_Priority x \<and> J_RunAt x \<le> J_RunAt y)) \<and>
    sorted (map claim_key claimed) \<and>
    int (length claimed) = min n (conc - running_count qid d)"
proof -
  define b where "b = min n (conc - running_count qid d)"
  have b: "0 \<le> b" using assms(5,6) by (simp add: b_def)
  have eq: "claimed = claim_select locked now qid b (jobs d)"
    using assms(1,5,6,7)
    by (auto simp: JobRepo_ClaimBatch_def no_claim_faults_def Let_def b_def min_def split: if_splits)
  have "claim_key x \<le> claim_key y" if "x \<in> set claimed" for x
    using claim_select_best assms(2,3,4) that unfolding eq by blast
  then have "\<forall>x\<in>set claimed. J_Priority y < J_Priority x \<or>
       (J_Priority y = J_Priority x \<and> J_RunAt x \<le> J_RunAt y)"
    by (force simp: claim_key_def less_eq_prod_def)
  moreover have "sorted (map claim_key claimed)"
    unfolding eq claim_select_def by (metis order_sorted sorted_wrt_take take_map)
  moreover have "int (length claimed) = b"
    using claim_select_full [OF assms(2,3) _ b] assms(4) unfolding eq by blast
  ultimately show ?thesis by (simp add: b_def)
qed

theorem ClaimBatch_priority_order_witness:
  "\<exists>x. x \<in> set [sample_job 2 StatusPending 9 20] \<and> J_Priority (sample_job 1 StatusPending 1 10) < J_Priority x \<and>
     int (length [x]) = min 5 (2 - running_count 7 claim_db)"
  using ClaimBatch_priority_order [OF claim_db_batch, of "sample_job 1 StatusPending 1 10"]
    claim_db_running
  by (simp add: claim_db_def claim_eligible_def)

section \<open>Updates seen row by row\<close>

lemma job_exec_row:
  assumes "distinct (map J_ID (jobs d))" and "j \<in> set (jobs d)" and "\<And>r. J_ID (u r) = J_ID r"
  shows "sql_row (\<lambda>r. J_ID r = J_ID j) (jobs (snd (job_exec None P u d))) =
    Some (if P j then u j else j)"
proof -
  let ?rows = "sql_update P u (jobs d)"
  have "map J_ID ?rows = map J_ID (jobs d)" using assms(3) by (rule sql_update_keys)
  then have "distinct (map J_ID ?rows)" using assms(1) by simp
  moreover have "(if P j then u j else j) \<in> set ?rows" using assms(2) by (auto simp: sql_update_mem)
  ultimately have "sql_row (\<lambda>r. J_ID r = J_ID (if P j then u j else j)) ?rows = Some (if P j then u j else j)"
    by (rule sql_row_key)
  then show ?thesis using assms(3) by (simp add: job_exec_def split: if_splits)
qed

lemma job_exec_none: "\<forall>j\<in>set (jobs d). \<not> P j \<Longrightarrow> job_exec None P u d = (Inr 0, d)"
  by (simp add: job_exec_def sql_update_none sql_count_0)

lemma job_exec_fault [simp]: "job_exec (Some m) P u d = (Inl (PlainErr m), d)"
  by (simp add: job_exec_def)

text \<open>Cancel succeeds exactly on a pending or scheduled job, which it marks cancelled without
  touching any other row; on any other status, or an unknown id, it reports a conflict and
  changes nothing.\<close>

theorem Cancel_spec:
  assumes "distinct (map J_ID (jobs d))"
  shows "JobRepo_Cancel None now i d =
    (case sql_row (\<lambda>j. J_ID j = i) (jobs d) of
       Some j \<Rightarrow> if J_Status j \<in> {StatusPending, StatusScheduled}
         then (Inr (), d\<lparr>jobs := sql_update (\<lambda>r. J_ID r = i)
                 (\<lambda>r. r\<lparr>J_Status := StatusCancelled, J_UpdatedAt := now\<rparr>) (jobs d)\<rparr>)
         else (Inl (Conflict ''job cannot be cancelled in its current state''), d)
     | None \<Rightarrow> (Inl (Conflict ''job cannot be cancelled in its current state''), d))"
proof (cases "sql_row (\<lambda>j. J_ID j = i) (jobs d)")
  case None
  then have "\<forall>j\<in>set (jobs d). \<not> (J_ID j = i \<and> cancellable j)" by (auto simp: sql_row_None)
  then show ?thesis using None by (simp add: JobRepo_Cancel_def job_exec_none)
next
  case (Some j)
  then have j: "j \<in> set (jobs d)" "J_ID j = i" by (auto dest: sql_row_Some)
  have one: "r = j" if "r \<in> set (jobs d)" "J_ID r = i" for r
    using assms j that by (auto intro: distinct_key_eq [of J_ID])
  show ?thesis
  proof (cases "cancellable j")
    case True
    have "sql_update (\<lambda>r. J_ID r = i \<and> cancellable r) u (jobs d) = sql_update (\<lambda>r. J_ID r = i) u (jobs d)" for u
      using one True by (auto simp: sql_update_def)
    moreover have "sql_count (\<lambda>r. J_ID r = i \<and> cancellable r) (jobs d) \<noteq> 0"
      using j True by (auto simp: sql_count_0)
    ultimately show ?thesis using Some True
      by (simp add: JobRepo_Cancel_def job_exec_def cancellable_def)
  next
    case False
    then have "\<forall>r\<in>set (jobs d). \<not> (J_ID r = i \<and> cancellable r)" using one by auto
    then show ?thesis using Some False by (simp add: JobRepo_Cancel_def job_exec_none cancellable_def)
  qed
qed

theorem Cancel_spec_witness:
  "fst (JobRepo_Cancel None 50 1 claim_db) = Inr () \<and>
   JobRepo_Cancel None 50 4 claim_db =
     (Inl (Conflict ''job cannot be cancelled in its current state''), claim_db)"
  using Cancel_spec [OF claim_db_ids, of 50 1] Cancel_spec [OF claim_db_ids, of 50 4]
  by (simp add: claim_db_def)

text \<open>A promotion turns exactly the scheduled jobs whose run_at has come into pending ones,
  changes nothing else, reports their number, and leaves no due scheduled job behind.\<close>

theorem PromoteScheduled_spec:
  assumes "distinct (map J_ID (jobs d))" and "JobRepo_PromoteScheduled None now d = (Inr n, d')"
  shows "n = length (filter (\<lambda>j. J_Status j = StatusScheduled \<and> J_RunAt j \<le> now) (jobs d)) \<and>
    (\<forall>j\<in>set (jobs d). sql_row (\<lambda>r. J_ID r = J_ID j) (jobs d') =
       Some (if J_Status j = StatusScheduled \<and> J_RunAt j \<le> now
         then j\<lparr>J_Status := StatusPending, J_UpdatedAt := now\<rparr> else j)) \<and>
    (\<forall>j\<in>set (jobs d'). J_Status j = StatusScheduled \<longrightarrow> now < J_RunAt j)"
proof -
  let ?u = "\<lambda>j. j\<lparr>J_Status := StatusPending, J_UpdatedAt := now\<rparr> :: Job"
  have P: "due_scheduled now = (\<lambda>j. J_Status j = StatusScheduled \<and> J_RunAt j \<le> now)"
    by (simp add: due_scheduled_def fun_eq_iff)
  have e: "job_exec None (due_scheduled now) ?u d = (Inr n, d')"
    using assms(2) by (simp add: JobRepo_PromoteScheduled_def)
  then have d': "jobs d' = sql_update (due_scheduled now) ?u (jobs d)"
    and n: "n = length (filter (due_scheduled now) (jobs d))"
    by (auto simp: job_exec_def sql_count_def)
  have "\<forall>j\<in>set (jobs d'). J_Status j = StatusScheduled \<longrightarrow> now < J_RunAt j"
    by (auto simp: d' sql_update_mem P)
  then show ?thesis
    using n e job_exec_row [OF assms(1), of _ ?u "due_scheduled now"] by (auto simp: P)
qed

definition promote_db :: db where
  "promote_db = sample_db [sample_job 1 StatusScheduled 5 10, sample_job 2 StatusScheduled 5 900]"

theorem PromoteScheduled_spec_witness:
  "fst (JobRepo_PromoteScheduled None 100 promote_db) = Inr 1 \<and>
   filter (\<lambda>j. J_Status j = StatusScheduled \<and> J_RunAt j \<le> 100)
     (jobs (snd (JobRepo_PromoteScheduled None 100 promote_db))) = []"
proof -
  have h: "JobRepo_PromoteScheduled None 100 promote_db =
      (Inr 1, snd (JobRepo_PromoteScheduled None 100 promote_db))"
    by (simp add: JobRepo_PromoteScheduled_def job_exec_def promote_db_def due_scheduled_def)
  have f: "fst (JobRepo_PromoteScheduled None 100 promote_db) = Inr 1" by (subst h) simp
  have d: "distinct (map J_ID (jobs promote_db))" by (simp add: promote_db_def)
  show ?thesis using PromoteScheduled_spec [OF d h] f by (auto simp: filter_empty_conv)
qed

text \<open>A reclaim returns to pending, without a claim, exactly the running jobs claimed longer
  ago than the visibility timeout; a job claimed within it, or not running, is untouched.\<close>

theorem ReclaimStale_spec:
  assumes "distinct (map J_ID (jobs d))" and "JobRepo_ReclaimStale None now vis d = (Inr n, d')"
  shows "n = length (filter (stale_running now (whole_seconds vis)) (jobs d)) \<and>
    (\<forall>j\<in>set (jobs d). sql_row (\<lambda>r. J_ID r = J_ID j) (jobs d') =
       Some (if J_Status j = StatusRunning \<and>
               (\<exists>t. J_ClaimedAt j = Some t \<and> t + whole_seconds vis * 1000000000 < now)
             then j\<lparr>J_Status := StatusPending, J_ClaimedBy := None, J_ClaimedAt := None,
                    J_UpdatedAt := now\<rparr> else j))"
proof -
  let ?P = "stale_running now (whole_seconds vis)"
  let ?u = "\<lambda>j. j\<lparr>J_Status := StatusPending, J_ClaimedBy := None, J_ClaimedAt := None,
    J_UpdatedAt := now\<rparr> :: Job"
  have e: "job_exec None ?P ?u d = (Inr n, d')"
    using assms(2) by (simp add: JobRepo_ReclaimStale_def)
  have P: "?P j \<longleftrightarrow> J_Status j = StatusRunning \<and>
      (\<exists>t. J_ClaimedAt j = Some t \<and> t + whole_seconds vis * 1000000000 < now)" for j
    by (auto simp: stale_running_def null_less_def split: option.splits)
  have "n = length (filter ?P (jobs d))" using e by (auto simp: job_exec_def sql_count_def)
  then show ?thesis
    using e job_exec_row [OF assms(1), of _ ?u ?P] by (auto simp: P)
qed

definition reclaim_db :: db where
  "reclaim_db = sample_db [sample_job 1 StatusRunning 5 0 \<lparr>J_ClaimedAt := Some 0\<rparr>,
     sample_job 2 StatusRunning 5 0 \<lparr>J_ClaimedAt := Some 250000000000\<rparr>]"

theorem ReclaimStale_spec_witness:
  "fst (JobRepo_ReclaimStale None 301000000000 (300 * time_Second) reclaim_db) = Inr 1 \<and>
   map_option J_Status (sql_row (\<lambda>r. J_ID r = 2)
     (jobs (snd (JobRepo_ReclaimStale None 301000000000 (300 * time_Second) reclaim_db)))) =
     Some StatusRunning"
proof -
  have w: "whole_seconds (300 * time_Second) = 300" by (simp add: whole_seconds_def time_Second_def)
  have h: "JobRepo_ReclaimStale None 301000000000 (300 * time_Second) reclaim_db =
      (Inr 1, snd (JobRepo_ReclaimStale None 301000000000 (300 * time_Second) reclaim_db))"
    by (simp add: JobRepo_ReclaimStale_def job_exec_def reclaim_db_def stale_running_def w)
  have d: "distinct (map J_ID (jobs reclaim_db))" by (simp add: reclaim_db_def)
  show ?thesis
    using ReclaimStale_spec [OF d h, THEN conjunct2] arg_cong [OF h, of fst] w
    by (simp only: fst_conv) (simp add: reclaim_db_def)
qed

section \<open>Listing\<close>

text \<open>Consecutive pages of a list, glued together, are the list.\<close>

lemma pages_concat: "concat (map (\<lambda>k. take l (drop (k * l) xs)) [0..<m]) = take (m * l) xs"
proof (induction m)
  case (Suc m)
  have "take (m * l) xs @ take l (drop (m * l) xs) = take (m * l + l) xs" by (rule take_add [symmetric])
  with Suc show ?case by (simp add: add.commute)
qed simp

definition valid_status_filter :: "ListFilter \<Rightarrow> bool" where
  "valid_status_filter flt = (case F_Status flt of None \<Rightarrow> True | Some s \<Rightarrow> parse_job_status s \<noteq> None)"

lemma JobRepo_List_ok:
  assumes "valid_status_filter flt" and "0 \<le> F_Offset flt"
  shows "JobRepo_List None None qid flt d =
    Inr (take (nat (list_limit flt)) (drop (nat (F_Offset flt))
          (sql_order (\<lambda>j. - J_CreatedAt j) (sql_select (list_where qid flt) (jobs d)))),
        length (sql_select (list_where qid flt) (jobs d)))"
  using assms by (auto simp: JobRepo_List_def valid_status_filter_def Let_def split: option.splits)

lemma list_where_page [simp]: "list_where qid (flt\<lparr>F_Limit := l, F_Offset := off\<rparr>) = list_where qid flt"
  by (rule ext) (simp add: list_where_def)

lemma valid_status_page [simp]:
  "valid_status_filter (flt\<lparr>F_Limit := l, F_Offset := off\<rparr>) = valid_status_filter flt"
  by (simp add: valid_status_filter_def)

text \<open>The pages of a listing (limit between 1 and 200, offsets at its multiples) put end to end
  are the queue's matching jobs, each once, newest first; the total is their number.\<close>

theorem List_pages:
  fixes flt :: ListFilter and l m :: nat
  assumes "valid_status_filter flt" and "1 \<le> l" and "l \<le> 200"
    and "length (filter (list_where qid flt) (jobs d)) \<le> m * l"
  shows "concat (map (\<lambda>k. fst (projr (JobRepo_List None None qid
            (flt\<lparr>F_Limit := int l, F_Offset := int (k * l)\<rparr>) d))) [0..<m]) =
      sort_key (\<lambda>j. - J_CreatedAt j) (filter (list_where qid flt) (jobs d)) \<and>
    (\<forall>off\<ge>0. snd (projr (JobRepo_List None None qid (flt\<lparr>F_Limit := int l, F_Offset := off\<rparr>) d)) =
       length (filter (list_where qid flt) (jobs d)))"
proof -
  let ?xs = "sort_key (\<lambda>j. - J_CreatedAt j) (filter (list_where qid flt) (jobs d))"
  have lim: "nat (list_limit (flt\<lparr>F_Limit := int l, F_Offset := off\<rparr>)) = l" for off
    using assms(2,3) by (simp add: list_limit_def)
  have page: "JobRepo_List None None qid (flt\<lparr>F_Limit := int l, F_Offset := off\<rparr>) d =
      Inr (take l (drop (nat off) ?xs), length (filter (list_where qid flt) (jobs d)))" if "0 \<le> off" for off
    using that assms(1) lim by (subst JobRepo_List_ok) (simp_all add: sql_order_def sql_select_def)
  have "fst (projr (JobRepo_List None None qid (flt\<lparr>F_Limit := int l, F_Offset := int (k * l)\<rparr>) d)) =
      take l (drop (k * l) ?xs)" for k
    by (subst page) (simp_all del: of_nat_mult)
  then have "concat (map (\<lambda>k. fst (projr (JobRepo_List None None qid
      (flt\<lparr>F_Limit := int l, F_Offset := int (k * l)\<rparr>) d))) [0..<m]) = take (m * l) ?xs"
    using pages_concat [of l ?xs m] by simp
  then show ?thesis using assms(4) page by simp
qed

definition any_filter :: ListFilter where
  "any_filter = \<lparr>F_Status = Some ''pending'', F_Type = None, F_Tags = None, F_RunAfter = None,
     F_RunBefore = None, F_Limit = 0, F_Offset = 0\<rparr>"

theorem List_pages_witness:
  "concat (map (\<lambda>k. fst (projr (JobRepo_List None None 7
        (any_filter\<lparr>F_Limit := int 2, F_Offset := int (k * 2)\<rparr>) claim_db))) [0..<2]) =
     sort_key (\<lambda>j. - J_CreatedAt j) (filter (list_where 7 any_filter) (jobs claim_db))"
proof -
  have v: "valid_status_filter any_filter"
    by (simp add: valid_status_filter_def any_filter_def parse_job_status_def all_job_status_def)
  have len: "length (filter (list_where 7 any_filter) (jobs claim_db)) \<le> 2 * 2"
    using length_filter_le [of "list_where 7 any_filter" "jobs claim_db"] by (simp add: claim_db_def)
  show ?thesis using List_pages [OF v _ _ len] by simp
qed

section \<open>Insertion\<close>

lemma Create_cases:
  assumes "JobRepo_Create f j d = (r, d')"
  obtains (error) e where "r = Inl e" "d' = d"
    | (conflict) "r = Inr ()" "d' = d" "job_key_conflict j (jobs d)"
    | (new) "r = Inr ()" "d' = d\<lparr>jobs := jobs d @ [inserted_job j]\<rparr>" "job_violation j = None"
        "\<not> job_key_conflict j (jobs d)" "\<not> exists_id J_ID (J_ID j) (jobs d)" "job_fks j d"
  using assms
  by (cases f) (auto simp: JobRepo_Create_def insert_job_def split: option.splits if_splits)

lemma inserted_job_sel [simp]:
  "J_ID (inserted_job j) = J_ID j" "J_IdempotencyKey (inserted_job j) = J_IdempotencyKey j"
  "J_QueueID (inserted_job j) = J_QueueID j" "J_Priority (inserted_job j) = J_Priority j"
  "J_RetryStrategy (inserted_job j) = J_RetryStrategy j" "J_Tags (inserted_job j) = J_Tags j"
  "J_Status (inserted_job j) = J_Status j" "J_RunAt (inserted_job j) = J_RunAt j"
  by (simp_all add: inserted_job_def)

lemma job_violation_NoneD:
  assumes "job_violation j = None"
  shows "1 \<le> J_Priority j" "J_Priority j \<le> 10" "valid_strategy (J_RetryStrategy j)" "J_Tags j \<noteq> None"
  using assms unfolding job_violation_def first_violation_None by simp_all

lemma jobs_ok_create: "jobs_ok d \<Longrightarrow> JobRepo_Create f j d = (r, d') \<Longrightarrow> jobs_ok d'"
proof (erule Create_cases)
  assume ok: "jobs_ok d" and new: "d' = d\<lparr>jobs := jobs d @ [inserted_job j]\<rparr>" "job_violation j = None"
    "\<not> job_key_conflict j (jobs d)" "\<not> exists_id J_ID (J_ID j) (jobs d)" "job_fks j d"
  have "J_IdempotencyKey j = None \<or> J_IdempotencyKey j \<notin> J_IdempotencyKey ` set (jobs d)"
    using new(3) by (auto simp: job_key_conflict_def)
  moreover have "J_ID j \<notin> J_ID ` set (jobs d)" using new(4) by (auto simp: exists_id_def)
  moreover have "exists_id Q_ID (J_QueueID j) (queues d)" using new(5) by (simp add: job_fks_def)
  ultimately show "jobs_ok d'" using ok job_violation_NoneD [OF new(2)]
    by (auto simp: jobs_ok_def new(1))
qed simp_all

text \<open>An update that keeps the constrained columns keeps the constraints.\<close>

definition keeps_constraints :: "(Job \<Rightarrow> Job) \<Rightarrow> bool" where
  "keeps_constraints u \<longleftrightarrow> (\<forall>r. J_ID (u r) = J_ID r \<and> J_IdempotencyKey (u r) = J_IdempotencyKey r \<and>
     J_QueueID (u r) = J_QueueID r \<and> J_Priority (u r) = J_Priority r \<and>
     J_RetryStrategy (u r) = J_RetryStrategy r \<and> J_Tags (u r) = J_Tags r)"

lemma jobs_ok_update:
  assumes "jobs_ok d" and "keeps_constraints u"
  shows "jobs_ok (d\<lparr>jobs := sql_update P u (jobs d)\<rparr>)"
proof -
  have k: "map J_ID (sql_update P u (jobs d)) = map J_ID (jobs d)"
    "map J_IdempotencyKey (sql_update P u (jobs d)) = map J_IdempotencyKey (jobs d)"
    using assms(2) by (auto simp: keeps_constraints_def intro!: sql_update_keys)
  show ?thesis using assms unfolding jobs_ok_def
    by (auto simp: k sql_update_mem keeps_constraints_def)
qed

lemma jobs_ok_exec: "jobs_ok d \<Longrightarrow> keeps_constraints u \<Longrightarrow> jobs_ok (snd (job_exec f P u d))"
  by (cases f) (simp_all add: job_exec_def jobs_ok_update)

lemma jobs_ok_updates:
  assumes "jobs_ok d"
  shows "jobs_ok (snd (JobRepo_UpdateStatus f now i st d))"
    and "jobs_ok (snd (JobRepo_MarkSucceeded f now i t d))"
    and "jobs_ok (snd (JobRepo_MarkFailed f now i e t d))"
    and "jobs_ok (snd (JobRepo_MarkDead f now i e t d))"
    and "jobs_ok (snd (JobRepo_ScheduleRetry f now i t n d))"
    and "jobs_ok (snd (JobRepo_PromoteScheduled f now d))"
    and "jobs_ok (snd (JobRepo_ReclaimStale f now vis d))"
  using assms
  by (simp_all add: JobRepo_UpdateStatus_def JobRepo_MarkSucceeded_def JobRepo_MarkFailed_def
      JobRepo_MarkDead_def JobRepo_ScheduleRetry_def JobRepo_PromoteScheduled_def
      JobRepo_ReclaimStale_def ignore_tag_def jobs_ok_exec keeps_constraints_def)

lemma Cancel_snd: "snd (JobRepo_Cancel f now i d) = snd (job_exec f (\<lambda>j. J_ID j = i \<and> cancellable j)
    (\<lambda>j. j\<lparr>J_Status := StatusCancelled, J_UpdatedAt := now\<rparr>) d)"
  by (simp add: JobRepo_Cancel_def split: sum.splits prod.splits)

lemma jobs_ok_cancel: "jobs_ok d \<Longrightarrow> jobs_ok (snd (JobRepo_Cancel f now i d))"
  unfolding Cancel_snd by (rule jobs_ok_exec) (simp_all add: keeps_constraints_def)

lemma jobs_ok_claim: "jobs_ok d \<Longrightarrow> JobRepo_ClaimBatch cf locked now qid wid n conc d = (r, d') \<Longrightarrow> jobs_ok d'"
proof -
  assume ok: "jobs_ok d" and c: "JobRepo_ClaimBatch cf locked now qid wid n conc d = (r, d')"
  have "jobs_ok (claim_update wid now ids d)" for ids
    unfolding claim_update_def using ok by (rule jobs_ok_update) (simp add: keeps_constraints_def)
  with ok c show "jobs_ok d'"
    by (cases r) (auto dest: ClaimBatch_error elim!: ClaimBatch_cases)
qed

end
