(* ===== verification/QueueRepo.thy ===== *)
theory QueueRepo
  imports JobRepo
begin

text \<open>
  \<open>QueueRepo\<close> (\<open>internal/repository/postgres/queue.go\<close>). \<open>collate\<close> is the rank the
  database's collation gives a name in ORDER BY.
\<close>

definition queue_violation :: "Queue \<Rightarrow> goerr option" where
  "queue_violation q = first_violation
     [(int4 (Q_Priority q) \<and> int4 (Q_Concurrency q) \<and> int4 (Q_MaxRetries q) \<and>
        int4 (Q_RetryDelaySec q) \<and> int4 (Q_VisibilityTimeoutSec q) \<and> int4 (Q_JobTimeoutSec q), out_of_range),
      (valid_strategy (Q_RetryStrategy q), invalid_text),
      (length (Q_Name q) \<le> 255, string_too_long),
      (1 \<le> Q_Priority q \<and> Q_Priority q \<le> 10, check_violation),
      (0 < Q_Concurrency q, check_violation),
      (0 \<le> Q_MaxRetries q, check_violation),
      (0 < Q_RetryDelaySec q, check_violation),
      (0 < Q_VisibilityTimeoutSec q, check_violation),
      (0 < Q_JobTimeoutSec q, check_violation)]"

definition insert_queue :: "Queue \<Rightarrow> db \<Rightarrow> unit res \<times> db" where
  "insert_queue q d =
     (case queue_violation q of
        Some e \<Rightarrow> (Inl e, d)
      | None \<Rightarrow>
          if exists_id Q_ID (Q_ID q) (queues d) \<or>
             (\<exists>r\<in>set (queues d). Q_ProjectID r = Q_ProjectID q \<and> Q_Name r = Q_Name q)
          then (Inl unique_violation, d)
          else if \<not> exists_id P_ID (Q_ProjectID q) (projects d) \<or>
             (Q_DLQQueueID q \<noteq> Some (Q_ID q) \<and> \<not> fk_opt Q_ID (Q_DLQQueueID q) (queues d))
          then (Inl foreign_key_violation, d)
          else (Inr (), d\<lparr>queues := queues d @ [q]\<rparr>))"

definition QueueRepo_Create :: "fault \<Rightarrow> Queue \<Rightarrow> db \<Rightarrow> unit res \<times> db" where
  "QueueRepo_Create f q d =
     map_prod (insert_err (AlreadyExists ''queue name'') ''create queue'') id (db_call f (insert_queue q) d)"

definition QueueRepo_GetByID :: "fault \<Rightarrow> uuid \<Rightarrow> db \<Rightarrow> Queue res" where
  "QueueRepo_GetByID f i d = get_row (NotFound ''queue'') ''get queue by id'' f
     (sql_row (\<lambda>q. Q_ID q = i) (queues d))"

definition QueueRepo_GetByName :: "fault \<Rightarrow> uuid \<Rightarrow> string \<Rightarrow> db \<Rightarrow> Queue res" where
  "QueueRepo_GetByName f pid name d = get_row (NotFound ''queue'') ''get queue by name'' f
     (sql_row (\<lambda>q. Q_ProjectID q = pid \<and> Q_Name q = name) (queues d))"

definition QueueRepo_ListByProjectID :: "(string \<Rightarrow> int) \<Rightarrow> fault \<Rightarrow> uuid \<Rightarrow> db \<Rightarrow> Queue list res" where
  "QueueRepo_ListByProjectID collate f pid d = list_rows ''list queues'' f
     (sql_order (\<lambda>q. (Q_Priority q, collate (Q_Name q)))
        (sql_select (\<lambda>q. Q_ProjectID q = pid) (queues d)))"

definition QueueRepo_ListActivePrioritized :: "(string \<Rightarrow> int) \<Rightarrow> fault \<Rightarrow> db \<Rightarrow> Queue list res" where
  "QueueRepo_ListActivePrioritized collate f d = list_rows ''list active queues'' f
     (sql_order (\<lambda>q. (Q_Priority q, collate (Q_Name q)))
        (sql_select (\<lambda>q. Q_IsPaused q = False) (queues d)))"

definition set_queue_columns :: "Queue \<Rightarrow> time \<Rightarrow> Queue \<Rightarrow> Queue" where
  "set_queue_columns q now r = r\<lparr>Q_Name := Q_Name q, Q_Description := Q_Description q,
     Q_Priority := Q_Priority q, Q_Concurrency := Q_Concurrency q, Q_MaxRetries := Q_MaxRetries q,
     Q_RetryStrategy := Q_RetryStrategy q, Q_RetryDelaySec := Q_RetryDelaySec q,
     Q_VisibilityTimeoutSec := Q_VisibilityTimeoutSec q, Q_JobTimeoutSec := Q_JobTimeoutSec q,
     Q_DLQQueueID := Q_DLQQueueID q, Q_Metadata := Q_Metadata q, Q_UpdatedAt := now\<rparr>"

definition update_queue :: "Queue \<Rightarrow> time \<Rightarrow> db \<Rightarrow> nat res \<times> db" where
  "update_queue q now d =
     (let n = sql_count (\<lambda>r. Q_ID r = Q_ID q) (queues d) in
      if \<not> valid_strategy (Q_RetryStrategy q) then (Inl invalid_text, d)
      else if n = 0 then (Inr 0, d)
      else case queue_violation q of
        Some e \<Rightarrow> (Inl e, d)
      | None \<Rightarrow>
          if \<exists>r\<in>set (queues d). Q_ID r \<noteq> Q_ID q \<and> Q_Name r = Q_Name q \<and>
               (\<exists>s\<in>set (queues d). Q_ID s = Q_ID q \<and> Q_ProjectID s = Q_ProjectID r)
          then (Inl unique_violation, d)
          else if \<not> fk_opt Q_ID (Q_DLQQueueID q) (queues d) then (Inl foreign_key_violation, d)
          else (Inr n, d\<lparr>queues := sql_update (\<lambda>r. Q_ID r = Q_ID q) (set_queue_columns q now) (queues d)\<rparr>))"

definition QueueRepo_Update :: "fault \<Rightarrow> time \<Rightarrow> Queue \<Rightarrow> db \<Rightarrow> unit res \<times> db" where
  "QueueRepo_Update f now q = exec_tag (NotFound ''queue'') ''update queue'' f (update_queue q now)"

definition QueueRepo_Delete :: "fault \<Rightarrow> uuid \<Rightarrow> db \<Rightarrow> unit res \<times> db" where
  "QueueRepo_Delete f i = exec_tag (NotFound ''queue'') ''delete queue'' f
     (\<lambda>d. let n = sql_count (\<lambda>q. Q_ID q = i) (queues d) in
        (Inr n, if n = 0 then d else cascade_queues (\<lambda>x. x = i) d))"

definition QueueRepo_SetPaused :: "fault \<Rightarrow> time \<Rightarrow> uuid \<Rightarrow> bool \<Rightarrow> db \<Rightarrow> unit res \<times> db" where
  "QueueRepo_SetPaused f now i paused = exec_tag (NotFound ''queue'') ''set queue paused'' f
     (\<lambda>d. (Inr (sql_count (\<lambda>q. Q_ID q = i) (queues d)),
           d\<lparr>queues := sql_update (\<lambda>q. Q_ID q = i)
              (\<lambda>q. q\<lparr>Q_IsPaused := paused, Q_UpdatedAt := now\<rparr>) (queues d)\<rparr>))"

definition status_count :: "uuid \<Rightarrow> JobStatus \<Rightarrow> Job list \<Rightarrow> nat" where
  "status_count qid st rows = sql_count (\<lambda>j. J_Status j = st) (sql_select (\<lambda>j. J_QueueID j = qid) rows)"

definition QueueRepo_GetStats :: "fault \<Rightarrow> uuid \<Rightarrow> db \<Rightarrow> Stats res" where
  "QueueRepo_GetStats f i d =
     (case f of Some m \<Rightarrow> Inl (WrapErr ''get queue stats'' (PlainErr m))
      | None \<Rightarrow> Inr \<lparr>ST_QueueID = i,
          PendingCount = status_count i StatusPending (jobs d),
          ScheduledCount = status_count i StatusScheduled (jobs d),
          RunningCount = status_count i StatusRunning (jobs d),
          SucceededCount = status_count i StatusSucceeded (jobs d),
          FailedCount = status_count i StatusFailed (jobs d),
          DeadCount = status_count i StatusDead (jobs d),
          CancelledCount = status_count i StatusCancelled (jobs d)\<rparr>)"

section \<open>Facts\<close>

lemma status_count_Cons:
  "status_count qid st (j # js) = (if J_QueueID j = qid \<and> J_Status j = st then 1 else 0) + status_count qid st js"
  by (simp add: status_count_def sql_select_def)

lemma status_counts_total:
  "status_count qid StatusPending js + status_count qid StatusScheduled js +
   status_count qid StatusRunning js + status_count qid StatusSucceeded js +
   status_count qid StatusFailed js + status_count qid StatusDead js +
   status_count qid StatusCancelled js = length (filter (\<lambda>j. J_QueueID j = qid) js)"
proof (induction js)
  case Nil
  then show ?case by (simp add: status_count_def sql_select_def)
next
  case (Cons j js)
  then show ?case by (cases "J_Status j") (auto simp: status_count_Cons)
qed

lemma ListActive_order:
  assumes "QueueRepo_ListActivePrioritized collate f d = Inr qs"
  shows "set qs = {q \<in> set (queues d). \<not> Q_IsPaused q}" "sorted (map Q_Priority qs)"
proof -
  have qs: "qs = sql_order (\<lambda>q. (Q_Priority q, collate (Q_Name q)))
      (sql_select (\<lambda>q. Q_IsPaused q = False) (queues d))"
    using assms by (cases f) (simp_all add: QueueRepo_ListActivePrioritized_def)
  then show "set qs = {q \<in> set (queues d). \<not> Q_IsPaused q}"
    by (auto simp: sql_order_def sql_select_def)
  have "sorted (map (\<lambda>q. (Q_Priority q, collate (Q_Name q))) qs)" unfolding qs by (rule order_sorted)
  then show "sorted (map Q_Priority qs)"
    by (induction qs) (auto simp: less_eq_prod_def)
qed

end
