(* ===== verification/QueueService.thy ===== *)
theory QueueService
  imports QueueRepo
begin

text \<open>
  The queue service (\<open>internal/service/queue/service.go\<close>): requests, defaults, and the
  operations on top of \<open>QueueRepo\<close>. \<open>new_id\<close> is the identifier \<open>uuid.New()\<close>
  returned, \<open>clock\<close> the service's \<open>time.Now().UTC()\<close>, \<open>now\<close> the database's NOW().
\<close>

record QueueCreateRequest =
  QR_Name :: string
  QR_Description :: string
  QR_Priority :: int
  QR_Concurrency :: int
  QR_MaxRetries :: int
  QR_RetryStrategy :: string
  QR_RetryDelaySec :: int
  QR_VisibilityTimeoutSec :: int
  QR_JobTimeoutSec :: int
  QR_DLQQueueID :: "uuid option"
  QR_Metadata :: "jsonmap option"

record QueueUpdateRequest =
  QU_Description :: string
  QU_Priority :: int
  QU_Concurrency :: int
  QU_MaxRetries :: int
  QU_RetryStrategy :: string
  QU_RetryDelaySec :: int
  QU_VisibilityTimeoutSec :: int
  QU_JobTimeoutSec :: int
  QU_DLQQueueID :: "uuid option"
  QU_Metadata :: "jsonmap option"

record QueueResponse =
  QResp_ID :: uuid
  QResp_ProjectID :: uuid
  QResp_Name :: string
  QResp_Description :: string
  QResp_Priority :: int
  QResp_Concurrency :: int
  QResp_MaxRetries :: int
  QResp_RetryStrategy :: string
  QResp_RetryDelaySec :: int
  QResp_VisibilityTimeoutSec :: int
  QResp_JobTimeoutSec :: int
  QResp_IsPaused :: bool
  QResp_IsDLQ :: bool
  QResp_DLQQueueID :: "uuid option"
  QResp_Metadata :: "jsonmap option"
  QResp_CreatedAt :: time
  QResp_UpdatedAt :: time

definition queue_setDefaults :: "QueueCreateRequest \<Rightarrow> QueueCreateRequest" where
  "queue_setDefaults req = req\<lparr>
     QR_Priority := (if QR_Priority req = 0 then 5 else QR_Priority req),
     QR_Concurrency := (if QR_Concurrency req = 0 then 10 else QR_Concurrency req),
     QR_MaxRetries := (if QR_MaxRetries req = 0 then 3 else QR_MaxRetries req),
     QR_RetryStrategy := (if QR_RetryStrategy req = [] then ''exponential'' else QR_RetryStrategy req),
     QR_RetryDelaySec := (if QR_RetryDelaySec req = 0 then 60 else QR_RetryDelaySec req),
     QR_VisibilityTimeoutSec :=
       (if QR_VisibilityTimeoutSec req = 0 then 300 else QR_VisibilityTimeoutSec req),
     QR_JobTimeoutSec := (if QR_JobTimeoutSec req = 0 then 300 else QR_JobTimeoutSec req)\<rparr>"

definition toQueueResponse :: "Queue \<Rightarrow> QueueResponse" where
  "toQueueResponse q = \<lparr>QResp_ID = Q_ID q, QResp_ProjectID = Q_ProjectID q, QResp_Name = Q_Name q,
     QResp_Description = Q_Description q, QResp_Priority = Q_Priority q,
     QResp_Concurrency = Q_Concurrency q, QResp_MaxRetries = Q_MaxRetries q,
     QResp_RetryStrategy = Q_RetryStrategy q, QResp_RetryDelaySec = Q_RetryDelaySec q,
     QResp_VisibilityTimeoutSec = Q_VisibilityTimeoutSec q, QResp_JobTimeoutSec = Q_JobTimeoutSec q,
     QResp_IsPaused = Q_IsPaused q, QResp_IsDLQ = Q_IsDLQ q, QResp_DLQQueueID = Q_DLQQueueID q,
     QResp_Metadata = Q_Metadata q, QResp_CreatedAt = Q_CreatedAt q, QResp_UpdatedAt = Q_UpdatedAt q\<rparr>"

definition new_queue :: "uuid \<Rightarrow> time \<Rightarrow> uuid \<Rightarrow> QueueCreateRequest \<Rightarrow> Queue" where
  "new_queue new_id clock projectID req = \<lparr>Q_ID = new_id, Q_ProjectID = projectID,
     Q_Name = TrimSpace (QR_Name req), Q_Description = TrimSpace (QR_Description req),
     Q_Priority = QR_Priority req, Q_Concurrency = QR_Concurrency req,
     Q_MaxRetries = QR_MaxRetries req, Q_RetryStrategy = QR_RetryStrategy req,
     Q_RetryDelaySec = QR_RetryDelaySec req,
     Q_VisibilityTimeoutSec = QR_VisibilityTimeoutSec req, Q_JobTimeoutSec = QR_JobTimeoutSec req,
     Q_IsPaused = False, Q_IsDLQ = False, Q_DLQQueueID = QR_DLQQueueID req,
     Q_Metadata = QR_Metadata req, Q_CreatedAt = clock, Q_UpdatedAt = clock\<rparr>"

definition queue_svc_Create ::
  "fault \<Rightarrow> uuid \<Rightarrow> time \<Rightarrow> uuid \<Rightarrow> QueueCreateRequest \<Rightarrow> db \<Rightarrow> QueueResponse res \<times> db" where
  "queue_svc_Create f new_id clock projectID req0 d =
     (let req = queue_setDefaults req0; q = new_queue new_id clock projectID req in
      case QueueRepo_Create f q d of
        (Inl e, d') \<Rightarrow> (Inl e, d')
      | (Inr _, d') \<Rightarrow> (Inr (toQueueResponse q), d'))"

definition queue_svc_GetByID :: "fault \<Rightarrow> uuid \<Rightarrow> db \<Rightarrow> QueueResponse res" where
  "queue_svc_GetByID f i d = map_sum id toQueueResponse (QueueRepo_GetByID f i d)"

definition queue_svc_ListByProject ::
  "(string \<Rightarrow> int) \<Rightarrow> fault \<Rightarrow> uuid \<Rightarrow> db \<Rightarrow> QueueResponse list res" where
  "queue_svc_ListByProject collate f pid d =
     map_sum id (map toQueueResponse) (QueueRepo_ListByProjectID collate f pid d)"

definition apply_queue_update :: "time \<Rightarrow> QueueUpdateRequest \<Rightarrow> Queue \<Rightarrow> Queue" where
  "apply_queue_update clock req q = q\<lparr>Q_Description := TrimSpace (QU_Description req),
     Q_Priority := QU_Priority req, Q_Concurrency := QU_Concurrency req,
     Q_MaxRetries := QU_MaxRetries req, Q_RetryStrategy := QU_RetryStrategy req,
     Q_RetryDelaySec := QU_RetryDelaySec req,
     Q_VisibilityTimeoutSec := QU_VisibilityTimeoutSec req,
     Q_JobTimeoutSec := QU_JobTimeoutSec req, Q_DLQQueueID := QU_DLQQueueID req,
     Q_Metadata := QU_Metadata req, Q_UpdatedAt := clock\<rparr>"

definition queue_svc_Update ::
  "fault \<Rightarrow> fault \<Rightarrow> time \<Rightarrow> time \<Rightarrow> uuid \<Rightarrow> QueueUpdateRequest \<Rightarrow> db \<Rightarrow> QueueResponse res \<times> db" where
  "queue_svc_Update f_get f_upd clock now i req d =
     (case QueueRepo_GetByID f_get i d of
        Inl e \<Rightarrow> (Inl e, d)
      | Inr q0 \<Rightarrow> (let q = apply_queue_update clock req q0 in
          case QueueRepo_Update f_upd now q d of
            (Inl e, d') \<Rightarrow> (Inl e, d')
          | (Inr _, d') \<Rightarrow> (Inr (toQueueResponse q), d')))"

definition queue_svc_Delete :: "fault \<Rightarrow> uuid \<Rightarrow> db \<Rightarrow> unit res \<times> db" where
  "queue_svc_Delete f i d = QueueRepo_Delete f i d"

definition queue_svc_Pause :: "fault \<Rightarrow> fault \<Rightarrow> time \<Rightarrow> uuid \<Rightarrow> db \<Rightarrow> unit res \<times> db" where
  "queue_svc_Pause f_get f_set now i d =
     (case QueueRepo_GetByID f_get i d of
        Inl e \<Rightarrow> (Inl e, d)
      | Inr q \<Rightarrow> if Q_IsPaused q then (Inl (Conflict ''queue is already paused''), d)
                 else QueueRepo_SetPaused f_set now i True d)"

definition queue_svc_Resume :: "fault \<Rightarrow> fault \<Rightarrow> time \<Rightarrow> uuid \<Rightarrow> db \<Rightarrow> unit res \<times> db" where
  "queue_svc_Resume f_get f_set now i d =
     (case QueueRepo_GetByID f_get i d of
        Inl e \<Rightarrow> (Inl e, d)
      | Inr q \<Rightarrow> if \<not> Q_IsPaused q then (Inl (Conflict ''queue is not paused''), d)
                 else QueueRepo_SetPaused f_set now i False d)"

definition queue_svc_GetStats :: "fault \<Rightarrow> uuid \<Rightarrow> db \<Rightarrow> Stats res" where
  "queue_svc_GetStats f i d = QueueRepo_GetStats f i d"

section \<open>Facts\<close>

lemma QueueRepo_GetByID_ok:
  "QueueRepo_GetByID f i d = Inr q \<longleftrightarrow> f = None \<and> sql_row (\<lambda>q. Q_ID q = i) (queues d) = Some q"
  by (simp add: QueueRepo_GetByID_def get_row_ok)

lemma queue_pause_at:
  assumes "sql_row (\<lambda>q. Q_ID q = i) (queues d) = Some q"
  shows "QueueRepo_SetPaused None now i b d = (Inr (), d\<lparr>queues := sql_update (\<lambda>q. Q_ID q = i)
     (\<lambda>q. q\<lparr>Q_IsPaused := b, Q_UpdatedAt := now\<rparr>) (queues d)\<rparr>)"
proof -
  have "sql_count (\<lambda>q. Q_ID q = i) (queues d) \<noteq> 0"
    using sql_row_Some [OF assms] by (auto simp: sql_count_0)
  then show ?thesis by (simp add: QueueRepo_SetPaused_def exec_tag_def)
qed

lemma queue_paused_row:
  assumes "sql_row (\<lambda>q. Q_ID q = i) (queues d) = Some q"
  shows "sql_row (\<lambda>q. Q_ID q = i) (sql_update (\<lambda>q. Q_ID q = i)
     (\<lambda>q. q\<lparr>Q_IsPaused := b, Q_UpdatedAt := now\<rparr>) (queues d)) =
     Some (q\<lparr>Q_IsPaused := b, Q_UpdatedAt := now\<rparr>)"
  using assms by (subst sql_row_update_key) simp_all

text \<open>Pause and Resume alternate. On an existing queue Pause succeeds exactly when it is
  running and Resume exactly when it is paused; after a Pause the queue is paused, a second Pause
  is a conflict that changes nothing, and a Resume brings back the row as it was but for
  updated_at.\<close>

theorem pause_resume_protocol:
  assumes "sql_row (\<lambda>q. Q_ID q = i) (queues d) = Some q" and "\<not> Q_IsPaused q"
  shows "\<exists>d1. queue_svc_Pause None None ta i d = (Inr (), d1) \<and>
      queue_svc_Pause fg fs tb i d1 =
        (if fg = None then (Inl (Conflict ''queue is already paused''), d1)
         else (Inl (WrapErr ''get queue by id'' (PlainErr (the fg))), d1)) \<and>
      (\<exists>d2. queue_svc_Resume None None tc i d1 = (Inr (), d2) \<and>
        sql_row (\<lambda>q. Q_ID q = i) (queues d2) = Some (q\<lparr>Q_UpdatedAt := tc\<rparr>) \<and>
        (\<forall>k. k \<noteq> i \<longrightarrow> sql_row (\<lambda>q. Q_ID q = k) (queues d2) = sql_row (\<lambda>q. Q_ID q = k) (queues d))) \<and>
      queue_svc_Resume None fs tb i d = (Inl (Conflict ''queue is not paused''), d)"
proof -
  let ?P = "\<lambda>q. Q_ID q = i"
  let ?set = "\<lambda>b t q. q\<lparr>Q_IsPaused := b, Q_UpdatedAt := t\<rparr> :: Queue"
  define d1 where "d1 = d\<lparr>queues := sql_update ?P (?set True ta) (queues d)\<rparr>"
  define d2 where "d2 = d1\<lparr>queues := sql_update ?P (?set False tc) (queues d1)\<rparr>"
  have r1: "sql_row ?P (queues d1) = Some (?set True ta q)"
    using queue_paused_row [OF assms(1)] by (simp add: d1_def)
  have r2: "sql_row ?P (queues d2) = Some (q\<lparr>Q_UpdatedAt := tc\<rparr>)"
    using queue_paused_row [OF r1, where b = False and now = tc] assms(2) by (simp add: d2_def)
  have "queue_svc_Pause None None ta i d = (Inr (), d1)"
    using assms queue_pause_at [OF assms(1)]
    by (simp add: queue_svc_Pause_def QueueRepo_GetByID_def d1_def)
  moreover have "queue_svc_Pause fg fs tb i d1 =
      (if fg = None then (Inl (Conflict ''queue is already paused''), d1)
       else (Inl (WrapErr ''get queue by id'' (PlainErr (the fg))), d1))"
    using r1 by (cases fg) (simp_all add: queue_svc_Pause_def QueueRepo_GetByID_def)
  moreover have "queue_svc_Resume None None tc i d1 = (Inr (), d2)"
    using r1 queue_pause_at [OF r1] by (simp add: queue_svc_Resume_def QueueRepo_GetByID_def d2_def)
  moreover have "queue_svc_Resume None fs tb i d = (Inl (Conflict ''queue is not paused''), d)"
    using assms by (simp add: queue_svc_Resume_def QueueRepo_GetByID_def)
  moreover have "sql_row (\<lambda>q. Q_ID q = k) (queues d2) = sql_row (\<lambda>q. Q_ID q = k) (queues d)"
    if "k \<noteq> i" for k
    using that by (simp add: d2_def d1_def sql_row_update_other)
  ultimately show ?thesis using r2 by blast
qed

theorem pause_resume_protocol_witness:
  "fst (queue_svc_Pause None None 5 7 (sample_db [])) = Inr ()"
proof -
  have h: "sql_row (\<lambda>q. Q_ID q = 7) (queues (sample_db [])) = Some sample_queue"
    "\<not> Q_IsPaused sample_queue" by simp_all
  show ?thesis using pause_resume_protocol [OF h, where ta = 5 and fg = None and fs = None and tb = 6 and tc = 7]
    by auto
qed

lemma queue_violation_NoneD:
  assumes "queue_violation q = None"
  shows "1 \<le> Q_Priority q" "Q_Priority q \<le> 10" "0 < Q_Concurrency q" "0 \<le> Q_MaxRetries q"
    "valid_strategy (Q_RetryStrategy q)" "0 < Q_RetryDelaySec q" "0 < Q_JobTimeoutSec q"
  using assms unfolding queue_violation_def first_violation_None by simp_all

lemma QueueRepo_Create_cases:
  assumes "QueueRepo_Create f q d = (r, d')"
  obtains (error) e where "r = Inl e" "d' = d"
    | (new) "r = Inr ()" "d' = d\<lparr>queues := queues d @ [q]\<rparr>" "queue_violation q = None"
        "\<not> exists_id Q_ID (Q_ID q) (queues d)"
        "\<forall>r\<in>set (queues d). \<not> (Q_ProjectID r = Q_ProjectID q \<and> Q_Name r = Q_Name q)"
        "exists_id P_ID (Q_ProjectID q) (projects d)"
  using assms
  by (cases f) (auto simp: QueueRepo_Create_def insert_queue_def insert_err_def
      split: option.splits if_splits)

text \<open>Creating a queue either reports an error and leaves the database alone, or appends one
  row, the one the response shows: in the project asked for, with a trimmed name no other queue
  of the project has, not paused, and within the bounds of the schema. A request for zero retries
  is stored as three, so a stored queue always allows at least one.\<close>

theorem queue_create_spec:
  "case queue_svc_Create f new_id clock pid req d of
     (Inl e, d') \<Rightarrow> d' = d
   | (Inr resp, d') \<Rightarrow> (\<exists>q. d' = d\<lparr>queues := queues d @ [q]\<rparr> \<and> resp = toQueueResponse q \<and>
       Q_ID q = new_id \<and> Q_ProjectID q = pid \<and> Q_Name q = TrimSpace (QR_Name req) \<and>
       \<not> Q_IsPaused q \<and> 1 \<le> Q_Priority q \<and> Q_Priority q \<le> 10 \<and> 1 \<le> Q_Concurrency q \<and>
       1 \<le> Q_MaxRetries q \<and> Q_MaxRetries q = (if QR_MaxRetries req = 0 then 3 else QR_MaxRetries req) \<and>
       valid_strategy (Q_RetryStrategy q) \<and> 0 < Q_RetryDelaySec q \<and> 0 < Q_JobTimeoutSec q \<and>
       (\<forall>r\<in>set (queues d). Q_ID r \<noteq> new_id \<and> \<not> (Q_ProjectID r = pid \<and> Q_Name r = Q_Name q)))"
proof -
  let ?q = "new_queue new_id clock pid (queue_setDefaults req)"
  have sel: "Q_ID ?q = new_id" "Q_ProjectID ?q = pid" "Q_Name ?q = TrimSpace (QR_Name req)"
    "\<not> Q_IsPaused ?q" "Q_MaxRetries ?q = (if QR_MaxRetries req = 0 then 3 else QR_MaxRetries req)"
    by (simp_all add: new_queue_def queue_setDefaults_def)
  obtain r d' where c: "QueueRepo_Create f ?q d = (r, d')" by (cases "QueueRepo_Create f ?q d")
  then show ?thesis
  proof (cases rule: QueueRepo_Create_cases)
    case (error e)
    then show ?thesis using c by (simp add: queue_svc_Create_def Let_def)
  next
    case new
    have "1 \<le> Q_MaxRetries ?q" using queue_violation_NoneD(4) [OF new(3)] sel(5) by (auto split: if_splits)
    have e: "queue_svc_Create f new_id clock pid req d = (Inr (toQueueResponse ?q), d')"
      using c new(1) by (simp add: queue_svc_Create_def Let_def)
    have names: "\<forall>r\<in>set (queues d). Q_ID r \<noteq> new_id \<and> \<not> (Q_ProjectID r = pid \<and> Q_Name r = Q_Name ?q)"
      using new(4,5) sel(1,2) by (auto simp: exists_id_def)
    show ?thesis unfolding e prod.case sum.case
      by (intro exI [of _ ?q] conjI names)
        (use new(2) sel \<open>1 \<le> Q_MaxRetries ?q\<close> queue_violation_NoneD [OF new(3)] in auto)
  qed
qed

definition sample_project :: Project where
  "sample_project = \<lparr>P_ID = 70, P_OrgID = 700, P_Name = ''shop'', P_Slug = ''shop'', P_Description = [],
     P_APIKeyHash = ''h'', P_APIKeyPrefix = ''jsk_'', P_IsActive = True, P_CreatedAt = 0, P_UpdatedAt = 0\<rparr>"

definition project_db :: db where
  "project_db = empty_db\<lparr>projects := [sample_project]\<rparr>"

definition sample_queue_request :: QueueCreateRequest where
  "sample_queue_request = \<lparr>QR_Name = '' mail '', QR_Description = [], QR_Priority = 0,
     QR_Concurrency = 4, QR_MaxRetries = 0, QR_RetryStrategy = [], QR_RetryDelaySec = 0,
     QR_VisibilityTimeoutSec = 0, QR_JobTimeoutSec = 0, QR_DLQQueueID = None, QR_Metadata = None\<rparr>"

lemma sample_queue_created:
  "\<exists>resp d'. queue_svc_Create None 9 5 70 sample_queue_request project_db = (Inr resp, d')"
  by (simp add: queue_svc_Create_def Let_def queue_setDefaults_def new_queue_def sample_queue_request_def
      QueueRepo_Create_def insert_queue_def queue_violation_def int4_def valid_strategy_def project_db_def
      empty_db_def exists_id_def sample_project_def fk_opt_def TrimSpace_def TrimLeft_def is_space_def)

theorem queue_create_spec_witness:
  "\<exists>q. snd (queue_svc_Create None 9 5 70 sample_queue_request project_db) = project_db\<lparr>queues := [q]\<rparr> \<and>
     Q_MaxRetries q = 3 \<and> Q_ProjectID q = 70"
proof -
  obtain resp d' where e: "queue_svc_Create None 9 5 70 sample_queue_request project_db = (Inr resp, d')"
    using sample_queue_created by blast
  have "queues project_db = []" "QR_MaxRetries sample_queue_request = 0"
    by (simp_all add: project_db_def empty_db_def sample_queue_request_def)
  then show ?thesis
    using queue_create_spec [where f = None and new_id = 9 and clock = 5 and pid = 70
        and req = sample_queue_request and d = project_db] unfolding e by auto
qed

text \<open>The seven status counts of a queue's statistics add up to the number of its jobs, so
  no job is missed or counted twice.\<close>

theorem queue_stats_complete:
  "case queue_svc_GetStats f i d of
     Inl e \<Rightarrow> f \<noteq> None
   | Inr st \<Rightarrow> PendingCount st + ScheduledCount st + RunningCount st + SucceededCount st +
       FailedCount st + DeadCount st + CancelledCount st =
       length (filter (\<lambda>j. J_QueueID j = i) (jobs d))"
  using status_counts_total [of i "jobs d"]
  by (cases f) (simp_all add: queue_svc_GetStats_def QueueRepo_GetStats_def)

end
