(* ===== verification/Executor.thy ===== *)
theory Executor
  imports JobRepo Retry
begin

text \<open>
  The handler registry and the executor (\<open>internal/worker/registry.go\<close>,
  \<open>internal/worker/executor.go\<close>). The executor is written over the three repository
  operations it calls; the locale \<open>job_store\<close> states what it relies on, and
  \<open>JobRepo\<close> provides it.
\<close>

section \<open>Registry\<close>

text \<open>
  A handler sees the timeout of its context and the job. It returns nil or an error, or panics:
  neither the executor nor the pool recovers. A registry is the map from job types.
\<close>

datatype hresult = HOk | HErr goerr | HPanic

type_synonym handler = "duration \<Rightarrow> Job \<Rightarrow> hresult"
type_synonym registry = "string \<Rightarrow> handler option"

definition NewRegistry :: registry where
  "NewRegistry = (\<lambda>_. None)"

definition go_quote :: "string \<Rightarrow> string" where
  "go_quote s = CHR 0x22 # s @ [CHR 0x22]"

text \<open>None is the panic of a second registration of the type.\<close>

definition Registry_Register :: "registry \<Rightarrow> string \<Rightarrow> handler \<Rightarrow> registry option" where
  "Registry_Register r jobType fn = (if r jobType \<noteq> None then None else Some (r(jobType := Some fn)))"

definition Registry_Get :: "registry \<Rightarrow> string \<Rightarrow> handler res" where
  "Registry_Get r jobType =
     (case r jobType of
        None \<Rightarrow> Inl (PlainErr (''no handler registered for job type '' @ go_quote jobType))
      | Some fn \<Rightarrow> Inr fn)"

definition Registry_Types :: "registry \<Rightarrow> string set" where
  "Registry_Types r = dom r"

section \<open>Execute\<close>

text \<open>
  \<open>X_end\<close> is the clock when the outcome is recorded; the other fields are the draws of the
  backoff. Errors of the repository calls are logged and dropped.
\<close>

record exec_env =
  X_conv :: "int \<Rightarrow> duration"
  X_rnd :: "int \<Rightarrow> int"
  X_coin :: nat
  X_end :: time

datatype exec_end = ExecDone | ExecPanic

definition job_timeout :: "Job \<Rightarrow> duration" where
  "job_timeout j = Duration_of (J_TimeoutSec j) * time_Second"

definition retry_policy :: "Job \<Rightarrow> Policy" where
  "retry_policy j = \<lparr>MaxRetries = J_MaxRetries j, Strategy = J_RetryStrategy j,
     BaseDelay = Duration_of (J_RetryDelaySec j) * time_Second,
     MaxDelay = 24 * time_Hour, Jitter = (J_RetryStrategy j = ''exponential'')\<rparr>"

definition Executor_Execute ::
  "(uuid \<Rightarrow> time \<Rightarrow> 's \<Rightarrow> unit res \<times> 's) \<Rightarrow> (uuid \<Rightarrow> string \<Rightarrow> time \<Rightarrow> 's \<Rightarrow> unit res \<times> 's) \<Rightarrow>
   (uuid \<Rightarrow> time \<Rightarrow> int \<Rightarrow> 's \<Rightarrow> unit res \<times> 's) \<Rightarrow> registry \<Rightarrow> exec_env \<Rightarrow> Job \<Rightarrow> 's \<Rightarrow> exec_end \<times> 's" where
  "Executor_Execute succeed dead retry reg env j s =
     (case Registry_Get reg (J_Type j) of
        Inl _ \<Rightarrow> (ExecDone, snd (dead (J_ID j) (''no handler for type: '' @ J_Type j) (X_end env) s))
      | Inr handler \<Rightarrow>
          (case handler (job_timeout j) j of
             HPanic \<Rightarrow> (ExecPanic, s)
           | HOk \<Rightarrow> (ExecDone, snd (succeed (J_ID j) (X_end env) s))
           | HErr execErr \<Rightarrow>
               (let errMsg = err_Error execErr; nextAttempt = J_AttemptCount j + 1 in
                if nextAttempt < J_MaxRetries j then
                  (case NextRunAt (X_conv env) (X_rnd env) (X_coin env) (retry_policy j) nextAttempt (X_end env) of
                     None \<Rightarrow> (ExecPanic, s)
                   | Some nextRunAt \<Rightarrow> (ExecDone, snd (retry (J_ID j) nextRunAt nextAttempt s)))
                else (ExecDone, snd (dead (J_ID j) errMsg (X_end env) s)))))"

section \<open>The backoff of a job\<close>

lemma base_delay_sint:
  assumes "int4 (J_RetryDelaySec j)"
  shows "sint (BaseDelay (retry_policy j)) = J_RetryDelaySec j * 1000000000"
proof -
  have "- (2 ^ 63) \<le> J_RetryDelaySec j * 1000000000" "J_RetryDelaySec j * 1000000000 < 2 ^ 63"
    using assms by (simp_all add: int4_def)
  then have "sint (word_of_int (J_RetryDelaySec j * 1000000000) :: duration) = J_RetryDelaySec j * 1000000000"
    by (rule sint_int64)
  then show ?thesis by (simp add: retry_policy_def Duration_of_def time_Second_def)
qed

lemma f64_nonpos: "n \<le> 0 \<Longrightarrow> f64_of_int n \<le> 0"
proof -
  assume n: "n \<le> 0"
  define m where "m = (2::int) ^ (bit_len \<bar>n\<bar> - 53)"
  have m: "0 < m" by (simp add: m_def)
  have q: "0 \<le> \<bar>n\<bar> div m" using m by (simp add: pos_imp_zdiv_nonneg_iff)
  have "f64_of_int n = n \<or> (\<exists>c\<ge>0. f64_of_int n = sgn n * c * m)"
  proof (cases "\<bar>n\<bar> < 2 ^ 53")
    case False
    have "f64_of_int n = sgn n * (if 2 * (\<bar>n\<bar> mod m) < m \<or> (2 * (\<bar>n\<bar> mod m) = m \<and> even (\<bar>n\<bar> div m))
        then \<bar>n\<bar> div m else \<bar>n\<bar> div m + 1) * m"
      using False by (simp only: f64_of_int_def Let_def m_def if_False)
    moreover have "0 \<le> (if b then \<bar>n\<bar> div m else \<bar>n\<bar> div m + 1)" for b using q by simp
    ultimately show ?thesis by blast
  qed (simp add: f64_small)
  moreover have "sgn n * c * m \<le> 0" if "0 \<le> c" for c
    using n m that by (simp add: sgn_if mult_le_0_iff)
  ultimately show "f64_of_int n \<le> 0" using n by auto
qed

lemma exp_delay_ne_1:
  assumes "f64_of_int (sint base) * 2 ^ nat (n - 1) \<noteq> 1" and "\<And>s. conv s \<noteq> 1"
  shows "exp_delay conv base n \<noteq> 1"
proof -
  define v where "v = f64_of_int (sint base) * 2 ^ nat (n - 1)"
  have e: "exp_delay conv base n = (if 1024 \<le> nat (n - 1) then conv (sgn (f64_of_int (sint base)))
      else if - (2 ^ 63) \<le> v \<and> v < 2 ^ 63 then word_of_int v else conv (sgn v))"
    by (simp only: exp_delay_def Let_def v_def)
  have one: "sint (1 :: duration) = 1" by simp
  have "word_of_int v \<noteq> (1 :: duration)" if "- (2 ^ 63) \<le> v" "v < 2 ^ 63"
  proof
    assume "word_of_int v = (1 :: duration)"
    then show False using sint_int64 [OF that] assms(1) one by (simp only: v_def)
  qed
  then show ?thesis using assms(2) unfolding e by (simp split: if_split)
qed

lemma exp_delay_not_1:
  assumes "int4 (J_RetryDelaySec j)" and "\<And>s. conv s \<noteq> 1"
  shows "sint (exp_delay conv (BaseDelay (retry_policy j)) n) \<noteq> 1"
proof -
  let ?b = "sint (BaseDelay (retry_policy j))"
  have "f64_of_int ?b * 2 ^ nat (n - 1) \<noteq> 1"
  proof (cases "J_RetryDelaySec j \<le> 0")
    case True
    then have "f64_of_int ?b \<le> 0" by (simp add: base_delay_sint [OF assms(1)] f64_nonpos)
    then have "f64_of_int ?b * 2 ^ nat (n - 1) \<le> 0" by (simp add: mult_le_0_iff)
    then show ?thesis by linarith
  next
    case False
    then have "f64_of_int ?b = J_RetryDelaySec j * 1000000000"
      using assms(1) f64_seconds [of "J_RetryDelaySec j"]
      by (simp add: base_delay_sint [OF assms(1)] int4_def)
    then have e: "f64_of_int ?b * 2 ^ nat (n - 1) = 2 * (J_RetryDelaySec j * 500000000 * 2 ^ nat (n - 1))"
      by (simp only:)
    have "2 * m \<noteq> (1::int)" for m by presburger
    then show ?thesis unfolding e by blast
  qed
  then have "exp_delay conv (BaseDelay (retry_policy j)) n \<noteq> 1" using assms(2) by (rule exp_delay_ne_1)
  moreover have "sint w = 1 \<Longrightarrow> w = 1" for w :: duration
    by (rule signed_word_eqI) simp
  ultimately show ?thesis by blast
qed

text \<open>A job of the table always has a next run time: the backoff does not panic.\<close>

lemma retry_delay_exists:
  assumes "int4 (J_RetryDelaySec j)" and "\<And>s. conv s \<noteq> 1"
  shows "\<exists>d. NextRunAt conv rnd coin (retry_policy j) n t = Some (t + sint d) \<and>
    NextDelay conv rnd coin (retry_policy j) n = Some d"
proof -
  have "NextDelay conv rnd coin (retry_policy j) n \<noteq> None"
    using assms by (intro NextDelay_no_panic exp_delay_not_1)
  then show ?thesis by (auto simp: NextRunAt_def time_Add_def)
qed

lemma retry_delay_range:
  assumes "int4 (J_RetryDelaySec j)" and "0 \<le> J_RetryDelaySec j"
    and "NextDelay conv rnd coin (retry_policy j) n = Some d"
  shows "0 \<le> sint d \<and> sint d \<le> max 86400000000000 (J_RetryDelaySec j * 1000000000)"
proof -
  have "sint (effective_cap (retry_policy j)) = 86400000000000"
    by (simp add: retry_policy_def effective_cap_def time_Hour_def)
  then show ?thesis using NextDelay_capped [OF _ assms(3)] assms(1,2) by (simp add: base_delay_sint)
qed

section \<open>What the executor relies on\<close>

definition set_succeeded :: "time \<Rightarrow> time \<Rightarrow> Job \<Rightarrow> Job" where
  "set_succeeded now t j =
     j\<lparr>J_Status := StatusSucceeded, J_CompletedAt := Some t, J_UpdatedAt := now\<rparr>"

definition set_dead :: "time \<Rightarrow> string \<Rightarrow> time \<Rightarrow> Job \<Rightarrow> Job" where
  "set_dead now msg t j =
     j\<lparr>J_Status := StatusDead, J_AttemptCount := J_AttemptCount j + 1, J_LastError := Some msg,
       J_LastErrorAt := Some t, J_CompletedAt := Some t, J_UpdatedAt := now\<rparr>"

definition set_retry :: "time \<Rightarrow> time \<Rightarrow> int \<Rightarrow> Job \<Rightarrow> Job" where
  "set_retry now runAt n j =
     j\<lparr>J_Status := StatusPending, J_RunAt := runAt, J_AttemptCount := n, J_ClaimedBy := None,
       J_ClaimedAt := None, J_UpdatedAt := now\<rparr>"

lemmas set_row_defs = set_succeeded_def set_dead_def set_retry_def

text \<open>All an execution can do to the row of its job.\<close>

definition outcome_update :: "time \<Rightarrow> Job \<Rightarrow> (Job \<Rightarrow> Job) \<Rightarrow> bool" where
  "outcome_update now j u \<longleftrightarrow> u = (\<lambda>r. r) \<or> (\<exists>t. u = set_succeeded now t) \<or> (\<exists>m t. u = set_dead now m t) \<or>
     (J_AttemptCount j + 1 < J_MaxRetries j \<and> (\<exists>t. u = set_retry now t (J_AttemptCount j + 1)))"

text \<open>
  A store of jobs: an operation that reports success has rewritten the row of its job and no
  other; one that reports an error has done nothing.
\<close>

locale job_store =
  fixes row :: "'s \<Rightarrow> uuid \<Rightarrow> Job option"
    and succeed :: "uuid \<Rightarrow> time \<Rightarrow> 's \<Rightarrow> unit res \<times> 's"
    and dead :: "uuid \<Rightarrow> string \<Rightarrow> time \<Rightarrow> 's \<Rightarrow> unit res \<times> 's"
    and retry :: "uuid \<Rightarrow> time \<Rightarrow> int \<Rightarrow> 's \<Rightarrow> unit res \<times> 's"
    and now :: time
  assumes succeed_row: "row (snd (succeed i t s)) k =
      (if is_ok (fst (succeed i t s)) \<and> k = i then map_option (set_succeeded now t) (row s i) else row s k)"
    and dead_row: "row (snd (dead i m t s)) k =
      (if is_ok (fst (dead i m t s)) \<and> k = i then map_option (set_dead now m t) (row s i) else row s k)"
    and retry_row: "row (snd (retry i t n s)) k =
      (if is_ok (fst (retry i t n s)) \<and> k = i then map_option (set_retry now t n) (row s i) else row s k)"
begin

lemma Execute_frame:
  "k \<noteq> J_ID j \<Longrightarrow> row (snd (Executor_Execute succeed dead retry reg env j s)) k = row s k"
  by (auto simp: Executor_Execute_def Let_def succeed_row dead_row retry_row
      split: sum.split hresult.split option.split)

lemma Execute_row:
  "\<exists>u. row (snd (Executor_Execute succeed dead retry reg env j s)) (J_ID j) = map_option u (row s (J_ID j)) \<and>
     outcome_update now j u"
proof -
  have row_id: "row s k = map_option (\<lambda>r. r) (row s k)" for k by (simp add: option.map_ident)
  let ?x = "snd (Executor_Execute succeed dead retry reg env j s)"
  have "?x = s \<or> (\<exists>t. ?x = snd (succeed (J_ID j) t s)) \<or> (\<exists>m t. ?x = snd (dead (J_ID j) m t s)) \<or>
      (\<exists>t. ?x = snd (retry (J_ID j) t (J_AttemptCount j + 1) s) \<and> J_AttemptCount j + 1 < J_MaxRetries j)"
    by (cases "Registry_Get reg (J_Type j)")
      (auto simp: Executor_Execute_def Let_def split: hresult.splits option.splits if_splits)
  then consider "?x = s" | t where "?x = snd (succeed (J_ID j) t s)" | m t where "?x = snd (dead (J_ID j) m t s)"
    | t where "?x = snd (retry (J_ID j) t (J_AttemptCount j + 1) s)" "J_AttemptCount j + 1 < J_MaxRetries j"
    by blast
  then show ?thesis
  proof cases
    case 1
    then show ?thesis using row_id [of "J_ID j"] by (auto simp: outcome_update_def)
  next
    case (2 t)
    have "outcome_update now j (set_succeeded now t)" "outcome_update now j (\<lambda>r. r)" by (auto simp: outcome_update_def)
    then show ?thesis using succeed_row [of "J_ID j" t s "J_ID j"] row_id [of "J_ID j"] unfolding 2 by metis
  next
    case (3 m t)
    have "outcome_update now j (set_dead now m t)" "outcome_update now j (\<lambda>r. r)" by (auto simp: outcome_update_def)
    then show ?thesis using dead_row [of "J_ID j" m t s "J_ID j"] row_id [of "J_ID j"] unfolding 3 by metis
  next
    case (4 t)
    have "outcome_update now j (set_retry now t (J_AttemptCount j + 1))" "outcome_update now j (\<lambda>r. r)"
      using 4(2) by (auto simp: outcome_update_def)
    then show ?thesis using retry_row [of "J_ID j" t "J_AttemptCount j + 1" s "J_ID j"] row_id [of "J_ID j"]
      unfolding 4(1) by metis
  qed
qed

lemma Execute_panic_handler:
  "reg (J_Type j) = Some h \<Longrightarrow> h (job_timeout j) j = HPanic \<Longrightarrow>
   Executor_Execute succeed dead retry reg env j s = (ExecPanic, s)"
  by (simp add: Executor_Execute_def Registry_Get_def)

end

text \<open>A store whose calls do not fail.\<close>

locale reliable_job_store = job_store +
  assumes succeed_ok: "is_ok (fst (succeed i t s))"
    and dead_ok: "is_ok (fst (dead i m t s))"
    and retry_ok: "is_ok (fst (retry i t n s))"
begin

lemma Execute_unknown:
  "reg (J_Type j) = None \<Longrightarrow>
   fst (Executor_Execute succeed dead retry reg env j s) = ExecDone \<and>
   row (snd (Executor_Execute succeed dead retry reg env j s)) (J_ID j) =
     map_option (set_dead now (''no handler for type: '' @ J_Type j) (X_end env)) (row s (J_ID j))"
  by (simp add: Executor_Execute_def Registry_Get_def dead_row dead_ok)

lemma Execute_success:
  "reg (J_Type j) = Some h \<Longrightarrow> h (job_timeout j) j = HOk \<Longrightarrow>
   fst (Executor_Execute succeed dead retry reg env j s) = ExecDone \<and>
   row (snd (Executor_Execute succeed dead retry reg env j s)) (J_ID j) =
     map_option (set_succeeded now (X_end env)) (row s (J_ID j))"
  by (simp add: Executor_Execute_def Registry_Get_def succeed_row succeed_ok)

lemma Execute_failure:
  assumes "reg (J_Type j) = Some h" and "h (job_timeout j) j = HErr e"
    and "int4 (J_RetryDelaySec j)" and "\<And>s. X_conv env s \<noteq> 1"
  shows "\<exists>dl. NextDelay (X_conv env) (X_rnd env) (X_coin env) (retry_policy j) (J_AttemptCount j + 1) = Some dl \<and>
    fst (Executor_Execute succeed dead retry reg env j s) = ExecDone \<and>
    row (snd (Executor_Execute succeed dead retry reg env j s)) (J_ID j) =
      map_option (if J_AttemptCount j + 1 < J_MaxRetries j
         then set_retry now (X_end env + sint dl) (J_AttemptCount j + 1)
         else set_dead now (err_Error e) (X_end env)) (row s (J_ID j))"
proof -
  obtain dl where "NextRunAt (X_conv env) (X_rnd env) (X_coin env) (retry_policy j) (J_AttemptCount j + 1)
      (X_end env) = Some (X_end env + sint dl)"
    "NextDelay (X_conv env) (X_rnd env) (X_coin env) (retry_policy j) (J_AttemptCount j + 1) = Some dl"
    using retry_delay_exists [OF assms(3), of "X_conv env"] assms(4) by blast
  then show ?thesis using assms(1,2)
    by (simp add: Executor_Execute_def Registry_Get_def Let_def retry_row retry_ok dead_row dead_ok)
qed

end

section \<open>The repository is such a store\<close>

definition job_at :: "db \<Rightarrow> uuid \<Rightarrow> Job option" where
  "job_at d i = sql_row (\<lambda>j. J_ID j = i) (jobs d)"

lemma job_at_exec:
  assumes "\<And>r. J_ID (u r) = J_ID r"
  shows "job_at (snd (job_exec f (\<lambda>j. J_ID j = i) u d)) k =
    (if f = None \<and> k = i then map_option u (job_at d i) else job_at d k)"
  using assms sql_row_update_other [of J_ID u i k]
  by (cases f) (auto simp: job_exec_def job_at_def sql_row_update_key)

lemma job_exec_ok: "is_ok (fst (ignore_tag (job_exec f P u d))) \<longleftrightarrow> f = None"
  by (cases f) (simp_all add: ignore_tag_def job_exec_def)

lemma snd_ignore_tag [simp]: "snd (ignore_tag r) = snd r"
  by (simp add: ignore_tag_def)

interpretation repo: job_store job_at "JobRepo_MarkSucceeded f now" "JobRepo_MarkDead f now"
  "JobRepo_ScheduleRetry f now" now for f now
  by unfold_locales
    (simp_all add: JobRepo_MarkSucceeded_def JobRepo_MarkDead_def JobRepo_ScheduleRetry_def
      job_exec_ok job_at_exec set_succeeded_def [abs_def] set_dead_def [abs_def] set_retry_def [abs_def])

interpretation sound_repo: reliable_job_store job_at "JobRepo_MarkSucceeded None now"
  "JobRepo_MarkDead None now" "JobRepo_ScheduleRetry None now" now for now
  by unfold_locales
    (simp_all add: JobRepo_MarkSucceeded_def JobRepo_MarkDead_def JobRepo_ScheduleRetry_def job_exec_ok)

text \<open>The executor as the worker builds it, on the repository, its calls failing by \<open>f\<close>.\<close>

definition execute_job :: "fault \<Rightarrow> time \<Rightarrow> registry \<Rightarrow> exec_env \<Rightarrow> Job \<Rightarrow> db \<Rightarrow> exec_end \<times> db" where
  "execute_job f now = Executor_Execute (JobRepo_MarkSucceeded f now) (JobRepo_MarkDead f now)
     (JobRepo_ScheduleRetry f now)"

section \<open>Outcomes\<close>

lemma execute_failure_row:
  assumes "reg (J_Type j) = Some h" and "h (job_timeout j) j = HErr e"
    and "int4 (J_RetryDelaySec j)" and "\<forall>s. X_conv env s \<noteq> 1"
  obtains dl where
    "NextDelay (X_conv env) (X_rnd env) (X_coin env) (retry_policy j) (J_AttemptCount j + 1) = Some dl"
    "fst (execute_job None now reg env j d) = ExecDone"
    "job_at (snd (execute_job None now reg env j d)) (J_ID j) =
      map_option (if J_AttemptCount j + 1 < J_MaxRetries j
         then set_retry now (X_end env + sint dl) (J_AttemptCount j + 1)
         else set_dead now (err_Error e) (X_end env)) (job_at d (J_ID j))"
  unfolding execute_job_def
  using sound_repo.Execute_failure [where reg = reg and j = j and h = h and e = e and env = env
      and s = d and now = now] assms by blast


definition sample_env :: exec_env where
  "sample_env = \<lparr>X_conv = amd64_conv, X_rnd = (\<lambda>n. 0), X_coin = 0, X_end = 1000\<rparr>"

definition failing_registry :: registry where
  "failing_registry = [''demo.echo'' \<mapsto> (\<lambda>t j. HErr (PlainErr ''boom''))]"

definition echo_registry :: registry where
  "echo_registry = [''demo.echo'' \<mapsto> (\<lambda>t j. HOk)]"

lemma sample_env_conv: "\<forall>s. X_conv sample_env s \<noteq> 1"
  by (simp add: sample_env_def amd64_conv_def)


text \<open>A handler that returns nil makes its job succeeded, with the attempt count unchanged; a
  type without handler makes it dead at once, whatever retries are left; other jobs are untouched.\<close>

theorem execute_other_outcomes:
  assumes "reg (J_Type j) = None \<or> (\<exists>h. reg (J_Type j) = Some h \<and> h (job_timeout j) j = HOk)"
    and "job_at d (J_ID j) = Some r"
  shows "\<exists>d' r'. execute_job None now reg env j d = (ExecDone, d') \<and> job_at d' (J_ID j) = Some r' \<and>
    J_CompletedAt r' = Some (X_end env) \<and>
    (if reg (J_Type j) = None
     then J_Status r' = StatusDead \<and> J_LastError r' = Some (''no handler for type: '' @ J_Type j) \<and>
       J_AttemptCount r' = J_AttemptCount r + 1
     else J_Status r' = StatusSucceeded \<and> J_AttemptCount r' = J_AttemptCount r) \<and>
    (\<forall>k. k \<noteq> J_ID j \<longrightarrow> job_at d' k = job_at d k)"
proof -
  have frame: "\<forall>k. k \<noteq> J_ID j \<longrightarrow> job_at (snd (execute_job None now reg env j d)) k = job_at d k"
    unfolding execute_job_def using repo.Execute_frame by blast
  have row: "fst (execute_job None now reg env j d) = ExecDone \<and>
      job_at (snd (execute_job None now reg env j d)) (J_ID j) =
      map_option (if reg (J_Type j) = None then set_dead now (''no handler for type: '' @ J_Type j) (X_end env)
         else set_succeeded now (X_end env)) (job_at d (J_ID j))"
  proof (cases "reg (J_Type j)")
    case None
    then show ?thesis unfolding execute_job_def using sound_repo.Execute_unknown by simp
  next
    case (Some h)
    then show ?thesis unfolding execute_job_def
      using assms(1) sound_repo.Execute_success [where reg = reg and j = j and h = h and env = env
          and s = d and now = now] by simp
  qed
  show ?thesis using row frame assms(2)
    by (cases "execute_job None now reg env j d") (auto simp: set_row_defs)
qed

theorem execute_other_outcomes_witness:
  "\<exists>d' r'. execute_job None 1000 echo_registry sample_env (sample_job 1 StatusPending 5 0)
      (sample_db [sample_job 1 StatusRunning 5 0]) = (ExecDone, d') \<and> job_at d' 1 = Some r' \<and>
     J_Status r' = StatusSucceeded"
proof -
  have "job_at (sample_db [sample_job 1 StatusRunning 5 0]) 1 = Some (sample_job 1 StatusRunning 5 0)"
    by (simp add: job_at_def)
  then show ?thesis
    using execute_other_outcomes [of echo_registry "sample_job 1 StatusPending 5 0"
        "sample_db [sample_job 1 StatusRunning 5 0]" "sample_job 1 StatusRunning 5 0" 1000 sample_env]
    by (fastforce simp: echo_registry_def)
qed

section \<open>The attempts of one job\<close>

text \<open>
  One cycle of a pending job: it is claimed by a worker (the row becomes running, the worker holds
  the row as selected) and executed. A job that is not pending is not claimed. \<open>attempt_cycles\<close>
  repeats it, each cycle with its own clock and draws, once run_at has come.
\<close>

definition attempt_once :: "time \<Rightarrow> uuid \<Rightarrow> registry \<Rightarrow> exec_env \<Rightarrow> uuid \<Rightarrow> db \<Rightarrow> db" where
  "attempt_once now wid reg env i d =
     (case job_at d i of
        None \<Rightarrow> d
      | Some j \<Rightarrow> if J_Status j = StatusPending
          then snd (execute_job None now reg env j (claim_update wid now [i] d)) else d)"

fun attempt_cycles :: "(nat \<Rightarrow> time) \<Rightarrow> uuid \<Rightarrow> registry \<Rightarrow> (nat \<Rightarrow> exec_env) \<Rightarrow> uuid \<Rightarrow> nat \<Rightarrow> db \<Rightarrow> db" where
  "attempt_cycles now wid reg env i 0 d = d"
| "attempt_cycles now wid reg env i (Suc n) d =
     attempt_once (now n) wid reg (env n) i (attempt_cycles now wid reg env i n d)"

lemma job_at_claim:
  "job_at (claim_update wid now [i] d) k =
     (if k = i then map_option (mark_running wid now) (job_at d i) else job_at d k)"
  using sql_row_update_key [of J_ID "mark_running wid now" i "jobs d"]
    sql_row_update_other [of J_ID "mark_running wid now" i k "jobs d"]
  by (simp add: job_at_def claim_update_def)

lemma job_at_ID: "job_at d i = Some j \<Longrightarrow> J_ID j = i"
  by (auto simp: job_at_def dest: sql_row_Some)

text \<open>What a cycle keeps of a job: everything its later attempts depend on.\<close>

definition same_config :: "Job \<Rightarrow> Job \<Rightarrow> bool" where
  "same_config j r \<longleftrightarrow> J_ID r = J_ID j \<and> J_Type r = J_Type j \<and> J_TimeoutSec r = J_TimeoutSec j \<and>
     J_MaxRetries r = J_MaxRetries j \<and> J_RetryDelaySec r = J_RetryDelaySec j \<and>
     J_RetryStrategy r = J_RetryStrategy j"

lemma attempt_once_fails:
  assumes "job_at d i = Some j" and "J_Status j = StatusPending"
    and "reg (J_Type j) = Some h" and "h (job_timeout j) j = HErr e"
    and "int4 (J_RetryDelaySec j)" and "\<forall>s. X_conv env s \<noteq> 1"
  shows "\<exists>r. job_at (attempt_once now wid reg env i d) i = Some r \<and> same_config j r \<and>
    J_AttemptCount r = J_AttemptCount j + 1 \<and>
    J_Status r = (if J_AttemptCount j + 1 < J_MaxRetries j then StatusPending else StatusDead)"
proof -
  obtain dl :: duration where
    "job_at (snd (execute_job None now reg env j (claim_update wid now [i] d))) (J_ID j) =
      map_option (if J_AttemptCount j + 1 < J_MaxRetries j
         then set_retry now (X_end env + sint dl) (J_AttemptCount j + 1)
         else set_dead now (err_Error e) (X_end env)) (job_at (claim_update wid now [i] d) (J_ID j))"
    by (rule execute_failure_row [where reg = reg and j = j and h = h and now = now
          and d = "claim_update wid now [i] d", OF assms(3-6)]) (rule that)
  then show ?thesis using assms(1,2) job_at_ID [OF assms(1)]
    by (auto simp: attempt_once_def job_at_claim set_row_defs same_config_def mark_running_def)
qed

lemma attempt_once_not_pending:
  "job_at d i = Some j \<Longrightarrow> J_Status j \<noteq> StatusPending \<Longrightarrow> attempt_once now wid reg env i d = d"
  by (simp add: attempt_once_def)

text \<open>C31: a job whose handler always fails is attempted max_retries times in all (once if
  max_retries is zero), not max_retries times after the first: it is pending before the last of
  these attempts, dead after it, and stays dead.\<close>

theorem retries_exhausted:
  assumes "job_at d i = Some j" and "J_Status j = StatusPending" and "J_AttemptCount j = 0"
    and "reg (J_Type j) = Some h" and "\<forall>t r. \<exists>e. h t r = HErr e"
    and "0 \<le> J_RetryDelaySec j" and "J_RetryDelaySec j < 2 ^ 31"
    and "\<forall>n s. X_conv (env n) s \<noteq> 1"
  shows "\<exists>r. job_at (attempt_cycles now wid reg env i n d) i = Some r \<and>
    J_AttemptCount r = min (int n) (max 1 (J_MaxRetries j)) \<and>
    J_Status r = (if int n < max 1 (J_MaxRetries j) then StatusPending else StatusDead)"
proof -
  have i4: "int4 (J_RetryDelaySec j)" using assms(6,7) by (simp add: int4_def)
  have "\<exists>r. job_at (attempt_cycles now wid reg env i n d) i = Some r \<and> same_config j r \<and>
    J_AttemptCount r = min (int n) (max 1 (J_MaxRetries j)) \<and>
    J_Status r = (if int n < max 1 (J_MaxRetries j) then StatusPending else StatusDead)"
  proof (induction n)
    case 0
    then show ?case using assms(1-3) by (simp add: same_config_def)
  next
    case (Suc n)
    then obtain r where r: "job_at (attempt_cycles now wid reg env i n d) i = Some r" "same_config j r"
      "J_AttemptCount r = min (int n) (max 1 (J_MaxRetries j))"
      "J_Status r = (if int n < max 1 (J_MaxRetries j) then StatusPending else StatusDead)" by blast
    have conf: "reg (J_Type r) = Some h" "int4 (J_RetryDelaySec r)" "J_MaxRetries r = J_MaxRetries j"
      using r(2) assms(4) i4 by (simp_all add: same_config_def)
    obtain e where e: "h (job_timeout r) r = HErr e" using assms(5) by blast
    show ?case
    proof (cases "int n < max 1 (J_MaxRetries j)")
      case True
      then have "J_Status r = StatusPending" using r(4) by simp
      have "\<forall>s. X_conv (env n) s \<noteq> 1" using assms(8) by blast
      from attempt_once_fails [where reg = reg and h = h and e = e and env = "env n" and now = "now n" and wid = wid,
          OF r(1) \<open>J_Status r = StatusPending\<close> conf(1) e conf(2) this]
      obtain r' where "job_at (attempt_once (now n) wid reg (env n) i
            (attempt_cycles now wid reg env i n d)) i = Some r'" "same_config r r'"
        "J_AttemptCount r' = J_AttemptCount r + 1"
        "J_Status r' = (if J_AttemptCount r + 1 < J_MaxRetries r then StatusPending else StatusDead)"
        by blast
      then show ?thesis using True r(2,3) conf(3) by (auto simp: same_config_def)
    next
      case False
      then have "J_Status r \<noteq> StatusPending" using r(4) by simp
      then show ?thesis using False r attempt_once_not_pending [OF r(1)] by auto
    qed
  qed
  then show ?thesis by blast
qed

theorem retries_exhausted_witness:
  "\<exists>r. job_at (attempt_cycles (\<lambda>n. int n) 77 failing_registry (\<lambda>n. sample_env) 1 3
      (sample_db [sample_job 1 StatusPending 5 0])) 1 = Some r \<and>
     J_AttemptCount r = 3 \<and> J_Status r = StatusDead"
proof -
  have "job_at (sample_db [sample_job 1 StatusPending 5 0]) 1 = Some (sample_job 1 StatusPending 5 0)"
    by (simp add: job_at_def)
  then show ?thesis
    using retries_exhausted [where d = "sample_db [sample_job 1 StatusPending 5 0]" and i = 1
        and j = "sample_job 1 StatusPending 5 0" and reg = failing_registry
        and h = "\<lambda>t j. HErr (PlainErr ''boom'')" and env = "\<lambda>n. sample_env" and n = 3
        and now = "\<lambda>n. int n" and wid = 77] sample_env_conv
    by (simp add: failing_registry_def)
qed

text \<open>Nothing ties an execution to its claim. A worker whose job was reclaimed and meanwhile
  succeeded elsewhere (or was cancelled) still writes its own failure: the finished job becomes
  pending and is run again.\<close>

theorem stale_failure_resurrects:
  assumes "reg (J_Type j) = Some h" and "h (job_timeout j) j = HErr e"
    and "int4 (J_RetryDelaySec j)" and "\<forall>s. X_conv env s \<noteq> 1"
    and "J_AttemptCount j + 1 < J_MaxRetries j"
    and "job_at d (J_ID j) = Some r" and "IsTerminal r"
  shows "\<exists>d' r'. execute_job None now reg env j d = (ExecDone, d') \<and> job_at d' (J_ID j) = Some r' \<and>
    \<not> IsTerminal r' \<and> J_Status r' = StatusPending \<and> J_CompletedAt r' = J_CompletedAt r"
proof -
  obtain dl :: duration where
    "fst (execute_job None now reg env j d) = ExecDone"
    "job_at (snd (execute_job None now reg env j d)) (J_ID j) =
      map_option (if J_AttemptCount j + 1 < J_MaxRetries j
         then set_retry now (X_end env + sint dl) (J_AttemptCount j + 1)
         else set_dead now (err_Error e) (X_end env)) (job_at d (J_ID j))"
    by (rule execute_failure_row [where reg = reg and j = j and h = h and now = now
          and d = d, OF assms(1-4)]) (rule that)
  then show ?thesis using assms(5,6)
    by (cases "execute_job None now reg env j d") (auto simp: set_row_defs IsTerminal_def)
qed

theorem stale_failure_resurrects_witness:
  "\<exists>d' r'. execute_job None 1000 failing_registry sample_env (sample_job 1 StatusPending 5 0)
      (sample_db [sample_job 1 StatusSucceeded 5 0]) = (ExecDone, d') \<and> job_at d' 1 = Some r' \<and>
     J_Status r' = StatusPending"
proof -
  have "job_at (sample_db [sample_job 1 StatusSucceeded 5 0]) 1 = Some (sample_job 1 StatusSucceeded 5 0)"
    by (simp add: job_at_def)
  then show ?thesis
    using stale_failure_resurrects [where reg = failing_registry and j = "sample_job 1 StatusPending 5 0"
        and h = "\<lambda>t j. HErr (PlainErr ''boom'')" and e = "PlainErr ''boom''" and env = sample_env
        and d = "sample_db [sample_job 1 StatusSucceeded 5 0]" and r = "sample_job 1 StatusSucceeded 5 0"
        and now = 1000] sample_env_conv
    by (fastforce simp: failing_registry_def IsTerminal_def int4_def)
qed

end
