(* ===== verification/JobService.thy ===== *)
theory JobService
  imports QueueRepo Executor
begin

text \<open>
  The job service (\<open>internal/service/job/service.go\<close>): Enqueue with its idempotency check and
  the defaults of the queue, the queries, Cancel and the manual Retry.
\<close>

record EnqueueRequest =
  ER_Type :: string
  ER_Payload :: "jsonmap option"
  ER_Priority :: "int option"
  ER_RunAt :: "time option"
  ER_MaxRetries :: "int option"
  ER_RetryStrategy :: "string option"
  ER_RetryDelaySec :: "int option"
  ER_TimeoutSec :: "int option"
  ER_IdempotencyKey :: "string option"
  ER_Tags :: "string list option"
  ER_Metadata :: "jsonmap option"

record JobResponse =
  JR_ID :: uuid
  JR_QueueID :: uuid
  JR_BatchID :: "uuid option"
  JR_Type :: string
  JR_Payload :: "jsonmap option"
  JR_Status :: JobStatus
  JR_Priority :: int
  JR_RunAt :: time
  JR_MaxRetries :: int
  JR_AttemptCount :: int
  JR_RetryStrategy :: string
  JR_LastError :: "string option"
  JR_TimeoutSec :: int
  JR_IdempotencyKey :: "string option"
  JR_Tags :: "string list option"
  JR_ClaimedBy :: "uuid option"
  JR_StartedAt :: "time option"
  JR_CompletedAt :: "time option"
  JR_CreatedAt :: time
  JR_UpdatedAt :: time

record ListResponse =
  LR_Jobs :: "JobResponse list"
  LR_Total :: nat
  LR_Limit :: int
  LR_Offset :: int

definition toJobResponse :: "Job \<Rightarrow> JobResponse" where
  "toJobResponse j = \<lparr>JR_ID = J_ID j, JR_QueueID = J_QueueID j, JR_BatchID = J_BatchID j,
     JR_Type = J_Type j, JR_Payload = J_Payload j, JR_Status = J_Status j, JR_Priority = J_Priority j,
     JR_RunAt = J_RunAt j, JR_MaxRetries = J_MaxRetries j, JR_AttemptCount = J_AttemptCount j,
     JR_RetryStrategy = J_RetryStrategy j, JR_LastError = J_LastError j, JR_TimeoutSec = J_TimeoutSec j,
     JR_IdempotencyKey = J_IdempotencyKey j, JR_Tags = J_Tags j, JR_ClaimedBy = J_ClaimedBy j,
     JR_StartedAt = J_StartedAt j, JR_CompletedAt = J_CompletedAt j, JR_CreatedAt = J_CreatedAt j,
     JR_UpdatedAt = J_UpdatedAt j\<rparr>"

section \<open>Enqueue\<close>

definition queue_default_job :: "uuid \<Rightarrow> time \<Rightarrow> uuid \<Rightarrow> EnqueueRequest \<Rightarrow> Queue \<Rightarrow> Job" where
  "queue_default_job new_id clock queueID req q = zero_Job\<lparr>J_ID := new_id, J_QueueID := queueID,
     J_Type := ER_Type req, J_Payload := ER_Payload req, J_Status := StatusPending,
     J_Priority := Q_Priority q, J_RunAt := clock, J_MaxRetries := Q_MaxRetries q,
     J_AttemptCount := 0, J_RetryStrategy := Q_RetryStrategy q,
     J_RetryDelaySec := Q_RetryDelaySec q, J_TimeoutSec := Q_JobTimeoutSec q,
     J_Tags := ER_Tags req, J_Metadata := ER_Metadata req, J_CreatedAt := clock, J_UpdatedAt := clock\<rparr>"

definition override :: "'a option \<Rightarrow> 'a \<Rightarrow> 'a" where
  "override r v = (case r of None \<Rightarrow> v | Some x \<Rightarrow> x)"

definition apply_overrides :: "EnqueueRequest \<Rightarrow> Job \<Rightarrow> Job" where
  "apply_overrides req j = j\<lparr>J_Priority := override (ER_Priority req) (J_Priority j),
     J_MaxRetries := override (ER_MaxRetries req) (J_MaxRetries j),
     J_RetryStrategy := override (ER_RetryStrategy req) (J_RetryStrategy j),
     J_RetryDelaySec := override (ER_RetryDelaySec req) (J_RetryDelaySec j),
     J_TimeoutSec := override (ER_TimeoutSec req) (J_TimeoutSec j),
     J_IdempotencyKey := (case ER_IdempotencyKey req of None \<Rightarrow> J_IdempotencyKey j | Some k \<Rightarrow> Some k)\<rparr>"

definition delay_job :: "EnqueueRequest \<Rightarrow> time \<Rightarrow> Job \<Rightarrow> Job" where
  "delay_job req clock j = (case ER_RunAt req of
     None \<Rightarrow> j
   | Some t \<Rightarrow> if time_After t clock then j\<lparr>J_RunAt := t, J_Status := StatusScheduled\<rparr> else j)"

definition new_job :: "uuid \<Rightarrow> time \<Rightarrow> uuid \<Rightarrow> EnqueueRequest \<Rightarrow> Queue \<Rightarrow> Job" where
  "new_job new_id clock queueID req q =
     delay_job req clock (apply_overrides req (queue_default_job new_id clock queueID req q))"

text \<open>The first stage: None lets Enqueue go on, Some is its early return.\<close>

definition idempotency_check :: "fault \<Rightarrow> EnqueueRequest \<Rightarrow> db \<Rightarrow> JobResponse res option" where
  "idempotency_check f req d =
     (case ER_IdempotencyKey req of
        None \<Rightarrow> None
      | Some key \<Rightarrow> if key = [] then None
          else (case JobRepo_GetByIdempotencyKey f key d of
              Inr existing \<Rightarrow> Some (Inr (toJobResponse existing))
            | Inl e \<Rightarrow> if IsNotFound e then None else Some (Inl e)))"

definition paused_error :: goerr where
  "paused_error = Conflict (''queue is paused '' @ [CHR 0xE2, CHR 0x80, CHR 0x94] @ '' jobs cannot be enqueued'')"

definition job_svc_Enqueue ::
  "fault \<Rightarrow> fault \<Rightarrow> fault \<Rightarrow> uuid \<Rightarrow> time \<Rightarrow> uuid \<Rightarrow> EnqueueRequest \<Rightarrow> db \<Rightarrow> JobResponse res \<times> db" where
  "job_svc_Enqueue f_key f_queue f_create new_id clock queueID req d =
     (case idempotency_check f_key req d of
        Some r \<Rightarrow> (r, d)
      | None \<Rightarrow>
          (case QueueRepo_GetByID f_queue queueID d of
             Inl e \<Rightarrow> (Inl e, d)
           | Inr q \<Rightarrow>
               if Q_IsPaused q then (Inl paused_error, d)
               else (let j = new_job new_id clock queueID req q in
                 case JobRepo_Create f_create j d of
                   (Inl e, d') \<Rightarrow> (Inl e, d')
                 | (Inr _, d') \<Rightarrow> (Inr (toJobResponse j), d'))))"

section \<open>Other operations\<close>

definition job_svc_GetByID :: "fault \<Rightarrow> uuid \<Rightarrow> db \<Rightarrow> JobResponse res" where
  "job_svc_GetByID f i d = map_sum id toJobResponse (JobRepo_GetByID f i d)"

definition job_svc_List :: "fault \<Rightarrow> fault \<Rightarrow> uuid \<Rightarrow> ListFilter \<Rightarrow> db \<Rightarrow> ListResponse res" where
  "job_svc_List f_count f_data qid flt d =
     map_sum id (\<lambda>(js, n). \<lparr>LR_Jobs = map toJobResponse js, LR_Total = n, LR_Limit = F_Limit flt,
        LR_Offset = F_Offset flt\<rparr>) (JobRepo_List f_count f_data qid flt d)"

definition job_svc_Cancel :: "fault \<Rightarrow> time \<Rightarrow> uuid \<Rightarrow> db \<Rightarrow> unit res \<times> db" where
  "job_svc_Cancel f now i d = JobRepo_Cancel f now i d"

definition job_svc_Retry :: "fault \<Rightarrow> fault \<Rightarrow> time \<Rightarrow> time \<Rightarrow> uuid \<Rightarrow> db \<Rightarrow> unit res \<times> db" where
  "job_svc_Retry f_get f_upd clock now i d =
     (case JobRepo_GetByID f_get i d of
        Inl e \<Rightarrow> (Inl e, d)
      | Inr j \<Rightarrow>
          if J_Status j \<noteq> StatusFailed \<and> J_Status j \<noteq> StatusDead
          then (Inl (Conflict ''only failed or dead jobs can be manually retried''), d)
          else JobRepo_ScheduleRetry f_upd now i clock (J_AttemptCount j) d)"

section \<open>Facts\<close>

lemma JobRepo_GetByID_job_at:
  "JobRepo_GetByID None i d = (case job_at d i of None \<Rightarrow> Inl (NotFound ''job'') | Some j \<Rightarrow> Inr j)"
  by (simp add: JobRepo_GetByID_def job_row_def job_at_def split: option.splits)

lemma GetByIdempotencyKey_row:
  "JobRepo_GetByIdempotencyKey None key d =
     (case sql_row (\<lambda>j. J_IdempotencyKey j = Some key) (jobs d) of
        None \<Rightarrow> Inl (NotFound ''job'') | Some j \<Rightarrow> Inr j)"
  by (simp add: JobRepo_GetByIdempotencyKey_def job_row_def split: option.splits)

lemma GetByIdempotencyKey_fault:
  "JobRepo_GetByIdempotencyKey (Some m) key d = Inl (WrapErr ''get job by idempotency key'' (PlainErr m))"
  by (simp add: JobRepo_GetByIdempotencyKey_def)

lemma GetByIdempotencyKey_ok:
  "JobRepo_GetByIdempotencyKey f key d = Inr j \<longleftrightarrow>
     f = None \<and> sql_row (\<lambda>j. J_IdempotencyKey j = Some key) (jobs d) = Some j"
  by (cases f) (auto simp: JobRepo_GetByIdempotencyKey_def job_row_def split: option.splits)

lemma new_job_sel [simp]:
  "J_ID (new_job i t qid req q) = i" "J_QueueID (new_job i t qid req q) = qid"
  "J_Type (new_job i t qid req q) = ER_Type req" "J_AttemptCount (new_job i t qid req q) = 0"
  "J_Priority (new_job i t qid req q) = override (ER_Priority req) (Q_Priority q)"
  "J_MaxRetries (new_job i t qid req q) = override (ER_MaxRetries req) (Q_MaxRetries q)"
  "J_RetryStrategy (new_job i t qid req q) = override (ER_RetryStrategy req) (Q_RetryStrategy q)"
  "J_RetryDelaySec (new_job i t qid req q) = override (ER_RetryDelaySec req) (Q_RetryDelaySec q)"
  "J_TimeoutSec (new_job i t qid req q) = override (ER_TimeoutSec req) (Q_JobTimeoutSec q)"
  "J_IdempotencyKey (new_job i t qid req q) = ER_IdempotencyKey req"
  "J_Tags (new_job i t qid req q) = ER_Tags req"
  "J_Status (new_job i t qid req q) =
     (case ER_RunAt req of None \<Rightarrow> StatusPending | Some r \<Rightarrow> if t < r then StatusScheduled else StatusPending)"
  "J_RunAt (new_job i t qid req q) =
     (case ER_RunAt req of None \<Rightarrow> t | Some r \<Rightarrow> if t < r then r else t)"
  by (auto simp: new_job_def delay_job_def apply_overrides_def queue_default_job_def override_def
      zero_Job_def time_After_def split: option.splits)

lemma inserted_new_job: "inserted_job (new_job i t qid req q) = new_job i t qid req q"
  by (auto simp: inserted_job_def new_job_def delay_job_def apply_overrides_def queue_default_job_def
      zero_Job_def split: option.splits)

lemma sql_row_append: "sql_row P (xs @ ys) = (case sql_row P xs of Some x \<Rightarrow> Some x | None \<Rightarrow> sql_row P ys)"
  by (induction xs) auto

lemma unchecked_key:
  assumes "idempotency_check f_key req d = None" and "job_key_conflict (new_job new_id clock qid req q) (jobs d)"
  shows "ER_IdempotencyKey req = Some []"
proof (rule ccontr)
  assume n: "ER_IdempotencyKey req \<noteq> Some []"
  obtain key where key: "ER_IdempotencyKey req = Some key" "key \<noteq> []"
    using assms(2) n by (auto simp: job_key_conflict_def)
  have "sql_row (\<lambda>j. J_IdempotencyKey j = Some key) (jobs d) \<noteq> None"
    using assms(2) key(1) by (auto simp: job_key_conflict_def sql_row_None)
  then show False using assms(1) key
    by (cases f_key) (auto simp: idempotency_check_def GetByIdempotencyKey_row
        GetByIdempotencyKey_fault split: option.splits)
qed

lemma Enqueue_cases:
  assumes "job_svc_Enqueue f_key f_queue f_create new_id clock qid req d = (r, d')"
  obtains (error) e where "r = Inl e" "d' = d"
    | (existing) key j where "ER_IdempotencyKey req = Some key" "key \<noteq> []" "d' = d"
        "sql_row (\<lambda>j. J_IdempotencyKey j = Some key) (jobs d) = Some j" "r = Inr (toJobResponse j)"
    | (dropped) q where "ER_IdempotencyKey req = Some []" "d' = d" "r = Inr (toJobResponse (new_job new_id clock qid req q))"
        "sql_row (\<lambda>q. Q_ID q = qid) (queues d) = Some q" "\<not> Q_IsPaused q"
    | (new) q where "sql_row (\<lambda>q. Q_ID q = qid) (queues d) = Some q" "\<not> Q_IsPaused q"
        "r = Inr (toJobResponse (new_job new_id clock qid req q))"
        "d' = d\<lparr>jobs := jobs d @ [new_job new_id clock qid req q]\<rparr>"
        "\<not> job_key_conflict (new_job new_id clock qid req q) (jobs d)"
        "job_violation (new_job new_id clock qid req q) = None"
        "\<not> exists_id J_ID new_id (jobs d)"
proof (cases "idempotency_check f_key req d")
  case (Some x)
  then have r: "r = x" "d' = d" using assms by (simp_all add: job_svc_Enqueue_def)
  then show ?thesis
    using Some error existing
    by (auto simp: idempotency_check_def GetByIdempotencyKey_ok split: option.splits if_splits sum.splits)
next
  case None
  show ?thesis
  proof (cases "QueueRepo_GetByID f_queue qid d")
    case (Inl e)
    then show ?thesis using None assms that(1) [of e] by (simp add: job_svc_Enqueue_def)
  next
    case (Inr q)
    then have q: "sql_row (\<lambda>q. Q_ID q = qid) (queues d) = Some q"
      by (simp add: QueueRepo_GetByID_def get_row_ok)
    show ?thesis
    proof (cases "Q_IsPaused q")
      case True
      then show ?thesis using None Inr assms that(1) [of paused_error] by (simp add: job_svc_Enqueue_def)
    next
      case False
      let ?j = "new_job new_id clock qid req q"
      obtain c d1 where c: "JobRepo_Create f_create ?j d = (c, d1)"
        by (cases "JobRepo_Create f_create ?j d")
      have out: "(r, d') = (case c of Inl e \<Rightarrow> (Inl e, d1) | Inr _ \<Rightarrow> (Inr (toJobResponse ?j), d1))"
        using None Inr False c assms by (simp add: job_svc_Enqueue_def split: sum.splits)
      from c show ?thesis
      proof (cases rule: Create_cases)
        case (error e)
        then show ?thesis using out that(1) by simp
      next
        case conflict
        have "ER_IdempotencyKey req = Some []" by (rule unchecked_key [OF None conflict(3)])
        then show ?thesis using conflict out q False dropped by simp
      next
        case new
        then show ?thesis using out q False that(4) by (simp add: inserted_new_job)
      qed
    qed
  qed
qed

section \<open>Properties\<close>


definition sample_request :: EnqueueRequest where
  "sample_request = \<lparr>ER_Type = ''demo.echo'', ER_Payload = None, ER_Priority = None, ER_RunAt = Some 900,
     ER_MaxRetries = Some 1, ER_RetryStrategy = None, ER_RetryDelaySec = None, ER_TimeoutSec = None,
     ER_IdempotencyKey = Some ''k1'', ER_Tags = Some [], ER_Metadata = None\<rparr>"

lemma sample_request_sel [simp]:
  "ER_Type sample_request = ''demo.echo''" "ER_Priority sample_request = None"
  "ER_RunAt sample_request = Some 900" "ER_MaxRetries sample_request = Some 1"
  "ER_RetryStrategy sample_request = None" "ER_RetryDelaySec sample_request = None"
  "ER_TimeoutSec sample_request = None" "ER_IdempotencyKey sample_request = Some ''k1''"
  "ER_Tags sample_request = Some []"
  by (simp_all add: sample_request_def)

lemma sample_queue_defaults [simp]:
  "Q_MaxRetries sample_queue = 3" "Q_RetryStrategy sample_queue = ''exponential''"
  "Q_RetryDelaySec sample_queue = 60" "Q_JobTimeoutSec sample_queue = 300"
  by (simp_all add: sample_queue_def)

lemma new_job_links [simp]:
  "J_BatchID (new_job i t qid req q) = None" "J_ParentJobID (new_job i t qid req q) = None"
  "J_CronJobID (new_job i t qid req q) = None"
  by (auto simp: new_job_def delay_job_def apply_overrides_def queue_default_job_def zero_Job_def
      split: option.splits)

lemma sample_new_job_valid: "job_violation (new_job 5 100 7 sample_request sample_queue) = None"
  by (simp add: job_violation_def int4_def valid_strategy_def override_def)

lemma sample_enqueue:
  "job_svc_Enqueue None None None 5 100 7 sample_request (sample_db []) =
     (Inr (toJobResponse (new_job 5 100 7 sample_request sample_queue)),
      (sample_db [])\<lparr>jobs := [new_job 5 100 7 sample_request sample_queue]\<rparr>)"
  using sample_new_job_valid
  by (simp add: job_svc_Enqueue_def idempotency_check_def GetByIdempotencyKey_row QueueRepo_GetByID_def
      JobRepo_Create_def insert_job_def job_key_conflict_def exists_id_def job_fks_def fk_opt_def
      inserted_new_job Let_def)


lemma NotFound_no_key:
  "idempotency_check f req d = None \<Longrightarrow> ER_IdempotencyKey req = Some key \<Longrightarrow> key \<noteq> [] \<Longrightarrow>
   sql_row (\<lambda>j. J_IdempotencyKey j = Some key) (jobs d) = None"
  by (cases f) (auto simp: idempotency_check_def GetByIdempotencyKey_row GetByIdempotencyKey_fault
      split: option.splits)

text \<open>A repeated Enqueue with the same non-empty idempotency key returns the response of the
  first one and adds nothing, whatever else the repetition asks for and whatever queue it names;
  also when that queue is paused or does not exist.\<close>

theorem enqueue_idempotent:
  assumes "job_svc_Enqueue f1 f2 f3 new_id clock qid req d = (Inr resp, d')"
    and "ER_IdempotencyKey req = Some key" and "key \<noteq> []"
    and "ER_IdempotencyKey req' = Some key"
  shows "job_svc_Enqueue None f2' f3' new_id' clock' qid' req' d' = (Inr resp, d')"
proof -
  have "\<exists>j. sql_row (\<lambda>j. J_IdempotencyKey j = Some key) (jobs d') = Some j \<and> resp = toJobResponse j"
    using assms(1)
  proof (cases rule: Enqueue_cases)
    case (new q)
    have "sql_row (\<lambda>j. J_IdempotencyKey j = Some key) (jobs d) = None"
      using new(5) assms(2) by (auto simp: job_key_conflict_def sql_row_None)
    then show ?thesis using new(3,4) assms(2) by (simp add: sql_row_append)
  qed (use assms(2,3) in auto)
  then show ?thesis using assms(3,4)
    by (auto simp: job_svc_Enqueue_def idempotency_check_def GetByIdempotencyKey_row)
qed

theorem enqueue_idempotent_witness:
  "job_svc_Enqueue None None None 6 200 8 sample_request
      ((sample_db [])\<lparr>jobs := [new_job 5 100 7 sample_request sample_queue]\<rparr>) =
     (Inr (toJobResponse (new_job 5 100 7 sample_request sample_queue)),
      (sample_db [])\<lparr>jobs := [new_job 5 100 7 sample_request sample_queue]\<rparr>)"
  by (rule enqueue_idempotent [OF sample_enqueue, of "''k1''"]) simp_all

text \<open>The empty key is not looked up but is stored, and the insert skips a key that exists:
  once some job has the empty key, a further Enqueue with it reports success, with a fresh id,
  and stores nothing: no job of that id exists afterwards.\<close>

theorem enqueue_empty_key_lost:
  assumes "ER_IdempotencyKey req = Some []" and "\<exists>r\<in>set (jobs d). J_IdempotencyKey r = Some []"
    and "sql_row (\<lambda>q. Q_ID q = qid) (queues d) = Some q" and "\<not> Q_IsPaused q"
    and "job_violation (new_job new_id clock qid req q) = None"
    and "job_at d new_id = None"
  shows "\<exists>resp. job_svc_Enqueue None None None new_id clock qid req d = (Inr resp, d) \<and>
    JR_ID resp = new_id \<and> job_svc_GetByID None new_id d = Inl (NotFound ''job'')"
proof -
  have "job_key_conflict (new_job new_id clock qid req q) (jobs d)"
    using assms(1,2) by (auto simp: job_key_conflict_def)
  then have "JobRepo_Create None (new_job new_id clock qid req q) d = (Inr (), d)"
    using assms(5) by (simp add: JobRepo_Create_def insert_job_def)
  then have "job_svc_Enqueue None None None new_id clock qid req d =
      (Inr (toJobResponse (new_job new_id clock qid req q)), d)"
    using assms(1,3,4) by (simp add: job_svc_Enqueue_def idempotency_check_def QueueRepo_GetByID_def Let_def)
  moreover have "job_svc_GetByID None new_id d = Inl (NotFound ''job'')"
    using assms(6) by (simp add: job_svc_GetByID_def JobRepo_GetByID_job_at)
  ultimately show ?thesis by (simp add: toJobResponse_def)
qed

definition empty_key_request :: EnqueueRequest where
  "empty_key_request = sample_request\<lparr>ER_IdempotencyKey := Some []\<rparr>"

definition empty_key_db :: db where
  "empty_key_db = sample_db [sample_job 1 StatusPending 5 0 \<lparr>J_IdempotencyKey := Some []\<rparr>]"

theorem enqueue_empty_key_lost_witness:
  "\<exists>resp. job_svc_Enqueue None None None 5 100 7 empty_key_request empty_key_db = (Inr resp, empty_key_db) \<and>
     JR_ID resp = 5"
proof -
  have h: "ER_IdempotencyKey empty_key_request = Some []"
    "\<exists>r\<in>set (jobs empty_key_db). J_IdempotencyKey r = Some []"
    "sql_row (\<lambda>q. Q_ID q = 7) (queues empty_key_db) = Some sample_queue" "\<not> Q_IsPaused sample_queue"
    "job_violation (new_job 5 100 7 empty_key_request sample_queue) = None" "job_at empty_key_db 5 = None"
    by (simp_all add: empty_key_request_def empty_key_db_def job_at_def job_violation_def int4_def
        valid_strategy_def override_def)
  show ?thesis using enqueue_empty_key_lost [OF h] by blast
qed

text \<open>A manual Retry is refused, without effect, unless the job is failed or dead. A dead job
  becomes pending with the attempts it has used still counted, so the next failure kills it again.\<close>

theorem manual_retry_one_attempt:
  assumes "job_at d i = Some j" and "reg (J_Type j) = Some h" and "\<forall>t r. \<exists>e. h t r = HErr e"
    and "int4 (J_RetryDelaySec j)" and "\<forall>s. X_conv env s \<noteq> 1" and "J_MaxRetries j \<le> J_AttemptCount j + 1"
  shows "if J_Status j = StatusDead \<or> J_Status j = StatusFailed
    then \<exists>d1 r. job_svc_Retry None None clock now i d = (Inr (), d1) \<and>
        job_at d1 i = Some (set_retry now clock (J_AttemptCount j) j) \<and>
        job_at (attempt_once now' wid reg env i d1) i = Some r \<and> J_Status r = StatusDead \<and>
        J_AttemptCount r = J_AttemptCount j + 1
    else job_svc_Retry None None clock now i d =
        (Inl (Conflict ''only failed or dead jobs can be manually retried''), d)"
proof (cases "J_Status j = StatusDead \<or> J_Status j = StatusFailed")
  case True
  define d1 where "d1 = snd (JobRepo_ScheduleRetry None now i clock (J_AttemptCount j) d)"
  define p where "p = set_retry now clock (J_AttemptCount j) j"
  have ok: "fst (JobRepo_ScheduleRetry None now i clock (J_AttemptCount j) d) = Inr ()"
    by (simp add: JobRepo_ScheduleRetry_def ignore_tag_def job_exec_def)
  have "job_svc_Retry None None clock now i d = (Inr (), d1)"
    using True assms(1) ok unfolding d1_def
    by (auto simp: job_svc_Retry_def JobRepo_GetByID_job_at intro: prod_eqI)
  moreover have row: "job_at d1 i = Some p"
    using repo.retry_row [where f = None and now = now and i = i and k = i and s = d and t = clock
        and n = "J_AttemptCount j"] assms(1) ok by (simp add: d1_def p_def)
  moreover have p: "J_Status p = StatusPending" "reg (J_Type p) = Some h" "int4 (J_RetryDelaySec p)"
    "J_AttemptCount p = J_AttemptCount j" "J_MaxRetries p = J_MaxRetries j"
    using assms(2,4) by (simp_all add: p_def set_retry_def)
  moreover obtain e where e: "h (job_timeout p) p = HErr e" using assms(3) by blast
  moreover obtain r where "job_at (attempt_once now' wid reg env i d1) i = Some r"
    "J_AttemptCount r = J_AttemptCount j + 1" "J_Status r = StatusDead"
    using attempt_once_fails [where reg = reg and h = h and e = e and env = env and now = now' and wid = wid,
        OF row p(1,2) e p(3) assms(5)] p(4,5) assms(6) by auto
  ultimately show ?thesis using True unfolding p_def by auto
next
  case False
  then show ?thesis using assms(1) by (simp add: job_svc_Retry_def JobRepo_GetByID_job_at)
qed

theorem manual_retry_one_attempt_witness:
  "job_svc_Retry None None 50 50 1 (sample_db [sample_job 1 StatusSucceeded 5 0 \<lparr>J_AttemptCount := 2\<rparr>]) =
     (Inl (Conflict ''only failed or dead jobs can be manually retried''),
      sample_db [sample_job 1 StatusSucceeded 5 0 \<lparr>J_AttemptCount := 2\<rparr>])
   \<and> fst (job_svc_Retry None None 50 50 1 (sample_db [sample_job 1 StatusDead 5 0 \<lparr>J_AttemptCount := 2\<rparr>])) = Inr ()"
proof -
  have row: "job_at (sample_db [sample_job 1 st 5 0 \<lparr>J_AttemptCount := 2\<rparr>]) 1 =
      Some (sample_job 1 st 5 0 \<lparr>J_AttemptCount := 2\<rparr>)" for st
    by (simp add: job_at_def)
  have side: "failing_registry (J_Type (sample_job 1 st 5 0 \<lparr>J_AttemptCount := 2\<rparr>)) =
      Some (\<lambda>t j. HErr (PlainErr ''boom''))" "int4 (J_RetryDelaySec (sample_job 1 st 5 0 \<lparr>J_AttemptCount := 2\<rparr>))"
    for st by (simp_all add: failing_registry_def int4_def)
  note inst = manual_retry_one_attempt [where reg = failing_registry and h = "\<lambda>t j. HErr (PlainErr ''boom'')"
      and env = sample_env and clock = 50 and now = 50 and wid = 77 and now' = 60, OF row side(1) _ side(2) sample_env_conv]
  show ?thesis using inst [of StatusSucceeded] inst [of StatusDead] by auto
qed

lemma Create_violation:
  "job_violation j \<noteq> None \<Longrightarrow> \<exists>e. JobRepo_Create f j d = (Inl e, d)"
  by (cases f) (auto simp: JobRepo_Create_def insert_job_def)

text \<open>A request without tags (the field left out of the JSON) sends NULL for a NOT NULL
  column: unless the key already has a job, Enqueue fails and stores nothing.\<close>

theorem enqueue_without_tags_fails:
  assumes "ER_Tags req = None" and "\<forall>r\<in>set (jobs d). J_IdempotencyKey r = None"
  shows "\<exists>e. job_svc_Enqueue f_key f_queue f_create new_id clock qid req d = (Inl e, d)"
proof -
  have create: "\<exists>e. JobRepo_Create f_create (new_job new_id clock qid req q) d = (Inl e, d)" for q
    using job_violation_NoneD(4) [of "new_job new_id clock qid req q"] assms(1)
    by (intro Create_violation) auto
  have "sql_row (\<lambda>j. J_IdempotencyKey j = Some key) (jobs d) = None" for key
    using assms(2) by (auto simp: sql_row_None)
  then have "idempotency_check f_key req d = None \<or> (\<exists>e. idempotency_check f_key req d = Some (Inl e))"
    by (cases f_key) (auto simp: idempotency_check_def GetByIdempotencyKey_row GetByIdempotencyKey_fault
        split: option.splits)
  then show ?thesis
  proof
    assume none: "idempotency_check f_key req d = None"
    show ?thesis
    proof (cases "QueueRepo_GetByID f_queue qid d")
      case (Inr q)
      obtain e where "JobRepo_Create f_create (new_job new_id clock qid req q) d = (Inl e, d)"
        using create by blast
      then show ?thesis using none Inr by (simp add: job_svc_Enqueue_def Let_def)
    qed (use none in \<open>simp add: job_svc_Enqueue_def\<close>)
  qed (auto simp: job_svc_Enqueue_def)
qed

theorem enqueue_without_tags_fails_witness:
  "\<exists>e. job_svc_Enqueue None None None 5 100 7 (sample_request\<lparr>ER_Tags := None\<rparr>) (sample_db []) =
     (Inl e, sample_db [])"
  by (rule enqueue_without_tags_fails) simp_all

end
