(* ===== verification/SmallRepos.thy ===== *)
theory SmallRepos
  imports Database
begin

text \<open>
  The repositories of batches, workers, metrics and execution logs
  (\<open>internal/repository/postgres/{batch,worker,metrics,execlog}.go\<close>).
\<close>

section \<open>Batches\<close>

definition insert_batch :: "Batch \<Rightarrow> db \<Rightarrow> unit res \<times> db" where
  "insert_batch b d =
     (if \<not> (int4 (B_TotalJobs b) \<and> int4 (B_PendingCount b) \<and> int4 (B_SucceededCount b) \<and>
            int4 (B_FailedCount b)) then (Inl out_of_range, d)
      else if 255 < length (B_Name b) then (Inl string_too_long, d)
      else if exists_id B_ID (B_ID b) (batches d) then (Inl unique_violation, d)
      else if \<not> exists_id Q_ID (B_QueueID b) (queues d) then (Inl foreign_key_violation, d)
      else (Inr (), d\<lparr>batches := batches d @ [b]\<rparr>))"

definition BatchRepo_Create :: "fault \<Rightarrow> Batch \<Rightarrow> db \<Rightarrow> unit res \<times> db" where
  "BatchRepo_Create f b d = db_call f (insert_batch b) d"

text \<open>Get compares with \<open>==\<close> and returns a plain error, not an AppError.\<close>

definition BatchRepo_Get :: "fault \<Rightarrow> uuid \<Rightarrow> db \<Rightarrow> Batch res" where
  "BatchRepo_Get f i d =
     (case f of Some m \<Rightarrow> Inl (PlainErr m)
      | None \<Rightarrow> (case sql_row (\<lambda>b. B_ID b = i) (batches d) of
          None \<Rightarrow> Inl (PlainErr ''batch not found'') | Some b \<Rightarrow> Inr b))"

definition batch_progress :: "int \<Rightarrow> int \<Rightarrow> Batch \<Rightarrow> BatchStatus" where
  "batch_progress succeeded failed b =
     (if B_SucceededCount b + succeeded + B_FailedCount b + failed = B_TotalJobs b \<and>
         B_FailedCount b + failed = 0 then BatchCompleted
      else if B_SucceededCount b + succeeded + B_FailedCount b + failed = B_TotalJobs b \<and>
         B_FailedCount b + failed > 0 then BatchPartialFailure
      else BatchRunning)"

definition bump_batch :: "int \<Rightarrow> int \<Rightarrow> time \<Rightarrow> Batch \<Rightarrow> Batch" where
  "bump_batch succeeded failed now b = b\<lparr>
     B_SucceededCount := B_SucceededCount b + succeeded,
     B_FailedCount := B_FailedCount b + failed,
     B_PendingCount := B_PendingCount b - (succeeded + failed),
     B_Status := batch_progress succeeded failed b,
     B_UpdatedAt := now\<rparr>"

definition BatchRepo_IncrementCounters :: "fault \<Rightarrow> time \<Rightarrow> uuid \<Rightarrow> int \<Rightarrow> int \<Rightarrow> db \<Rightarrow> unit res \<times> db" where
  "BatchRepo_IncrementCounters f now i succeeded failed d =
     db_call f (\<lambda>d. (Inr (), d\<lparr>batches := sql_update (\<lambda>b. B_ID b = i)
       (bump_batch succeeded failed now) (batches d)\<rparr>)) d"

section \<open>Workers\<close>

text \<open>The enumeration of the schema has no \<open>dead\<close>: writing that status is refused.\<close>

definition WorkerRepo_Register :: "fault \<Rightarrow> time \<Rightarrow> Worker \<Rightarrow> db \<Rightarrow> unit res \<times> db" where
  "WorkerRepo_Register f now w d = db_call f (\<lambda>d.
     if W_Status w = WorkerDead then (Inl invalid_text, d)
     else if \<not> int4 (W_PID w) \<or> \<not> int4 (W_Concurrency w) then (Inl out_of_range, d)
     else if 255 < length (W_Hostname w) \<or> 50 < length (W_Version w) then (Inl string_too_long, d)
     else if exists_id W_ID (W_ID w) (workers d)
     then (Inr (), d\<lparr>workers := sql_update (\<lambda>r. W_ID r = W_ID w)
             (\<lambda>r. r\<lparr>W_Status := W_Status w, W_LastHeartbeatAt := now\<rparr>) (workers d)\<rparr>)
     else (Inr (), d\<lparr>workers := workers d @ [w\<lparr>W_LastHeartbeatAt := now, W_RegisteredAt := now\<rparr>]\<rparr>)) d"

definition WorkerRepo_Heartbeat :: "fault \<Rightarrow> time \<Rightarrow> uuid \<Rightarrow> db \<Rightarrow> unit res \<times> db" where
  "WorkerRepo_Heartbeat f now i d = db_call f (\<lambda>d. (Inr (), d\<lparr>workers := sql_update (\<lambda>r. W_ID r = i)
     (\<lambda>r. r\<lparr>W_LastHeartbeatAt := now, W_Status := WorkerActive\<rparr>) (workers d)\<rparr>)) d"

section \<open>Metrics\<close>

definition MetricsRepo_SaveSnapshot :: "fault \<Rightarrow> QueueMetricsSnapshot \<Rightarrow> db \<Rightarrow> unit res \<times> db" where
  "MetricsRepo_SaveSnapshot f m d = db_call f (\<lambda>d.
     if \<not> (int4 (QM_JobsEnqueued m) \<and> int4 (QM_JobsSucceeded m) \<and> int4 (QM_JobsFailed m) \<and>
            int4 (QM_JobsDead m) \<and> int4 (QM_AvgWaitMs m) \<and> int4 (QM_AvgDurationMs m))
     then (Inl out_of_range, d)
     else if exists_id QM_ID (QM_ID m) (queue_metrics d) \<or>
        (\<exists>r\<in>set (queue_metrics d). QM_QueueID r = QM_QueueID m \<and> QM_WindowStart r = QM_WindowStart m)
     then (Inl unique_violation, d)
     else if \<not> exists_id Q_ID (QM_QueueID m) (queues d) then (Inl foreign_key_violation, d)
     else (Inr (), d\<lparr>queue_metrics := queue_metrics d @ [m]\<rparr>)) d"

definition MetricsRepo_GetSnapshots :: "fault \<Rightarrow> uuid \<Rightarrow> time \<Rightarrow> db \<Rightarrow> QueueMetricsSnapshot list res" where
  "MetricsRepo_GetSnapshots f qid since d =
     (case f of Some m \<Rightarrow> Inl (PlainErr m)
      | None \<Rightarrow> Inr (sql_order QM_WindowStart
          (sql_select (\<lambda>m. QM_QueueID m = qid \<and> since \<le> QM_WindowEnd m) (queue_metrics d))))"

definition MetricsRepo_GetSystemMetrics :: "fault \<Rightarrow> fault \<Rightarrow> fault \<Rightarrow> db \<Rightarrow> SystemMetrics res" where
  "MetricsRepo_GetSystemMetrics f_workers f_queues f_jobs d =
     (case f_workers of Some m \<Rightarrow> Inl (PlainErr m)
      | None \<Rightarrow> (case f_queues of Some m \<Rightarrow> Inl (PlainErr m)
      | None \<Rightarrow> (case f_jobs of Some m \<Rightarrow> Inl (PlainErr m)
      | None \<Rightarrow> Inr \<lparr>ActiveWorkers = sql_count (\<lambda>w. W_Status w = WorkerActive) (workers d),
          DrainingWorkers = sql_count (\<lambda>w. W_Status w = WorkerDraining) (workers d),
          TotalQueues = length (queues d),
          TotalJobsPending = sql_count (\<lambda>j. J_Status j = StatusPending) (jobs d),
          TotalJobsRunning = sql_count (\<lambda>j. J_Status j = StatusRunning) (jobs d)\<rparr>)))"

section \<open>Execution logs\<close>

definition valid_execution_status :: "string \<Rightarrow> bool" where
  "valid_execution_status s \<longleftrightarrow> s \<in> set [''started'', ''succeeded'', ''failed'', ''timed_out'']"

definition ExecLogRepo_CreateExecution :: "fault \<Rightarrow> JobExecution \<Rightarrow> db \<Rightarrow> unit res \<times> db" where
  "ExecLogRepo_CreateExecution f e d = db_call f (\<lambda>d.
     if \<not> int4 (JE_Attempt e) then (Inl out_of_range, d)
     else if \<not> valid_execution_status (JE_Status e) then (Inl invalid_text, d)
     else if exists_id JE_ID (JE_ID e) (job_executions d) then (Inl unique_violation, d)
     else if \<not> exists_id J_ID (JE_JobID e) (jobs d) \<or> \<not> exists_id W_ID (JE_WorkerID e) (workers d)
     then (Inl foreign_key_violation, d)
     else (Inr (), d\<lparr>job_executions := job_executions d @ [e\<lparr>JE_CompletedAt := None,
       JE_DurationMs := None, JE_ErrorMessage := None, JE_StackTrace := None, JE_Result := None\<rparr>]\<rparr>)) d"

definition ExecLogRepo_UpdateExecution :: "fault \<Rightarrow> JobExecution \<Rightarrow> db \<Rightarrow> unit res \<times> db" where
  "ExecLogRepo_UpdateExecution f e d = db_call f (\<lambda>d.
     if \<not> valid_execution_status (JE_Status e) then (Inl invalid_text, d)
     else if \<not> (case JE_DurationMs e of None \<Rightarrow> True | Some n \<Rightarrow> int4 n) then (Inl out_of_range, d)
     else (Inr (), d\<lparr>job_executions := sql_update (\<lambda>r. JE_ID r = JE_ID e)
       (\<lambda>r. r\<lparr>JE_Status := JE_Status e, JE_CompletedAt := JE_CompletedAt e,
          JE_DurationMs := JE_DurationMs e, JE_ErrorMessage := JE_ErrorMessage e,
          JE_StackTrace := JE_StackTrace e, JE_Result := JE_Result e\<rparr>) (job_executions d)\<rparr>)) d"

definition ExecLogRepo_ListExecutionsByJob :: "fault \<Rightarrow> uuid \<Rightarrow> db \<Rightarrow> JobExecution list res" where
  "ExecLogRepo_ListExecutionsByJob f jid d =
     (case f of Some m \<Rightarrow> Inl (PlainErr m)
      | None \<Rightarrow> Inr (sql_order JE_Attempt (sql_select (\<lambda>e. JE_JobID e = jid) (job_executions d))))"

text \<open>A nil metadata map is sent as NULL, which the column refuses; job_id is not a column.\<close>

definition insert_log :: "ExecutionLog \<Rightarrow> db \<Rightarrow> unit res \<times> db" where
  "insert_log l d =
     (if EL_Metadata l = None then (Inl not_null_violation, d)
      else if exists_id EL_ID (EL_ID l) (execution_logs d) then (Inl unique_violation, d)
      else if \<not> exists_id JE_ID (EL_ExecutionID l) (job_executions d) then (Inl foreign_key_violation, d)
      else (Inr (), d\<lparr>execution_logs := execution_logs d @ [l\<lparr>EL_JobID := uuid_Nil\<rparr>]\<rparr>))"

text \<open>One INSERT per line, outside a transaction; \<open>faults\<close> gives the fault of each statement.\<close>

fun add_logs_loop :: "(nat \<Rightarrow> fault) \<Rightarrow> nat \<Rightarrow> ExecutionLog list \<Rightarrow> db \<Rightarrow> unit res \<times> db" where
  "add_logs_loop faults n [] d = (Inr (), d)"
| "add_logs_loop faults n (l # ls) d =
     (case db_call (faults n) (insert_log l) d of
        (Inl e, d') \<Rightarrow> (Inl e, d')
      | (Inr _, d') \<Rightarrow> add_logs_loop faults (Suc n) ls d')"

definition ExecLogRepo_AddLogs :: "(nat \<Rightarrow> fault) \<Rightarrow> ExecutionLog list \<Rightarrow> db \<Rightarrow> unit res \<times> db" where
  "ExecLogRepo_AddLogs faults logs d =
     (if logs = [] then (Inr (), d) else add_logs_loop faults 0 logs d)"

definition ExecLogRepo_ListLogsByExecution :: "fault \<Rightarrow> uuid \<Rightarrow> db \<Rightarrow> ExecutionLog list res" where
  "ExecLogRepo_ListLogsByExecution f eid d =
     (case f of Some m \<Rightarrow> Inl (PlainErr m)
      | None \<Rightarrow> Inr (sql_order EL_LoggedAt (sql_select (\<lambda>l. EL_ExecutionID l = eid) (execution_logs d))))"

definition ExecLogRepo_ListLogsByJob :: "fault \<Rightarrow> uuid \<Rightarrow> db \<Rightarrow> ExecutionLog list res" where
  "ExecLogRepo_ListLogsByJob f jid d =
     (case f of Some m \<Rightarrow> Inl (PlainErr m)
      | None \<Rightarrow> Inr (sql_order EL_LoggedAt (sql_select (\<lambda>l. \<exists>e\<in>set (job_executions d).
          JE_ID e = EL_ExecutionID l \<and> JE_JobID e = jid) (execution_logs d))))"

section \<open>Facts\<close>

text \<open>However the outcomes of a batch's jobs are reported, one increment after another, the
  pending, succeeded and failed counts always add up to the total they started with.\<close>

theorem batch_counts_conserved:
  "(let b' = fold (\<lambda>(s, f, t). bump_batch s f t) reports b in
     B_PendingCount b' + B_SucceededCount b' + B_FailedCount b' =
       B_PendingCount b + B_SucceededCount b + B_FailedCount b \<and> B_TotalJobs b' = B_TotalJobs b)"
proof (induction reports arbitrary: b)
  case (Cons r reports)
  obtain s f t where r: "r = (s, f, t)" by (cases r)
  show ?case using Cons [of "bump_batch s f t b"] by (simp add: r bump_batch_def Let_def)
qed simp

text \<open>After a report the batch is completed exactly when every job is accounted for and none
  failed, and a partial failure exactly when all are accounted for and some failed.\<close>

theorem batch_status_of_counts:
  assumes "0 \<le> B_FailedCount b" and "0 \<le> failed"
    and "B_PendingCount b + B_SucceededCount b + B_FailedCount b = B_TotalJobs b"
  shows "(B_Status (bump_batch succeeded failed now b) = BatchCompleted \<longleftrightarrow>
      B_PendingCount (bump_batch succeeded failed now b) = 0 \<and>
      B_FailedCount (bump_batch succeeded failed now b) = 0) \<and>
    (B_Status (bump_batch succeeded failed now b) = BatchPartialFailure \<longleftrightarrow>
      B_PendingCount (bump_batch succeeded failed now b) = 0 \<and>
      0 < B_FailedCount (bump_batch succeeded failed now b))"
proof -
  have "B_SucceededCount b + succeeded + B_FailedCount b + failed = B_TotalJobs b \<longleftrightarrow>
      B_PendingCount b - (succeeded + failed) = 0"
    using assms(3) by linarith
  then show ?thesis using assms(1,2) by (auto simp: bump_batch_def batch_progress_def)
qed

definition sample_batch :: Batch where
  "sample_batch = \<lparr>B_ID = 1, B_QueueID = 7, B_Name = ''nightly'', B_TotalJobs = 2,
     B_PendingCount = 2, B_SucceededCount = 0, B_FailedCount = 0, B_Status = BatchPending,
     B_CreatedAt = 0, B_UpdatedAt = 0\<rparr>"

theorem batch_status_of_counts_witness:
  "B_Status (bump_batch 1 1 5 sample_batch) = BatchPartialFailure"
  using batch_status_of_counts [of sample_batch 1 1 5] by (simp add: sample_batch_def bump_batch_def)

end
