(* ===== verification/BatchService.thy ===== *)
theory BatchService
  imports JobRepo SmallRepos
begin

text \<open>
  The batch service (\<open>internal/service/batch/batch.go\<close>) and the specifications its handler
  builds (\<open>internal/handler/batch/batch.go\<close>). The batch row is inserted first, then the jobs
  one after another; an insertion that fails is logged and skipped.
\<close>

record JobSpecBody =
  JS_Type :: string
  JS_Payload :: "jsonmap option"
  JS_Priority :: int
  JS_MaxRetries :: "int option"
  JS_IdempotencyKey :: string

definition job_of_spec :: "JobSpecBody \<Rightarrow> Job" where
  "job_of_spec jreq = zero_Job\<lparr>J_Type := JS_Type jreq, J_Payload := JS_Payload jreq,
     J_Priority := (if JS_Priority jreq \<noteq> 0 then JS_Priority jreq else 5),
     J_MaxRetries := (case JS_MaxRetries jreq of Some n \<Rightarrow> n | None \<Rightarrow> 3),
     J_IdempotencyKey := (if JS_IdempotencyKey jreq \<noteq> [] then Some (JS_IdempotencyKey jreq) else None)\<rparr>"

definition new_batch :: "uuid \<Rightarrow> time \<Rightarrow> uuid \<Rightarrow> string \<Rightarrow> nat \<Rightarrow> Batch" where
  "new_batch new_id now queueID name n = \<lparr>B_ID = new_id, B_QueueID = queueID, B_Name = name,
     B_TotalJobs = int n, B_PendingCount = int n, B_SucceededCount = 0, B_FailedCount = 0,
     B_Status = BatchPending, B_CreatedAt = now, B_UpdatedAt = now\<rparr>"

definition batch_job :: "uuid \<Rightarrow> uuid \<Rightarrow> uuid \<Rightarrow> time \<Rightarrow> Job \<Rightarrow> Job" where
  "batch_job new_id queueID batchID now spec =
     (let j = spec\<lparr>J_ID := new_id, J_QueueID := queueID, J_BatchID := Some batchID,
        J_Status := StatusPending, J_CreatedAt := now, J_UpdatedAt := now\<rparr>
      in if time_IsZero (J_RunAt j) then j\<lparr>J_RunAt := now\<rparr> else j)"

text \<open>\<open>ids n\<close> is the identifier drawn for the n-th job, \<open>faults n\<close> the failure of its insert.\<close>

fun insert_batch_jobs ::
  "(nat \<Rightarrow> fault) \<Rightarrow> (nat \<Rightarrow> uuid) \<Rightarrow> uuid \<Rightarrow> uuid \<Rightarrow> time \<Rightarrow> nat \<Rightarrow> Job list \<Rightarrow> db \<Rightarrow> db" where
  "insert_batch_jobs faults ids queueID batchID now n [] d = d"
| "insert_batch_jobs faults ids queueID batchID now n (spec # specs) d =
     insert_batch_jobs faults ids queueID batchID now (Suc n) specs
       (snd (JobRepo_Create (faults n) (batch_job (ids n) queueID batchID now spec) d))"

definition batch_svc_CreateBatch ::
  "fault \<Rightarrow> (nat \<Rightarrow> fault) \<Rightarrow> uuid \<Rightarrow> (nat \<Rightarrow> uuid) \<Rightarrow> time \<Rightarrow> uuid \<Rightarrow> string \<Rightarrow> Job list \<Rightarrow> db \<Rightarrow> Batch res \<times> db" where
  "batch_svc_CreateBatch f faults new_id ids now queueID name jobSpecs d =
     (let b = new_batch new_id now queueID name (length jobSpecs) in
      case BatchRepo_Create f b d of
        (Inl e, d') \<Rightarrow> (Inl e, d')
      | (Inr _, d') \<Rightarrow> (Inr b, insert_batch_jobs faults ids queueID new_id now 0 jobSpecs d'))"

definition batch_svc_Get :: "fault \<Rightarrow> uuid \<Rightarrow> db \<Rightarrow> Batch res" where
  "batch_svc_Get f i d = BatchRepo_Get f i d"

section \<open>Facts\<close>

lemma batch_job_sel [simp]:
  "J_ID (batch_job i q b t s) = i" "J_QueueID (batch_job i q b t s) = q"
  "J_BatchID (batch_job i q b t s) = Some b" "J_Status (batch_job i q b t s) = StatusPending"
  "J_Tags (batch_job i q b t s) = J_Tags s" "J_RetryStrategy (batch_job i q b t s) = J_RetryStrategy s"
  by (simp_all add: batch_job_def Let_def)

lemma BatchRepo_Create_ok:
  "BatchRepo_Create f b d = (Inr u, d') \<Longrightarrow> d' = d\<lparr>batches := batches d @ [b]\<rparr>"
  by (cases f) (auto simp: BatchRepo_Create_def insert_batch_def split: if_splits)

lemma insert_batch_jobs_spec:
  "\<exists>js. insert_batch_jobs faults ids q b now n specs d = d\<lparr>jobs := jobs d @ js\<rparr> \<and> length js \<le> length specs \<and>
     list_all (\<lambda>j. J_BatchID j = Some b \<and> J_QueueID j = q \<and> J_Status j = StatusPending) js"
proof (induction specs arbitrary: n d)
  case Nil
  then show ?case by (intro exI [of _ "[]"]) simp
next
  case (Cons s specs)
  let ?j = "batch_job (ids n) q b now s"
  obtain r d1 where c: "JobRepo_Create (faults n) ?j d = (r, d1)"
    by (cases "JobRepo_Create (faults n) ?j d")
  obtain js where js: "insert_batch_jobs faults ids q b now (Suc n) specs d1 = d1\<lparr>jobs := jobs d1 @ js\<rparr>"
    "length js \<le> length specs"
    "list_all (\<lambda>j. J_BatchID j = Some b \<and> J_QueueID j = q \<and> J_Status j = StatusPending) js"
    using Cons.IH by blast
  consider "d1 = d" | "d1 = d\<lparr>jobs := jobs d @ [inserted_job ?j]\<rparr>"
    using c by (cases rule: Create_cases) auto
  then show ?case
  proof cases
    case 1
    then show ?thesis using js c by (intro exI [of _ js]) simp
  next
    case 2
    then show ?thesis using js c by (intro exI [of _ "inserted_job ?j # js"]) (simp add: inserted_job_def)
  qed
qed

lemma create_batch_rows:
  assumes "batch_svc_CreateBatch f faults new_id ids now qid name specs d = (r, d')"
  shows "d' = d \<or> (\<exists>b js. d' = (d\<lparr>batches := batches d @ [b]\<rparr>)\<lparr>jobs := jobs d @ js\<rparr>)"
proof -
  let ?b = "new_batch new_id now qid name (length specs)"
  obtain x d1 where c: "BatchRepo_Create f ?b d = (x, d1)" by (cases "BatchRepo_Create f ?b d")
  show ?thesis
  proof (cases x)
    case (Inl e)
    then have "d1 = d" using c by (cases f) (auto simp: BatchRepo_Create_def insert_batch_def split: if_splits)
    then show ?thesis using c Inl assms by (simp add: batch_svc_CreateBatch_def Let_def)
  next
    case (Inr u)
    then have "d1 = d\<lparr>batches := batches d @ [?b]\<rparr>" using c BatchRepo_Create_ok by simp
    then show ?thesis using c Inr assms insert_batch_jobs_spec [of faults ids qid new_id now 0 specs d1]
      by (auto simp: batch_svc_CreateBatch_def Let_def)
  qed
qed

text \<open>Creating a batch either fails and stores nothing, or stores the batch row counting all
  the requested jobs as pending, and at most that many jobs: all of the batch and its queue, all
  pending. Nothing else changes.\<close>

theorem create_batch_spec:
  "case batch_svc_CreateBatch f faults new_id ids now qid name specs d of
     (Inl e, d') \<Rightarrow> d' = d
   | (Inr b, d') \<Rightarrow> (\<exists>js. d' = d\<lparr>batches := batches d @ [b], jobs := jobs d @ js\<rparr> \<and>
       length js \<le> length specs \<and> B_TotalJobs b = int (length specs) \<and> B_PendingCount b = B_TotalJobs b \<and>
       list_all (\<lambda>j. J_BatchID j = Some (B_ID b) \<and> J_QueueID j = qid \<and> J_Status j = StatusPending) js)"
proof -
  let ?b = "new_batch new_id now qid name (length specs)"
  have b: "B_ID ?b = new_id" "B_TotalJobs ?b = int (length specs)" "B_PendingCount ?b = B_TotalJobs ?b"
    by (simp_all add: new_batch_def)
  obtain r d1 where c: "BatchRepo_Create f ?b d = (r, d1)" by (cases "BatchRepo_Create f ?b d")
  show ?thesis
  proof (cases r)
    case (Inl e)
    have "d1 = d" using c Inl by (cases f) (auto simp: BatchRepo_Create_def insert_batch_def split: if_splits)
    then show ?thesis using c Inl by (simp add: batch_svc_CreateBatch_def Let_def)
  next
    case (Inr u)
    have d1: "d1 = d\<lparr>batches := batches d @ [?b]\<rparr>" using c Inr BatchRepo_Create_ok by simp
    obtain js where js: "insert_batch_jobs faults ids qid new_id now 0 specs d1 = d1\<lparr>jobs := jobs d1 @ js\<rparr>"
      "length js \<le> length specs"
      "list_all (\<lambda>j. J_BatchID j = Some new_id \<and> J_QueueID j = qid \<and> J_Status j = StatusPending) js"
      using insert_batch_jobs_spec by blast
    have "batch_svc_CreateBatch f faults new_id ids now qid name specs d =
        (Inr ?b, d\<lparr>batches := batches d @ [?b], jobs := jobs d @ js\<rparr>)"
      using c Inr js(1) d1 by (simp add: batch_svc_CreateBatch_def Let_def)
    then show ?thesis using js(2,3) b by auto
  qed
qed

lemma spec_violation: "job_violation (batch_job i q b t (job_of_spec s)) \<noteq> None"
proof
  assume "job_violation (batch_job i q b t (job_of_spec s)) = None"
  from job_violation_NoneD(4) [OF this] show False by (simp add: job_of_spec_def zero_Job_def)
qed

lemma spec_not_stored:
  "snd (JobRepo_Create f (batch_job i q b t (job_of_spec s)) d) = d"
  using spec_violation [of i q b t s] by (cases f) (auto simp: JobRepo_Create_def insert_job_def)

lemma specs_not_stored:
  "insert_batch_jobs faults ids q b t n (map job_of_spec reqs) d = d"
  by (induction reqs arbitrary: n) (simp_all add: spec_not_stored)

text \<open>The specifications the handler builds have neither tags nor a retry strategy, so every
  insertion of a batch job fails and is only logged: the client gets a created batch that counts
  its jobs as pending, and no job is stored.\<close>

theorem batch_without_jobs:
  "case batch_svc_CreateBatch f faults new_id ids now qid name (map job_of_spec reqs) d of
     (Inl e, d') \<Rightarrow> d' = d
   | (Inr b, d') \<Rightarrow> d' = d\<lparr>batches := batches d @ [b]\<rparr> \<and> B_PendingCount b = int (length reqs)"
proof -
  let ?b = "new_batch new_id now qid name (length reqs)"
  obtain r d1 where c: "BatchRepo_Create f ?b d = (r, d1)" by (cases "BatchRepo_Create f ?b d")
  show ?thesis
  proof (cases r)
    case (Inl e)
    have "d1 = d" using c Inl by (cases f) (auto simp: BatchRepo_Create_def insert_batch_def split: if_splits)
    then show ?thesis using c Inl by (simp add: batch_svc_CreateBatch_def Let_def)
  next
    case (Inr u)
    then show ?thesis using c BatchRepo_Create_ok [of f ?b d u d1]
      by (simp add: batch_svc_CreateBatch_def Let_def specs_not_stored) (simp add: new_batch_def)
  qed
qed

end
