(* ===== verification/CronRepo.thy ===== *)
theory CronRepo
  imports Database
begin

text \<open>\<open>CronRepo\<close> (\<open>internal/repository/postgres/cron.go\<close>): recurring job definitions.\<close>

definition cron_violation :: "CronJob \<Rightarrow> goerr option" where
  "cron_violation c = first_violation
     [(case C_MaxRetries c of None \<Rightarrow> True | Some n \<Rightarrow> int4 n, out_of_range),
      (case C_RetryStrategy c of None \<Rightarrow> True | Some s \<Rightarrow> valid_strategy s, invalid_text),
      (length (C_Name c) \<le> 255, string_too_long),
      (length (C_CronExpr c) \<le> 100, string_too_long),
      (length (C_Timezone c) \<le> 100, string_too_long),
      (length (C_JobType c) \<le> 255, string_too_long)]"

definition insert_cron :: "CronJob \<Rightarrow> db \<Rightarrow> unit res \<times> db" where
  "insert_cron c d =
     (case cron_violation c of
        Some e \<Rightarrow> (Inl e, d)
      | None \<Rightarrow>
          if exists_id C_ID (C_ID c) (cron_jobs d) \<or>
             (\<exists>r\<in>set (cron_jobs d). C_QueueID r = C_QueueID c \<and> C_Name r = C_Name c)
          then (Inl unique_violation, d)
          else if \<not> exists_id Q_ID (C_QueueID c) (queues d) then (Inl foreign_key_violation, d)
          else (Inr (), d\<lparr>cron_jobs := cron_jobs d @ [c\<lparr>C_LastFiredAt := None\<rparr>]\<rparr>))"

definition CronRepo_Create :: "fault \<Rightarrow> CronJob \<Rightarrow> db \<Rightarrow> unit res \<times> db" where
  "CronRepo_Create f c d =
     map_prod (insert_err (AlreadyExists ''cron job name'') ''create cron job'') id (db_call f (insert_cron c) d)"

definition CronRepo_GetByID :: "fault \<Rightarrow> uuid \<Rightarrow> db \<Rightarrow> CronJob res" where
  "CronRepo_GetByID f i d = get_row (NotFound ''cron job'') ''get cron by id'' f
     (sql_row (\<lambda>c. C_ID c = i) (cron_jobs d))"

definition CronRepo_ListByQueueID :: "(string \<Rightarrow> int) \<Rightarrow> fault \<Rightarrow> uuid \<Rightarrow> db \<Rightarrow> CronJob list res" where
  "CronRepo_ListByQueueID collate f qid d = list_rows ''list cron jobs'' f
     (sql_order (\<lambda>c. collate (C_Name c)) (sql_select (\<lambda>c. C_QueueID c = qid) (cron_jobs d)))"

definition cron_due :: "time \<Rightarrow> CronJob \<Rightarrow> bool" where
  "cron_due now c \<longleftrightarrow> C_IsActive c = True \<and> null_le (C_NextFireAt c) now"

definition CronRepo_ListDue :: "fault \<Rightarrow> time \<Rightarrow> db \<Rightarrow> CronJob list res" where
  "CronRepo_ListDue f now d = list_rows ''list due cron jobs'' f
     (sql_order (\<lambda>c. case C_NextFireAt c of None \<Rightarrow> 0 | Some t \<Rightarrow> t)
        (sql_select (cron_due now) (cron_jobs d)))"

definition CronRepo_Update :: "fault \<Rightarrow> time \<Rightarrow> CronJob \<Rightarrow> db \<Rightarrow> unit res \<times> db" where
  "CronRepo_Update f now c = exec_tag (NotFound ''cron job'') ''update cron job'' f
     (\<lambda>d. let n = sql_count (\<lambda>r. C_ID r = C_ID c) (cron_jobs d) in
        if n = 0 then (Inr 0, d)
        else case cron_violation c of
          Some e \<Rightarrow> (Inl e, d)
        | None \<Rightarrow>
            if \<exists>r\<in>set (cron_jobs d). C_ID r \<noteq> C_ID c \<and> C_Name r = C_Name c \<and>
                 (\<exists>s\<in>set (cron_jobs d). C_ID s = C_ID c \<and> C_QueueID s = C_QueueID r)
            then (Inl unique_violation, d)
            else (Inr n, d\<lparr>cron_jobs := sql_update (\<lambda>r. C_ID r = C_ID c)
              (\<lambda>r. r\<lparr>C_Name := C_Name c, C_Description := C_Description c, C_CronExpr := C_CronExpr c,
                 C_Timezone := C_Timezone c, C_JobType := C_JobType c, C_Payload := C_Payload c,
                 C_MaxRetries := C_MaxRetries c, C_RetryStrategy := C_RetryStrategy c,
                 C_IsActive := C_IsActive c, C_NextFireAt := C_NextFireAt c, C_UpdatedAt := now\<rparr>)
              (cron_jobs d)\<rparr>))"

definition CronRepo_UpdateFireTimes :: "fault \<Rightarrow> time \<Rightarrow> uuid \<Rightarrow> time \<Rightarrow> time \<Rightarrow> db \<Rightarrow> unit res \<times> db" where
  "CronRepo_UpdateFireTimes f now i lastFiredAt nextFireAt d = db_call f (\<lambda>d. (Inr (),
     d\<lparr>cron_jobs := sql_update (\<lambda>c. C_ID c = i)
        (\<lambda>c. c\<lparr>C_LastFiredAt := Some lastFiredAt, C_NextFireAt := Some nextFireAt, C_UpdatedAt := now\<rparr>)
        (cron_jobs d)\<rparr>)) d"

definition CronRepo_SetActive :: "fault \<Rightarrow> time \<Rightarrow> uuid \<Rightarrow> bool \<Rightarrow> db \<Rightarrow> unit res \<times> db" where
  "CronRepo_SetActive f now i active d =
     (case db_call f (\<lambda>d. (Inr (sql_count (\<lambda>c. C_ID c = i) (cron_jobs d)),
         d\<lparr>cron_jobs := sql_update (\<lambda>c. C_ID c = i)
            (\<lambda>c. c\<lparr>C_IsActive := active, C_UpdatedAt := now\<rparr>) (cron_jobs d)\<rparr>)) d of
        (Inl e, d') \<Rightarrow> (Inl e, d')
      | (Inr n, d') \<Rightarrow> (if n = 0 then Inl (NotFound ''cron job'') else Inr (), d'))"

definition CronRepo_Delete :: "fault \<Rightarrow> uuid \<Rightarrow> db \<Rightarrow> unit res \<times> db" where
  "CronRepo_Delete f i = exec_tag (NotFound ''cron job'') ''delete cron job'' f
     (\<lambda>d. let n = sql_count (\<lambda>c. C_ID c = i) (cron_jobs d) in
        (Inr n, if n = 0 then d else cascade_crons (\<lambda>x. x = i) d))"

lemma cron_due_never [simp]: "C_NextFireAt c = None \<Longrightarrow> \<not> cron_due now c"
  by (simp add: cron_due_def)

lemma ListDue_mem: "CronRepo_ListDue f now d = Inr cs \<Longrightarrow> set cs = {c \<in> set (cron_jobs d). cron_due now c}"
  by (cases f) (auto simp: CronRepo_ListDue_def sql_order_def sql_select_def)

end
