(* ===== verification/Lock.thy ===== *)
theory Lock
  imports AppErrors
begin

text \<open>
  The Redis-backed mutex (\<open>pkg/lock/lock.go\<close>) and the part of the cache client it uses
  (\<open>internal/platform/cache/cache.go\<close>). Redis is a service: its commands are parameters of the
  client's methods, and the locale \<open>cache_client\<close> states what the lock needs of the client.
  The store at the end is the documented behaviour of GET, SET NX, DEL and EXPIRE with expiry
  times; the client over it satisfies the locale.
\<close>

section \<open>The cache client\<close>

text \<open>A GET of a missing key answers \<open>redis.Nil\<close>, here None; the client turns it into the
  empty string.\<close>

definition redisClient_Get ::
  "(string \<Rightarrow> 's \<Rightarrow> string option res \<times> 's) \<Rightarrow> string \<Rightarrow> 's \<Rightarrow> string res \<times> 's" where
  "redisClient_Get rdb_Get key s =
     map_prod (map_sum id (\<lambda>v. case v of None \<Rightarrow> [] | Some x \<Rightarrow> x)) id (rdb_Get key s)"

definition redisClient_SetNX ::
  "(string \<Rightarrow> string \<Rightarrow> duration \<Rightarrow> 's \<Rightarrow> bool res \<times> 's) \<Rightarrow> string \<Rightarrow> string \<Rightarrow> duration \<Rightarrow> 's \<Rightarrow> bool res \<times> 's" where
  "redisClient_SetNX rdb_SetNX key val ttl s = rdb_SetNX key val ttl s"

definition redisClient_Del :: "(string list \<Rightarrow> 's \<Rightarrow> nat res \<times> 's) \<Rightarrow> string list \<Rightarrow> 's \<Rightarrow> unit res \<times> 's" where
  "redisClient_Del rdb_Del keys s = map_prod (map_sum id (\<lambda>_. ())) id (rdb_Del keys s)"

definition redisClient_Expire ::
  "(string \<Rightarrow> duration \<Rightarrow> 's \<Rightarrow> bool res \<times> 's) \<Rightarrow> string \<Rightarrow> duration \<Rightarrow> 's \<Rightarrow> unit res \<times> 's" where
  "redisClient_Expire rdb_Expire key ttl s = map_prod (map_sum id (\<lambda>_. ())) id (rdb_Expire key ttl s)"

section \<open>The lock\<close>

record Lock =
  L_key :: string
  L_token :: string
  L_ttl :: duration

definition lock_key :: "string \<Rightarrow> string" where
  "lock_key name = ''lock:'' @ name"

text \<open>\<open>token\<close> is the string \<open>uuid.NewString()\<close> returned.\<close>

definition Manager_Acquire ::
  "(string \<Rightarrow> string \<Rightarrow> duration \<Rightarrow> 's \<Rightarrow> bool res \<times> 's) \<Rightarrow> string \<Rightarrow> string \<Rightarrow> duration \<Rightarrow> 's \<Rightarrow> Lock res \<times> 's" where
  "Manager_Acquire setnx token name ttl s =
     (case setnx (lock_key name) token ttl s of
        (Inl e, s') \<Rightarrow> (Inl (WrapErr (''redis setnx for lock '' @ name) e), s')
      | (Inr acquired, s') \<Rightarrow>
          if \<not> acquired then (Inl ErrNotAcquired, s')
          else (Inr \<lparr>L_key = lock_key name, L_token = token, L_ttl = ttl\<rparr>, s'))"

text \<open>
  Release is two commands: the check reads the token, the deletion follows if it is ours.
  \<open>release_check\<close> answers None when Release goes on to delete.
\<close>

definition release_check ::
  "(string \<Rightarrow> 's \<Rightarrow> string res \<times> 's) \<Rightarrow> Lock \<Rightarrow> 's \<Rightarrow> unit res option \<times> 's" where
  "release_check get l s =
     (case get (L_key l) s of
        (Inl e, s') \<Rightarrow> (Some (Inl (WrapErr ''get lock token'' e)), s')
      | (Inr val, s') \<Rightarrow>
          if val = [] then (Some (Inr ()), s')
          else if val \<noteq> L_token l then (Some (Inl (PlainErr ''lock token mismatch: not the owner'')), s')
          else (None, s'))"

definition Lock_Release ::
  "(string \<Rightarrow> 's \<Rightarrow> string res \<times> 's) \<Rightarrow> (string list \<Rightarrow> 's \<Rightarrow> unit res \<times> 's) \<Rightarrow> Lock \<Rightarrow> 's \<Rightarrow> unit res \<times> 's" where
  "Lock_Release get del l s =
     (case release_check get l s of
        (Some r, s') \<Rightarrow> (r, s')
      | (None, s') \<Rightarrow> del [L_key l] s')"

definition Lock_Extend :: "(string \<Rightarrow> duration \<Rightarrow> 's \<Rightarrow> unit res \<times> 's) \<Rightarrow> Lock \<Rightarrow> 's \<Rightarrow> unit res \<times> 's" where
  "Lock_Extend expire l s = expire (L_key l) (L_ttl l) s"

text \<open>
  \<open>fn\<close> works on a state of its own; \<open>meanwhile\<close> is what becomes of the store while it runs.
  The error of the deferred Release is dropped.
\<close>

definition Manager_TryWithLock ::
  "(string \<Rightarrow> 's \<Rightarrow> string res \<times> 's) \<Rightarrow> (string \<Rightarrow> string \<Rightarrow> duration \<Rightarrow> 's \<Rightarrow> bool res \<times> 's) \<Rightarrow>
   (string list \<Rightarrow> 's \<Rightarrow> unit res \<times> 's) \<Rightarrow> ('s \<Rightarrow> 's) \<Rightarrow> string \<Rightarrow> string \<Rightarrow> duration \<Rightarrow>
   ('d \<Rightarrow> unit res \<times> 'd) \<Rightarrow> 's \<times> 'd \<Rightarrow> unit res \<times> 's \<times> 'd" where
  "Manager_TryWithLock get setnx del meanwhile token name ttl fn sd =
     (case Manager_Acquire setnx token name ttl (fst sd) of
        (Inl e, s') \<Rightarrow> (Inl e, s', snd sd)
      | (Inr l, s') \<Rightarrow>
          (let (r, d') = fn (snd sd); s'' = snd (Lock_Release get del l (meanwhile s')) in (r, s'', d')))"

section \<open>What the lock relies on\<close>

text \<open>\<open>live s k\<close> is the unexpired value of a key. An error tells nothing about what happened.\<close>

locale cache_client =
  fixes live :: "'s \<Rightarrow> string \<Rightarrow> string option"
    and get :: "string \<Rightarrow> 's \<Rightarrow> string res \<times> 's"
    and setnx :: "string \<Rightarrow> string \<Rightarrow> duration \<Rightarrow> 's \<Rightarrow> bool res \<times> 's"
    and del :: "string list \<Rightarrow> 's \<Rightarrow> unit res \<times> 's"
  assumes get_live: "get k s = (r, s') \<Longrightarrow> live s' = live s"
    and get_val: "get k s = (Inr v, s') \<Longrightarrow> v = (case live s k of None \<Rightarrow> [] | Some x \<Rightarrow> x)"
    and setnx_new: "setnx k v ttl s = (Inr True, s') \<Longrightarrow> live s k = None \<and> live s' = (live s)(k := Some v)"
    and setnx_held: "setnx k v ttl s = (Inr False, s') \<Longrightarrow> live s k \<noteq> None \<and> live s' = live s"
    and del_live: "del [k] s = (Inr u, s') \<Longrightarrow> live s' = (live s)(k := None)"
begin

lemma acquire_ok:
  "Manager_Acquire setnx token name ttl s = (Inr l, s') \<Longrightarrow>
   live s (lock_key name) = None \<and> live s' = (live s)(lock_key name := Some token) \<and>
   L_token l = token \<and> L_key l = lock_key name \<and> L_ttl l = ttl"
  by (auto simp: Manager_Acquire_def setnx_new split: prod.splits sum.splits if_splits)

lemma acquire_held: "live s (lock_key name) \<noteq> None \<Longrightarrow> fst (Manager_Acquire setnx token name ttl s) \<noteq> Inr l"
  by (metis acquire_ok prod.collapse)

lemma acquire_refused:
  "Manager_Acquire setnx token name ttl s = (Inl ErrNotAcquired, s') \<Longrightarrow>
   live s (lock_key name) \<noteq> None \<and> live s' = live s"
  using setnx_held by (auto simp: Manager_Acquire_def split: prod.splits sum.splits if_splits)

lemma check_live: "release_check get l s = (r, s') \<Longrightarrow> live s' = live s"
  by (auto simp: release_check_def dest: get_live split: prod.splits sum.splits if_splits)

lemma check_delete:
  "release_check get l s = (None, s') \<Longrightarrow> L_token l \<noteq> [] \<and> live s (L_key l) = Some (L_token l)"
  by (auto simp: release_check_def dest!: get_val split: prod.splits sum.splits if_splits option.splits)

text \<open>Run undisturbed, Release never removes the lock of another token.\<close>

lemma release_other:
  assumes "Lock_Release get del l s = (r, s')" and "live s (L_key l) \<noteq> Some (L_token l)"
  shows "live s' = live s"
proof -
  obtain c s1 where c: "release_check get l s = (c, s1)" by (cases "release_check get l s")
  then have "c \<noteq> None" using check_delete [of l s s1] assms(2) by (cases c) auto
  then have "s' = s1" using assms(1) c by (auto simp: Lock_Release_def split: option.splits)
  then show ?thesis using check_live [OF c] by simp
qed

lemma release_owner:
  assumes "Lock_Release get del l s = (Inr (), s')" and "live s (L_key l) = Some (L_token l)"
    and "L_token l \<noteq> []"
  shows "live s' = (live s)(L_key l := None)"
proof -
  obtain c s1 where c: "release_check get l s = (c, s1)" by (cases "release_check get l s")
  have "c = None" if "get (L_key l) s = (Inr v, s2)" for v s2
    using c that get_val [OF that] assms(2,3) by (simp add: release_check_def)
  then have "c = None \<or> (\<exists>e. c = Some (Inl e))"
    using c by (auto simp: release_check_def split: prod.splits sum.splits if_splits)
  then have "c = None" using assms(1) c by (auto simp: Lock_Release_def)
  then show ?thesis using assms(1) c del_live check_live [OF c]
    by (auto simp: Lock_Release_def)
qed

lemma try_runs:
  assumes "Manager_TryWithLock get setnx del meanwhile token name ttl fn (s, d) = (r, s', d')"
  shows "(\<exists>e. r = Inl e \<and> d' = d) \<or> (live s (lock_key name) = None \<and> fn d = (r, d'))"
  using assms acquire_ok
  by (auto simp: Manager_TryWithLock_def Let_def split: prod.splits sum.splits)

end

section \<open>The store\<close>

text \<open>Keys with values and expiry times, and the server's clock. A key whose time has come is gone.\<close>

record kv_store =
  kv_now :: time
  kv_map :: "string \<Rightarrow> (string \<times> time option) option"

definition kv_live :: "kv_store \<Rightarrow> string \<Rightarrow> string option" where
  "kv_live s k = (case kv_map s k of
     None \<Rightarrow> None
   | Some (v, None) \<Rightarrow> Some v
   | Some (v, Some t) \<Rightarrow> if kv_now s < t then Some v else None)"

definition redis_GET :: "string \<Rightarrow> kv_store \<Rightarrow> string option res \<times> kv_store" where
  "redis_GET k s = (Inr (kv_live s k), s)"

definition redis_SETNX :: "string \<Rightarrow> string \<Rightarrow> duration \<Rightarrow> kv_store \<Rightarrow> bool res \<times> kv_store" where
  "redis_SETNX k v ttl s =
     (if kv_live s k \<noteq> None then (Inr False, s)
      else (Inr True, s\<lparr>kv_map := (kv_map s)(k \<mapsto> (v, if sint ttl \<le> 0 then None else Some (kv_now s + sint ttl)))\<rparr>))"

definition redis_DEL :: "string list \<Rightarrow> kv_store \<Rightarrow> nat res \<times> kv_store" where
  "redis_DEL ks s =
     (Inr (length (filter (\<lambda>k. kv_live s k \<noteq> None) (remdups ks))), s\<lparr>kv_map := (kv_map s) |` (- set ks)\<rparr>)"

definition redis_EXPIRE :: "string \<Rightarrow> duration \<Rightarrow> kv_store \<Rightarrow> bool res \<times> kv_store" where
  "redis_EXPIRE k ttl s =
     (case kv_live s k of
        None \<Rightarrow> (Inr False, s)
      | Some v \<Rightarrow> (Inr True, s\<lparr>kv_map := (kv_map s)(k \<mapsto> (v, Some (kv_now s + sint ttl)))\<rparr>))"

definition kv_tick :: "nat \<Rightarrow> kv_store \<Rightarrow> kv_store" where
  "kv_tick dt s = s\<lparr>kv_now := kv_now s + int dt\<rparr>"

lemma kv_live_upd [simp]:
  "kv_live (s\<lparr>kv_map := (kv_map s)(k \<mapsto> (v, e))\<rparr>) x =
     (if x = k then (case e of None \<Rightarrow> Some v | Some t \<Rightarrow> if kv_now s < t then Some v else None) else kv_live s x)"
  by (simp add: kv_live_def split: option.splits prod.splits)

lemma kv_live_restrict [simp]:
  "kv_live (s\<lparr>kv_map := (kv_map s) |` (- {k})\<rparr>) x = (if x = k then None else kv_live s x)"
  by (simp add: kv_live_def restrict_map_def split: option.splits prod.splits)

text \<open>A call that may fail on the way, without effect: \<open>f\<close> is the failure.\<close>

interpretation rc: cache_client kv_live "\<lambda>k. db_call f (redisClient_Get redis_GET k)"
  "\<lambda>k v ttl. db_call f (redisClient_SetNX redis_SETNX k v ttl)" "\<lambda>ks. db_call f (redisClient_Del redis_DEL ks)" for f
proof unfold_locales
  fix ks s r s' k and v :: string and ttl :: duration and u :: unit
  show "db_call f (redisClient_Get redis_GET k) s = (r, s') \<Longrightarrow> kv_live s' = kv_live s"
    by (cases f) (auto simp: redisClient_Get_def redis_GET_def)
  show "db_call f (redisClient_Get redis_GET k) s = (Inr v, s') \<Longrightarrow>
      v = (case kv_live s k of None \<Rightarrow> [] | Some x \<Rightarrow> x)"
    by (cases f) (auto simp: redisClient_Get_def redis_GET_def)
  show "db_call f (redisClient_SetNX redis_SETNX k v ttl) s = (Inr True, s') \<Longrightarrow>
      kv_live s k = None \<and> kv_live s' = (kv_live s)(k := Some v)"
    by (cases f) (auto simp: redisClient_SetNX_def redis_SETNX_def fun_eq_iff split: if_splits)
  show "db_call f (redisClient_SetNX redis_SETNX k v ttl) s = (Inr False, s') \<Longrightarrow>
      kv_live s k \<noteq> None \<and> kv_live s' = kv_live s"
    by (cases f) (auto simp: redisClient_SetNX_def redis_SETNX_def split: if_splits)
  show "db_call f (redisClient_Del redis_DEL [k]) s = (Inr u, s') \<Longrightarrow> kv_live s' = (kv_live s)(k := None)"
    by (cases f) (auto simp: redisClient_Del_def redis_DEL_def fun_eq_iff)
qed

abbreviation "c_get \<equiv> \<lambda>k. db_call None (redisClient_Get redis_GET k)"
abbreviation "c_setnx \<equiv> \<lambda>k v ttl. db_call None (redisClient_SetNX redis_SETNX k v ttl)"
abbreviation "c_del \<equiv> \<lambda>ks. db_call None (redisClient_Del redis_DEL ks)"

section \<open>Exclusion\<close>

text \<open>What other processes do: acquire any lock, release a lock they hold, let time pass.\<close>

datatype lock_op = OpAcquire string string duration | OpRelease Lock | OpTick nat

fun run_lock_op :: "lock_op \<Rightarrow> kv_store \<Rightarrow> kv_store" where
  "run_lock_op (OpAcquire token name ttl) s = snd (Manager_Acquire c_setnx token name ttl s)"
| "run_lock_op (OpRelease l) s = snd (Lock_Release c_get c_del l s)"
| "run_lock_op (OpTick dt) s = kv_tick dt s"

fun op_time :: "lock_op \<Rightarrow> nat" where
  "op_time (OpTick dt) = dt"
| "op_time _ = 0"

fun releases :: "string \<Rightarrow> string \<Rightarrow> lock_op \<Rightarrow> bool" where
  "releases key token (OpRelease l) = (L_key l = key \<and> L_token l = token)"
| "releases _ _ _ = False"

lemma entry_kept:
  assumes "kv_map s key = Some (a, Some t)" and "kv_now s + int (op_time x) < t"
    and "\<not> releases key a x" and "a \<noteq> []"
  shows "kv_map (run_lock_op x s) key = Some (a, Some t) \<and> kv_now (run_lock_op x s) = kv_now s + int (op_time x)"
  using assms
  by (cases x) (auto simp: Manager_Acquire_def Lock_Release_def release_check_def redisClient_Get_def
      redisClient_SetNX_def redisClient_Del_def redis_GET_def redis_SETNX_def redis_DEL_def kv_live_def
      kv_tick_def restrict_map_def split: if_splits option.splits)

lemma entry_kept_run:
  assumes "kv_map s key = Some (a, Some t)" and "kv_now s + int (sum_list (map op_time xs)) < t"
    and "list_all (\<lambda>x. \<not> releases key a x) xs" and "a \<noteq> []"
  shows "kv_map (fold run_lock_op xs s) key = Some (a, Some t) \<and> kv_now (fold run_lock_op xs s) < t"
  using assms
proof (induction xs arbitrary: s)
  case (Cons x xs)
  have x: "kv_map (run_lock_op x s) key = Some (a, Some t)"
    "kv_now (run_lock_op x s) = kv_now s + int (op_time x)"
    using entry_kept [of s key a t x] Cons.prems by simp_all
  show ?case using Cons.IH [of "run_lock_op x s"] x Cons.prems by simp
qed simp


definition empty_store :: kv_store where
  "empty_store = \<lparr>kv_now = 0, kv_map = (\<lambda>_. None)\<rparr>"


text \<open>Release is a read followed by a deletion, not one atomic script as its comment says. If
  the TTL runs out between the two and another process acquires the lock, the deletion removes
  that process's lock, and a third process acquires it while the second still holds it.\<close>

theorem lock_release_race:
  assumes "Manager_Acquire c_setnx a name ttl s = (Inr l, s1)" and "a \<noteq> []" and "0 < sint ttl"
    and "b \<noteq> []" and "0 < sint ttlb" and "sint ttl \<le> int dt"
  shows "\<exists>s2 l2 s3 s4 l3 s5. release_check c_get l s1 = (None, s2) \<and>
    Manager_Acquire c_setnx b name ttlb (kv_tick dt s2) = (Inr l2, s3) \<and>
    kv_live s3 (lock_key name) = Some b \<and>
    c_del [L_key l] s3 = (Inr (), s4) \<and>
    Manager_Acquire c_setnx c name ttlc s4 = (Inr l3, s5)"
proof -
  let ?k = "lock_key name"
  have l: "l = \<lparr>L_key = ?k, L_token = a, L_ttl = ttl\<rparr>"
    using assms(1) by (auto simp: Manager_Acquire_def split: prod.splits sum.splits if_splits)
  have s1: "kv_map s1 ?k = Some (a, Some (kv_now s + sint ttl))" "kv_now s1 = kv_now s"
    using assms(1,3) by (auto simp: Manager_Acquire_def redisClient_SetNX_def redis_SETNX_def split: if_splits)
  define s3 where "s3 = snd (Manager_Acquire c_setnx b name ttlb (kv_tick dt s1))"
  have "release_check c_get l s1 = (None, s1)"
    using s1 assms(2,3) by (simp add: release_check_def redisClient_Get_def redis_GET_def kv_live_def l)
  moreover have "Manager_Acquire c_setnx b name ttlb (kv_tick dt s1) =
      (Inr \<lparr>L_key = ?k, L_token = b, L_ttl = ttlb\<rparr>, s3)"
    using s1 assms(6) by (simp add: s3_def Manager_Acquire_def redisClient_SetNX_def redis_SETNX_def kv_live_def kv_tick_def)
  moreover from this have "kv_live s3 ?k = Some b" using rc.acquire_ok [where f = None] by fastforce
  moreover define s4 where "s4 = s3\<lparr>kv_map := (kv_map s3) |` (- {?k})\<rparr>"
  moreover have "c_del [L_key l] s3 = (Inr (), s4)"
    by (simp add: redisClient_Del_def redis_DEL_def s4_def l)
  moreover have "Manager_Acquire c_setnx c name ttlc s4 =
      (Inr \<lparr>L_key = ?k, L_token = c, L_ttl = ttlc\<rparr>, snd (Manager_Acquire c_setnx c name ttlc s4))"
    by (simp add: Manager_Acquire_def redisClient_SetNX_def redis_SETNX_def kv_live_def s4_def)
  ultimately show ?thesis by blast
qed

theorem lock_release_race_witness:
  "\<exists>s3 l3 s5. kv_live s3 ''lock:cron'' = Some ''b'' \<and>
     Manager_Acquire c_setnx ''c'' ''cron'' 30 (snd (c_del [''lock:cron''] s3)) = (Inr l3, s5)"
proof -
  let ?l = "\<lparr>L_key = lock_key ''cron'', L_token = ''a'', L_ttl = 30\<rparr>"
  have h: "Manager_Acquire c_setnx ''a'' ''cron'' 30 empty_store =
      (Inr ?l, snd (Manager_Acquire c_setnx ''a'' ''cron'' 30 empty_store))"
    by (simp add: Manager_Acquire_def redisClient_SetNX_def redis_SETNX_def kv_live_def empty_store_def)
  show ?thesis
    using lock_release_race [OF h, where b = "''b''" and ttlb = 30 and dt = 40 and c = "''c''" and ttlc = 30]
    by (auto simp: lock_key_def)
qed

end
