(* ===== verification/CronEngine.thy ===== *)
theory CronEngine
  imports CronRepo JobRepo Lock
begin

text \<open>
  The cron service (\<open>internal/service/cron/cron.go\<close>), the definition its handler builds
  (\<open>internal/handler/cron/cron.go\<close>) and the cron engine (\<open>internal/worker/cron.go\<close>).
  The cron parser is a library: \<open>parse\<close> gives the error, or the schedule's Next function.
\<close>

section \<open>Service\<close>

definition cron_svc_Create :: "fault \<Rightarrow> uuid \<Rightarrow> time \<Rightarrow> CronJob \<Rightarrow> db \<Rightarrow> (unit res \<times> CronJob) \<times> db" where
  "cron_svc_Create f new_id now c0 d =
     (let c = c0\<lparr>C_ID := new_id, C_CreatedAt := now, C_UpdatedAt := now\<rparr>;
          (r, d') = CronRepo_Create f c d in ((r, c), d'))"

definition cron_svc_ListByQueueID :: "(string \<Rightarrow> int) \<Rightarrow> fault \<Rightarrow> uuid \<Rightarrow> db \<Rightarrow> CronJob list res" where
  "cron_svc_ListByQueueID collate f qid d = CronRepo_ListByQueueID collate f qid d"

definition cron_svc_Delete :: "fault \<Rightarrow> uuid \<Rightarrow> db \<Rightarrow> unit res \<times> db" where
  "cron_svc_Delete f i d = CronRepo_Delete f i d"

record CreateCronRequest =
  CR_Name :: string
  CR_CronExpr :: string
  CR_JobType :: string
  CR_Payload :: "jsonmap option"
  CR_MaxRetries :: "int option"
  CR_RetryStrategy :: "string option"

definition cron_of_request :: "uuid \<Rightarrow> CreateCronRequest \<Rightarrow> CronJob" where
  "cron_of_request queueID req = \<lparr>C_ID = uuid_Nil, C_QueueID = queueID, C_Name = CR_Name req,
     C_Description = [], C_CronExpr = CR_CronExpr req, C_Timezone = ''UTC'', C_JobType = CR_JobType req,
     C_Payload = CR_Payload req, C_MaxRetries = CR_MaxRetries req, C_RetryStrategy = CR_RetryStrategy req,
     C_IsActive = True, C_LastFiredAt = None, C_NextFireAt = None, C_CreatedAt = zero_time,
     C_UpdatedAt = zero_time\<rparr>"

section \<open>Engine\<close>

definition cron_spawned_job :: "uuid \<Rightarrow> time \<Rightarrow> CronJob \<Rightarrow> Job" where
  "cron_spawned_job new_id now c = zero_Job\<lparr>J_ID := new_id, J_QueueID := C_QueueID c,
     J_CronJobID := Some (C_ID c), J_Type := C_JobType c, J_Payload := C_Payload c,
     J_Status := StatusPending, J_Priority := 5, J_RunAt := now, J_AttemptCount := 0,
     J_MaxRetries := (case C_MaxRetries c of Some n \<Rightarrow> n | None \<Rightarrow> 0),
     J_RetryStrategy := (case C_RetryStrategy c of Some st \<Rightarrow> st | None \<Rightarrow> []),
     J_Metadata := Some [(''spawned_by'', JString ''cron''), (''cron_name'', JString (C_Name c))],
     J_CreatedAt := now, J_UpdatedAt := now\<rparr>"

record fire_faults =
  ff_active :: fault
  ff_create :: fault
  ff_times :: fault

text \<open>\<open>dbnow\<close> is the database's NOW(), \<open>now\<close> the tick the engine read.\<close>

definition executeFire ::
  "(string \<Rightarrow> goerr + (time \<Rightarrow> time)) \<Rightarrow> fire_faults \<Rightarrow> uuid \<Rightarrow> time \<Rightarrow> CronJob \<Rightarrow> time \<Rightarrow> db \<Rightarrow> unit res \<times> db" where
  "executeFire parse ff new_id dbnow c now d =
     (case parse (C_CronExpr c) of
        Inl e \<Rightarrow> (Inl e, snd (CronRepo_SetActive (ff_active ff) dbnow (C_ID c) False d))
      | Inr schedule_Next \<Rightarrow>
          (let nextFireAt = schedule_Next now; j = cron_spawned_job new_id now c in
           case JobRepo_Create (ff_create ff) j d of
             (Inl e, d') \<Rightarrow> (Inl (WrapErr ''spawn job for cron'' e), d')
           | (Inr _, d') \<Rightarrow>
               (Inr (), snd (CronRepo_UpdateFireTimes (ff_times ff) dbnow (C_ID c) now nextFireAt d'))))"

definition unix_minutes :: "time \<Rightarrow> int" where
  "unix_minutes now = (let u = now div 1000000000 in sgn u * (\<bar>u\<bar> div 60))"

definition cron_lock_name :: "(uuid \<Rightarrow> string) \<Rightarrow> CronJob \<Rightarrow> time \<Rightarrow> string" where
  "cron_lock_name uuid_str c now = ''cron_fire:'' @ uuid_str (C_ID c) @ '':'' @ show_int (unix_minutes now)"

text \<open>
  The engine's environment: the cache client, what becomes of the store during a fire, the drawn
  token and job identifier of the n-th fire, its faults. The error of a fire is only logged.
\<close>

record 's cron_env =
  ce_get :: "string \<Rightarrow> 's \<Rightarrow> string res \<times> 's"
  ce_setnx :: "string \<Rightarrow> string \<Rightarrow> duration \<Rightarrow> 's \<Rightarrow> bool res \<times> 's"
  ce_del :: "string list \<Rightarrow> 's \<Rightarrow> unit res \<times> 's"
  ce_meanwhile :: "'s \<Rightarrow> 's"
  ce_token :: "nat \<Rightarrow> string"
  ce_id :: "nat \<Rightarrow> uuid"
  ce_faults :: "nat \<Rightarrow> fire_faults"
  ce_parse :: "string \<Rightarrow> goerr + (time \<Rightarrow> time)"
  ce_uuid_str :: "uuid \<Rightarrow> string"
  ce_lockTTL :: duration
  ce_dbnow :: time

definition fireCron :: "('s, 'm) cron_env_scheme \<Rightarrow> nat \<Rightarrow> CronJob \<Rightarrow> time \<Rightarrow> 's \<times> db \<Rightarrow> 's \<times> db" where
  "fireCron env n c now sd = snd (Manager_TryWithLock (ce_get env) (ce_setnx env) (ce_del env)
     (ce_meanwhile env) (ce_token env n) (cron_lock_name (ce_uuid_str env) c now) (ce_lockTTL env)
     (executeFire (ce_parse env) (ce_faults env n) (ce_id env n) (ce_dbnow env) c now) sd)"

fun fire_all :: "('s, 'm) cron_env_scheme \<Rightarrow> nat \<Rightarrow> CronJob list \<Rightarrow> time \<Rightarrow> 's \<times> db \<Rightarrow> 's \<times> db" where
  "fire_all env n [] now sd = sd"
| "fire_all env n (c # cs) now sd = fire_all env (Suc n) cs now (fireCron env n c now sd)"

definition cron_evaluate :: "('s, 'm) cron_env_scheme \<Rightarrow> fault \<Rightarrow> time \<Rightarrow> 's \<times> db \<Rightarrow> 's \<times> db" where
  "cron_evaluate env f now sd =
     (case CronRepo_ListDue f now (snd sd) of
        Inl e \<Rightarrow> sd
      | Inr dueCrons \<Rightarrow> fire_all env 0 dueCrons now sd)"

section \<open>Facts\<close>

lemma cron_create_ok:
  "CronRepo_Create f c d = (Inr u, d') \<Longrightarrow> d' = d\<lparr>cron_jobs := cron_jobs d @ [c\<lparr>C_LastFiredAt := None\<rparr>]\<rparr>"
  by (cases f) (auto simp: CronRepo_Create_def insert_cron_def insert_err_def split: option.splits if_splits)

text \<open>A cron job created through the API is stored active but without a next fire time, and
  such a row is never due: at no time does ListDue return it, so the engine never fires it.\<close>

theorem api_cron_never_due:
  "case cron_svc_Create f new_id now (cron_of_request qid req) d of
     ((Inl e, c), d') \<Rightarrow> cron_jobs d' = cron_jobs d
   | ((Inr u, c), d') \<Rightarrow> \<exists>c'. cron_jobs d' = cron_jobs d @ [c'] \<and> C_ID c' = new_id \<and> C_IsActive c' \<and>
       CronRepo_ListDue None t d' = CronRepo_ListDue None t d"
proof -
  define c where "c = (cron_of_request qid req)\<lparr>C_ID := new_id, C_CreatedAt := now, C_UpdatedAt := now\<rparr>"
  have c: "C_NextFireAt (c\<lparr>C_LastFiredAt := None\<rparr>) = None" "C_ID c = new_id" "C_IsActive c"
    by (simp_all add: c_def cron_of_request_def)
  obtain r d1 where cr: "CronRepo_Create f c d = (r, d1)" by (cases "CronRepo_Create f c d")
  show ?thesis
  proof (cases r)
    case (Inl e)
    have "cron_jobs d1 = cron_jobs d" using cr Inl
      by (cases f) (auto simp: CronRepo_Create_def insert_cron_def insert_err_def split: option.splits if_splits)
    then show ?thesis using cr Inl by (simp add: cron_svc_Create_def c_def [symmetric] Let_def)
  next
    case (Inr u)
    have d1: "d1 = d\<lparr>cron_jobs := cron_jobs d @ [c\<lparr>C_LastFiredAt := None\<rparr>]\<rparr>" using cr Inr cron_create_ok by simp
    have "CronRepo_ListDue None t d1 = CronRepo_ListDue None t d"
      using cron_due_never [OF c(1)] by (simp add: CronRepo_ListDue_def sql_select_def d1)
    then show ?thesis using cr Inr c d1 by (simp add: cron_svc_Create_def c_def [symmetric] Let_def)
  qed
qed

lemma spawned_violation: "job_violation (cron_spawned_job i now c) \<noteq> None"
  using job_violation_NoneD(4) [of "cron_spawned_job i now c"]
  by (auto simp: cron_spawned_job_def zero_Job_def)

lemma spawned_not_stored: "\<exists>e. JobRepo_Create f (cron_spawned_job i now c) d = (Inl e, d)"
  using spawned_violation [of i now c] by (cases f) (auto simp: JobRepo_Create_def insert_job_def)

lemma executeFire_effect:
  "executeFire parse ff i dbnow c now d = (r, d') \<Longrightarrow>
   (\<exists>e. r = Inl e) \<and> (d' = d \<or> d' = snd (CronRepo_SetActive (ff_active ff) dbnow (C_ID c) False d))"
  using spawned_not_stored [of "ff_create ff" i now c d]
  by (auto simp: executeFire_def Let_def split: sum.splits)

lemma SetActive_jobs: "jobs (snd (CronRepo_SetActive f now i b d)) = jobs d"
  by (cases f) (simp_all add: CronRepo_SetActive_def)

lemma executeFire_jobs: "jobs (snd (executeFire parse ff i dbnow c now d)) = jobs d"
  using executeFire_effect [of parse ff i dbnow c now d] SetActive_jobs
  by (cases "executeFire parse ff i dbnow c now d") auto

lemma fireCron_jobs: "jobs (snd (fireCron env n c now sd)) = jobs (snd sd)"
  using executeFire_jobs
  by (auto simp: fireCron_def Manager_TryWithLock_def Let_def split: prod.splits sum.splits) (metis snd_conv)

lemma fire_all_jobs: "jobs (snd (fire_all env n cs now sd)) = jobs (snd sd)"
  by (induction cs arbitrary: n sd) (simp_all add: fireCron_jobs)

text \<open>The job a fire builds has no tags (and inherits nothing from its queue, whatever the
  comments say), so its insertion always fails: no evaluation of the cron engine, with any parser,
  cache and due list, ever adds a job to the table.\<close>

theorem cron_engine_never_spawns:
  "jobs (snd (cron_evaluate env f now sd)) = jobs (snd sd)"
  by (simp add: cron_evaluate_def fire_all_jobs split: sum.split)

text \<open>A definition whose expression does not parse is switched off when it fires: afterwards
  it is not due at any time, and the other definitions are as before.\<close>

theorem broken_cron_disabled:
  assumes "parse (C_CronExpr c) = Inl e" and "ff_active ff = None"
    and "executeFire parse ff new_id dbnow c now d = (r, d')"
  shows "r = Inl e \<and> (\<forall>c'\<in>set (cron_jobs d'). C_ID c' = C_ID c \<longrightarrow> \<not> cron_due t c') \<and>
    sql_select (\<lambda>c'. C_ID c' \<noteq> C_ID c) (cron_jobs d') = sql_select (\<lambda>c'. C_ID c' \<noteq> C_ID c) (cron_jobs d)"
proof -
  have d': "cron_jobs d' = sql_update (\<lambda>c'. C_ID c' = C_ID c)
      (\<lambda>c'. c'\<lparr>C_IsActive := False, C_UpdatedAt := dbnow\<rparr>) (cron_jobs d)" and "r = Inl e"
    using assms by (auto simp: executeFire_def CronRepo_SetActive_def)
  moreover have "sql_select (\<lambda>c'. C_ID c' \<noteq> C_ID c) (sql_update (\<lambda>c'. C_ID c' = C_ID c)
      (\<lambda>c'. c'\<lparr>C_IsActive := False, C_UpdatedAt := dbnow\<rparr>) rows) = sql_select (\<lambda>c'. C_ID c' \<noteq> C_ID c) rows" for rows
    by (induction rows) (auto simp: sql_select_def)
  ultimately show ?thesis by (auto simp: sql_update_mem cron_due_def)
qed

definition sample_cron :: CronJob where
  "sample_cron = (cron_of_request 7 \<lparr>CR_Name = ''nightly'', CR_CronExpr = ''every day'', CR_JobType = ''demo.echo'',
     CR_Payload = None, CR_MaxRetries = None, CR_RetryStrategy = None\<rparr>)\<lparr>C_ID := 3, C_NextFireAt := Some 50\<rparr>"

definition no_fire_faults :: fire_faults where
  "no_fire_faults = \<lparr>ff_active = None, ff_create = None, ff_times = None\<rparr>"

theorem broken_cron_disabled_witness:
  "cron_due 100 sample_cron \<and>
   filter (cron_due 100) (cron_jobs (snd (executeFire (\<lambda>_. Inl (PlainErr ''bad'')) no_fire_faults 9 100 sample_cron 100
      (empty_db\<lparr>cron_jobs := [sample_cron]\<rparr>)))) = []"
proof -
  let ?d = "empty_db\<lparr>cron_jobs := [sample_cron]\<rparr>"
  let ?x = "executeFire (\<lambda>_. Inl (PlainErr ''bad'')) no_fire_faults 9 100 sample_cron 100 ?d"
  have due: "cron_due 100 sample_cron" by (simp add: cron_due_def sample_cron_def cron_of_request_def)
  have one: "C_ID c' = C_ID sample_cron" if "c' \<in> set (cron_jobs (snd ?x))" for c'
    using that by (auto simp: executeFire_def CronRepo_SetActive_def no_fire_faults_def)
  have "?x = (fst ?x, snd ?x)" by simp
  from broken_cron_disabled [OF _ _ this] have
    "\<forall>c'\<in>set (cron_jobs (snd ?x)). C_ID c' = C_ID sample_cron \<longrightarrow> \<not> cron_due 100 c'"
    by (simp add: no_fire_faults_def)
  then show ?thesis using due one unfolding filter_empty_conv by blast
qed

text \<open>While another engine holds the lock of this cron job and minute, a fire does nothing at
  all: the database and the store are unchanged.\<close>

theorem fire_excluded_by_lock:
  assumes "ce_get env = c_get" and "ce_setnx env = c_setnx" and "ce_del env = c_del"
    and "kv_live s (lock_key (cron_lock_name (ce_uuid_str env) c now)) \<noteq> None"
  shows "fireCron env n c now (s, d) = (s, d)"
  using assms
  by (simp add: fireCron_def Manager_TryWithLock_def Manager_Acquire_def redisClient_SetNX_def redis_SETNX_def)

definition sample_cron_env :: "kv_store cron_env" where
  "sample_cron_env = \<lparr>ce_get = c_get, ce_setnx = c_setnx, ce_del = c_del, ce_meanwhile = id,
     ce_token = (\<lambda>_. ''t''), ce_id = id, ce_faults = (\<lambda>_. no_fire_faults),
     ce_parse = (\<lambda>_. Inr (\<lambda>t. t + 60000000000)), ce_uuid_str = (\<lambda>i. show_nat i), ce_lockTTL = 30,
     ce_dbnow = 100\<rparr>"

theorem fire_excluded_by_lock_witness:
  "let key = lock_key (cron_lock_name show_nat sample_cron 100); s = empty_store\<lparr>kv_map := [key \<mapsto> (''x'', None)]\<rparr>
   in fireCron sample_cron_env 0 sample_cron 100 (s, empty_db) = (s, empty_db)"
  unfolding Let_def
  by (rule fire_excluded_by_lock) (simp_all add: sample_cron_env_def kv_live_def)

end
