(* ===== verification/UserRepo.thy ===== *)
theory UserRepo
  imports Database
begin

text \<open>
  \<open>UserRepo\<close> and \<open>RefreshTokenRepo\<close> (\<open>internal/repository/postgres/user.go\<close>).
\<close>

definition insert_user :: "User \<Rightarrow> db \<Rightarrow> unit res \<times> db" where
  "insert_user u d =
     (if 255 < length (U_Email u) \<or> 255 < length (U_PasswordHash u) \<or> 255 < length (U_FullName u)
      then (Inl string_too_long, d)
      else if exists_id U_ID (U_ID u) (users d) \<or> (\<exists>r\<in>set (users d). U_Email r = U_Email u)
      then (Inl unique_violation, d)
      else (Inr (), d\<lparr>users := users d @ [u]\<rparr>))"

definition UserRepo_Create :: "fault \<Rightarrow> User \<Rightarrow> db \<Rightarrow> unit res \<times> db" where
  "UserRepo_Create f u d =
     map_prod (insert_err (AlreadyExists ''email'') ''create user'') id (db_call f (insert_user u) d)"

definition UserRepo_GetByID :: "fault \<Rightarrow> uuid \<Rightarrow> db \<Rightarrow> User res" where
  "UserRepo_GetByID f i d = get_row (NotFound ''user'') ''get user by id'' f
     (sql_row (\<lambda>u. U_ID u = i) (users d))"

definition UserRepo_GetByEmail :: "fault \<Rightarrow> string \<Rightarrow> db \<Rightarrow> User res" where
  "UserRepo_GetByEmail f email d = get_row (NotFound ''user'') ''get user by email'' f
     (sql_row (\<lambda>u. U_Email u = ToLower email) (users d))"

definition UserRepo_Update :: "fault \<Rightarrow> time \<Rightarrow> User \<Rightarrow> db \<Rightarrow> unit res \<times> db" where
  "UserRepo_Update f now u = exec_tag (NotFound ''user'') ''update user'' f
     (\<lambda>d. let n = sql_count (\<lambda>r. U_ID r = U_ID u) (users d) in
        if n = 0 then (Inr 0, d)
        else if 255 < length (U_Email u) \<or> 255 < length (U_FullName u) then (Inl string_too_long, d)
        else if \<exists>r\<in>set (users d). U_ID r \<noteq> U_ID u \<and> U_Email r = U_Email u
        then (Inl unique_violation, d)
        else (Inr n, d\<lparr>users := sql_update (\<lambda>r. U_ID r = U_ID u)
          (\<lambda>r. r\<lparr>U_Email := U_Email u, U_FullName := U_FullName u, U_IsActive := U_IsActive u,
             U_UpdatedAt := now\<rparr>) (users d)\<rparr>))"

section \<open>Refresh tokens\<close>

definition insert_token :: "RefreshToken \<Rightarrow> db \<Rightarrow> unit res \<times> db" where
  "insert_token rt d =
     (if 255 < length (RT_TokenHash rt) \<or> 512 < length (RT_UserAgent rt) \<or> 45 < length (RT_IPAddress rt)
      then (Inl string_too_long, d)
      else if exists_id RT_ID (RT_ID rt) (refresh_tokens d) \<or>
          (\<exists>r\<in>set (refresh_tokens d). RT_TokenHash r = RT_TokenHash rt) then (Inl unique_violation, d)
      else if \<not> exists_id U_ID (RT_UserID rt) (users d) then (Inl foreign_key_violation, d)
      else (Inr (), d\<lparr>refresh_tokens := refresh_tokens d @ [rt]\<rparr>))"

definition RefreshTokenRepo_Create :: "fault \<Rightarrow> RefreshToken \<Rightarrow> db \<Rightarrow> unit res \<times> db" where
  "RefreshTokenRepo_Create f rt d =
     map_prod (wrap_err ''create refresh token'') id (db_call f (insert_token rt) d)"

definition RefreshTokenRepo_GetByHash :: "fault \<Rightarrow> string \<Rightarrow> db \<Rightarrow> RefreshToken res" where
  "RefreshTokenRepo_GetByHash f h d = get_row (NotFound ''refresh token'') ''get refresh token'' f
     (sql_row (\<lambda>r. RT_TokenHash r = h) (refresh_tokens d))"

definition revoke_where :: "(RefreshToken \<Rightarrow> bool) \<Rightarrow> db \<Rightarrow> unit res \<times> db" where
  "revoke_where P d =
     (Inr (), d\<lparr>refresh_tokens := sql_update P (\<lambda>r. r\<lparr>RT_Revoked := True\<rparr>) (refresh_tokens d)\<rparr>)"

definition RefreshTokenRepo_RevokeByID :: "fault \<Rightarrow> uuid \<Rightarrow> db \<Rightarrow> unit res \<times> db" where
  "RefreshTokenRepo_RevokeByID f i d = map_prod (wrap_err ''revoke refresh token'') id
     (db_call f (revoke_where (\<lambda>r. RT_ID r = i)) d)"

definition RefreshTokenRepo_RevokeAllForUser :: "fault \<Rightarrow> uuid \<Rightarrow> db \<Rightarrow> unit res \<times> db" where
  "RefreshTokenRepo_RevokeAllForUser f uid d = map_prod (wrap_err ''revoke all user tokens'') id
     (db_call f (revoke_where (\<lambda>r. RT_UserID r = uid)) d)"

definition RefreshTokenRepo_DeleteExpired :: "fault \<Rightarrow> time \<Rightarrow> db \<Rightarrow> unit res \<times> db" where
  "RefreshTokenRepo_DeleteExpired f now d = map_prod (wrap_err ''delete expired tokens'') id
     (db_call f (\<lambda>d. (Inr (), d\<lparr>refresh_tokens :=
        sql_delete (\<lambda>r. RT_ExpiresAt r < now) (refresh_tokens d)\<rparr>)) d)"

end
