(* ===== verification/AuthService.thy ===== *)
theory AuthService
  imports UserRepo
begin

text \<open>
  The authentication service (\<open>internal/service/auth/service.go\<close>, \<open>token.go\<close>):
  registration, login, refresh and logout over the user and refresh token repositories.
  The cryptography is a parameter: bcrypt (hash and compare), SHA-256 in hexadecimal, base64,
  the JWT library (signing and parsing) and the random source.
\<close>

record RegisterRequest =
  RR_Email :: string
  RR_Password :: string
  RR_FullName :: string

record LoginRequest =
  LQ_Email :: string
  LQ_Password :: string

record UserDTO =
  DTO_ID :: uuid
  DTO_Email :: string
  DTO_FullName :: string
  DTO_CreatedAt :: time

record LoginResponse =
  LP_AccessToken :: string
  LP_RefreshToken :: string
  LP_ExpiresIn :: int
  LP_User :: UserDTO

record RefreshResponse =
  RP_AccessToken :: string
  RP_ExpiresIn :: int

record JWTConfig =
  JWT_Secret :: string
  AccessTokenTTL :: duration
  RefreshTokenTTL :: duration

definition toUserDTO :: "User \<Rightarrow> UserDTO" where
  "toUserDTO u = \<lparr>DTO_ID = U_ID u, DTO_Email = U_Email u, DTO_FullName = U_FullName u,
     DTO_CreatedAt = U_CreatedAt u\<rparr>"

section \<open>Tokens\<close>

record Claims =
  Cl_Subject :: string
  Cl_IssuedAt :: time
  Cl_ExpiresAt :: time
  Cl_NotBefore :: time
  Cl_Issuer :: string
  Cl_UserID :: string
  Cl_Email :: string

text \<open>\<open>sign secret claims\<close> is \<open>SignedString\<close> of the HS256 token, \<open>uuid_str\<close> the text of a uuid.\<close>

definition GenerateAccessToken ::
  "(string \<Rightarrow> Claims \<Rightarrow> string res) \<Rightarrow> (uuid \<Rightarrow> string) \<Rightarrow> JWTConfig \<Rightarrow> time \<Rightarrow> uuid \<Rightarrow> string \<Rightarrow> string res" where
  "GenerateAccessToken sign uuid_str cfg now userID email =
     (let claims = \<lparr>Cl_Subject = uuid_str userID, Cl_IssuedAt = now,
        Cl_ExpiresAt = time_Add now (AccessTokenTTL cfg), Cl_NotBefore = now, Cl_Issuer = ''job-scheduler'',
        Cl_UserID = uuid_str userID, Cl_Email = email\<rparr>
      in wrap_err ''sign access token'' (sign (JWT_Secret cfg) claims))"

text \<open>The key function answers the secret for an HMAC method only. \<open>parse\<close> is
  \<open>jwt.ParseWithClaims\<close>: the claims and whether the token is valid.\<close>

definition jwt_keyfunc :: "string \<Rightarrow> bool \<Rightarrow> string \<Rightarrow> string res" where
  "jwt_keyfunc secret is_hmac alg =
     (if \<not> is_hmac then Inl (PlainErr (''unexpected signing method: '' @ alg)) else Inr secret)"

definition ValidateAccessToken ::
  "((bool \<Rightarrow> string \<Rightarrow> string res) \<Rightarrow> string \<Rightarrow> (Claims \<times> bool) res) \<Rightarrow> JWTConfig \<Rightarrow> string \<Rightarrow> Claims res" where
  "ValidateAccessToken parse cfg tokenStr =
     (case parse (jwt_keyfunc (JWT_Secret cfg)) tokenStr of
        Inl e \<Rightarrow> Inl (WrapErr ''parse token'' e)
      | Inr (claims, valid) \<Rightarrow>
          if \<not> valid then Inl (PlainErr ''invalid token claims'') else Inr claims)"

definition HashRefreshToken :: "(string \<Rightarrow> string) \<Rightarrow> string \<Rightarrow> string" where
  "HashRefreshToken sha256_hex raw = sha256_hex raw"

text \<open>\<open>random\<close> is the outcome of reading 32 bytes, already base64-encoded.\<close>

definition GenerateRefreshToken :: "(string \<Rightarrow> string) \<Rightarrow> string res \<Rightarrow> (string \<times> string) res" where
  "GenerateRefreshToken sha256_hex random =
     (case random of Inl e \<Rightarrow> Inl (WrapErr ''generate random bytes'' e) | Inr raw \<Rightarrow> Inr (raw, sha256_hex raw))"

section \<open>Operations\<close>

definition normalize_email :: "string \<Rightarrow> string" where
  "normalize_email s = ToLower (TrimSpace s)"

definition auth_Register ::
  "(string \<Rightarrow> string res) \<Rightarrow> fault \<Rightarrow> uuid \<Rightarrow> time \<Rightarrow> RegisterRequest \<Rightarrow> db \<Rightarrow> UserDTO res \<times> db" where
  "auth_Register bcrypt_hash f new_id now req d =
     (case bcrypt_hash (RR_Password req) of
        Inl e \<Rightarrow> (Inl (WrapErr ''hash password'' e), d)
      | Inr hash \<Rightarrow>
          (let u = \<lparr>U_ID = new_id, U_Email = normalize_email (RR_Email req), U_PasswordHash = hash,
             U_FullName = TrimSpace (RR_FullName req), U_IsActive = True, U_CreatedAt = now, U_UpdatedAt = now\<rparr>
           in case UserRepo_Create f u d of
                (Inl e, d') \<Rightarrow> (Inl e, d')
              | (Inr _, d') \<Rightarrow> (Inr (toUserDTO u), d')))"

text \<open>The libraries, the draws and the clock of a call.\<close>

record auth_env =
  ae_compare :: "string \<Rightarrow> string \<Rightarrow> bool"
  ae_sha256_hex :: "string \<Rightarrow> string"
  ae_sign :: "string \<Rightarrow> Claims \<Rightarrow> string res"
  ae_uuid_str :: "uuid \<Rightarrow> string"
  ae_random :: "string res"
  ae_new_id :: uuid
  ae_now :: time
  ae_f1 :: fault
  ae_f2 :: fault

definition auth_Login ::
  "auth_env \<Rightarrow> JWTConfig \<Rightarrow> LoginRequest \<Rightarrow> string \<Rightarrow> string \<Rightarrow> db \<Rightarrow> LoginResponse res \<times> db" where
  "auth_Login env cfg req userAgent ip d =
     (case UserRepo_GetByEmail (ae_f1 env) (normalize_email (LQ_Email req)) d of
        Inl e \<Rightarrow> (Inl (Unauthorized ''invalid credentials''), d)
      | Inr u \<Rightarrow>
      if \<not> U_IsActive u then (Inl (Unauthorized ''account is deactivated''), d)
      else if \<not> ae_compare env (U_PasswordHash u) (LQ_Password req)
      then (Inl (Unauthorized ''invalid credentials''), d)
      else (case GenerateAccessToken (ae_sign env) (ae_uuid_str env) cfg (ae_now env) (U_ID u) (U_Email u) of
        Inl e \<Rightarrow> (Inl (err_Internal ''could not generate access token'' e), d)
      | Inr accessToken \<Rightarrow>
      (case GenerateRefreshToken (ae_sha256_hex env) (ae_random env) of
        Inl e \<Rightarrow> (Inl (err_Internal ''could not generate refresh token'' e), d)
      | Inr (rawRefresh, refreshHash) \<Rightarrow>
      (let rt = \<lparr>RT_ID = ae_new_id env, RT_UserID = U_ID u, RT_TokenHash = refreshHash,
         RT_ExpiresAt = time_Add (ae_now env) (RefreshTokenTTL cfg), RT_Revoked = False,
         RT_UserAgent = userAgent, RT_IPAddress = ip, RT_CreatedAt = ae_now env\<rparr> in
       case RefreshTokenRepo_Create (ae_f2 env) rt d of
         (Inl e, d') \<Rightarrow> (Inl (err_Internal ''could not store refresh token'' e), d')
       | (Inr _, d') \<Rightarrow>
           (Inr \<lparr>LP_AccessToken = accessToken, LP_RefreshToken = rawRefresh,
              LP_ExpiresIn = whole_seconds (AccessTokenTTL cfg), LP_User = toUserDTO u\<rparr>, d')))))"

definition auth_Refresh :: "auth_env \<Rightarrow> JWTConfig \<Rightarrow> string \<Rightarrow> db \<Rightarrow> RefreshResponse res" where
  "auth_Refresh env cfg rawRefreshToken d =
     (case RefreshTokenRepo_GetByHash (ae_f1 env) (HashRefreshToken (ae_sha256_hex env) rawRefreshToken) d of
        Inl e \<Rightarrow> Inl (Unauthorized ''invalid refresh token'')
      | Inr rt \<Rightarrow>
      if \<not> IsValid rt (ae_now env) then Inl (Unauthorized ''refresh token has expired or been revoked'')
      else (case UserRepo_GetByID (ae_f2 env) (RT_UserID rt) d of
        Inl e \<Rightarrow> Inl (Unauthorized ''user account no longer active'')
      | Inr u \<Rightarrow>
      if \<not> U_IsActive u then Inl (Unauthorized ''user account no longer active'')
      else (case GenerateAccessToken (ae_sign env) (ae_uuid_str env) cfg (ae_now env) (U_ID u) (U_Email u) of
        Inl e \<Rightarrow> Inl (err_Internal ''could not generate access token'' e)
      | Inr accessToken \<Rightarrow>
          Inr \<lparr>RP_AccessToken = accessToken, RP_ExpiresIn = whole_seconds (AccessTokenTTL cfg)\<rparr>)))"

definition auth_Logout :: "auth_env \<Rightarrow> string \<Rightarrow> db \<Rightarrow> unit res \<times> db" where
  "auth_Logout env rawRefreshToken d =
     (case RefreshTokenRepo_GetByHash (ae_f1 env) (HashRefreshToken (ae_sha256_hex env) rawRefreshToken) d of
        Inl e \<Rightarrow> (Inr (), d)
      | Inr rt \<Rightarrow> RefreshTokenRepo_RevokeByID (ae_f2 env) (RT_ID rt) d)"

definition auth_LogoutAll :: "fault \<Rightarrow> uuid \<Rightarrow> db \<Rightarrow> unit res \<times> db" where
  "auth_LogoutAll f userID d = RefreshTokenRepo_RevokeAllForUser f userID d"

section \<open>Facts\<close>

lemma UserRepo_Create_cases:
  assumes "UserRepo_Create f u d = (r, d')"
  obtains (error) e where "r = Inl e" "d' = d"
    | (new) "r = Inr ()" "d' = d\<lparr>users := users d @ [u]\<rparr>" "\<forall>v\<in>set (users d). U_Email v \<noteq> U_Email u"
        "\<forall>v\<in>set (users d). U_ID v \<noteq> U_ID u"
  using assms
  by (cases f) (auto simp: UserRepo_Create_def insert_user_def insert_err_Inl exists_id_def split: if_splits)

lemma token_Create_cases:
  assumes "RefreshTokenRepo_Create f t d = (r, d')"
  obtains (error) e where "r = Inl e" "d' = d"
    | (new) "r = Inr ()" "d' = d\<lparr>refresh_tokens := refresh_tokens d @ [t]\<rparr>"
        "\<forall>v\<in>set (refresh_tokens d). RT_TokenHash v \<noteq> RT_TokenHash t"
        "\<forall>v\<in>set (refresh_tokens d). RT_ID v \<noteq> RT_ID t"
  using assms
  by (cases f) (auto simp: RefreshTokenRepo_Create_def insert_token_def exists_id_def split: if_splits)

lemma sql_row_snoc:
  "\<forall>v\<in>set rows. \<not> P v \<Longrightarrow> P r \<Longrightarrow> sql_row P (rows @ [r]) = Some r"
  by (induction rows) auto

lemma normalize_idem: "ToLower (normalize_email s) = normalize_email s"
  by (simp add: normalize_email_def)

lemma Login_error_state:
  "auth_Login env cfg req ua ip d = (Inl e, d') \<Longrightarrow> d' = d"
proof -
  assume a: "auth_Login env cfg req ua ip d = (Inl e, d')"
  have c: "RefreshTokenRepo_Create f t d = (Inl e', d'') \<Longrightarrow> d'' = d" for f t e' d''
    by (erule token_Create_cases) simp_all
  show "d' = d" using a
    by (auto simp: auth_Login_def Let_def dest: c split: sum.splits if_splits prod.splits)
qed

text \<open>A login that fails changes nothing, and for an active account a wrong password gives
  exactly the error of an unknown e-mail.\<close>

theorem login_failure_uniform:
  assumes "\<not> ae_compare env (U_PasswordHash u) (LQ_Password req)" and "U_IsActive u"
    and "sql_row (\<lambda>v. U_Email v = normalize_email (LQ_Email req)) (users d) = Some u"
    and "sql_row (\<lambda>v. U_Email v = normalize_email (LQ_Email req')) (users d) = None"
  shows "auth_Login env cfg req ua ip d = (Inl (Unauthorized ''invalid credentials''), d) \<and>
    auth_Login env cfg req' ua' ip' d = (Inl (Unauthorized ''invalid credentials''), d)"
  using assms by (cases "ae_f1 env") (simp_all add: auth_Login_def UserRepo_GetByEmail_def normalize_idem)


text \<open>What a successful login has stored.\<close>

lemma Login_ok:
  assumes "auth_Login env cfg req ua ip d = (Inr lp, d2)"
  obtains u t where "sql_row (\<lambda>v. U_Email v = normalize_email (LQ_Email req)) (users d) = Some u"
    "U_IsActive u" "ae_compare env (U_PasswordHash u) (LQ_Password req)"
    "RT_UserID t = U_ID u" "RT_TokenHash t = ae_sha256_hex env (LP_RefreshToken lp)" "\<not> RT_Revoked t"
    "RT_ExpiresAt t = ae_now env + sint (RefreshTokenTTL cfg)"
    "users d2 = users d" "refresh_tokens d2 = refresh_tokens d @ [t]"
    "\<forall>v\<in>set (refresh_tokens d). RT_TokenHash v \<noteq> RT_TokenHash t"
proof -
  obtain u where u: "sql_row (\<lambda>v. U_Email v = normalize_email (LQ_Email req)) (users d) = Some u"
    using assms by (cases "ae_f1 env") (auto simp: auth_Login_def UserRepo_GetByEmail_def normalize_idem
        get_row_def split: option.splits)
  have f: "UserRepo_GetByEmail (ae_f1 env) (normalize_email (LQ_Email req)) d = Inr u"
    using assms u by (cases "ae_f1 env") (auto simp: auth_Login_def UserRepo_GetByEmail_def normalize_idem)
  obtain access raw where a: "U_IsActive u" "ae_compare env (U_PasswordHash u) (LQ_Password req)"
    "GenerateAccessToken (ae_sign env) (ae_uuid_str env) cfg (ae_now env) (U_ID u) (U_Email u) = Inr access"
    "ae_random env = Inr raw"
    using assms f by (auto simp: auth_Login_def GenerateRefreshToken_def split: sum.splits if_splits)
  define t where "t = \<lparr>RT_ID = ae_new_id env, RT_UserID = U_ID u, RT_TokenHash = ae_sha256_hex env raw,
         RT_ExpiresAt = time_Add (ae_now env) (RefreshTokenTTL cfg), RT_Revoked = False,
         RT_UserAgent = ua, RT_IPAddress = ip, RT_CreatedAt = ae_now env\<rparr>"
  obtain r where c: "RefreshTokenRepo_Create (ae_f2 env) t d = (r, d2)" and r: "\<exists>x. r = Inr x"
      and lp: "LP_RefreshToken lp = raw"
    using assms f a by (auto simp: auth_Login_def GenerateRefreshToken_def Let_def t_def
        split: prod.splits sum.splits)
  from c r have "users d2 = users d \<and> refresh_tokens d2 = refresh_tokens d @ [t] \<and>
      (\<forall>v\<in>set (refresh_tokens d). RT_TokenHash v \<noteq> RT_TokenHash t)"
    by (cases rule: token_Create_cases) auto
  with u a lp show thesis by (intro that [of u t]) (simp_all add: t_def time_Add_def)
qed

lemma GetByHash_new:
  assumes "refresh_tokens d2 = ts @ [t]" and "\<forall>v\<in>set ts. RT_TokenHash v \<noteq> RT_TokenHash t"
  shows "RefreshTokenRepo_GetByHash None (RT_TokenHash t) d2 = Inr t"
  using assms by (simp add: RefreshTokenRepo_GetByHash_def sql_row_snoc)

lemma revoked_token_refused:
  assumes "RT_TokenHash t = HashRefreshToken (ae_sha256_hex env) raw" and "refresh_tokens d = ts @ [t]"
    and "\<forall>v\<in>set ts. RT_TokenHash v \<noteq> RT_TokenHash t" and "P t"
  shows "\<exists>m. auth_Refresh env cfg raw
    (d\<lparr>refresh_tokens := sql_update P (\<lambda>r. r\<lparr>RT_Revoked := True\<rparr>) (refresh_tokens d)\<rparr>) = Inl (Unauthorized m)"
proof -
  let ?d = "d\<lparr>refresh_tokens := sql_update P (\<lambda>r. r\<lparr>RT_Revoked := True\<rparr>) (refresh_tokens d)\<rparr>"
  let ?t = "t\<lparr>RT_Revoked := True\<rparr>"
  have "refresh_tokens ?d = sql_update P (\<lambda>r. r\<lparr>RT_Revoked := True\<rparr>) ts @ [?t]"
    using assms(2,4) by (simp add: sql_update_def)
  moreover have "\<forall>v\<in>set (sql_update P (\<lambda>r. r\<lparr>RT_Revoked := True\<rparr>) ts). RT_TokenHash v \<noteq> RT_TokenHash ?t"
    using assms(3) by (auto simp: sql_update_mem)
  ultimately have "RefreshTokenRepo_GetByHash None (RT_TokenHash ?t) ?d = Inr ?t" by (rule GetByHash_new)
  then show ?thesis using assms(1)
    by (cases "ae_f1 env") (auto simp: auth_Refresh_def IsValid_def RefreshTokenRepo_GetByHash_def)
qed

text \<open>The refresh token of a login is accepted up to and including its expiry instant and
  refused after it; after Logout with it, or LogoutAll of its user, it is refused for ever.\<close>

theorem refresh_token_lifecycle:
  assumes "auth_Login env cfg req ua ip d = (Inr lp, d2)" and "distinct (map U_ID (users d))"
    and "ae_sha256_hex env2 = ae_sha256_hex env" and "ae_f1 env2 = None" and "ae_f2 env2 = None"
    and "\<forall>s c. \<exists>t. ae_sign env2 s c = Inr t" and "ae_sha256_hex env3 = ae_sha256_hex env"
  shows "(if ae_now env2 \<le> ae_now env + sint (RefreshTokenTTL cfg)
      then \<exists>rp. auth_Refresh env2 cfg (LP_RefreshToken lp) d2 = Inr rp
      else auth_Refresh env2 cfg (LP_RefreshToken lp) d2 =
        Inl (Unauthorized ''refresh token has expired or been revoked'')) \<and>
    (\<exists>d3. auth_Logout env2 (LP_RefreshToken lp) d2 = (Inr (), d3) \<and>
      (\<exists>m. auth_Refresh env3 cfg' (LP_RefreshToken lp) d3 = Inl (Unauthorized m))) \<and>
    (\<exists>u d4. sql_row (\<lambda>v. U_Email v = normalize_email (LQ_Email req)) (users d) = Some u \<and>
      auth_LogoutAll None (U_ID u) d2 = (Inr (), d4) \<and>
      (\<exists>m. auth_Refresh env3 cfg' (LP_RefreshToken lp) d4 = Inl (Unauthorized m)))"
  using assms(1)
proof (rule Login_ok)
  fix u t assume L: "sql_row (\<lambda>v. U_Email v = normalize_email (LQ_Email req)) (users d) = Some u"
    "U_IsActive u" "RT_UserID t = U_ID u" "RT_TokenHash t = ae_sha256_hex env (LP_RefreshToken lp)"
    "\<not> RT_Revoked t" "RT_ExpiresAt t = ae_now env + sint (RefreshTokenTTL cfg)"
    "users d2 = users d" "refresh_tokens d2 = refresh_tokens d @ [t]"
    "\<forall>v\<in>set (refresh_tokens d). RT_TokenHash v \<noteq> RT_TokenHash t"
  have h: "HashRefreshToken (ae_sha256_hex env2) (LP_RefreshToken lp) = RT_TokenHash t"
    "HashRefreshToken (ae_sha256_hex env3) (LP_RefreshToken lp) = RT_TokenHash t"
    using assms(3,7) L(4) by (simp_all add: HashRefreshToken_def)
  have get: "RefreshTokenRepo_GetByHash None (RT_TokenHash t) d2 = Inr t" by (rule GetByHash_new [OF L(8,9)])
  have row: "sql_row (\<lambda>v. U_ID v = U_ID u) (users d) = Some u"
    using sql_row_key [OF assms(2)] sql_row_Some [OF L(1)] by blast
  obtain access where "GenerateAccessToken (ae_sign env2) (ae_uuid_str env2) cfg (ae_now env2) (U_ID u) (U_Email u) = Inr access"
    using assms(6) unfolding GenerateAccessToken_def Let_def by (metis wrap_err_simps(2))
  then have fresh: "if ae_now env2 \<le> ae_now env + sint (RefreshTokenTTL cfg)
      then \<exists>rp. auth_Refresh env2 cfg (LP_RefreshToken lp) d2 = Inr rp
      else auth_Refresh env2 cfg (LP_RefreshToken lp) d2 =
        Inl (Unauthorized ''refresh token has expired or been revoked'')"
    using h get L row assms(4,5)
    by (simp add: auth_Refresh_def UserRepo_GetByID_def IsValid_def IsExpired_def time_After_def)
  note refused = revoked_token_refused [OF h(2) [symmetric] L(8,9)]
  have "\<exists>d3. auth_Logout env2 (LP_RefreshToken lp) d2 = (Inr (), d3) \<and>
      (\<exists>m. auth_Refresh env3 cfg' (LP_RefreshToken lp) d3 = Inl (Unauthorized m))"
    using refused [of "\<lambda>r. RT_ID r = RT_ID t"] h get assms(4,5)
    by (simp add: auth_Logout_def RefreshTokenRepo_RevokeByID_def revoke_where_def)
  moreover have "\<exists>d4. auth_LogoutAll None (U_ID u) d2 = (Inr (), d4) \<and>
      (\<exists>m. auth_Refresh env3 cfg' (LP_RefreshToken lp) d4 = Inl (Unauthorized m))"
    using refused [of "\<lambda>r. RT_UserID r = U_ID u"] L(3)
    by (simp add: auth_LogoutAll_def RefreshTokenRepo_RevokeAllForUser_def revoke_where_def)
  ultimately show ?thesis using fresh L(1) by blast
qed

section \<open>Witnesses\<close>

definition plain_env :: auth_env where
  "plain_env = \<lparr>ae_compare = (\<lambda>h p. h = ''#'' @ p), ae_sha256_hex = (\<lambda>s. ''h'' @ s), ae_sign = (\<lambda>s c. Inr ''jwt''),
     ae_uuid_str = show_nat, ae_random = Inr ''rnd'', ae_new_id = 1, ae_now = 100, ae_f1 = None, ae_f2 = None\<rparr>"

definition plain_cfg :: JWTConfig where
  "plain_cfg = \<lparr>JWT_Secret = ''s'', AccessTokenTTL = 900, RefreshTokenTTL = 1000\<rparr>"

definition ann :: User where
  "ann = \<lparr>U_ID = 4, U_Email = ''ann'', U_PasswordHash = ''#pw'', U_FullName = ''Ann'', U_IsActive = True,
     U_CreatedAt = 0, U_UpdatedAt = 0\<rparr>"

definition ann_db :: db where
  "ann_db = empty_db\<lparr>users := [ann]\<rparr>"

definition ann_login :: LoginRequest where
  "ann_login = \<lparr>LQ_Email = '' Ann '', LQ_Password = ''pw''\<rparr>"

lemma ann_mail: "normalize_email '' Ann '' = ''ann''" "normalize_email ''ann'' = ''ann''"
  by code_simp+

lemma ann_logs_in: "\<exists>lp d2. auth_Login plain_env plain_cfg ann_login ''ua'' ''ip'' ann_db = (Inr lp, d2)"
  using ann_mail by (simp add: auth_Login_def UserRepo_GetByEmail_def plain_env_def ann_db_def ann_login_def
      ann_def empty_db_def GenerateAccessToken_def GenerateRefreshToken_def RefreshTokenRepo_Create_def
      insert_token_def exists_id_def Let_def ToLower_def lower_char_def)

theorem refresh_token_lifecycle_witness:
  "\<exists>lp d2 rp. auth_Login plain_env plain_cfg ann_login ''ua'' ''ip'' ann_db = (Inr lp, d2) \<and>
     auth_Refresh plain_env plain_cfg (LP_RefreshToken lp) d2 = Inr rp"
proof -
  obtain lp d2 where l: "auth_Login plain_env plain_cfg ann_login ''ua'' ''ip'' ann_db = (Inr lp, d2)"
    using ann_logs_in by blast
  have s: "distinct (map U_ID (users ann_db))" "ae_f1 plain_env = None" "ae_f2 plain_env = None"
    "\<forall>s c. \<exists>t. ae_sign plain_env s c = Inr t" "ae_now plain_env \<le> ae_now plain_env + sint (RefreshTokenTTL plain_cfg)"
    by (simp_all add: ann_db_def empty_db_def plain_env_def plain_cfg_def)
  from refresh_token_lifecycle [OF l s(1) refl s(2-4) refl] s(5) l show ?thesis by auto
qed

theorem login_failure_uniform_witness:
  "auth_Login plain_env plain_cfg \<lparr>LQ_Email = ''ann'', LQ_Password = ''x''\<rparr> ''ua'' ''ip'' ann_db =
     auth_Login plain_env plain_cfg \<lparr>LQ_Email = [], LQ_Password = ''pw''\<rparr> ''ua'' ''ip'' ann_db"
proof -
  have "normalize_email [] = []" by (simp add: normalize_email_def TrimSpace_def TrimLeft_def ToLower_def)
  then show ?thesis
    using login_failure_uniform [of plain_env ann "\<lparr>LQ_Email = ''ann'', LQ_Password = ''x''\<rparr>" ann_db
        "\<lparr>LQ_Email = [], LQ_Password = ''pw''\<rparr>" plain_cfg "''ua''" "''ip''" "''ua''" "''ip''"] ann_mail
    by (simp add: plain_env_def ann_def ann_db_def empty_db_def)
qed

definition bob_request :: RegisterRequest where
  "bob_request = \<lparr>RR_Email = ''ann'', RR_Password = ''pw'', RR_FullName = ''Ann''\<rparr>"


end
