(* ===== verification/OrgRepo.thy ===== *)
theory OrgRepo
  imports Database
begin

text \<open>\<open>OrgRepo\<close> (\<open>internal/repository/postgres/org.go\<close>): organizations and their members.\<close>

definition insert_org :: "Organization \<Rightarrow> db \<Rightarrow> unit res \<times> db" where
  "insert_org o1 d =
     (if 255 < length (O_Name o1) \<or> 100 < length (O_Slug o1) then (Inl string_too_long, d)
      else if exists_id O_ID (O_ID o1) (organizations d) \<or>
          (\<exists>r\<in>set (organizations d). O_Slug r = O_Slug o1) then (Inl unique_violation, d)
      else (Inr (), d\<lparr>organizations := organizations d @ [o1]\<rparr>))"

definition OrgRepo_Create :: "fault \<Rightarrow> Organization \<Rightarrow> db \<Rightarrow> unit res \<times> db" where
  "OrgRepo_Create f o1 d =
     map_prod (insert_err (AlreadyExists ''organization slug'') ''create org'') id (db_call f (insert_org o1) d)"

definition OrgRepo_GetByID :: "fault \<Rightarrow> uuid \<Rightarrow> db \<Rightarrow> Organization res" where
  "OrgRepo_GetByID f i d = get_row (NotFound ''organization'') ''get org by id'' f
     (sql_row (\<lambda>r. O_ID r = i) (organizations d))"

definition OrgRepo_GetBySlug :: "fault \<Rightarrow> string \<Rightarrow> db \<Rightarrow> Organization res" where
  "OrgRepo_GetBySlug f slug d = get_row (NotFound ''organization'') ''get org by slug'' f
     (sql_row (\<lambda>r. O_Slug r = slug) (organizations d))"

definition is_org_member :: "db \<Rightarrow> uuid \<Rightarrow> uuid \<Rightarrow> bool" where
  "is_org_member d oid uid \<longleftrightarrow> (\<exists>m\<in>set (org_members d). omr_org_id m = oid \<and> omr_user_id m = uid)"

definition OrgRepo_ListByUserID :: "(string \<Rightarrow> int) \<Rightarrow> fault \<Rightarrow> uuid \<Rightarrow> db \<Rightarrow> Organization list res" where
  "OrgRepo_ListByUserID collate f uid d = list_rows ''list orgs by user'' f
     (sql_order (\<lambda>r. collate (O_Name r))
        (sql_select (\<lambda>r. is_org_member d (O_ID r) uid) (organizations d)))"

definition OrgRepo_Update :: "fault \<Rightarrow> time \<Rightarrow> Organization \<Rightarrow> db \<Rightarrow> unit res \<times> db" where
  "OrgRepo_Update f now o1 = exec_tag (NotFound ''organization'') ''update org'' f
     (\<lambda>d. let n = sql_count (\<lambda>r. O_ID r = O_ID o1) (organizations d) in
        if n \<noteq> 0 \<and> 255 < length (O_Name o1) then (Inl string_too_long, d)
        else (Inr n, d\<lparr>organizations := sql_update (\<lambda>r. O_ID r = O_ID o1)
          (\<lambda>r. r\<lparr>O_Name := O_Name o1, O_Description := O_Description o1, O_UpdatedAt := now\<rparr>)
          (organizations d)\<rparr>))"

definition OrgRepo_Delete :: "fault \<Rightarrow> uuid \<Rightarrow> db \<Rightarrow> unit res \<times> db" where
  "OrgRepo_Delete f i = exec_tag (NotFound ''organization'') ''delete org'' f
     (\<lambda>d. let n = sql_count (\<lambda>r. O_ID r = i) (organizations d) in
        (Inr n, if n = 0 then d else cascade_orgs (\<lambda>x. x = i) d))"

text \<open>INSERT ... ON CONFLICT (org_id, user_id) DO UPDATE SET role.\<close>

definition upsert_org_member :: "uuid \<Rightarrow> uuid \<Rightarrow> OrgRole \<Rightarrow> time \<Rightarrow> db \<Rightarrow> unit res \<times> db" where
  "upsert_org_member oid uid role now d =
     (if is_org_member d oid uid
      then (Inr (), d\<lparr>org_members := sql_update (\<lambda>m. omr_org_id m = oid \<and> omr_user_id m = uid)
             (\<lambda>m. m\<lparr>omr_role := role\<rparr>) (org_members d)\<rparr>)
      else if \<not> exists_id O_ID oid (organizations d) \<or> \<not> exists_id U_ID uid (users d)
      then (Inl foreign_key_violation, d)
      else (Inr (), d\<lparr>org_members := org_members d @
             [\<lparr>omr_org_id = oid, omr_user_id = uid, omr_role = role, omr_joined_at = now\<rparr>]\<rparr>))"

definition OrgRepo_AddMember :: "fault \<Rightarrow> time \<Rightarrow> uuid \<Rightarrow> uuid \<Rightarrow> OrgRole \<Rightarrow> db \<Rightarrow> unit res \<times> db" where
  "OrgRepo_AddMember f now oid uid role d =
     map_prod (\<lambda>r. case r of
         Inl e \<Rightarrow> if isForeignKeyViolation e then Inl (NotFound ''user'')
                  else Inl (WrapErr ''add org member'' e)
       | Inr u \<Rightarrow> Inr u) id (db_call f (upsert_org_member oid uid role now) d)"

text \<open>The JOIN with users.\<close>

definition org_member_join :: "db \<Rightarrow> OrgMemberRow \<Rightarrow> OrgMember option" where
  "org_member_join d m = map_option (\<lambda>u. \<lparr>OM_OrgID = omr_org_id m, OM_UserID = omr_user_id m,
       OM_Role = omr_role m, OM_JoinedAt = omr_joined_at m, OM_UserEmail = U_Email u,
       OM_UserFullName = U_FullName u\<rparr>) (sql_row (\<lambda>u. U_ID u = omr_user_id m) (users d))"

definition OrgRepo_GetMember :: "fault \<Rightarrow> uuid \<Rightarrow> uuid \<Rightarrow> db \<Rightarrow> OrgMember res" where
  "OrgRepo_GetMember f oid uid d = get_row (NotFound ''organization member'') ''get org member'' f
     (Option.bind (sql_row (\<lambda>m. omr_org_id m = oid \<and> omr_user_id m = uid) (org_members d))
        (org_member_join d))"

definition OrgRepo_ListMembers :: "fault \<Rightarrow> uuid \<Rightarrow> db \<Rightarrow> OrgMember list res" where
  "OrgRepo_ListMembers f oid d = list_rows ''list org members'' f
     (List.map_filter (org_member_join d)
        (sql_order omr_joined_at (sql_select (\<lambda>m. omr_org_id m = oid) (org_members d))))"

definition OrgRepo_UpdateMemberRole :: "fault \<Rightarrow> uuid \<Rightarrow> uuid \<Rightarrow> OrgRole \<Rightarrow> db \<Rightarrow> unit res \<times> db" where
  "OrgRepo_UpdateMemberRole f oid uid role =
     exec_tag (NotFound ''organization member'') ''update member role'' f
     (\<lambda>d. (Inr (sql_count (\<lambda>m. omr_org_id m = oid \<and> omr_user_id m = uid) (org_members d)),
           d\<lparr>org_members := sql_update (\<lambda>m. omr_org_id m = oid \<and> omr_user_id m = uid)
              (\<lambda>m. m\<lparr>omr_role := role\<rparr>) (org_members d)\<rparr>))"

definition OrgRepo_RemoveMember :: "fault \<Rightarrow> uuid \<Rightarrow> uuid \<Rightarrow> db \<Rightarrow> unit res \<times> db" where
  "OrgRepo_RemoveMember f oid uid =
     exec_tag (NotFound ''organization member'') ''remove org member'' f
     (\<lambda>d. (Inr (sql_count (\<lambda>m. omr_org_id m = oid \<and> omr_user_id m = uid) (org_members d)),
           d\<lparr>org_members := sql_delete (\<lambda>m. omr_org_id m = oid \<and> omr_user_id m = uid) (org_members d)\<rparr>))"

end
