(* ===== verification/OrgService.thy ===== *)
theory OrgService
  imports OrgRepo
begin

text \<open>The organization service (\<open>internal/service/org/service.go\<close>).\<close>

record OrgCreateRequest =
  OC_Name :: string
  OC_Slug :: string
  OC_Description :: string

record OrgUpdateRequest =
  OU_Name :: string
  OU_Description :: string

record AddMemberRequest =
  AM_UserID :: uuid
  AM_Role :: OrgRole

record OrgResponse =
  OResp_ID :: uuid
  OResp_Name :: string
  OResp_Slug :: string
  OResp_Description :: string
  OResp_CreatedAt :: time
  OResp_UpdatedAt :: time
  OResp_Role :: "OrgRole option"

record MemberResponse =
  MR_UserID :: uuid
  MR_UserEmail :: string
  MR_UserFullName :: string
  MR_Role :: OrgRole
  MR_JoinedAt :: time

definition toOrgResponse :: "Organization \<Rightarrow> OrgRole option \<Rightarrow> OrgResponse" where
  "toOrgResponse o1 role = \<lparr>OResp_ID = O_ID o1, OResp_Name = O_Name o1, OResp_Slug = O_Slug o1,
     OResp_Description = O_Description o1, OResp_CreatedAt = O_CreatedAt o1,
     OResp_UpdatedAt = O_UpdatedAt o1, OResp_Role = role\<rparr>"

definition toMemberResponse :: "OrgMember \<Rightarrow> MemberResponse" where
  "toMemberResponse m = \<lparr>MR_UserID = OM_UserID m, MR_UserEmail = OM_UserEmail m,
     MR_UserFullName = OM_UserFullName m, MR_Role = OM_Role m, MR_JoinedAt = OM_JoinedAt m\<rparr>"

definition new_org :: "uuid \<Rightarrow> time \<Rightarrow> OrgCreateRequest \<Rightarrow> Organization" where
  "new_org new_id now req = \<lparr>O_ID = new_id, O_Name = TrimSpace (OC_Name req),
     O_Slug = ToLower (TrimSpace (OC_Slug req)), O_Description = TrimSpace (OC_Description req),
     O_CreatedAt = now, O_UpdatedAt = now\<rparr>"

text \<open>\<open>f_del\<close> is the fault of the best-effort clean-up, whose error is dropped.\<close>

definition org_svc_Create ::
  "fault \<Rightarrow> fault \<Rightarrow> fault \<Rightarrow> uuid \<Rightarrow> time \<Rightarrow> uuid \<Rightarrow> OrgCreateRequest \<Rightarrow> db \<Rightarrow> OrgResponse res \<times> db" where
  "org_svc_Create f_create f_add f_del new_id now ownerID req d =
     (let o1 = new_org new_id now req in
      case OrgRepo_Create f_create o1 d of
        (Inl e, d1) \<Rightarrow> (Inl e, d1)
      | (Inr _, d1) \<Rightarrow>
          (case OrgRepo_AddMember f_add now (O_ID o1) ownerID RoleOwner d1 of
             (Inl e, d2) \<Rightarrow>
               (Inl (err_Internal ''could not assign org owner'' e), snd (OrgRepo_Delete f_del (O_ID o1) d2))
           | (Inr _, d2) \<Rightarrow> (Inr (toOrgResponse o1 None), d2)))"

definition org_svc_GetByID :: "fault \<Rightarrow> uuid \<Rightarrow> db \<Rightarrow> OrgResponse res" where
  "org_svc_GetByID f i d = map_sum id (\<lambda>o1. toOrgResponse o1 None) (OrgRepo_GetByID f i d)"

text \<open>One GetMember per organization; its error leaves the role out.\<close>

definition org_svc_ListForUser ::
  "(string \<Rightarrow> int) \<Rightarrow> fault \<Rightarrow> (uuid \<Rightarrow> fault) \<Rightarrow> uuid \<Rightarrow> db \<Rightarrow> OrgResponse list res" where
  "org_svc_ListForUser collate f f_member userID d =
     map_sum id (map (\<lambda>o1. toOrgResponse o1
        (case OrgRepo_GetMember (f_member (O_ID o1)) (O_ID o1) userID d of
           Inl e \<Rightarrow> None | Inr m \<Rightarrow> Some (OM_Role m)))) (OrgRepo_ListByUserID collate f userID d)"

definition org_svc_Update ::
  "fault \<Rightarrow> fault \<Rightarrow> time \<Rightarrow> time \<Rightarrow> uuid \<Rightarrow> OrgUpdateRequest \<Rightarrow> db \<Rightarrow> OrgResponse res \<times> db" where
  "org_svc_Update f_get f_upd clock now i req d =
     (case OrgRepo_GetByID f_get i d of
        Inl e \<Rightarrow> (Inl e, d)
      | Inr o0 \<Rightarrow>
          (let o1 = o0\<lparr>O_Name := TrimSpace (OU_Name req), O_Description := TrimSpace (OU_Description req),
             O_UpdatedAt := clock\<rparr> in
           case OrgRepo_Update f_upd now o1 d of
             (Inl e, d') \<Rightarrow> (Inl e, d')
           | (Inr _, d') \<Rightarrow> (Inr (toOrgResponse o1 None), d')))"

definition org_svc_Delete :: "fault \<Rightarrow> uuid \<Rightarrow> db \<Rightarrow> unit res \<times> db" where
  "org_svc_Delete f i d = OrgRepo_Delete f i d"

definition read_member :: "fault \<Rightarrow> uuid \<Rightarrow> uuid \<Rightarrow> unit res \<times> db \<Rightarrow> MemberResponse res \<times> db" where
  "read_member f oid uid r =
     (case r of
        (Inl e, d') \<Rightarrow> (Inl e, d')
      | (Inr _, d') \<Rightarrow> (map_sum id toMemberResponse (OrgRepo_GetMember f oid uid d'), d'))"

definition org_svc_AddMember ::
  "fault \<Rightarrow> fault \<Rightarrow> time \<Rightarrow> uuid \<Rightarrow> AddMemberRequest \<Rightarrow> db \<Rightarrow> MemberResponse res \<times> db" where
  "org_svc_AddMember f_add f_get now oid req d =
     read_member f_get oid (AM_UserID req) (OrgRepo_AddMember f_add now oid (AM_UserID req) (AM_Role req) d)"

definition org_svc_UpdateMemberRole ::
  "fault \<Rightarrow> fault \<Rightarrow> uuid \<Rightarrow> uuid \<Rightarrow> OrgRole \<Rightarrow> db \<Rightarrow> MemberResponse res \<times> db" where
  "org_svc_UpdateMemberRole f_upd f_get oid uid role d =
     read_member f_get oid uid (OrgRepo_UpdateMemberRole f_upd oid uid role d)"

definition org_svc_RemoveMember :: "fault \<Rightarrow> uuid \<Rightarrow> uuid \<Rightarrow> db \<Rightarrow> unit res \<times> db" where
  "org_svc_RemoveMember f oid uid d = OrgRepo_RemoveMember f oid uid d"

definition org_svc_ListMembers :: "fault \<Rightarrow> uuid \<Rightarrow> db \<Rightarrow> MemberResponse list res" where
  "org_svc_ListMembers f oid d = map_sum id (map toMemberResponse) (OrgRepo_ListMembers f oid d)"

section \<open>Facts\<close>

lemma OrgRepo_Create_cases:
  assumes "OrgRepo_Create f o1 d = (r, d')"
  obtains (error) e where "r = Inl e" "d' = d"
    | (new) "r = Inr ()" "d' = d\<lparr>organizations := organizations d @ [o1]\<rparr>"
        "\<forall>v\<in>set (organizations d). O_ID v \<noteq> O_ID o1 \<and> O_Slug v \<noteq> O_Slug o1"
  using assms
  by (cases f) (auto simp: OrgRepo_Create_def insert_org_def insert_err_Inl exists_id_def split: if_splits)

lemma AddMember_error: "OrgRepo_AddMember f now oid uid role d = (Inl e, d') \<Longrightarrow> d' = d"
  by (cases f) (auto simp: OrgRepo_AddMember_def upsert_org_member_def split: if_splits)

lemma AddMember_ok:
  assumes "OrgRepo_AddMember f now oid uid role d = (Inr u, d')"
  shows "organizations d' = organizations d \<and> users d' = users d \<and>
    map_option omr_role (sql_row (\<lambda>m. omr_org_id m = oid \<and> omr_user_id m = uid) (org_members d')) = Some role"
proof (cases "is_org_member d oid uid")
  case True
  then have d': "d' = d\<lparr>org_members := sql_update (\<lambda>m. omr_org_id m = oid \<and> omr_user_id m = uid)
             (\<lambda>m. m\<lparr>omr_role := role\<rparr>) (org_members d)\<rparr>"
    using assms by (cases f) (auto simp: OrgRepo_AddMember_def upsert_org_member_def)
  have "\<exists>m\<in>set rows. omr_org_id m = oid \<and> omr_user_id m = uid \<Longrightarrow>
      map_option omr_role (sql_row (\<lambda>m. omr_org_id m = oid \<and> omr_user_id m = uid)
        (sql_update (\<lambda>m. omr_org_id m = oid \<and> omr_user_id m = uid) (\<lambda>m. m\<lparr>omr_role := role\<rparr>) rows)) = Some role"
    for rows by (induction rows) auto
  with True show ?thesis by (simp add: d' is_org_member_def)
next
  case False
  then have d': "d' = d\<lparr>org_members := org_members d @
             [\<lparr>omr_org_id = oid, omr_user_id = uid, omr_role = role, omr_joined_at = now\<rparr>]\<rparr>"
    using assms by (cases f) (auto simp: OrgRepo_AddMember_def upsert_org_member_def split: if_splits)
  have "\<forall>m\<in>set rows. \<not> (omr_org_id m = oid \<and> omr_user_id m = uid) \<Longrightarrow>
      sql_row (\<lambda>m. omr_org_id m = oid \<and> omr_user_id m = uid) (rows @
        [\<lparr>omr_org_id = oid, omr_user_id = uid, omr_role = role, omr_joined_at = now\<rparr>]) =
      Some \<lparr>omr_org_id = oid, omr_user_id = uid, omr_role = role, omr_joined_at = now\<rparr>" for rows
    by (induction rows) auto
  with False show ?thesis by (auto simp: d' is_org_member_def)
qed

lemma cascade_queues_organizations [simp]: "organizations (cascade_queues X d) = organizations d"
  by (simp add: cascade_queues_def cascade_batches_def cascade_crons_def cascade_jobs_def
      cascade_executions_def Let_def)

lemma Delete_organizations:
  "organizations (snd (OrgRepo_Delete None i d)) = sql_delete (\<lambda>r. O_ID r = i) (organizations d)"
proof -
  have "organizations (cascade_orgs (\<lambda>x. x = i) d) = sql_delete (\<lambda>r. O_ID r = i) (organizations d)"
    by (simp add: cascade_orgs_def cascade_projects_def Let_def)
  moreover have "sql_count (\<lambda>r. O_ID r = i) (organizations d) = 0 \<Longrightarrow>
      sql_delete (\<lambda>r. O_ID r = i) (organizations d) = organizations d"
    by (auto simp: sql_count_0 sql_delete_def intro: filter_True)
  ultimately show ?thesis by (simp add: OrgRepo_Delete_def exec_tag_def Let_def)
qed

text \<open>Creating an organization makes its creator the owner: on success the row is stored with a
  lower-case slug no other organization has, and the creator's membership has role owner; on any
  failure (with the clean-up going through) the organizations are what they were.\<close>

theorem org_create_spec:
  "case org_svc_Create f_create f_add None new_id now ownerID req d of
     (Inl e, d') \<Rightarrow> organizations d' = organizations d
   | (Inr resp, d') \<Rightarrow> organizations d' = organizations d @ [new_org new_id now req] \<and>
       ToLower (OResp_Slug resp) = OResp_Slug resp \<and> OResp_Slug resp \<notin> O_Slug ` set (organizations d) \<and>
       map_option omr_role (sql_row (\<lambda>m. omr_org_id m = new_id \<and> omr_user_id m = ownerID)
         (org_members d')) = Some RoleOwner"
proof -
  let ?o = "new_org new_id now req"
  have oid: "O_ID ?o = new_id" by (simp add: new_org_def)
  obtain r d1 where c: "OrgRepo_Create f_create ?o d = (r, d1)" by (cases "OrgRepo_Create f_create ?o d")
  then show ?thesis
  proof (cases rule: OrgRepo_Create_cases)
    case (error e)
    then show ?thesis using c by (simp add: org_svc_Create_def Let_def)
  next
    case new
    obtain r2 d2 where a: "OrgRepo_AddMember f_add now new_id ownerID RoleOwner d1 = (r2, d2)"
      by (cases "OrgRepo_AddMember f_add now new_id ownerID RoleOwner d1")
    show ?thesis
    proof (cases r2)
      case (Inl e)
      then have d2: "d2 = d1" using a AddMember_error by blast
      have "\<forall>v\<in>set (organizations d). O_ID v \<noteq> new_id" using new(3) oid by simp
      then have "sql_delete (\<lambda>r. O_ID r = new_id) (organizations d1) = organizations d"
        using new(2) oid by (auto simp: sql_delete_def intro: filter_True)
      then show ?thesis using c a Inl new(1) oid d2
        by (simp add: org_svc_Create_def Let_def Delete_organizations)
    next
      case (Inr u)
      have "ToLower (OResp_Slug (toOrgResponse ?o None)) = OResp_Slug (toOrgResponse ?o None)"
        by (simp add: toOrgResponse_def new_org_def)
      moreover have "O_Slug ?o \<notin> O_Slug ` set (organizations d)" using new(3) by auto
      then have "OResp_Slug (toOrgResponse ?o None) \<notin> O_Slug ` set (organizations d)"
        by (simp add: toOrgResponse_def)
      moreover have "org_svc_Create f_create f_add None new_id now ownerID req d = (Inr (toOrgResponse ?o None), d2)"
        using c a Inr new(1) oid by (simp add: org_svc_Create_def Let_def)
      ultimately show ?thesis using AddMember_ok [OF a [unfolded Inr]] new(2) by simp
    qed
  qed
qed

end
