(* ===== verification/ProjectRepo.thy ===== *)
theory ProjectRepo
  imports Database
begin

text \<open>\<open>ProjectRepo\<close> (\<open>internal/repository/postgres/project.go\<close>): projects, API keys, members.\<close>

definition insert_project :: "Project \<Rightarrow> db \<Rightarrow> unit res \<times> db" where
  "insert_project p d =
     (if 255 < length (P_Name p) \<or> 100 < length (P_Slug p) \<or> 255 < length (P_APIKeyHash p) \<or>
         20 < length (P_APIKeyPrefix p) then (Inl string_too_long, d)
      else if exists_id P_ID (P_ID p) (projects d) \<or>
          (\<exists>r\<in>set (projects d). (P_OrgID r = P_OrgID p \<and> P_Slug r = P_Slug p) \<or>
             P_APIKeyHash r = P_APIKeyHash p) then (Inl unique_violation, d)
      else if \<not> exists_id O_ID (P_OrgID p) (organizations d) then (Inl foreign_key_violation, d)
      else (Inr (), d\<lparr>projects := projects d @ [p]\<rparr>))"

definition ProjectRepo_Create :: "fault \<Rightarrow> Project \<Rightarrow> db \<Rightarrow> unit res \<times> db" where
  "ProjectRepo_Create f p d =
     map_prod (insert_err (AlreadyExists ''project slug'') ''create project'') id (db_call f (insert_project p) d)"

definition ProjectRepo_GetByID :: "fault \<Rightarrow> uuid \<Rightarrow> db \<Rightarrow> Project res" where
  "ProjectRepo_GetByID f i d = get_row (NotFound ''project'') ''get project by id'' f
     (sql_row (\<lambda>r. P_ID r = i) (projects d))"

definition ProjectRepo_GetBySlug :: "fault \<Rightarrow> uuid \<Rightarrow> string \<Rightarrow> db \<Rightarrow> Project res" where
  "ProjectRepo_GetBySlug f oid slug d = get_row (NotFound ''project'') ''get project by slug'' f
     (sql_row (\<lambda>r. P_OrgID r = oid \<and> P_Slug r = slug) (projects d))"

definition ProjectRepo_GetByAPIKeyHash :: "fault \<Rightarrow> string \<Rightarrow> db \<Rightarrow> Project res" where
  "ProjectRepo_GetByAPIKeyHash f h d = get_row (Unauthorized ''invalid API key'') ''get project by api key'' f
     (sql_row (\<lambda>r. P_APIKeyHash r = h \<and> P_IsActive r = True) (projects d))"

definition ProjectRepo_ListByOrgID :: "(string \<Rightarrow> int) \<Rightarrow> fault \<Rightarrow> uuid \<Rightarrow> db \<Rightarrow> Project list res" where
  "ProjectRepo_ListByOrgID collate f oid d = list_rows ''list projects by org'' f
     (sql_order (\<lambda>r. collate (P_Name r)) (sql_select (\<lambda>r. P_OrgID r = oid) (projects d)))"

definition set_project_columns :: "Project \<Rightarrow> time \<Rightarrow> Project \<Rightarrow> Project" where
  "set_project_columns p now r = r\<lparr>P_Name := P_Name p, P_Description := P_Description p,
     P_APIKeyHash := P_APIKeyHash p, P_APIKeyPrefix := P_APIKeyPrefix p, P_IsActive := P_IsActive p,
     P_UpdatedAt := now\<rparr>"

definition ProjectRepo_Update :: "fault \<Rightarrow> time \<Rightarrow> Project \<Rightarrow> db \<Rightarrow> unit res \<times> db" where
  "ProjectRepo_Update f now p = exec_tag (NotFound ''project'') ''update project'' f
     (\<lambda>d. let n = sql_count (\<lambda>r. P_ID r = P_ID p) (projects d) in
        if n = 0 then (Inr 0, d)
        else if 255 < length (P_Name p) \<or> 255 < length (P_APIKeyHash p) \<or> 20 < length (P_APIKeyPrefix p)
        then (Inl string_too_long, d)
        else if \<exists>r\<in>set (projects d). P_ID r \<noteq> P_ID p \<and> P_APIKeyHash r = P_APIKeyHash p
        then (Inl unique_violation, d)
        else (Inr n, d\<lparr>projects := sql_update (\<lambda>r. P_ID r = P_ID p) (set_project_columns p now) (projects d)\<rparr>))"

definition ProjectRepo_Delete :: "fault \<Rightarrow> uuid \<Rightarrow> db \<Rightarrow> unit res \<times> db" where
  "ProjectRepo_Delete f i = exec_tag (NotFound ''project'') ''delete project'' f
     (\<lambda>d. let n = sql_count (\<lambda>r. P_ID r = i) (projects d) in
        (Inr n, if n = 0 then d else cascade_projects (\<lambda>x. x = i) d))"

definition is_project_member :: "db \<Rightarrow> uuid \<Rightarrow> uuid \<Rightarrow> bool" where
  "is_project_member d pid uid \<longleftrightarrow>
     (\<exists>m\<in>set (project_members d). pmr_project_id m = pid \<and> pmr_user_id m = uid)"

definition upsert_project_member :: "uuid \<Rightarrow> uuid \<Rightarrow> ProjectRole \<Rightarrow> time \<Rightarrow> db \<Rightarrow> unit res \<times> db" where
  "upsert_project_member pid uid role now d =
     (if is_project_member d pid uid
      then (Inr (), d\<lparr>project_members := sql_update (\<lambda>m. pmr_project_id m = pid \<and> pmr_user_id m = uid)
             (\<lambda>m. m\<lparr>pmr_role := role\<rparr>) (project_members d)\<rparr>)
      else if \<not> exists_id P_ID pid (projects d) \<or> \<not> exists_id U_ID uid (users d)
      then (Inl foreign_key_violation, d)
      else (Inr (), d\<lparr>project_members := project_members d @
             [\<lparr>pmr_project_id = pid, pmr_user_id = uid, pmr_role = role, pmr_joined_at = now\<rparr>]\<rparr>))"

definition ProjectRepo_AddMember :: "fault \<Rightarrow> time \<Rightarrow> uuid \<Rightarrow> uuid \<Rightarrow> ProjectRole \<Rightarrow> db \<Rightarrow> unit res \<times> db" where
  "ProjectRepo_AddMember f now pid uid role d =
     map_prod (wrap_err ''add project member'') id (db_call f (upsert_project_member pid uid role now) d)"

definition project_member_join :: "db \<Rightarrow> ProjectMemberRow \<Rightarrow> ProjectMember option" where
  "project_member_join d m = map_option (\<lambda>u. \<lparr>PM_ProjectID = pmr_project_id m, PM_UserID = pmr_user_id m,
       PM_Role = pmr_role m, PM_JoinedAt = pmr_joined_at m, PM_UserEmail = U_Email u,
       PM_UserFullName = U_FullName u\<rparr>) (sql_row (\<lambda>u. U_ID u = pmr_user_id m) (users d))"

definition ProjectRepo_GetMember :: "fault \<Rightarrow> uuid \<Rightarrow> uuid \<Rightarrow> db \<Rightarrow> ProjectMember res" where
  "ProjectRepo_GetMember f pid uid d = get_row (NotFound ''project member'') ''get project member'' f
     (Option.bind (sql_row (\<lambda>m. pmr_project_id m = pid \<and> pmr_user_id m = uid) (project_members d))
        (project_member_join d))"

definition ProjectRepo_ListMembers :: "fault \<Rightarrow> uuid \<Rightarrow> db \<Rightarrow> ProjectMember list res" where
  "ProjectRepo_ListMembers f pid d = list_rows ''list project members'' f
     (List.map_filter (project_member_join d)
        (sql_order pmr_joined_at (sql_select (\<lambda>m. pmr_project_id m = pid) (project_members d))))"

definition ProjectRepo_UpdateMemberRole :: "fault \<Rightarrow> uuid \<Rightarrow> uuid \<Rightarrow> ProjectRole \<Rightarrow> db \<Rightarrow> unit res \<times> db" where
  "ProjectRepo_UpdateMemberRole f pid uid role =
     exec_tag (NotFound ''project member'') ''update project member role'' f
     (\<lambda>d. (Inr (sql_count (\<lambda>m. pmr_project_id m = pid \<and> pmr_user_id m = uid) (project_members d)),
           d\<lparr>project_members := sql_update (\<lambda>m. pmr_project_id m = pid \<and> pmr_user_id m = uid)
              (\<lambda>m. m\<lparr>pmr_role := role\<rparr>) (project_members d)\<rparr>))"

definition ProjectRepo_RemoveMember :: "fault \<Rightarrow> uuid \<Rightarrow> uuid \<Rightarrow> db \<Rightarrow> unit res \<times> db" where
  "ProjectRepo_RemoveMember f pid uid =
     exec_tag (NotFound ''project member'') ''remove project member'' f
     (\<lambda>d. (Inr (sql_count (\<lambda>m. pmr_project_id m = pid \<and> pmr_user_id m = uid) (project_members d)),
           d\<lparr>project_members := sql_delete (\<lambda>m. pmr_project_id m = pid \<and> pmr_user_id m = uid)
              (project_members d)\<rparr>))"

end
