(* ===== verification/ProjectService.thy ===== *)
theory ProjectService
  imports ProjectRepo
begin

text \<open>
  The project service (\<open>internal/service/project/service.go\<close>). SHA-256 (in hexadecimal) is the
  parameter \<open>sha256_hex\<close>; \<open>random\<close> is the outcome of reading 32 random bytes.
\<close>

record ProjectCreateRequest =
  PC_Name :: string
  PC_Slug :: string
  PC_Description :: string

record ProjectUpdateRequest =
  PU_Name :: string
  PU_Description :: string

record ProjectResponse =
  PResp_ID :: uuid
  PResp_OrgID :: uuid
  PResp_Name :: string
  PResp_Slug :: string
  PResp_Description :: string
  PResp_APIKeyPrefix :: string
  PResp_IsActive :: bool
  PResp_CreatedAt :: time
  PResp_UpdatedAt :: time

record APIKeyResponse =
  AK_APIKey :: string
  AK_APIKeyPrefix :: string

definition toProjectResponse :: "Project \<Rightarrow> ProjectResponse" where
  "toProjectResponse p = \<lparr>PResp_ID = P_ID p, PResp_OrgID = P_OrgID p, PResp_Name = P_Name p,
     PResp_Slug = P_Slug p, PResp_Description = P_Description p, PResp_APIKeyPrefix = P_APIKeyPrefix p,
     PResp_IsActive = P_IsActive p, PResp_CreatedAt = P_CreatedAt p, PResp_UpdatedAt = P_UpdatedAt p\<rparr>"

section \<open>API keys\<close>

definition hex_digit :: "nat \<Rightarrow> char" where
  "hex_digit n = (if n < 10 then char_of (48 + n) else char_of (87 + n))"

definition hex_byte :: "8 word \<Rightarrow> string" where
  "hex_byte b = [hex_digit (unat b div 16), hex_digit (unat b mod 16)]"

definition hex_encode :: "8 word list \<Rightarrow> string" where
  "hex_encode bs = concat (map hex_byte bs)"

text \<open>The raw key, its hash, and the prefix shown to the user.\<close>

definition generateAPIKey :: "(string \<Rightarrow> string) \<Rightarrow> 8 word list res \<Rightarrow> (string \<times> string \<times> string) res" where
  "generateAPIKey sha256_hex random =
     (case random of
        Inl e \<Rightarrow> Inl (WrapErr ''rand read'' e)
      | Inr b \<Rightarrow>
          (let rawKey = ''sk_'' @ hex_encode b; hash = sha256_hex rawKey; prefix = take 15 rawKey @ ''...''
           in Inr (rawKey, hash, prefix)))"

section \<open>Operations\<close>

definition new_project :: "uuid \<Rightarrow> time \<Rightarrow> uuid \<Rightarrow> string \<Rightarrow> string \<Rightarrow> ProjectCreateRequest \<Rightarrow> Project" where
  "new_project new_id now orgID keyHash prefix req = \<lparr>P_ID = new_id, P_OrgID = orgID,
     P_Name = TrimSpace (PC_Name req), P_Slug = ToLower (TrimSpace (PC_Slug req)),
     P_Description = TrimSpace (PC_Description req), P_APIKeyHash = keyHash, P_APIKeyPrefix = prefix,
     P_IsActive = True, P_CreatedAt = now, P_UpdatedAt = now\<rparr>"

definition project_svc_Create ::
  "(string \<Rightarrow> string) \<Rightarrow> 8 word list res \<Rightarrow> fault \<Rightarrow> fault \<Rightarrow> fault \<Rightarrow> uuid \<Rightarrow> time \<Rightarrow> uuid \<Rightarrow> uuid \<Rightarrow>
   ProjectCreateRequest \<Rightarrow> db \<Rightarrow> (ProjectResponse \<times> APIKeyResponse) res \<times> db" where
  "project_svc_Create sha256_hex random f_create f_add f_del new_id now orgID ownerID req d =
     (case generateAPIKey sha256_hex random of
        Inl e \<Rightarrow> (Inl (err_Internal ''could not generate API key'' e), d)
      | Inr (rawKey, keyHash, prefix) \<Rightarrow>
          (let p = new_project new_id now orgID keyHash prefix req in
           case ProjectRepo_Create f_create p d of
             (Inl e, d1) \<Rightarrow> (Inl e, d1)
           | (Inr _, d1) \<Rightarrow>
               (case ProjectRepo_AddMember f_add now (P_ID p) ownerID ProjAdmin d1 of
                  (Inl e, d2) \<Rightarrow> (Inl (err_Internal ''could not assign project admin'' e),
                     snd (ProjectRepo_Delete f_del (P_ID p) d2))
                | (Inr _, d2) \<Rightarrow>
                    (Inr (toProjectResponse p, \<lparr>AK_APIKey = rawKey, AK_APIKeyPrefix = prefix\<rparr>), d2))))"

definition project_svc_GetByID :: "fault \<Rightarrow> uuid \<Rightarrow> db \<Rightarrow> ProjectResponse res" where
  "project_svc_GetByID f i d = map_sum id toProjectResponse (ProjectRepo_GetByID f i d)"

definition project_svc_ListByOrg :: "(string \<Rightarrow> int) \<Rightarrow> fault \<Rightarrow> uuid \<Rightarrow> db \<Rightarrow> ProjectResponse list res" where
  "project_svc_ListByOrg collate f oid d =
     map_sum id (map toProjectResponse) (ProjectRepo_ListByOrgID collate f oid d)"

definition project_svc_Update ::
  "fault \<Rightarrow> fault \<Rightarrow> time \<Rightarrow> time \<Rightarrow> uuid \<Rightarrow> ProjectUpdateRequest \<Rightarrow> db \<Rightarrow> ProjectResponse res \<times> db" where
  "project_svc_Update f_get f_upd clock now i req d =
     (case ProjectRepo_GetByID f_get i d of
        Inl e \<Rightarrow> (Inl e, d)
      | Inr p0 \<Rightarrow>
          (let p = p0\<lparr>P_Name := TrimSpace (PU_Name req), P_Description := TrimSpace (PU_Description req),
             P_UpdatedAt := clock\<rparr> in
           case ProjectRepo_Update f_upd now p d of
             (Inl e, d') \<Rightarrow> (Inl e, d')
           | (Inr _, d') \<Rightarrow> (Inr (toProjectResponse p), d')))"

definition project_svc_Delete :: "fault \<Rightarrow> uuid \<Rightarrow> db \<Rightarrow> unit res \<times> db" where
  "project_svc_Delete f i d = ProjectRepo_Delete f i d"

definition project_svc_RotateAPIKey ::
  "(string \<Rightarrow> string) \<Rightarrow> 8 word list res \<Rightarrow> fault \<Rightarrow> fault \<Rightarrow> time \<Rightarrow> time \<Rightarrow> uuid \<Rightarrow> db \<Rightarrow> APIKeyResponse res \<times> db" where
  "project_svc_RotateAPIKey sha256_hex random f_get f_upd clock now i d =
     (case ProjectRepo_GetByID f_get i d of
        Inl e \<Rightarrow> (Inl e, d)
      | Inr p0 \<Rightarrow>
          (case generateAPIKey sha256_hex random of
             Inl e \<Rightarrow> (Inl (err_Internal ''could not generate API key'' e), d)
           | Inr (rawKey, keyHash, prefix) \<Rightarrow>
               (let p = p0\<lparr>P_APIKeyHash := keyHash, P_APIKeyPrefix := prefix, P_UpdatedAt := clock\<rparr> in
                case ProjectRepo_Update f_upd now p d of
                  (Inl e, d') \<Rightarrow> (Inl e, d')
                | (Inr _, d') \<Rightarrow> (Inr \<lparr>AK_APIKey = rawKey, AK_APIKeyPrefix = prefix\<rparr>, d'))))"

section \<open>Facts\<close>

lemma hex_encode_length: "length (hex_encode bs) = 2 * length bs"
  by (induction bs) (simp_all add: hex_encode_def hex_byte_def)

lemma hex_digit_inj: "m < 16 \<Longrightarrow> n < 16 \<Longrightarrow> hex_digit m = hex_digit n \<Longrightarrow> m = n"
proof -
  assume mn: "m < 16" "n < 16" and h: "hex_digit m = hex_digit n"
  have v: "(of_char (hex_digit k) :: nat) = (if k < 10 then 48 + k else 87 + k)" if "k < 16" for k
    using that by (auto simp: hex_digit_def of_char_of)
  show "m = n" using arg_cong [OF h, of "of_char :: char \<Rightarrow> nat"] v [OF mn(1)] v [OF mn(2)] mn
    by (auto split: if_splits)
qed

lemma hex_byte_inj: "hex_byte a = hex_byte b \<Longrightarrow> a = b"
proof -
  assume h: "hex_byte a = hex_byte b"
  have r: "unat x div 16 < 16" "unat x mod 16 < 16" for x :: "8 word"
  proof -
    have "unat x < 16 * 16" using unsigned_less [of x] by simp
    then show "unat x div 16 < 16" by (rule less_mult_imp_div_less)
  qed simp
  have "unat a div 16 = unat b div 16" "unat a mod 16 = unat b mod 16"
    using h by (auto simp: hex_byte_def intro: hex_digit_inj r)
  then have "unat a = unat b" by (metis div_mult_mod_eq)
  then show "a = b" by (rule unsigned_word_eqI)
qed

lemma hex_encode_inj: "hex_encode xs = hex_encode ys \<Longrightarrow> xs = ys"
proof (induction xs arbitrary: ys)
  case Nil
  then show ?case by (cases ys) (simp_all add: hex_encode_def hex_byte_def)
next
  case (Cons x xs)
  then obtain y ys' where ys: "ys = y # ys'"
    by (cases ys) (simp_all add: hex_encode_def hex_byte_def)
  with Cons.prems have "hex_byte x @ hex_encode xs = hex_byte y @ hex_encode ys'" by (simp add: hex_encode_def)
  then have "hex_byte x = hex_byte y" "hex_encode xs = hex_encode ys'" by (simp_all add: hex_byte_def)
  then show ?case using Cons.IH hex_byte_inj ys by blast
qed

text \<open>API keys are distinct exactly when their random bytes are, are 67 characters long, and
  the prefix that is shown has 18 characters, so it fits its column, and gives away 12 of the 64
  hexadecimal digits.\<close>

theorem api_key_shape:
  assumes "generateAPIKey sha (Inr b) = Inr (raw, hash, prefix)" and "length b = 32"
    and "generateAPIKey sha (Inr b') = Inr (raw', hash', prefix')"
  shows "length raw = 67 \<and> length prefix = 18 \<and> prefix = ''sk_'' @ take 12 (hex_encode b) @ ''...'' \<and>
    hash = sha raw \<and> (raw = raw' \<longleftrightarrow> b = b')"
  using assms hex_encode_inj by (auto simp: generateAPIKey_def Let_def hex_encode_length)

theorem api_key_shape_witness:
  "\<exists>raw hash prefix. generateAPIKey id (Inr (replicate 32 0)) = Inr (raw, hash, prefix) \<and> length raw = 67"
proof -
  obtain raw hash prefix where g: "generateAPIKey id (Inr (replicate 32 0)) = Inr (raw, hash, prefix)"
    by (simp add: generateAPIKey_def Let_def)
  from api_key_shape [OF g _ g] g show ?thesis by auto
qed

lemma ProjectRepo_Update_ok:
  assumes "ProjectRepo_Update f now p d = (Inr u, d')"
  shows "d' = d\<lparr>projects := sql_update (\<lambda>r. P_ID r = P_ID p) (set_project_columns p now) (projects d)\<rparr> \<and>
    (\<forall>r\<in>set (projects d). P_ID r \<noteq> P_ID p \<longrightarrow> P_APIKeyHash r \<noteq> P_APIKeyHash p)"
  using assms by (cases f) (auto simp: ProjectRepo_Update_def exec_tag_def Let_def split: if_splits)

text \<open>Rotating the key of an active project replaces it at once: afterwards the new key
  authenticates this project and the old one (whose hash is another) authenticates none.\<close>

theorem rotate_replaces_key:
  assumes "project_svc_RotateAPIKey sha rnd f_get f_upd clock now i d = (Inr ak, d')"
    and "sql_row (\<lambda>r. P_ID r = i) (projects d) = Some p" and "P_IsActive p"
    and "distinct (map P_ID (projects d))" and "distinct (map P_APIKeyHash (projects d))"
    and "sha (AK_APIKey ak) \<noteq> P_APIKeyHash p"
  shows "ProjectRepo_GetByAPIKeyHash None (P_APIKeyHash p) d' = Inl (Unauthorized ''invalid API key'') \<and>
    (\<exists>q. ProjectRepo_GetByAPIKeyHash None (sha (AK_APIKey ak)) d' = Inr q \<and> P_ID q = i \<and>
      P_APIKeyPrefix q = AK_APIKeyPrefix ak)"
proof -
  have pi: "P_ID p = i" "p \<in> set (projects d)" using sql_row_Some [OF assms(2)] by auto
  have "\<exists>h pre u. ProjectRepo_Update f_upd now (p\<lparr>P_APIKeyHash := h, P_APIKeyPrefix := pre, P_UpdatedAt := clock\<rparr>) d = (Inr u, d') \<and>
      h = sha (AK_APIKey ak) \<and> pre = AK_APIKeyPrefix ak"
    using assms(1,2)
    by (cases f_get) (auto simp: project_svc_RotateAPIKey_def ProjectRepo_GetByID_def generateAPIKey_def Let_def
        split: sum.splits prod.splits)
  then obtain u where upd: "ProjectRepo_Update f_upd now
      (p\<lparr>P_APIKeyHash := sha (AK_APIKey ak), P_APIKeyPrefix := AK_APIKeyPrefix ak, P_UpdatedAt := clock\<rparr>) d = (Inr u, d')"
    by blast
  let ?p = "p\<lparr>P_APIKeyHash := sha (AK_APIKey ak), P_APIKeyPrefix := AK_APIKeyPrefix ak, P_UpdatedAt := clock\<rparr>"
  have d': "projects d' = sql_update (\<lambda>r. P_ID r = i) (set_project_columns ?p now) (projects d)"
    and other: "\<forall>r\<in>set (projects d). P_ID r \<noteq> i \<longrightarrow> P_APIKeyHash r \<noteq> sha (AK_APIKey ak)"
    using ProjectRepo_Update_ok [OF upd] pi(1) by auto
  have one: "r = p" if "r \<in> set (projects d)" "P_ID r = i" for r
    using distinct_key_eq [OF assms(4)] that pi by blast
  have old: "r = p" if "r \<in> set (projects d)" "P_APIKeyHash r = P_APIKeyHash p" for r
    using distinct_key_eq [OF assms(5)] that pi by blast
  have "sql_row (\<lambda>r. P_APIKeyHash r = P_APIKeyHash p \<and> P_IsActive r = True) (projects d') = None"
    using one assms(6) pi(1) unfolding sql_row_None d'
    by (auto simp: sql_update_mem set_project_columns_def dest: old)
  then have "ProjectRepo_GetByAPIKeyHash None (P_APIKeyHash p) d' = Inl (Unauthorized ''invalid API key'')"
    by (simp add: ProjectRepo_GetByAPIKeyHash_def)
  moreover have "set_project_columns ?p now p \<in> set (projects d')"
    using pi by (auto simp: d' sql_update_mem)
  then have "sql_row (\<lambda>r. P_APIKeyHash r = sha (AK_APIKey ak) \<and> P_IsActive r = True) (projects d') \<noteq> None"
    using assms(3) unfolding sql_row_None
    by (intro notI) (drule (1) bspec, simp add: set_project_columns_def)
  then obtain q where q: "sql_row (\<lambda>r. P_APIKeyHash r = sha (AK_APIKey ak) \<and> P_IsActive r = True) (projects d') = Some q"
    by blast
  moreover from sql_row_Some [OF q] other have "P_ID q = i \<and> P_APIKeyPrefix q = AK_APIKeyPrefix ak"
    using one pi(1) by (auto simp: d' sql_update_mem set_project_columns_def)
  ultimately show ?thesis by (simp add: ProjectRepo_GetByAPIKeyHash_def)
qed

definition shop :: Project where
  "shop = \<lparr>P_ID = 70, P_OrgID = 700, P_Name = ''shop'', P_Slug = ''shop'', P_Description = [],
     P_APIKeyHash = ''old'', P_APIKeyPrefix = ''sk_'', P_IsActive = True, P_CreatedAt = 0, P_UpdatedAt = 0\<rparr>"

theorem rotate_replaces_key_witness:
  "\<exists>ak d'. project_svc_RotateAPIKey id (Inr []) None None 5 6 70 (empty_db\<lparr>projects := [shop]\<rparr>) = (Inr ak, d') \<and>
     ProjectRepo_GetByAPIKeyHash None ''old'' d' = Inl (Unauthorized ''invalid API key'')"
proof -
  have h: "sql_row (\<lambda>r. P_ID r = 70) (projects (empty_db\<lparr>projects := [shop]\<rparr>)) = Some shop" "P_IsActive shop"
    "distinct (map P_ID (projects (empty_db\<lparr>projects := [shop]\<rparr>)))"
    "distinct (map P_APIKeyHash (projects (empty_db\<lparr>projects := [shop]\<rparr>)))" "P_APIKeyHash shop = ''old''"
    by (simp_all add: shop_def)
  obtain ak d' where r: "project_svc_RotateAPIKey id (Inr []) None None 5 6 70 (empty_db\<lparr>projects := [shop]\<rparr>) = (Inr ak, d')"
    and ak: "id (AK_APIKey ak) \<noteq> P_APIKeyHash shop"
    by (simp add: project_svc_RotateAPIKey_def ProjectRepo_GetByID_def generateAPIKey_def Let_def hex_encode_def
        ProjectRepo_Update_def exec_tag_def shop_def)
  from rotate_replaces_key [OF r h(1-4) ak] r h(5) show ?thesis by auto
qed

end
