(* ===== verification/Pool.thy ===== *)
theory Pool
  imports Executor "HOL-Library.Multiset"
begin

text \<open>
  The worker pool (\<open>internal/worker/pool.go\<close>) as a transition system: a buffered channel of
  capacity \<open>concurrency\<close>, one goroutine per slot, the atomic counter of executing jobs, and
  Stop, which closes the channel and waits for the goroutines. One transition is one channel
  operation, one atomic addition or one call of the executor. The last two fields are history
  variables: the jobs submitted and the jobs executed so far.
\<close>

text \<open>Where a goroutine of \<open>worker\<close> is: at the range statement, before the increment, before
  Execute, before the decrement, returned.\<close>

datatype wphase = WIdle | WGot Job | WRun Job | WFin Job | WExit

record pool =
  pl_concurrency :: nat
  pl_chan :: "Job list"
  pl_closed :: bool
  pl_workers :: "wphase list"
  pl_active :: int
  pl_submitted :: "Job list"
  pl_executed :: "Job list"

definition NewPool :: "nat \<Rightarrow> pool" where
  "NewPool concurrency = \<lparr>pl_concurrency = concurrency, pl_chan = [], pl_closed = False,
     pl_workers = [], pl_active = 0, pl_submitted = [], pl_executed = []\<rparr>"

definition Pool_Start :: "pool \<Rightarrow> pool" where
  "Pool_Start p = p\<lparr>pl_workers := replicate (pl_concurrency p) WIdle\<rparr>"

definition AvailableWorkers :: "pool \<Rightarrow> int" where
  "AvailableWorkers p = int (pl_concurrency p) - pl_active p"

text \<open>Operations give None where the goroutine blocks; sending on the closed channel panics.\<close>

datatype send = Sent pool | Blocked | SendPanic

definition Pool_Submit :: "Job \<Rightarrow> pool \<Rightarrow> send" where
  "Pool_Submit j p =
     (if pl_closed p then SendPanic
      else if length (pl_chan p) < pl_concurrency p
      then Sent (p\<lparr>pl_chan := pl_chan p @ [j], pl_submitted := pl_submitted p @ [j]\<rparr>)
      else Blocked)"

text \<open>One statement of goroutine \<open>i\<close>.\<close>

definition worker_step :: "nat \<Rightarrow> pool \<Rightarrow> pool option" where
  "worker_step i p =
     (if length (pl_workers p) \<le> i then None
      else case pl_workers p ! i of
        WIdle \<Rightarrow>
          (case pl_chan p of
             j # js \<Rightarrow> Some (p\<lparr>pl_chan := js, pl_workers := (pl_workers p)[i := WGot j]\<rparr>)
           | [] \<Rightarrow> if pl_closed p then Some (p\<lparr>pl_workers := (pl_workers p)[i := WExit]\<rparr>) else None)
      | WGot j \<Rightarrow> Some (p\<lparr>pl_active := pl_active p + 1, pl_workers := (pl_workers p)[i := WRun j]\<rparr>)
      | WRun j \<Rightarrow> Some (p\<lparr>pl_executed := pl_executed p @ [j], pl_workers := (pl_workers p)[i := WFin j]\<rparr>)
      | WFin j \<Rightarrow> Some (p\<lparr>pl_active := pl_active p - 1, pl_workers := (pl_workers p)[i := WIdle]\<rparr>)
      | WExit \<Rightarrow> None)"

definition Pool_close :: "pool \<Rightarrow> pool" where
  "Pool_close p = p\<lparr>pl_closed := True\<rparr>"

text \<open>\<open>wg.Wait()\<close> returns when every goroutine has.\<close>

definition Pool_stopped :: "pool \<Rightarrow> bool" where
  "Pool_stopped p \<longleftrightarrow> pl_closed p \<and> list_all (\<lambda>w. w = WExit) (pl_workers p)"

inductive pool_step :: "pool \<Rightarrow> pool \<Rightarrow> bool" where
  submit: "Pool_Submit j p = Sent p' \<Longrightarrow> pool_step p p'"
| work: "worker_step i p = Some p' \<Longrightarrow> pool_step p p'"
| close: "\<not> pl_closed p \<Longrightarrow> pool_step p (Pool_close p)"

inductive pool_reachable :: "nat \<Rightarrow> pool \<Rightarrow> bool" for n where
  start: "pool_reachable n (Pool_Start (NewPool n))"
| step: "pool_reachable n p \<Longrightarrow> pool_step p p' \<Longrightarrow> pool_reachable n p'"

inductive_cases pool_stepE: "pool_step p p'"

section \<open>Invariant\<close>

fun held :: "wphase \<Rightarrow> Job multiset" where
  "held (WGot j) = {#j#}"
| "held (WRun j) = {#j#}"
| "held _ = {#}"

fun counted :: "wphase \<Rightarrow> nat" where
  "counted (WRun j) = 1"
| "counted (WFin j) = 1"
| "counted _ = 0"

definition held_all :: "wphase list \<Rightarrow> Job multiset" where
  "held_all ws = sum_list (map held ws)"

definition counted_all :: "wphase list \<Rightarrow> nat" where
  "counted_all ws = sum_list (map counted ws)"

lemma sum_list_update_split:
  fixes f :: "'a \<Rightarrow> 'b::comm_monoid_add"
  shows "i < length ws \<Longrightarrow> sum_list (map f (ws[i := w])) + f (ws ! i) = sum_list (map f ws) + f w"
proof (induction ws arbitrary: i)
  case (Cons x xs)
  then show ?case by (cases i) (simp_all add: add_ac)
qed simp

lemma held_update:
  "i < length ws \<Longrightarrow> held_all (ws[i := w]) + held (ws ! i) = held_all ws + held w"
  unfolding held_all_def by (rule sum_list_update_split)

lemma counted_update:
  "i < length ws \<Longrightarrow> counted_all (ws[i := w]) + counted (ws ! i) = counted_all ws + counted w"
  unfolding counted_all_def by (rule sum_list_update_split)

lemma counted_le: "counted_all ws \<le> length ws"
proof (induction ws)
  case (Cons w ws)
  have "counted w \<le> 1" by (cases w) simp_all
  with Cons show ?case by (simp add: counted_all_def)
qed (simp add: counted_all_def)

lemma held_none: "\<forall>w\<in>set ws. held w = {#} \<Longrightarrow> held_all ws = {#}"
  by (induction ws) (simp_all add: held_all_def)

lemma counted_none: "\<forall>w\<in>set ws. counted w = 0 \<Longrightarrow> counted_all ws = 0"
  by (induction ws) (simp_all add: counted_all_def)

definition pool_inv :: "nat \<Rightarrow> pool \<Rightarrow> bool" where
  "pool_inv n p \<longleftrightarrow> pl_concurrency p = n \<and> length (pl_workers p) = n \<and> length (pl_chan p) \<le> n \<and>
     pl_active p = int (counted_all (pl_workers p)) \<and>
     mset (pl_submitted p) = mset (pl_executed p) + mset (pl_chan p) + held_all (pl_workers p) \<and>
     (WExit \<in> set (pl_workers p) \<longrightarrow> pl_closed p \<and> pl_chan p = [])"

lemma pool_inv_start: "pool_inv n (Pool_Start (NewPool n))"
  using held_none [of "replicate n WIdle"] counted_none [of "replicate n WIdle"]
  by (simp add: pool_inv_def Pool_Start_def NewPool_def)

lemma pool_inv_submit: "pool_inv n p \<Longrightarrow> Pool_Submit j p = Sent p' \<Longrightarrow> pool_inv n p'"
  by (auto simp: pool_inv_def Pool_Submit_def split: if_splits)

lemma worker_step_cases [consumes 1, case_names recv leave inc run dec]:
  assumes "worker_step i p = Some p'"
  obtains j js where "i < length (pl_workers p)" "pl_workers p ! i = WIdle" "pl_chan p = j # js"
      "p' = p\<lparr>pl_chan := js, pl_workers := (pl_workers p)[i := WGot j]\<rparr>"
    | "i < length (pl_workers p)" "pl_workers p ! i = WIdle" "pl_chan p = []" "pl_closed p"
      "p' = p\<lparr>pl_workers := (pl_workers p)[i := WExit]\<rparr>"
    | j where "i < length (pl_workers p)" "pl_workers p ! i = WGot j"
      "p' = p\<lparr>pl_active := pl_active p + 1, pl_workers := (pl_workers p)[i := WRun j]\<rparr>"
    | j where "i < length (pl_workers p)" "pl_workers p ! i = WRun j"
      "p' = p\<lparr>pl_executed := pl_executed p @ [j], pl_workers := (pl_workers p)[i := WFin j]\<rparr>"
    | j where "i < length (pl_workers p)" "pl_workers p ! i = WFin j"
      "p' = p\<lparr>pl_active := pl_active p - 1, pl_workers := (pl_workers p)[i := WIdle]\<rparr>"
  using assms by (auto simp: worker_step_def split: if_splits wphase.splits list.splits)

lemma pool_inv_worker:
  assumes "pool_inv n p" and "worker_step i p = Some p'"
  shows "pool_inv n p'"
  using assms(2)
proof (cases rule: worker_step_cases)
  case (recv j js)
  then show ?thesis using assms(1) held_update [OF recv(1), of "WGot j"] counted_update [OF recv(1), of "WGot j"]
    by (auto simp: pool_inv_def add_ac dest!: set_update_subset_insert [THEN subsetD])
next
  case leave
  then show ?thesis using assms(1) held_update [OF leave(1), of WExit] counted_update [OF leave(1), of WExit]
    by (auto simp: pool_inv_def)
next
  case (inc j)
  then show ?thesis using assms(1) held_update [OF inc(1), of "WRun j"] counted_update [OF inc(1), of "WRun j"]
    by (auto simp: pool_inv_def dest!: set_update_subset_insert [THEN subsetD])
next
  case (run j)
  then show ?thesis using assms(1) held_update [OF run(1), of "WFin j"] counted_update [OF run(1), of "WFin j"]
    by (auto simp: pool_inv_def add_ac dest!: set_update_subset_insert [THEN subsetD])
next
  case (dec j)
  then show ?thesis using assms(1) held_update [OF dec(1), of WIdle] counted_update [OF dec(1), of WIdle]
    by (auto simp: pool_inv_def dest!: set_update_subset_insert [THEN subsetD])
qed

lemma pool_inv_step: "pool_inv n p \<Longrightarrow> pool_step p p' \<Longrightarrow> pool_inv n p'"
proof (erule pool_stepE)
  show "pool_inv n p \<Longrightarrow> p' = Pool_close p \<Longrightarrow> \<not> pl_closed p \<Longrightarrow> pool_inv n p'"
    by (simp add: pool_inv_def Pool_close_def)
qed (blast intro: pool_inv_submit pool_inv_worker)+

lemma pool_inv_reachable: "pool_reachable n p \<Longrightarrow> pool_inv n p"
  by (induction rule: pool_reachable.induct) (auto intro: pool_inv_start pool_inv_step)

text \<open>In every reachable state of the pool each submitted job is exactly once in one place:
  executed, waiting in the channel, or in the hands of a goroutine about to execute it; at most
  \<open>concurrency\<close> jobs execute, \<open>AvailableWorkers\<close> is between 0 and \<open>concurrency\<close>, and the
  channel holds at most \<open>concurrency\<close> more.\<close>

theorem pool_exactly_once:
  assumes "pool_reachable n p"
  shows "mset (pl_submitted p) = mset (pl_executed p) + mset (pl_chan p) + held_all (pl_workers p) \<and>
    0 \<le> AvailableWorkers p \<and> AvailableWorkers p \<le> int n \<and> length (pl_chan p) \<le> n \<and>
    size (mset (pl_submitted p) - mset (pl_executed p)) \<le> 2 * n"
proof -
  have inv: "pool_inv n p" using assms by (rule pool_inv_reachable)
  have "size (held_all ws) \<le> length ws" for ws
  proof (induction ws)
    case (Cons w ws)
    have "size (held w) \<le> 1" by (cases w) simp_all
    with Cons show ?case by (simp add: held_all_def)
  qed (simp add: held_all_def)
  then have "size (mset (pl_chan p) + held_all (pl_workers p)) \<le> 2 * n"
    using inv add_mono [of "length (pl_chan p)" n "size (held_all (pl_workers p))" n]
    by (metis pool_inv_def mult_2 size_mset size_union)
  moreover have "counted_all (pl_workers p) \<le> n" using inv counted_le [of "pl_workers p"] by (simp add: pool_inv_def)
  ultimately show ?thesis using inv by (simp add: pool_inv_def AvailableWorkers_def)
qed

lemma pool_inv_drained:
  assumes inv: "pool_inv n p" and "Pool_stopped p" and "0 < n"
  shows "mset (pl_executed p) = mset (pl_submitted p) \<and> pl_active p = 0"
proof -
  have exit: "\<forall>w\<in>set (pl_workers p). w = WExit" using assms(2) by (simp add: Pool_stopped_def list_all_iff)
  have "held_all (pl_workers p) = {#}" by (rule held_none) (use exit in auto)
  moreover have "counted_all (pl_workers p) = 0" by (rule counted_none) (use exit in auto)
  moreover have "pl_chan p = []"
  proof -
    have "pl_workers p \<noteq> []" using inv assms(3) by (auto simp: pool_inv_def)
    then have "WExit \<in> set (pl_workers p)" using exit by (cases "pl_workers p") auto
    then show ?thesis using inv by (simp add: pool_inv_def)
  qed
  ultimately show ?thesis using inv by (simp add: pool_inv_def)
qed

text \<open>When Stop returns, the pool has executed every job that was submitted, each once.\<close>

theorem pool_stop_drains:
  assumes "pool_reachable n p" and "Pool_stopped p" and "0 < n"
  shows "mset (pl_executed p) = mset (pl_submitted p) \<and> pl_active p = 0"
  using pool_inv_drained [OF pool_inv_reachable [OF assms(1)] assms(2,3)] .

section \<open>Draining\<close>

fun phase_weight :: "wphase \<Rightarrow> nat" where
  "phase_weight WExit = 0"
| "phase_weight WIdle = 1"
| "phase_weight (WFin j) = 2"
| "phase_weight (WRun j) = 3"
| "phase_weight (WGot j) = 4"

definition drain_measure :: "pool \<Rightarrow> nat" where
  "drain_measure p = 4 * length (pl_chan p) + sum_list (map phase_weight (pl_workers p))"

lemma weight_update:
  "i < length ws \<Longrightarrow> sum_list (map phase_weight (ws[i := w])) + phase_weight (ws ! i) =
     sum_list (map phase_weight ws) + phase_weight w"
  by (rule sum_list_update_split)

lemma worker_step_measure: "worker_step i p = Some p' \<Longrightarrow> drain_measure p' < drain_measure p"
proof (erule worker_step_cases)
  fix j js assume "i < length (pl_workers p)" "pl_workers p ! i = WIdle" "pl_chan p = j # js"
      "p' = p\<lparr>pl_chan := js, pl_workers := (pl_workers p)[i := WGot j]\<rparr>"
  then show "drain_measure p' < drain_measure p"
    using weight_update [of i "pl_workers p" "WGot j"] by (simp add: drain_measure_def)
next
  assume "i < length (pl_workers p)" "pl_workers p ! i = WIdle" "pl_chan p = []"
      "p' = p\<lparr>pl_workers := (pl_workers p)[i := WExit]\<rparr>"
  then show "drain_measure p' < drain_measure p"
    using weight_update [of i "pl_workers p" WExit] by (simp add: drain_measure_def)
next
  fix j assume "i < length (pl_workers p)" "pl_workers p ! i = WGot j"
      "p' = p\<lparr>pl_active := pl_active p + 1, pl_workers := (pl_workers p)[i := WRun j]\<rparr>"
  then show "drain_measure p' < drain_measure p"
    using weight_update [of i "pl_workers p" "WRun j"] by (simp add: drain_measure_def)
next
  fix j assume "i < length (pl_workers p)" "pl_workers p ! i = WRun j"
      "p' = p\<lparr>pl_executed := pl_executed p @ [j], pl_workers := (pl_workers p)[i := WFin j]\<rparr>"
  then show "drain_measure p' < drain_measure p"
    using weight_update [of i "pl_workers p" "WFin j"] by (simp add: drain_measure_def)
next
  fix j assume "i < length (pl_workers p)" "pl_workers p ! i = WFin j"
      "p' = p\<lparr>pl_active := pl_active p - 1, pl_workers := (pl_workers p)[i := WIdle]\<rparr>"
  then show "drain_measure p' < drain_measure p"
    using weight_update [of i "pl_workers p" WIdle] by (simp add: drain_measure_def)
qed

lemma worker_step_closed: "worker_step i p = Some p' \<Longrightarrow> pl_closed p' = pl_closed p"
  by (erule worker_step_cases) simp_all

lemma drain_progress:
  assumes "pl_closed p" and "\<not> Pool_stopped p"
  shows "\<exists>i p'. worker_step i p = Some p'"
proof -
  obtain i where i: "i < length (pl_workers p)" "pl_workers p ! i \<noteq> WExit"
    using assms by (auto simp: Pool_stopped_def list_all_iff in_set_conv_nth)
  then show ?thesis using assms(1)
    by (intro exI [of _ i]) (auto simp: worker_step_def split: wphase.splits list.splits)
qed

text \<open>A run of the goroutines after the channel is closed: which one moves is the scheduler's choice.\<close>

fun drain_run :: "nat list \<Rightarrow> pool \<Rightarrow> pool option" where
  "drain_run [] p = Some p"
| "drain_run (i # is) p = (case worker_step i p of None \<Rightarrow> None | Some p' \<Rightarrow> drain_run is p')"

lemma drain_run_bound: "drain_run is p = Some p' \<Longrightarrow> length is + drain_measure p' \<le> drain_measure p"
proof (induction "is" arbitrary: p)
  case (Cons i "is")
  then obtain q where q: "worker_step i p = Some q" "drain_run is q = Some p'" by (auto split: option.splits)
  from Cons.IH [OF q(2)] worker_step_measure [OF q(1)] show ?case by simp
qed simp

lemma drain_run_exists: "pl_closed p \<Longrightarrow> \<exists>is p'. drain_run is p = Some p' \<and> Pool_stopped p'"
proof (induction p rule: measure_induct_rule [of drain_measure])
  case (less p)
  show ?case
  proof (cases "Pool_stopped p")
    case True
    then have "drain_run [] p = Some p \<and> Pool_stopped p" by simp
    then show ?thesis by blast
  next
    case False
    then obtain i q where q: "worker_step i p = Some q" using drain_progress [OF less.prems] by blast
    obtain "is" p' where "drain_run is q = Some p'" "Pool_stopped p'"
      using less.IH [OF worker_step_measure [OF q]] worker_step_closed [OF q] less.prems by blast
    then have "drain_run (i # is) p = Some p' \<and> Pool_stopped p'" using q by simp
    then show ?thesis by blast
  qed
qed

lemma phase_weight_sum: "sum_list (map phase_weight ws) \<le> 4 * length ws"
proof (induction ws)
  case (Cons w ws)
  have "phase_weight w \<le> 4" by (cases w) simp_all
  with Cons show ?case by simp
qed simp

text \<open>C36: once the channel is closed the pool always stops: whatever order the goroutines run in,
  they make at most eight statements per slot, and as long as one has not returned some goroutine
  can move; so \<open>Stop\<close> returns.\<close>

theorem pool_stop_terminates:
  assumes "pool_reachable n p" and "pl_closed p" and "drain_run is p = Some p'"
  shows "length is \<le> 8 * n \<and> (\<exists>more p''. drain_run more p' = Some p'' \<and> Pool_stopped p'')"
proof -
  have inv: "length (pl_workers p) = n" "length (pl_chan p) \<le> n"
    using pool_inv_reachable [OF assms(1)] by (simp_all add: pool_inv_def)
  have "drain_measure p \<le> 8 * n"
    using phase_weight_sum [of "pl_workers p"] inv by (simp add: drain_measure_def)
  moreover have "pl_closed p'" using assms(2,3)
    by (induction "is" arbitrary: p) (auto split: option.splits dest: worker_step_closed)
  ultimately show ?thesis using drain_run_bound [OF assms(3)] drain_run_exists by fastforce
qed

section \<open>Witnesses\<close>

definition one_job_pool :: pool where
  "one_job_pool = Pool_close ((Pool_Start (NewPool 1))\<lparr>pl_chan := [sample_job 1 StatusPending 5 0],
     pl_submitted := [sample_job 1 StatusPending 5 0]\<rparr>)"

lemma one_job_reachable: "pool_reachable 1 one_job_pool"
proof -
  have "Pool_Submit (sample_job 1 StatusPending 5 0) (Pool_Start (NewPool 1)) =
      Sent ((Pool_Start (NewPool 1))\<lparr>pl_chan := [sample_job 1 StatusPending 5 0],
        pl_submitted := [sample_job 1 StatusPending 5 0]\<rparr>)"
    by (simp add: Pool_Submit_def Pool_Start_def NewPool_def)
  from pool_reachable.step [OF pool_reachable.start pool_step.submit [OF this]]
  have "pool_reachable 1 ((Pool_Start (NewPool 1))\<lparr>pl_chan := [sample_job 1 StatusPending 5 0],
      pl_submitted := [sample_job 1 StatusPending 5 0]\<rparr>)" .
  from pool_reachable.step [OF this pool_step.close] show ?thesis
    by (simp add: one_job_pool_def Pool_Start_def NewPool_def)
qed

lemma one_job_drained:
  "\<exists>p'. drain_run [0, 0, 0, 0, 0] one_job_pool = Some p' \<and> Pool_stopped p' \<and>
     pl_submitted p' = [sample_job 1 StatusPending 5 0]"
  by (simp add: one_job_pool_def Pool_close_def Pool_Start_def NewPool_def worker_step_def Pool_stopped_def)

lemma drain_run_reachable: "pool_reachable n p \<Longrightarrow> drain_run is p = Some p' \<Longrightarrow> pool_reachable n p'"
proof (induction "is" arbitrary: p)
  case (Cons i "is")
  then obtain q where q: "worker_step i p = Some q" "drain_run is q = Some p'" by (auto split: option.splits)
  from Cons.IH [OF pool_reachable.step [OF Cons.prems(1) pool_step.work [OF q(1)]] q(2)] show ?case .
qed simp

theorem pool_exactly_once_witness:
  "AvailableWorkers one_job_pool \<le> 1 \<and> length (pl_chan one_job_pool) \<le> 1"
  using pool_exactly_once [OF one_job_reachable] by simp

theorem pool_stop_drains_witness:
  "\<exists>p'. drain_run [0, 0, 0, 0, 0] one_job_pool = Some p' \<and> Pool_stopped p' \<and>
     mset (pl_executed p') = {#sample_job 1 StatusPending 5 0#}"
proof -
  obtain p' where p': "drain_run [0, 0, 0, 0, 0] one_job_pool = Some p'" "Pool_stopped p'"
    "pl_submitted p' = [sample_job 1 StatusPending 5 0]" using one_job_drained by blast
  from pool_stop_drains [OF drain_run_reachable [OF one_job_reachable p'(1)] p'(2)] p' show ?thesis by simp
qed

theorem pool_stop_terminates_witness:
  "\<exists>more p''. drain_run more one_job_pool = Some p'' \<and> Pool_stopped p''"
  using pool_stop_terminates [OF one_job_reachable, of "[]" one_job_pool]
  by (simp add: one_job_pool_def Pool_close_def)

end
