(* ===== verification/Dispatcher.thy ===== *)
theory Dispatcher
  imports QueueRepo SmallRepos Executor
begin

text \<open>
  The background loops of a worker (\<open>internal/worker/{dispatcher,reaper,scheduler,heartbeater}.go\<close>)
  and the demo handlers of \<open>cmd/worker/main.go\<close>. A tick of a loop is one operation; the ticker
  and the cancellation of the context decide when it runs.
\<close>

section \<open>Dispatcher\<close>

record Dispatcher =
  D_workerID :: uuid
  D_pollInterval :: duration
  D_batchSize :: int

text \<open>
  \<open>qa_check\<close> and \<open>qa_avail\<close> are the two readings of \<open>AvailableWorkers\<close> for a
  queue (the pool moves in between); the other fields are the environment of its claim.
\<close>

record queue_env =
  qa_check :: int
  qa_avail :: int
  qa_cf :: claim_faults
  qa_locked :: "uuid \<Rightarrow> bool"
  qa_now :: time

text \<open>The jobs handed to \<open>pool.Submit\<close>, in order.\<close>

definition dispatchQueue :: "Dispatcher \<Rightarrow> queue_env \<Rightarrow> Queue \<Rightarrow> db \<Rightarrow> Job list \<times> db" where
  "dispatchQueue dsp qe q d =
     (let available = qa_avail qe in
      if available \<le> 0 then ([], d)
      else let claimSize = (if available < D_batchSize dsp then available else D_batchSize dsp) in
        case JobRepo_ClaimBatch (qa_cf qe) (qa_locked qe) (qa_now qe) (Q_ID q) (D_workerID dsp) claimSize
               (Q_Concurrency q) d of
          (Inl e, d') \<Rightarrow> ([], d')
        | (Inr claimed, d') \<Rightarrow> (claimed, d'))"

fun dispatch_loop :: "Dispatcher \<Rightarrow> (nat \<Rightarrow> queue_env) \<Rightarrow> nat \<Rightarrow> Queue list \<Rightarrow> db \<Rightarrow> Job list \<times> db" where
  "dispatch_loop dsp env n [] d = ([], d)"
| "dispatch_loop dsp env n (q # qs) d =
     (if qa_check (env n) \<le> 0 then ([], d)
      else let (js, d1) = dispatchQueue dsp (env n) q d; (js', d2) = dispatch_loop dsp env (Suc n) qs d1
        in (js @ js', d2))"

definition dispatchAll ::
  "(string \<Rightarrow> int) \<Rightarrow> fault \<Rightarrow> Dispatcher \<Rightarrow> (nat \<Rightarrow> queue_env) \<Rightarrow> db \<Rightarrow> Job list \<times> db" where
  "dispatchAll collate f dsp env d =
     (case QueueRepo_ListActivePrioritized collate f d of
        Inl e \<Rightarrow> ([], d)
      | Inr activeQueues \<Rightarrow>
          if activeQueues = [] then ([], d) else dispatch_loop dsp env 0 activeQueues d)"

section \<open>Reaper, scheduler, heartbeater\<close>

definition Reaper_reclaim :: "fault \<Rightarrow> time \<Rightarrow> duration \<Rightarrow> db \<Rightarrow> db" where
  "Reaper_reclaim f now visibilityTimeout d = snd (JobRepo_ReclaimStale f now visibilityTimeout d)"

definition Scheduler_promote :: "fault \<Rightarrow> time \<Rightarrow> db \<Rightarrow> db" where
  "Scheduler_promote f now d = snd (JobRepo_PromoteScheduled f now d)"

definition Heartbeater_tick :: "fault \<Rightarrow> time \<Rightarrow> uuid \<Rightarrow> db \<Rightarrow> db" where
  "Heartbeater_tick f now workerID d = snd (WorkerRepo_Heartbeat f now workerID d)"

section \<open>The demo handlers\<close>

fun json_field :: "jsonmap option \<Rightarrow> string \<Rightarrow> json option" where
  "json_field None k = None"
| "json_field (Some m) k = map_of m k"

definition demo_echo :: handler where
  "demo_echo timeout j =
     (case json_field (J_Payload j) ''message'' of
        Some (JString msg) \<Rightarrow> HOk
      | _ \<Rightarrow> HErr (PlainErr ''missing or invalid 'message' in payload''))"

text \<open>
  \<open>time.Duration(durationSec)\<close> truncates the float to whole seconds. The select takes the timer
  or the deadline of the context, whichever comes first; at a tie Go picks either, here \<open>tie\<close>.
\<close>

definition trunc_rat :: "rat \<Rightarrow> int" where
  "trunc_rat r = (if 0 \<le> r then \<lfloor>r\<rfloor> else \<lceil>r\<rceil>)"

definition demo_sleep :: "bool \<Rightarrow> handler" where
  "demo_sleep tie timeout j =
     (case json_field (J_Payload j) ''seconds'' of
        Some (JNumber secs) \<Rightarrow>
          (let d = max 0 (sint (Duration_of (trunc_rat secs) * time_Second)); t = max 0 (sint timeout) in
           if d < t \<or> (d = t \<and> tie) then HOk else HErr (PlainErr ''context deadline exceeded''))
      | _ \<Rightarrow> HErr (PlainErr ''missing or invalid 'seconds' in payload''))"

text \<open>The registry the worker starts with; no registration panics.\<close>

definition builtin_registry :: "bool \<Rightarrow> registry option" where
  "builtin_registry tie =
     Option.bind (Registry_Register NewRegistry ''demo.echo'' demo_echo)
       (\<lambda>r. Registry_Register r ''demo.sleep'' (demo_sleep tie))"

lemma builtin_types: "\<exists>r. builtin_registry tie = Some r \<and> Registry_Types r = {''demo.echo'', ''demo.sleep''}"
  by (auto simp: builtin_registry_def Registry_Register_def NewRegistry_def Registry_Types_def)

section \<open>Facts\<close>

lemma dispatchQueue_cases:
  assumes "dispatchQueue dsp qe q d = (js, d')"
  obtains (nothing) "js = []" "d' = d"
    | (claimed) n where "JobRepo_ClaimBatch (qa_cf qe) (qa_locked qe) (qa_now qe) (Q_ID q) (D_workerID dsp) n
        (Q_Concurrency q) d = (Inr js, d')" "0 < qa_avail qe" "n \<le> qa_avail qe" "n \<le> D_batchSize dsp"
proof (cases "qa_avail qe \<le> 0")
  case True
  then have "js = [] \<and> d' = d" using assms by (auto simp: dispatchQueue_def)
  then show ?thesis by (elim conjE) (rule that(1))
next
  case False
  define n where "n = (if qa_avail qe < D_batchSize dsp then qa_avail qe else D_batchSize dsp)"
  obtain r d1 where c: "JobRepo_ClaimBatch (qa_cf qe) (qa_locked qe) (qa_now qe) (Q_ID q) (D_workerID dsp) n
      (Q_Concurrency q) d = (r, d1)"
    by (cases "JobRepo_ClaimBatch (qa_cf qe) (qa_locked qe) (qa_now qe) (Q_ID q) (D_workerID dsp) n (Q_Concurrency q) d")
  show ?thesis
  proof (cases r)
    case (Inl e)
    then have "js = [] \<and> d' = d" using assms False c ClaimBatch_error [OF c [unfolded Inl]]
      by (simp add: dispatchQueue_def Let_def n_def [symmetric])
    then show ?thesis by (elim conjE) (rule that(1))
  next
    case (Inr cl)
    then show ?thesis using assms False c claimed [of n]
      by (auto simp: dispatchQueue_def Let_def n_def [symmetric]) (auto simp: n_def split: if_splits)
  qed
qed

text \<open>A claim moves pending jobs of its queue to running and leaves every other row alone.\<close>

lemma claim_keys:
  assumes "JobRepo_ClaimBatch cf locked now qid wid n conc d = (Inr js, d')"
  shows "map J_ID (jobs d') = map J_ID (jobs d) \<and> queues d' = queues d"
  using assms
proof (cases rule: ClaimBatch_cases)
  case (claim b)
  then show ?thesis by (simp add: claim_update_def sql_update_keys)
qed simp

lemma claim_job_at:
  assumes "JobRepo_ClaimBatch cf locked now qid wid n conc d = (Inr js, d')" and "distinct (map J_ID (jobs d))"
  shows "job_at d' i = (if i \<in> set (map J_ID js) then map_option (mark_running wid now) (job_at d i) else job_at d i)"
proof (cases "job_at d i")
  case None
  then have "i \<notin> set (map J_ID (jobs d))" by (auto simp: job_at_def sql_row_None)
  then have "i \<notin> set (map J_ID (jobs d'))" using claim_keys [OF assms(1)] by simp
  then have "job_at d' i = None" by (auto simp: job_at_def sql_row_None)
  then show ?thesis using None by simp
next
  case (Some r)
  note C = ClaimBatch_rows [OF assms]
  have r: "r \<in> set (jobs d)" "J_ID r = i" using Some by (auto simp: job_at_def dest: sql_row_Some)
  have taken: "i \<in> set (map J_ID js) \<longleftrightarrow> r \<in> set js"
  proof
    assume "i \<in> set (map J_ID js)"
    then obtain j where j: "j \<in> set js" "J_ID j = i" by auto
    then have "job_at d i = Some j" using C sql_row_key [OF assms(2)] by (auto simp: job_at_def)
    then show "r \<in> set js" using Some j(1) by simp
  qed (use r in auto)
  have "job_at d' i = Some (if r \<in> set js then mark_running wid now r else r)"
    using C r by (auto simp: job_at_def)
  then show ?thesis using Some taken by simp
qed

lemma claim_rows:
  assumes "JobRepo_ClaimBatch cf locked now qid wid n conc d = (Inr js, d')" and "distinct (map J_ID (jobs d))"
  shows "map J_ID (jobs d') = map J_ID (jobs d)" and "queues d' = queues d"
    and "\<forall>i. job_at d' i = (if i \<in> set (map J_ID js) then map_option (mark_running wid now) (job_at d i) else job_at d i)"
    and "\<forall>j\<in>set js. job_at d (J_ID j) = Some j \<and> claim_eligible locked now qid j" and "distinct (map J_ID js)"
    and "int (length js) \<le> max 0 n"
  using claim_keys [OF assms(1)] claim_job_at [OF assms] ClaimBatch_rows [OF assms] sql_row_key [OF assms(2)]
    ClaimBatch_length [OF assms(1)]
  by (auto simp: job_at_def)

text \<open>The effect of a dispatch on the table: the jobs handed out are now running, claimed by this
  worker; each was pending and due, in a queue of the list; nothing else has changed.\<close>

definition handed_out :: "Dispatcher \<Rightarrow> Queue list \<Rightarrow> db \<Rightarrow> Job list \<Rightarrow> db \<Rightarrow> bool" where
  "handed_out dsp qs d js d' \<longleftrightarrow> map J_ID (jobs d') = map J_ID (jobs d) \<and> queues d' = queues d \<and>
     distinct (map J_ID js) \<and>
     (\<forall>j\<in>set js. job_at d (J_ID j) = Some j \<and> J_Status j = StatusPending \<and> J_QueueID j \<in> Q_ID ` set qs \<and>
        (\<exists>t. job_at d' (J_ID j) = Some (mark_running (D_workerID dsp) t j))) \<and>
     (\<forall>i. i \<notin> J_ID ` set js \<longrightarrow> job_at d' i = job_at d i)"

lemma handed_out_none: "handed_out dsp qs d [] d"
  by (simp add: handed_out_def)

lemma handed_out_queue:
  assumes "dispatchQueue dsp qe q d = (js, d')" and "distinct (map J_ID (jobs d))"
  shows "handed_out dsp [q] d js d' \<and> int (length js) \<le> max 0 (min (qa_avail qe) (D_batchSize dsp))"
  using assms(1)
proof (cases rule: dispatchQueue_cases)
  case nothing
  then show ?thesis by (simp add: handed_out_none)
next
  case (claimed n)
  note R = claim_rows [OF claimed(1) assms(2)]
  have st: "J_Status j = StatusPending \<and> J_QueueID j = Q_ID q" if "j \<in> set js" for j
    using R(4) that by (simp add: claim_eligible_def)
  have row: "job_at d' (J_ID j) = Some (mark_running (D_workerID dsp) (qa_now qe) j)" if "j \<in> set js" for j
    using R(3,4) that by simp
  show ?thesis using R(1,2,4,5,6) st row claimed(3,4) R(3)
    unfolding handed_out_def by auto
qed

lemma handed_out_append:
  assumes "handed_out dsp [q] d js d1" and "handed_out dsp qs d1 js' d2"
  shows "handed_out dsp (q # qs) d (js @ js') d2"
proof -
  have A: "map J_ID (jobs d1) = map J_ID (jobs d)" "queues d1 = queues d" "distinct (map J_ID js)"
    "\<And>j. j \<in> set js \<Longrightarrow> job_at d (J_ID j) = Some j" "\<And>j. j \<in> set js \<Longrightarrow> J_Status j = StatusPending"
    "\<And>j. j \<in> set js \<Longrightarrow> J_QueueID j = Q_ID q"
    "\<And>j. j \<in> set js \<Longrightarrow> \<exists>t. job_at d1 (J_ID j) = Some (mark_running (D_workerID dsp) t j)"
    "\<And>i. i \<notin> J_ID ` set js \<Longrightarrow> job_at d1 i = job_at d i"
    using assms(1) by (auto simp: handed_out_def)
  have B: "map J_ID (jobs d2) = map J_ID (jobs d1)" "queues d2 = queues d1" "distinct (map J_ID js')"
    "\<And>j. j \<in> set js' \<Longrightarrow> job_at d1 (J_ID j) = Some j" "\<And>j. j \<in> set js' \<Longrightarrow> J_Status j = StatusPending"
    "\<And>j. j \<in> set js' \<Longrightarrow> J_QueueID j \<in> Q_ID ` set qs"
    "\<And>j. j \<in> set js' \<Longrightarrow> \<exists>t. job_at d2 (J_ID j) = Some (mark_running (D_workerID dsp) t j)"
    "\<And>i. i \<notin> J_ID ` set js' \<Longrightarrow> job_at d2 i = job_at d1 i"
    using assms(2) by (auto simp: handed_out_def)
  have disj: "J_ID j \<notin> J_ID ` set js'" if j: "j \<in> set js" for j
  proof
    assume "J_ID j \<in> J_ID ` set js'"
    then obtain j' where j': "j' \<in> set js'" "J_ID j' = J_ID j" by force
    obtain t where "job_at d1 (J_ID j) = Some (mark_running (D_workerID dsp) t j)" using A(7) [OF j] by blast
    then have "j' = mark_running (D_workerID dsp) t j" using B(4) [OF j'(1)] j'(2) by simp
    then show False using B(5) [OF j'(1)] by simp
  qed
  have "job_at d (J_ID j) = Some j" if "j \<in> set js'" for j
    using that B(4) A(8) disj by (metis image_iff)
  moreover have "\<exists>t. job_at d2 (J_ID j) = Some (mark_running (D_workerID dsp) t j)" if "j \<in> set js" for j
    using that A(7) B(8) disj by metis
  moreover have "J_ID ` set js \<inter> J_ID ` set js' = {}" using disj by blast
  then have "distinct (map J_ID (js @ js'))" using A(3) B(3) by simp
  moreover have "job_at d2 i = job_at d i" if "i \<notin> J_ID ` set (js @ js')" for i
    using that A(8) [of i] B(8) [of i] by (simp add: image_Un)
  ultimately show ?thesis unfolding handed_out_def
    using A(1,2,4-6) B(1,2,5-7) by auto
qed

lemma handed_out_loop:
  "dispatch_loop dsp env n qs d = (js, d') \<Longrightarrow> distinct (map J_ID (jobs d)) \<Longrightarrow> handed_out dsp qs d js d'"
proof (induction qs arbitrary: n d js d')
  case Nil
  then show ?case by (simp add: handed_out_none)
next
  case (Cons q qs)
  show ?case
  proof (cases "qa_check (env n) \<le> 0")
    case True
    then show ?thesis using Cons.prems by (auto simp: handed_out_none)
  next
    case False
    obtain j1 d1 where one: "dispatchQueue dsp (env n) q d = (j1, d1)" by (cases "dispatchQueue dsp (env n) q d")
    obtain j2 d2 where two: "dispatch_loop dsp env (Suc n) qs d1 = (j2, d2)"
      by (cases "dispatch_loop dsp env (Suc n) qs d1")
    have h1: "handed_out dsp [q] d j1 d1" using handed_out_queue [OF one Cons.prems(2)] by blast
    then have "distinct (map J_ID (jobs d1))" using Cons.prems(2) by (simp add: handed_out_def)
    from handed_out_append [OF h1 Cons.IH [OF two this]] show ?thesis
      using Cons.prems(1) False one two by simp
  qed
qed

text \<open>A tick of the dispatcher hands to the pool only jobs that were pending, in a queue that
  is not paused, each at most once; afterwards exactly these rows are running and claimed by this
  worker, every other row is untouched.\<close>

theorem dispatch_tick_correct:
  assumes "dispatchAll collate f dsp env d = (js, d')" and "distinct (map J_ID (jobs d))"
  shows "distinct (map J_ID js) \<and>
    (\<forall>j\<in>set js. job_at d (J_ID j) = Some j \<and> J_Status j = StatusPending \<and>
       (\<exists>q\<in>set (queues d). Q_ID q = J_QueueID j \<and> \<not> Q_IsPaused q) \<and>
       (\<exists>t. job_at d' (J_ID j) = Some (mark_running (D_workerID dsp) t j))) \<and>
    (\<forall>i. i \<notin> J_ID ` set js \<longrightarrow> job_at d' i = job_at d i)"
proof (cases "QueueRepo_ListActivePrioritized collate f d")
  case (Inl e)
  then show ?thesis using assms(1) by (simp add: dispatchAll_def)
next
  case (Inr qs)
  have h: "handed_out dsp qs d js d'"
    using assms Inr handed_out_loop [of dsp env 0 qs d js d'] by (auto simp: dispatchAll_def handed_out_none split: if_splits)
  have "set qs = {q \<in> set (queues d). \<not> Q_IsPaused q}" by (rule ListActive_order(1) [OF Inr])
  then show ?thesis using h by (fastforce simp: handed_out_def)
qed

definition sample_dispatcher :: Dispatcher where
  "sample_dispatcher = \<lparr>D_workerID = 77, D_pollInterval = 1, D_batchSize = 10\<rparr>"

definition sample_qenv :: queue_env where
  "sample_qenv = \<lparr>qa_check = 1, qa_avail = 1, qa_cf = no_claim_faults, qa_locked = (\<lambda>_. False), qa_now = 100\<rparr>"

lemma sample_dispatch:
  "dispatchAll (\<lambda>_. 0) None sample_dispatcher (\<lambda>_. sample_qenv) claim_db =
     ([sample_job 2 StatusPending 9 20], claim_update 77 100 [2] claim_db)"
proof -
  have q: "queues claim_db = [sample_queue]" by (simp add: claim_db_def)
  show ?thesis
    by (simp add: dispatchAll_def QueueRepo_ListActivePrioritized_def sql_order_def sql_select_def q
        dispatchQueue_def sample_qenv_def sample_dispatcher_def JobRepo_ClaimBatch_def no_claim_faults_def
        claim_db_running claim_db_select Let_def)
qed

theorem dispatch_tick_correct_witness:
  "\<exists>t. job_at (claim_update 77 100 [2] claim_db) 2 = Some (mark_running 77 t (sample_job 2 StatusPending 9 20))"
  using dispatch_tick_correct [OF sample_dispatch claim_db_ids] by (simp add: sample_dispatcher_def)

end
