(* ===== verification/Lifecycle.thy ===== *)
theory Lifecycle
  imports JobService BatchService Dispatcher
begin

text \<open>
  The job lifecycle as a transition system over one database and any number of workers: every
  operation of the API and of the worker loops that touches the jobs table, interleaved freely.
  \<open>s_inflight\<close> holds the executions in progress: the worker and the job as it was claimed.
  The reaper's visibility timeout is the one place where time matters: with \<open>timely\<close> no
  execution outlives it, without it a reclaim may hit a job that is still being executed.
\<close>

record sys =
  s_db :: db
  s_inflight :: "(uuid \<times> Job) list"

definition no_inflight_stale :: "time \<Rightarrow> duration \<Rightarrow> sys \<Rightarrow> bool" where
  "no_inflight_stale now vis s \<longleftrightarrow> list_all (\<lambda>(w, j). case job_at (s_db s) (J_ID j) of None \<Rightarrow> True
     | Some r \<Rightarrow> \<not> stale_running now (whole_seconds vis) r) (s_inflight s)"

inductive sys_step :: "bool \<Rightarrow> registry \<Rightarrow> sys \<Rightarrow> sys \<Rightarrow> bool" for timely reg where
  enqueue: "job_svc_Enqueue f_key f_queue f_create new_id clock qid req (s_db s) = (r, d') \<Longrightarrow>
    sys_step timely reg s (s\<lparr>s_db := d'\<rparr>)"
| batch: "batch_svc_CreateBatch f faults new_id ids now qid name specs (s_db s) = (b, d') \<Longrightarrow>
    sys_step timely reg s (s\<lparr>s_db := d'\<rparr>)"
| claim: "JobRepo_ClaimBatch cf locked now qid wid n conc (s_db s) = (Inr js, d') \<Longrightarrow>
    sys_step timely reg s (s\<lparr>s_db := d', s_inflight := s_inflight s @ map (Pair wid) js\<rparr>)"
| finish: "(w, j) \<in> set (s_inflight s) \<Longrightarrow> execute_job f now reg env j (s_db s) = (ExecDone, d') \<Longrightarrow>
    sys_step timely reg s (s\<lparr>s_db := d', s_inflight := remove1 (w, j) (s_inflight s)\<rparr>)"
| crash: "sys_step timely reg s (s\<lparr>s_inflight := filter (\<lambda>x. fst x \<noteq> w) (s_inflight s)\<rparr>)"
| cancel: "sys_step timely reg s (s\<lparr>s_db := snd (job_svc_Cancel f now i (s_db s))\<rparr>)"
| retry: "sys_step timely reg s (s\<lparr>s_db := snd (job_svc_Retry f f' clock now i (s_db s))\<rparr>)"
| promote: "sys_step timely reg s (s\<lparr>s_db := Scheduler_promote f now (s_db s)\<rparr>)"
| reclaim: "timely \<longrightarrow> no_inflight_stale now vis s \<Longrightarrow>
    sys_step timely reg s (s\<lparr>s_db := Reaper_reclaim f now vis (s_db s)\<rparr>)"

inductive_cases sys_stepE: "sys_step timely reg s s'"

definition sys_start :: "db \<Rightarrow> sys" where
  "sys_start d = \<lparr>s_db = d, s_inflight = []\<rparr>"

section \<open>The effect of each operation on one row\<close>

lemma job_at_update:
  assumes "\<And>r. J_ID (u r) = J_ID r"
  shows "job_at (d\<lparr>jobs := sql_update P u (jobs d)\<rparr>) i = map_option (\<lambda>r. if P r then u r else r) (job_at d i)"
proof -
  have "sql_row (\<lambda>j. J_ID j = i) (sql_update P u rows) =
      map_option (\<lambda>r. if P r then u r else r) (sql_row (\<lambda>j. J_ID j = i) rows)" for rows
    by (induction rows) (auto simp: assms)
  then show ?thesis by (simp add: job_at_def)
qed

lemma job_at_exec_any:
  assumes "\<And>r. J_ID (u r) = J_ID r"
  shows "job_at (snd (job_exec f P u d)) i =
    map_option (\<lambda>r. if f = None \<and> P r then u r else r) (job_at d i)"
  by (cases f) (simp_all add: job_exec_def job_at_update [OF assms] option.map_ident)

lemma job_at_append: "job_at (d\<lparr>jobs := jobs d @ js\<rparr>) i = (case job_at d i of Some r \<Rightarrow> Some r
    | None \<Rightarrow> sql_row (\<lambda>j. J_ID j = i) js)"
  by (simp add: job_at_def sql_row_append)

lemma job_at_other_tables [simp]: "job_at (d\<lparr>batches := bs\<rparr>) i = job_at d i"
  by (simp add: job_at_def)

lemma enqueue_rows:
  assumes "job_svc_Enqueue f1 f2 f3 new_id clock qid req d = (r, d')" and "job_at d i = Some j"
  shows "job_at d' i = Some j"
  using assms(1) by (cases rule: Enqueue_cases) (simp_all add: assms(2) job_at_append)

lemma batch_rows:
  assumes "batch_svc_CreateBatch f faults new_id ids now qid name specs d = (b, d')" and "job_at d i = Some j"
  shows "job_at d' i = Some j"
  using create_batch_rows [OF assms(1)] assms(2) by (auto simp: job_at_def sql_row_append)

lemma claim_row_status:
  assumes "JobRepo_ClaimBatch cf locked now qid wid n conc d = (Inr js, d')" and "distinct (map J_ID (jobs d))"
    and "job_at d i = Some r"
  shows "\<exists>r'. job_at d' i = Some r' \<and> (if i \<in> J_ID ` set js
     then r' = mark_running wid now r \<and> J_Status r = StatusPending else r' = r)"
proof -
  note R = claim_rows [OF assms(1,2)]
  show ?thesis
  proof (cases "i \<in> J_ID ` set js")
    case True
    then obtain j where j: "j \<in> set js" "i = J_ID j" by blast
    then have "r = j" "J_Status j = StatusPending" using R(4) assms(3) by (auto simp: claim_eligible_def)
    then show ?thesis using R(3) True assms(3) by simp
  next
    case False
    then show ?thesis using R(3) assms(3) by simp
  qed
qed

lemma cancel_row: "job_at (snd (job_svc_Cancel f now i d)) k =
    map_option (\<lambda>r. if f = None \<and> J_ID r = i \<and> cancellable r then r\<lparr>J_Status := StatusCancelled, J_UpdatedAt := now\<rparr> else r)
      (job_at d k)"
  unfolding job_svc_Cancel_def Cancel_snd by (rule job_at_exec_any) simp

lemma promote_row: "job_at (Scheduler_promote f now d) k =
    map_option (\<lambda>r. if f = None \<and> due_scheduled now r then r\<lparr>J_Status := StatusPending, J_UpdatedAt := now\<rparr> else r)
      (job_at d k)"
  unfolding Scheduler_promote_def JobRepo_PromoteScheduled_def snd_map_prod id_apply by (rule job_at_exec_any) simp

lemma reclaim_row: "job_at (Reaper_reclaim f now vis d) k =
    map_option (\<lambda>r. if f = None \<and> stale_running now (whole_seconds vis) r
      then r\<lparr>J_Status := StatusPending, J_ClaimedBy := None, J_ClaimedAt := None, J_UpdatedAt := now\<rparr> else r)
      (job_at d k)"
  unfolding Reaper_reclaim_def JobRepo_ReclaimStale_def snd_map_prod id_apply by (rule job_at_exec_any) simp

lemma retry_row:
  assumes "job_at d k = Some r"
  shows "\<exists>r'. job_at (snd (job_svc_Retry f f' clock now i d)) k = Some r' \<and>
    (r' = r \<or> (k = i \<and> (J_Status r = StatusDead \<or> J_Status r = StatusFailed) \<and>
       r' = set_retry now clock (J_AttemptCount r) r))"
proof (cases "f = None \<and> (\<exists>j. job_at d i = Some j \<and> (J_Status j = StatusFailed \<or> J_Status j = StatusDead))")
  case False
  then have "snd (job_svc_Retry f f' clock now i d) = d"
  proof (cases f)
    case None
    then show ?thesis using False
      by (auto simp: job_svc_Retry_def JobRepo_GetByID_job_at split: option.splits)
  qed (simp add: job_svc_Retry_def JobRepo_GetByID_def)
  then show ?thesis using assms by simp
next
  case True
  then obtain j where j: "job_at d i = Some j" "J_Status j = StatusFailed \<or> J_Status j = StatusDead" "f = None" by blast
  then have e: "snd (job_svc_Retry f f' clock now i d) = snd (JobRepo_ScheduleRetry f' now i clock (J_AttemptCount j) d)"
    by (auto simp: job_svc_Retry_def JobRepo_GetByID_job_at)
  show ?thesis
    using repo.retry_row [where f = f' and now = now and i = i and k = k and s = d and t = clock
        and n = "J_AttemptCount j"] assms j unfolding e by (auto split: if_splits)
qed

lemma finish_row:
  assumes "job_at d k = Some r"
  shows "\<exists>r'. job_at (snd (execute_job f now reg env j d)) k = Some r' \<and>
    (r' = r \<or> (k = J_ID j \<and> ((\<exists>t. r' = set_succeeded now t r) \<or> (\<exists>m t. r' = set_dead now m t r) \<or>
       (J_AttemptCount j + 1 < J_MaxRetries j \<and> (\<exists>t. r' = set_retry now t (J_AttemptCount j + 1) r)))))"
proof (cases "k = J_ID j")
  case True
  obtain u where "job_at (snd (execute_job f now reg env j d)) (J_ID j) = map_option u (job_at d (J_ID j))"
    "outcome_update now j u"
    unfolding execute_job_def using repo.Execute_row [where f = f and now = now and reg = reg and env = env
        and j = j and s = d] by blast
  then show ?thesis using assms True by (auto simp: outcome_update_def)
next
  case False
  then show ?thesis using assms unfolding execute_job_def
    using repo.Execute_frame [of k j f now reg env d] by simp
qed

section \<open>Integrity\<close>

lemma jobs_ok_enqueue:
  assumes "job_svc_Enqueue f1 f2 f3 new_id clock qid req d = (r, d')" and "jobs_ok d"
  shows "jobs_ok d'"
proof -
  have "d' = d \<or> (\<exists>j c. JobRepo_Create f3 j d = (c, d'))"
    using assms(1) by (auto simp: job_svc_Enqueue_def Let_def split: option.splits sum.splits if_splits prod.splits)
  then show ?thesis using assms(2) jobs_ok_create by auto
qed

lemma jobs_ok_batches [simp]: "jobs_ok (d\<lparr>batches := bs\<rparr>) = jobs_ok d"
  by (simp add: jobs_ok_def)

lemma jobs_ok_batch_jobs: "jobs_ok d \<Longrightarrow> jobs_ok (insert_batch_jobs faults ids q b now n specs d)"
proof (induction specs arbitrary: n d)
  case (Cons spec specs)
  have "jobs_ok (snd (JobRepo_Create (faults n) (batch_job (ids n) q b now spec) d))"
    using jobs_ok_create [OF Cons.prems, of "faults n" "batch_job (ids n) q b now spec"] by (metis prod.collapse)
  then show ?case using Cons.IH by simp
qed simp

lemma jobs_ok_batch:
  assumes "batch_svc_CreateBatch f faults new_id ids now qid name specs d = (r, d')" and "jobs_ok d"
  shows "jobs_ok d'"
proof -
  let ?b = "new_batch new_id now qid name (length specs)"
  obtain x d1 where c: "BatchRepo_Create f ?b d = (x, d1)" by (cases "BatchRepo_Create f ?b d")
  have "jobs_ok d1" using c assms(2)
    by (cases f) (auto simp: BatchRepo_Create_def insert_batch_def split: if_splits)
  then show ?thesis using c assms(1) jobs_ok_batch_jobs
    by (auto simp: batch_svc_CreateBatch_def Let_def split: sum.splits)
qed

lemma jobs_ok_execute: "jobs_ok d \<Longrightarrow> jobs_ok (snd (execute_job f now reg env j d))"
  by (cases "Registry_Get reg (J_Type j)")
    (auto simp: execute_job_def Executor_Execute_def Let_def jobs_ok_updates split: hresult.splits option.splits)

lemma jobs_ok_retry: "jobs_ok d \<Longrightarrow> jobs_ok (snd (job_svc_Retry f f' clock now i d))"
  by (auto simp: job_svc_Retry_def jobs_ok_updates split: sum.splits)

lemma jobs_ok_svc_cancel: "jobs_ok d \<Longrightarrow> jobs_ok (snd (job_svc_Cancel f now i d))"
  by (simp add: job_svc_Cancel_def jobs_ok_cancel)

lemma jobs_ok_promote: "jobs_ok d \<Longrightarrow> jobs_ok (Scheduler_promote f now d)"
  by (simp add: Scheduler_promote_def jobs_ok_updates)

lemma jobs_ok_reclaim: "jobs_ok d \<Longrightarrow> jobs_ok (Reaper_reclaim f now vis d)"
  by (simp add: Reaper_reclaim_def jobs_ok_updates)

lemma jobs_ok_step: "sys_step timely reg s s' \<Longrightarrow> jobs_ok (s_db s) \<Longrightarrow> jobs_ok (s_db s')"
proof (induction rule: sys_step.induct)
  case (finish w j s f now env d')
  then show ?case using jobs_ok_execute [of "s_db s" f now reg env j] by simp
qed (auto intro: jobs_ok_enqueue jobs_ok_batch jobs_ok_claim
    simp: jobs_ok_svc_cancel jobs_ok_retry jobs_ok_promote jobs_ok_reclaim)

section \<open>Ownership of executions\<close>

definition owned :: "db \<Rightarrow> uuid \<times> Job \<Rightarrow> bool" where
  "owned d x \<longleftrightarrow> (case job_at d (J_ID (snd x)) of None \<Rightarrow> False
     | Some r \<Rightarrow> J_Status r = StatusRunning \<and> J_ClaimedBy r = Some (fst x) \<and>
         J_AttemptCount r = J_AttemptCount (snd x))"

definition inflight_ok :: "sys \<Rightarrow> bool" where
  "inflight_ok s \<longleftrightarrow> jobs_ok (s_db s) \<and> distinct (map (J_ID \<circ> snd) (s_inflight s)) \<and>
     list_all (owned (s_db s)) (s_inflight s)"

lemma owned_same: "job_at d' (J_ID (snd x)) = job_at d (J_ID (snd x)) \<Longrightarrow> owned d' x = owned d x"
  by (simp add: owned_def)

lemma owned_rows:
  assumes "list_all (owned d) xs"
    and "\<And>i r. job_at d i = Some r \<Longrightarrow> J_Status r = StatusRunning \<Longrightarrow> i \<in> J_ID ` snd ` set xs \<Longrightarrow>
       job_at d' i = Some r"
  shows "list_all (owned d') xs"
  unfolding list_all_iff
proof
  fix x assume x: "x \<in> set xs"
  then have o: "owned d x" using assms(1) by (simp add: list_all_iff)
  then obtain r where "job_at d (J_ID (snd x)) = Some r" "J_Status r = StatusRunning"
    by (auto simp: owned_def split: option.splits)
  then have "job_at d' (J_ID (snd x)) = job_at d (J_ID (snd x))" using assms(2) x by simp
  then show "owned d' x" using o owned_same by metis
qed

lemma owned_claimed:
  assumes c: "JobRepo_ClaimBatch cf locked now qid wid n conc d = (Inr js, d')"
    and d: "distinct (map J_ID (jobs d))"
  shows "list_all (owned d') (map (Pair wid) js)"
proof -
  note R = claim_rows [OF c d]
  have "owned d' (wid, j)" if "j \<in> set js" for j
    using R(3,4) that by (auto simp: owned_def mark_running_def)
  then show ?thesis by (auto simp: list_all_iff)
qed

lemma inflight_claim:
  assumes c: "JobRepo_ClaimBatch cf locked now qid wid n conc (s_db s) = (Inr js, d')" and ok: "inflight_ok s"
  shows "inflight_ok (s\<lparr>s_db := d', s_inflight := s_inflight s @ map (Pair wid) js\<rparr>)"
proof -
  define d xs where dx: "d = s_db s" "xs = s_inflight s"
  note c = c [folded dx]
  have d: "distinct (map J_ID (jobs d))" and o: "list_all (owned d) xs"
    and x: "distinct (map (J_ID \<circ> snd) xs)" and j: "jobs_ok d"
    using ok by (auto simp: inflight_ok_def jobs_ok_def dx)
  note R = claim_rows [OF c d]
  have fresh: "J_ID (snd x) \<noteq> J_ID j" if "x \<in> set xs" "j \<in> set js" for x j
    using R(4) o that by (fastforce simp: owned_def list_all_iff claim_eligible_def split: option.splits)
  have "job_at d' i = Some r" if "job_at d i = Some r" "J_Status r = StatusRunning" for i r
    using claim_row_status [OF c d that(1)] that(2) by (auto split: if_splits)
  then have "list_all (owned d') xs" using owned_rows [OF o] by blast
  moreover have "distinct (map (J_ID \<circ> snd) (xs @ map (Pair wid) js))"
    using x R(5) fresh by (auto simp: comp_def)
  ultimately show ?thesis
    using owned_claimed [OF c d] jobs_ok_claim [OF j c] by (simp add: inflight_ok_def dx)
qed

lemma inflight_finish:
  assumes m: "(w, j) \<in> set (s_inflight s)" and ok: "inflight_ok s"
  shows "inflight_ok (s\<lparr>s_db := snd (execute_job f now reg env j (s_db s)), s_inflight := remove1 (w, j) (s_inflight s)\<rparr>)"
proof -
  define d xs where dxs: "d = s_db s" "xs = s_inflight s"
  note m = m [folded dxs]
  let ?d' = "snd (execute_job f now reg env j d)"
  have o: "list_all (owned d) xs" and x: "distinct (map (J_ID \<circ> snd) xs)" and jo: "jobs_ok d"
    using ok by (auto simp: inflight_ok_def dxs)
  have dx: "distinct xs" using x by (simp add: distinct_map)
  have rm: "set (remove1 (w, j) xs) = set xs - {(w, j)}" using dx by simp
  have other: "J_ID (snd y) \<noteq> J_ID j" if "y \<in> set (remove1 (w, j) xs)" for y
  proof
    assume e: "J_ID (snd y) = J_ID j"
    have "y \<in> set xs" "y \<noteq> (w, j)" using that rm by auto
    then show False using distinct_map [of "J_ID \<circ> snd" xs] x m e inj_onD [of "J_ID \<circ> snd" "set xs" y "(w, j)"] by simp
  qed
  have quiet: "job_at ?d' i = Some r" if p: "job_at d i = Some r" "i \<in> J_ID ` snd ` set (remove1 (w, j) xs)" for i r
  proof -
    have "i \<noteq> J_ID j" using p(2) other by auto
    obtain r' where "job_at ?d' i = Some r'" "r' = r \<or> i = J_ID j"
      using finish_row [OF p(1), of f now reg env j] by blast
    then show ?thesis using \<open>i \<noteq> J_ID j\<close> by simp
  qed
  have "list_all (owned d) (remove1 (w, j) xs)" using o rm by (auto simp: list_all_iff)
  then have "list_all (owned ?d') (remove1 (w, j) xs)" by (rule owned_rows) (rule quiet)
  moreover have "distinct (map (J_ID \<circ> snd) (remove1 (w, j) xs))"
    using x dx unfolding distinct_map rm by (auto intro: inj_on_subset)
  ultimately show ?thesis using jobs_ok_execute [OF jo] by (simp add: inflight_ok_def dxs)
qed

text \<open>A step that changes the database only keeps the invariant when it leaves running rows alone.\<close>

lemma inflight_quiet:
  assumes "inflight_ok s" and "jobs_ok d'"
    and "\<And>i r. job_at (s_db s) i = Some r \<Longrightarrow> J_Status r = StatusRunning \<Longrightarrow>
       i \<in> J_ID ` snd ` set (s_inflight s) \<Longrightarrow> job_at d' i = Some r"
  shows "inflight_ok (s\<lparr>s_db := d'\<rparr>)"
  using assms(1,2) owned_rows [where d = "s_db s" and d' = d' and xs = "s_inflight s", OF _ assms(3)]
  by (simp add: inflight_ok_def)

lemma inflight_step:
  assumes "sys_step True reg s s'" and "inflight_ok s"
  shows "inflight_ok s'"
  using assms
proof (induction rule: sys_step.induct)
  case (enqueue f1 f2 f3 new_id clock qid req s r d')
  then show ?case using enqueue_rows [OF enqueue.hyps] jobs_ok_enqueue [OF enqueue.hyps]
    by (intro inflight_quiet) (auto simp: inflight_ok_def)
next
  case (batch f faults new_id ids now qid name specs s b d')
  then show ?case using batch_rows [OF batch.hyps] jobs_ok_batch [OF batch.hyps]
    by (intro inflight_quiet) (auto simp: inflight_ok_def)
next
  case (claim cf locked now qid wid n conc s js d')
  then show ?case by (rule inflight_claim)
next
  case (finish w j s f now env d')
  then show ?case using inflight_finish [of w j s f now reg env] by simp
next
  case (crash s w)
  then show ?case by (auto simp: inflight_ok_def list_all_iff distinct_map inj_on_def)
next
  case (cancel s f now i)
  then show ?case
    by (intro inflight_quiet) (auto simp: inflight_ok_def cancel_row cancellable_def jobs_ok_svc_cancel)
next
  case (retry s f f' clock now i)
  then show ?case using retry_row
    by (intro inflight_quiet) (force simp: inflight_ok_def jobs_ok_retry)+
next
  case (promote s f now)
  then show ?case
    by (intro inflight_quiet) (auto simp: inflight_ok_def promote_row due_scheduled_def jobs_ok_promote)
next
  case (reclaim now vis s f)
  have "\<not> stale_running now (whole_seconds vis) r"
    if "job_at (s_db s) i = Some r" "i \<in> J_ID ` snd ` set (s_inflight s)" for i r
    using reclaim.hyps that by (fastforce simp: no_inflight_stale_def list_all_iff split: option.splits)
  then show ?case using reclaim.prems
    by (intro inflight_quiet) (auto simp: inflight_ok_def reclaim_row jobs_ok_reclaim)
qed

section \<open>Status transitions\<close>

fun status_step :: "JobStatus \<Rightarrow> JobStatus \<Rightarrow> bool" where
  "status_step StatusPending t \<longleftrightarrow> t \<in> {StatusPending, StatusRunning, StatusCancelled}"
| "status_step StatusScheduled t \<longleftrightarrow> t \<in> {StatusScheduled, StatusPending, StatusCancelled}"
| "status_step StatusRunning t \<longleftrightarrow> t \<in> {StatusRunning, StatusPending, StatusSucceeded, StatusDead}"
| "status_step StatusFailed t \<longleftrightarrow> t \<in> {StatusFailed, StatusPending}"
| "status_step StatusDead t \<longleftrightarrow> t \<in> {StatusDead, StatusPending}"
| "status_step s t \<longleftrightarrow> t = s"

definition row_step :: "Job \<Rightarrow> Job \<Rightarrow> bool" where
  "row_step r r' \<longleftrightarrow> r' = r \<or>
     (J_Status r \<noteq> StatusSucceeded \<and> J_Status r \<noteq> StatusCancelled \<and>
      status_step (J_Status r) (J_Status r') \<and> J_AttemptCount r \<le> J_AttemptCount r' \<and>
      J_AttemptCount r' \<le> J_AttemptCount r + 1 \<and> J_ID r' = J_ID r \<and> J_MaxRetries r' = J_MaxRetries r \<and>
      J_IdempotencyKey r' = J_IdempotencyKey r \<and> J_QueueID r' = J_QueueID r \<and>
      (J_AttemptCount r' = J_AttemptCount r \<or> J_Status r = StatusRunning) \<and>
      (J_RunAt r' = J_RunAt r \<or> J_Status r \<noteq> StatusPending \<and> J_Status r \<noteq> StatusScheduled))"

lemma row_step_refl [simp]: "row_step r r"
  by (simp add: row_step_def)

lemma status_step_refl [simp]: "status_step s s"
  by (cases s) auto

lemma row_step_finish:
  assumes "job_at d k = Some r" and "k = J_ID j \<Longrightarrow> J_Status r = StatusRunning \<and> J_AttemptCount r = J_AttemptCount j"
  shows "\<exists>r'. job_at (snd (execute_job f now reg env j d)) k = Some r' \<and> row_step r r'"
proof -
  obtain r' where r': "job_at (snd (execute_job f now reg env j d)) k = Some r'"
    "r' = r \<or> (k = J_ID j \<and> ((\<exists>t. r' = set_succeeded now t r) \<or> (\<exists>m t. r' = set_dead now m t r) \<or>
       (J_AttemptCount j + 1 < J_MaxRetries j \<and> (\<exists>t. r' = set_retry now t (J_AttemptCount j + 1) r))))"
    using finish_row [OF assms(1)] by blast
  have "row_step r r'"
    using r'(2) assms(2) by (auto simp: row_step_def set_succeeded_def set_dead_def set_retry_def)
  then show ?thesis using r'(1) by blast
qed

lemma inflight_row:
  assumes "inflight_ok s" and "(w, j) \<in> set (s_inflight s)" and "job_at (s_db s) (J_ID j) = Some r"
  shows "J_Status r = StatusRunning \<and> J_AttemptCount r = J_AttemptCount j"
  using assms by (auto simp: inflight_ok_def list_all_iff owned_def)

lemma row_step_step:
  assumes "sys_step True reg s s'" and "inflight_ok s" and "job_at (s_db s) i = Some r"
  shows "\<exists>r'. job_at (s_db s') i = Some r' \<and> row_step r r'"
  using assms
proof (induction rule: sys_step.induct)
  case (enqueue f1 f2 f3 new_id clock qid req s x d')
  then show ?case using enqueue_rows [OF enqueue.hyps] by simp
next
  case (batch f faults new_id ids now qid name specs s b d')
  then show ?case using batch_rows [OF batch.hyps] by simp
next
  case (claim cf locked now qid wid n conc s js d')
  have "distinct (map J_ID (jobs (s_db s)))" using claim.prems by (simp add: inflight_ok_def jobs_ok_def)
  from claim_row_status [OF claim.hyps this claim.prems(2)]
  show ?case by (auto simp: row_step_def mark_running_def split: if_splits)
next
  case (finish w j s f now env d')
  have "i = J_ID j \<Longrightarrow> J_Status r = StatusRunning \<and> J_AttemptCount r = J_AttemptCount j"
    using inflight_row [OF finish.prems(1) finish.hyps(1)] finish.prems(2) by simp
  from row_step_finish [OF finish.prems(2) this, of f now reg env] show ?case by (simp add: finish.hyps(2))
next
  case (retry s f f' clock now k)
  then show ?case using retry_row [OF retry.prems(2), of f f' clock now k]
    by (auto simp: row_step_def set_retry_def)
qed (auto simp: cancel_row promote_row reclaim_row row_step_def cancellable_def due_scheduled_def stale_running_def)

section \<open>Reachable states\<close>

lemma start_ok: "jobs_ok d \<Longrightarrow> inflight_ok (sys_start d)"
  by (simp add: sys_start_def inflight_ok_def)

lemma reach_ok: "(sys_step True reg)\<^sup>*\<^sup>* s s' \<Longrightarrow> inflight_ok s \<Longrightarrow> inflight_ok s'"
  by (induction rule: rtranclp_induct) (auto intro: inflight_step)

text \<open>As long as no execution outlives the visibility timeout, a job is executed by at most one
  worker at a time: in every reachable state the executions in progress are of pairwise different
  jobs, and each of them is running in the database, claimed by the worker that executes it, at the
  attempt count the worker knows.\<close>

theorem one_execution_per_job:
  assumes "jobs_ok d" and "(sys_step True reg)\<^sup>*\<^sup>* (sys_start d) s"
  shows "distinct (map (J_ID \<circ> snd) (s_inflight s)) \<and> filter (\<lambda>x. \<not> owned (s_db s) x) (s_inflight s) = []"
  using reach_ok [OF assms(2)] start_ok [OF assms(1)] by (simp add: inflight_ok_def list_all_iff filter_empty_conv)

lemma sample_jobs_ok: "jobs_ok (sample_db [sample_job 1 StatusPending 5 0])"
  by (simp add: jobs_ok_def exists_id_def valid_strategy_def)

definition one_db :: db where
  "one_db = sample_db [sample_job 1 StatusPending 5 0]"

lemma one_db_claim: "JobRepo_ClaimBatch no_claim_faults (\<lambda>_. False) 100 7 77 5 2 one_db =
    (Inr [sample_job 1 StatusPending 5 0], claim_update 77 100 [1] one_db)"
  by (simp add: JobRepo_ClaimBatch_def no_claim_faults_def running_count_def one_db_def claim_select_def
      sql_select_def sql_order_def claim_eligible_def Let_def)

definition claimed_state :: sys where
  "claimed_state = \<lparr>s_db = claim_update 77 100 [1] one_db, s_inflight = [(77, sample_job 1 StatusPending 5 0)]\<rparr>"

lemma claimed_state_reachable: "sys_step timely reg (sys_start one_db) claimed_state"
  using sys_step.claim [of no_claim_faults "\<lambda>_. False" 100 7 77 5 2 "sys_start one_db" _ _ timely reg]
  by (simp add: sys_start_def one_db_claim claimed_state_def)

lemma claimed_state_reach: "(sys_step timely reg)\<^sup>*\<^sup>* (sys_start one_db) claimed_state"
  using claimed_state_reachable by (rule r_into_rtranclp)

lemma one_db_ok: "jobs_ok one_db"
  unfolding one_db_def by (rule sample_jobs_ok)

theorem one_execution_per_job_witness:
  "owned (s_db claimed_state) (77, sample_job 1 StatusPending 5 0)"
proof -
  have "filter (\<lambda>x. \<not> owned (s_db claimed_state) x) (s_inflight claimed_state) = []"
    using one_execution_per_job [OF one_db_ok claimed_state_reach [where timely = True and reg = echo_registry]] by simp
  moreover have "(77, sample_job 1 StatusPending 5 0) \<in> set (s_inflight claimed_state)"
    by (simp add: claimed_state_def)
  ultimately show ?thesis unfolding filter_empty_conv by blast
qed

text \<open>The status machine of a job. While executions end within the visibility timeout, every
  step of the system either leaves a job's row as it is or takes it along one of the transitions
  pending to running or cancelled, scheduled to pending or cancelled, running to succeeded, dead or
  back to pending, dead or failed to pending; the attempt count never falls and grows by at most one.
  A job never disappears.\<close>

theorem job_status_machine:
  assumes "jobs_ok d" and "(sys_step True reg)\<^sup>*\<^sup>* (sys_start d) s" and "sys_step True reg s s'"
    and "job_at (s_db s) i = Some r"
  shows "\<exists>r'. job_at (s_db s') i = Some r' \<and>
    (r' = r \<or> (status_step (J_Status r) (J_Status r') \<and> J_AttemptCount r \<le> J_AttemptCount r' \<and>
       J_AttemptCount r' \<le> J_AttemptCount r + 1))"
  using row_step_step [OF assms(3) _ assms(4)] reach_ok [OF assms(2) start_ok [OF assms(1)]]
  by (auto simp: row_step_def)

lemma one_db_job: "job_at one_db 1 = Some (sample_job 1 StatusPending 5 0)"
  by (simp add: one_db_def job_at_def)

theorem job_status_machine_witness:
  "\<exists>r'. job_at (s_db claimed_state) 1 = Some r' \<and> status_step StatusPending (J_Status r')"
  using job_status_machine [where reg = echo_registry and i = 1, OF one_db_ok rtranclp.rtrancl_refl claimed_state_reachable]
    one_db_job by (fastforce simp: sys_start_def)

lemma final_rows:
  assumes "(sys_step True reg)\<^sup>*\<^sup>* s s'" and "inflight_ok s" and "job_at (s_db s) i = Some r"
    and "J_Status r = StatusSucceeded \<or> J_Status r = StatusCancelled"
  shows "job_at (s_db s') i = Some r"
  using assms
proof (induction rule: rtranclp_induct)
  case (step y z)
  then have y: "job_at (s_db y) i = Some r" "inflight_ok y" using reach_ok by blast+
  then show ?case using row_step_step [OF step.hyps(2) y(2,1)] assms(4) by (auto simp: row_step_def)
qed simp

text \<open>Succeeded and cancelled are final: while executions end within the visibility timeout,
  the row of a succeeded or cancelled job is never written again, whatever the API and the workers
  do.\<close>

theorem finished_job_final:
  assumes "jobs_ok d" and "(sys_step True reg)\<^sup>*\<^sup>* (sys_start d) s" and "(sys_step True reg)\<^sup>*\<^sup>* s s'"
    and "job_at (s_db s) i = Some r" and "J_Status r = StatusSucceeded \<or> J_Status r = StatusCancelled"
  shows "job_at (s_db s') i = Some r"
  using final_rows [OF assms(3) reach_ok [OF assms(2) start_ok [OF assms(1)]] assms(4,5)] .

definition cancelled_db :: db where
  "cancelled_db = sample_db [sample_job 1 StatusCancelled 5 0]"

theorem finished_job_final_witness:
  "job_at (snd (job_svc_Retry None None 500 500 1 cancelled_db)) 1 = Some (sample_job 1 StatusCancelled 5 0)"
proof -
  have ok: "jobs_ok cancelled_db" by (simp add: cancelled_db_def jobs_ok_def exists_id_def valid_strategy_def)
  have j: "job_at (s_db (sys_start cancelled_db)) 1 = Some (sample_job 1 StatusCancelled 5 0)"
    by (simp add: cancelled_db_def job_at_def sys_start_def)
  have "(sys_step True echo_registry)\<^sup>*\<^sup>* (sys_start cancelled_db) (sys_start cancelled_db
      \<lparr>s_db := snd (job_svc_Retry None None 500 500 1 (s_db (sys_start cancelled_db)))\<rparr>)"
    by (rule r_into_rtranclp) (rule sys_step.retry)
  from finished_job_final [OF ok rtranclp.rtrancl_refl this j] show ?thesis
    by (simp add: sys_start_def)
qed

section \<open>What a reclaim during an execution does\<close>

definition reclaimed_job :: Job where
  "reclaimed_job = mark_running 77 100 (sample_job 1 StatusPending 5 0)
     \<lparr>J_Status := StatusPending, J_ClaimedBy := None, J_ClaimedAt := None, J_UpdatedAt := 400000000000\<rparr>"

lemma reclaimed_sel [simp]: "J_ID reclaimed_job = 1" "J_Status reclaimed_job = StatusPending"
  "J_QueueID reclaimed_job = 7" "J_RunAt reclaimed_job = 0"
  by (simp_all add: reclaimed_job_def mark_running_def)

lemma claimed_reclaim:
  "Reaper_reclaim None 400000000000 (300 * time_Second) (s_db claimed_state) = sample_db [reclaimed_job]"
proof -
  have w: "whole_seconds (300 * time_Second) = 300" by (simp add: whole_seconds_def time_Second_def)
  show ?thesis
    by (simp add: Reaper_reclaim_def JobRepo_ReclaimStale_def job_exec_def w claimed_state_def claim_update_def
        one_db_def sample_db_def stale_running_def mark_running_def reclaimed_job_def)
qed

lemma reclaimed_claim: "JobRepo_ClaimBatch no_claim_faults (\<lambda>_. False) 400000000000 7 78 5 2 (sample_db [reclaimed_job]) =
    (Inr [reclaimed_job], claim_update 78 400000000000 [1] (sample_db [reclaimed_job]))"
  by (simp add: JobRepo_ClaimBatch_def no_claim_faults_def running_count_def claim_select_def
      sql_select_def sql_order_def claim_eligible_def Let_def)

text \<open>Without that assumption a job can be executed twice at the same time: the reaper looks at
  the time of the claim only, not at the heartbeat of the worker nor at the job's timeout, so an
  execution longer than the visibility timeout is given to a second worker while the first is still
  at it.\<close>

theorem overlong_execution_runs_twice:
  "\<exists>s j j'. (sys_step False echo_registry)\<^sup>*\<^sup>* (sys_start one_db) s \<and>
     s_inflight s = [(77, j), (78, j')] \<and> J_ID j = J_ID j'"
proof -
  let ?r = "claimed_state\<lparr>s_db := Reaper_reclaim None 400000000000 (300 * time_Second) (s_db claimed_state)\<rparr>"
  let ?c = "?r\<lparr>s_db := claim_update 78 400000000000 [1] (sample_db [reclaimed_job]),
     s_inflight := s_inflight ?r @ map (Pair 78) [reclaimed_job]\<rparr>"
  have db_of: "s_db ?r = Reaper_reclaim None 400000000000 (300 * time_Second) (s_db claimed_state)" by simp
  have 1: "sys_step False echo_registry claimed_state ?r" by (rule sys_step.reclaim) simp
  have 2: "sys_step False echo_registry ?r ?c"
    by (rule sys_step.claim [where cf = no_claim_faults and locked = "\<lambda>_. False" and now = 400000000000
          and qid = 7 and n = 5 and conc = 2]) (simp only: db_of, simp only: claimed_reclaim reclaimed_claim)
  have "(sys_step False echo_registry)\<^sup>*\<^sup>* (sys_start one_db) ?c"
    using claimed_state_reach 1 2 by (meson rtranclp.rtrancl_into_rtrancl)
  moreover have "s_inflight ?c = [(77, sample_job 1 StatusPending 5 0), (78, reclaimed_job)]"
    by (simp add: claimed_state_def)
  moreover have "J_ID (sample_job 1 StatusPending 5 0) = J_ID reclaimed_job" by simp
  ultimately show ?thesis by blast
qed

text \<open>The integrity constraints of the jobs table (unique ids, unique idempotency keys, an
  existing queue, a priority from 1 to 10, a known retry strategy, tags present) hold in every
  reachable state, with or without the visibility timeout.\<close>

theorem reachable_jobs_ok:
  assumes "jobs_ok d" and "(sys_step timely reg)\<^sup>*\<^sup>* (sys_start d) s"
  shows "jobs_ok (s_db s)"
  using assms(2,1) by (induction rule: rtranclp_induct) (auto simp: sys_start_def intro: jobs_ok_step)

theorem reachable_jobs_ok_witness: "jobs_ok (s_db claimed_state)"
  using reachable_jobs_ok [OF one_db_ok claimed_state_reach [where timely = True and reg = echo_registry]] .

end
