(* ===== verification/ClaimProtocol.thy ===== *)
theory ClaimProtocol
  imports Executor
begin

text \<open>
  ClaimBatch as the database runs it: several transactions of several workers, statement by
  statement, under READ COMMITTED. A transaction counts the running jobs, then selects and locks
  eligible rows (\<open>FOR UPDATE SKIP LOCKED\<close>: the rows locked by others are passed over), then
  marks them running and commits. Between the statements other transactions run; a statement of
  another operation may change any row that is not locked. \<open>JobRepo_ClaimBatch\<close> is the special case in
  which the statements of one transaction run without interruption.
\<close>

datatype claim_phase = Counting | Selecting int | Holding "Job list" | Ended "Job list"

record claim_tx =
  tx_worker :: uuid
  tx_queue :: uuid
  tx_now :: time
  tx_size :: int
  tx_conc :: int
  tx_phase :: claim_phase

record claims =
  cl_db :: db
  cl_txs :: "claim_tx list"

fun held_jobs :: "claim_phase \<Rightarrow> Job list" where
  "held_jobs (Holding js) = js"
| "held_jobs _ = []"

definition held :: "claim_tx \<Rightarrow> uuid list" where
  "held t = map J_ID (held_jobs (tx_phase t))"

definition locked_by_others :: "nat \<Rightarrow> claim_tx list \<Rightarrow> uuid \<Rightarrow> bool" where
  "locked_by_others k txs i \<longleftrightarrow> (\<exists>k'<length txs. k' \<noteq> k \<and> i \<in> set (held (txs ! k')))"

text \<open>The statements of transaction \<open>k\<close>: what each does to its own phase, and the commit to the
  database.\<close>

definition tx_count :: "claim_tx \<Rightarrow> db \<Rightarrow> claim_phase" where
  "tx_count t d = (let available = tx_conc t - running_count (tx_queue t) d in
     if available \<le> 0 then Ended []
     else Selecting (if available < tx_size t then available else tx_size t))"

definition tx_select :: "(uuid \<Rightarrow> bool) \<Rightarrow> int \<Rightarrow> claim_tx \<Rightarrow> db \<Rightarrow> claim_phase" where
  "tx_select locked n t d = (let claimed = claim_select locked (tx_now t) (tx_queue t) n (jobs d) in
     if claimed = [] then Ended [] else Holding claimed)"

definition tx_commit :: "claim_tx \<Rightarrow> Job list \<Rightarrow> db \<Rightarrow> db" where
  "tx_commit t js d = claim_update (tx_worker t) (tx_now t) (map J_ID js) d"

abbreviation set_phase :: "nat \<Rightarrow> claim_phase \<Rightarrow> claims \<Rightarrow> claims" where
  "set_phase k p s \<equiv> s\<lparr>cl_txs := (cl_txs s)[k := (cl_txs s ! k)\<lparr>tx_phase := p\<rparr>]\<rparr>"

inductive claim_step :: "claims \<Rightarrow> claims \<Rightarrow> bool" where
  begin_tx: "tx_phase t = Counting \<Longrightarrow> claim_step s (s\<lparr>cl_txs := cl_txs s @ [t]\<rparr>)"
| count: "k < length (cl_txs s) \<Longrightarrow> tx_phase (cl_txs s ! k) = Counting \<Longrightarrow>
    claim_step s (set_phase k (tx_count (cl_txs s ! k) (cl_db s)) s)"
| select: "k < length (cl_txs s) \<Longrightarrow> tx_phase (cl_txs s ! k) = Selecting n \<Longrightarrow>
    claim_step s (set_phase k (tx_select (locked_by_others k (cl_txs s)) n (cl_txs s ! k) (cl_db s)) s)"
| commit: "k < length (cl_txs s) \<Longrightarrow> tx_phase (cl_txs s ! k) = Holding js \<Longrightarrow>
    claim_step s (set_phase k (Ended js) (s\<lparr>cl_db := tx_commit (cl_txs s ! k) js (cl_db s)\<rparr>))"
| rollback: "k < length (cl_txs s) \<Longrightarrow> claim_step s (set_phase k (Ended []) s)"
| other: "\<forall>i. (\<exists>t\<in>set (cl_txs s). i \<in> set (held t)) \<longrightarrow> job_at d' i = job_at (cl_db s) i \<Longrightarrow>
    distinct (map J_ID (jobs d')) \<Longrightarrow> claim_step s (s\<lparr>cl_db := d'\<rparr>)"

section \<open>Row locks keep the claims apart\<close>

definition holds_pending :: "db \<Rightarrow> claim_tx \<Rightarrow> bool" where
  "holds_pending d t \<longleftrightarrow> distinct (held t) \<and>
     list_all (\<lambda>j. job_at d (J_ID j) = Some j \<and> J_Status j = StatusPending \<and> J_QueueID j = tx_queue t)
       (held_jobs (tx_phase t))"

definition apart :: "claim_tx list \<Rightarrow> bool" where
  "apart txs \<longleftrightarrow> (\<forall>k<length txs. \<forall>k'<length txs. k \<noteq> k' \<longrightarrow> set (held (txs ! k)) \<inter> set (held (txs ! k')) = {})"

definition claims_ok :: "claims \<Rightarrow> bool" where
  "claims_ok s \<longleftrightarrow> distinct (map J_ID (jobs (cl_db s))) \<and> apart (cl_txs s) \<and>
     list_all (holds_pending (cl_db s)) (cl_txs s)"

lemma held_phase [simp]: "held (t\<lparr>tx_phase := p\<rparr>) = map J_ID (held_jobs p)"
  by (simp add: held_def)

lemma holds_pending_nothing [simp]: "held_jobs (tx_phase t) = [] \<Longrightarrow> holds_pending d t"
  by (simp add: holds_pending_def held_def)

lemma apart_update:
  assumes "apart txs" and "k < length txs" and "\<And>i. i \<in> set (held t) \<Longrightarrow> \<not> locked_by_others k txs i"
  shows "apart (txs[k := t])"
proof -
  have new: "set (held t) \<inter> set (held (txs ! b)) = {}" if "b < length txs" "b \<noteq> k" for b
    using assms(3) that by (auto simp: locked_by_others_def)
  have "set (held (txs[k := t] ! a)) \<inter> set (held (txs[k := t] ! b)) = {}"
    if "a < length txs" "b < length txs" "a \<noteq> b" for a b
  proof (cases "a = k \<or> b = k")
    case True
    then show ?thesis using new [of a] new [of b] that assms(2) by (auto simp: nth_list_update)
  next
    case False
    then show ?thesis using assms(1) that by (simp add: apart_def)
  qed
  then show ?thesis by (simp add: apart_def)
qed

lemma apart_append: "apart txs \<Longrightarrow> held t = [] \<Longrightarrow> apart (txs @ [t])"
  by (auto simp: apart_def nth_append less_Suc_eq)

lemma holds_update: "list_all (holds_pending d) txs \<Longrightarrow> holds_pending d t \<Longrightarrow>
    list_all (holds_pending d) (txs[k := t])"
  by (auto simp: list_all_iff dest: set_update_subset_insert [THEN subsetD])

lemma tx_count_holds_nothing [simp]: "held_jobs (tx_count t d) = []"
  by (simp add: tx_count_def Let_def)

lemma tx_select_held:
  "held_jobs (tx_select locked n t d) = claim_select locked (tx_now t) (tx_queue t) n (jobs d)"
  by (simp add: tx_select_def Let_def)

lemma select_row:
  assumes "distinct (map J_ID (jobs d))" and "j \<in> set (claim_select locked now qid n (jobs d))"
  shows "job_at d (J_ID j) = Some j \<and> J_Status j = StatusPending \<and> J_QueueID j = qid \<and> \<not> locked (J_ID j)"
  using claim_select_mem [OF assms(2)] sql_row_key [OF assms(1)]
  by (auto simp: job_at_def claim_eligible_def)

lemma tx_select_holds:
  assumes "distinct (map J_ID (jobs d))"
  shows "holds_pending d (t\<lparr>tx_phase := tx_select locked n t d\<rparr>)"
  using assms by (auto simp: holds_pending_def tx_select_held list_all_iff claim_select_distinct dest: select_row)

lemma claims_ok_phase:
  assumes "claims_ok s" and "k < length (cl_txs s)" and "held_jobs p = []"
  shows "claims_ok (set_phase k p s)"
  using assms by (auto simp: claims_ok_def intro!: apart_update holds_update)

lemma locked_by_others_held:
  assumes "\<not> locked_by_others k txs i" and "t \<in> set (txs[k := t'])" and "i \<in> set (held t)" and "k < length txs"
  shows "t = t'"
  using assms by (auto simp: locked_by_others_def in_set_conv_nth nth_list_update split: if_splits)

lemma claims_ok_select:
  assumes "claims_ok s" and "k < length (cl_txs s)"
  shows "claims_ok (set_phase k (tx_select (locked_by_others k (cl_txs s)) n (cl_txs s ! k) (cl_db s)) s)"
proof -
  have d: "distinct (map J_ID (jobs (cl_db s)))" using assms(1) by (simp add: claims_ok_def)
  have "\<not> locked_by_others k (cl_txs s) i"
    if i: "i \<in> set (map J_ID (claim_select (locked_by_others k (cl_txs s)) (tx_now (cl_txs s ! k))
      (tx_queue (cl_txs s ! k)) n (jobs (cl_db s))))" for i
  proof -
    obtain x where x: "i = J_ID x" "x \<in> set (claim_select (locked_by_others k (cl_txs s)) (tx_now (cl_txs s ! k))
      (tx_queue (cl_txs s ! k)) n (jobs (cl_db s)))" using i unfolding set_map by (rule imageE) (rule that)
    from select_row [OF d x(2)] show ?thesis using x(1) by simp
  qed
  then have "apart ((cl_txs s)[k := (cl_txs s ! k)\<lparr>tx_phase :=
      tx_select (locked_by_others k (cl_txs s)) n (cl_txs s ! k) (cl_db s)\<rparr>])"
    using assms by (intro apart_update) (simp_all add: claims_ok_def tx_select_held)
  then show ?thesis using assms(1) d holds_update tx_select_holds [OF d] by (simp add: claims_ok_def)
qed

lemma mark_running_id [simp]: "J_ID (mark_running w n j) = J_ID j"
  by (simp add: mark_running_def)

lemma commit_row: "job_at (tx_commit t js d) i =
    (if i \<in> J_ID ` set js then map_option (mark_running (tx_worker t) (tx_now t)) (job_at d i) else job_at d i)"
proof -
  have "sql_row (\<lambda>j. J_ID j = i) (sql_update (\<lambda>j. J_ID j \<in> J_ID ` set js) (mark_running w n) rows) =
    (if i \<in> J_ID ` set js then map_option (mark_running w n) (sql_row (\<lambda>j. J_ID j = i) rows)
     else sql_row (\<lambda>j. J_ID j = i) rows)" for w n rows
    by (induction rows) auto
  then show ?thesis by (simp add: job_at_def tx_commit_def claim_update_def)
qed

lemma commit_ids: "map J_ID (jobs (tx_commit t js d)) = map J_ID (jobs d)"
  by (simp add: tx_commit_def claim_update_def sql_update_keys)

lemma holds_frame:
  assumes "holds_pending d t" and "\<And>i. i \<in> set (held t) \<Longrightarrow> job_at d' i = job_at d i"
  shows "holds_pending d' t"
  using assms by (auto simp: holds_pending_def list_all_iff held_def)

lemma claims_ok_commit:
  assumes "claims_ok s" and "k < length (cl_txs s)" and "tx_phase (cl_txs s ! k) = Holding js"
  shows "claims_ok (set_phase k (Ended js) (s\<lparr>cl_db := tx_commit (cl_txs s ! k) js (cl_db s)\<rparr>))"
proof -
  let ?t = "cl_txs s ! k" let ?d = "tx_commit ?t js (cl_db s)" let ?t' = "?t\<lparr>tx_phase := Ended js\<rparr>"
  have h: "held ?t = map J_ID js" using assms(3) by (simp add: held_def)
  have "holds_pending ?d t" if t: "t \<in> set ((cl_txs s)[k := ?t'])" for t
  proof -
    obtain b where b: "b < length (cl_txs s)" "t = (cl_txs s)[k := ?t'] ! b"
      using t by (auto simp: in_set_conv_nth)
    show ?thesis
    proof (cases "b = k")
      case False
      then have "set (held ?t) \<inter> set (held t) = {}" "t \<in> set (cl_txs s)"
        using assms(1,2) b by (auto simp: claims_ok_def apart_def)
      then have "job_at ?d i = job_at (cl_db s) i" if "i \<in> set (held t)" for i
        unfolding commit_row using h that by auto
      moreover have "holds_pending (cl_db s) t"
        using assms(1) \<open>t \<in> set (cl_txs s)\<close> by (simp add: claims_ok_def list_all_iff)
      ultimately show ?thesis using holds_frame by blast
    qed (simp add: b assms(2))
  qed
  then have "list_all (holds_pending ?d) ((cl_txs s)[k := ?t'])" by (simp add: list_all_iff)
  moreover have "apart ((cl_txs s)[k := ?t'])"
    using assms(1,2) by (intro apart_update) (simp_all add: claims_ok_def)
  ultimately show ?thesis using assms(1) by (simp add: claims_ok_def commit_ids)
qed

lemma claims_ok_step: "claim_step s s' \<Longrightarrow> claims_ok s \<Longrightarrow> claims_ok s'"
proof (induction rule: claim_step.induct)
  case (begin_tx t s)
  then show ?case by (simp add: claims_ok_def apart_append held_def)
next
  case (other s d')
  then show ?case by (auto simp: claims_ok_def list_all_iff intro: holds_frame)
next
  case (commit k s js)
  then show ?case using claims_ok_commit by simp
qed (simp_all add: claims_ok_phase claims_ok_select)

section \<open>What the protocol guarantees and what it does not\<close>

definition claims_start :: "db \<Rightarrow> claims" where
  "claims_start d = \<lparr>cl_db = d, cl_txs = []\<rparr>"

lemma claims_reach: "claim_step\<^sup>*\<^sup>* s s' \<Longrightarrow> claims_ok s \<Longrightarrow> claims_ok s'"
  by (induction rule: rtranclp_induct) (auto intro: claims_ok_step)

lemma claims_start_ok: "distinct (map J_ID (jobs d)) \<Longrightarrow> claims_ok (claims_start d)"
  by (simp add: claims_start_def claims_ok_def apart_def)


definition sample_tx :: "uuid \<Rightarrow> claim_tx" where
  "sample_tx w = \<lparr>tx_worker = w, tx_queue = 7, tx_now = 100, tx_size = 1, tx_conc = 1, tx_phase = Counting\<rparr>"

definition two_jobs_db :: db where
  "two_jobs_db = sample_db [sample_job 1 StatusPending 5 0, sample_job 2 StatusPending 5 0]"

lemma two_jobs_count: "running_count 7 two_jobs_db = 0"
  by (simp add: running_count_def two_jobs_db_def)

lemma two_jobs_select:
  "claim_select (\<lambda>_. False) 100 7 1 (jobs two_jobs_db) = [sample_job 1 StatusPending 5 0]"
  by (simp add: claim_select_def two_jobs_db_def sql_select_def sql_order_def claim_eligible_def
      claim_key_def sort_key_def insort_key_def less_eq_prod_def)


text \<open>C6: SKIP LOCKED gives every job to one worker: whatever the interleaving of the claim
  transactions, and whatever other operations do to rows that are not locked, two open claims never
  hold the same job, and what a claim commits was pending and becomes running, claimed by its
  worker.\<close>

theorem claims_never_overlap:
  assumes "distinct (map J_ID (jobs d))" and "claim_step\<^sup>*\<^sup>* (claims_start d) s"
    and "k < length (cl_txs s)" and "tx_phase (cl_txs s ! k) = Holding js"
    and "k' < length (cl_txs s)" and "tx_phase (cl_txs s ! k') = Holding js'" and "k \<noteq> k'"
    and "j \<in> set js"
  shows "J_ID j \<notin> J_ID ` set js' \<and> job_at (cl_db s) (J_ID j) = Some j \<and> J_Status j = StatusPending \<and>
    job_at (tx_commit (cl_txs s ! k) js (cl_db s)) (J_ID j) =
      Some (mark_running (tx_worker (cl_txs s ! k)) (tx_now (cl_txs s ! k)) j)"
proof -
  have ok: "claims_ok s" using claims_reach [OF assms(2) claims_start_ok [OF assms(1)]] .
  have "set (held (cl_txs s ! k)) \<inter> set (held (cl_txs s ! k')) = {}"
    using ok assms(3,5,7) by (simp add: claims_ok_def apart_def)
  then have "J_ID ` set js \<inter> J_ID ` set js' = {}" using assms(4,6) by (simp add: held_def)
  moreover have "holds_pending (cl_db s) (cl_txs s ! k)" using ok assms(3) by (simp add: claims_ok_def list_all_iff)
  ultimately show ?thesis using assms(4,8) by (auto simp: holds_pending_def list_all_iff commit_row)
qed

definition both_hold :: claims where
  "both_hold = \<lparr>cl_db = two_jobs_db, cl_txs =
     [sample_tx 77\<lparr>tx_phase := Holding [sample_job 1 StatusPending 5 0]\<rparr>,
      sample_tx 78\<lparr>tx_phase := Holding [sample_job 2 StatusPending 5 0]\<rparr>]\<rparr>"

lemma second_select: "tx_select (locked_by_others (Suc 0)
     [sample_tx 77\<lparr>tx_phase := Holding [sample_job 1 StatusPending 5 0]\<rparr>,
      sample_tx 78\<lparr>tx_phase := Selecting 1\<rparr>]) 1 (sample_tx 78\<lparr>tx_phase := Selecting 1\<rparr>) two_jobs_db =
   Holding [sample_job 2 StatusPending 5 0]"
proof -
  have l: "locked_by_others (Suc 0)
     [sample_tx 77\<lparr>tx_phase := Holding [sample_job 1 StatusPending 5 0]\<rparr>,
      sample_tx 78\<lparr>tx_phase := Selecting 1\<rparr>] = (\<lambda>i. i = 1)"
    by (rule ext) (auto simp: locked_by_others_def less_Suc_eq held_def)
  show ?thesis unfolding l
    by (simp add: tx_select_def claim_select_def two_jobs_db_def sql_select_def sql_order_def
        claim_eligible_def sample_tx_def claim_key_def less_eq_prod_def)
qed

lemma both_hold_reachable: "claim_step\<^sup>*\<^sup>* (claims_start two_jobs_db) both_hold"
proof -
  let ?A = "sample_tx 77" let ?B = "sample_tx 78"
  let ?S = "\<lambda>t. t\<lparr>tx_phase := Selecting 1\<rparr> :: claim_tx"
  let ?H = "?A\<lparr>tx_phase := Holding [sample_job 1 StatusPending 5 0]\<rparr>"
  let ?s = "\<lambda>txs. \<lparr>cl_db = two_jobs_db, cl_txs = txs\<rparr>"
  have c: "tx_count (sample_tx w) two_jobs_db = Selecting 1" for w
    by (simp add: tx_count_def sample_tx_def two_jobs_count)
  have 1: "claim_step (?s []) (?s [?A])" using begin_tx [of ?A "?s []"] by (simp add: sample_tx_def)
  have 2: "claim_step (?s [?A]) (?s [?A, ?B])" using begin_tx [of ?B "?s [?A]"] by (simp add: sample_tx_def)
  have 3: "claim_step (?s [?A, ?B]) (?s [?S ?A, ?B])"
    using count [of 0 "?s [?A, ?B]"] c [of 77] by (simp add: sample_tx_def)
  have 4: "claim_step (?s [?S ?A, ?B]) (?s [?S ?A, ?S ?B])"
    using count [of 1 "?s [?S ?A, ?B]"] c [of 78] by (simp add: sample_tx_def)
  have l: "locked_by_others 0 [?S ?A, ?S ?B] = (\<lambda>_. False)"
    by (rule ext) (auto simp: locked_by_others_def less_Suc_eq held_def)
  have 5: "claim_step (?s [?S ?A, ?S ?B]) (?s [?H, ?S ?B])"
    using select [of 0 "?s [?S ?A, ?S ?B]" 1] two_jobs_select l by (simp add: tx_select_def sample_tx_def)
  have 6: "claim_step (?s [?H, ?S ?B]) both_hold"
    using select [of "Suc 0" "?s [?H, ?S ?B]" 1] second_select by (simp add: both_hold_def)
  show ?thesis unfolding claims_start_def using 1 2 3 4 5 6
    by (meson rtranclp.rtrancl_into_rtrancl rtranclp.rtrancl_refl)
qed

theorem claims_never_overlap_witness:
  "job_at (tx_commit (cl_txs both_hold ! 0) [sample_job 1 StatusPending 5 0] two_jobs_db) 1 =
     Some (mark_running 77 100 (sample_job 1 StatusPending 5 0))"
  using claims_never_overlap [OF _ both_hold_reachable, of 0 "[sample_job 1 StatusPending 5 0]" 1
      "[sample_job 2 StatusPending 5 0]" "sample_job 1 StatusPending 5 0"]
  by (simp add: both_hold_def two_jobs_db_def sample_tx_def)

text \<open>The concurrency limit of a queue is checked, not enforced: two claims that count before
  either commits both find room, and a queue that allows one running job ends with two.\<close>

theorem concurrency_limit_overshoot:
  "\<exists>s. claim_step\<^sup>*\<^sup>* (claims_start two_jobs_db) s \<and> map tx_conc (cl_txs s) = [1, 1] \<and>
     running_count 7 (cl_db (claims_start two_jobs_db)) = 0 \<and> running_count 7 (cl_db s) = 2"
proof -
  let ?m = "set_phase 0 (Ended [sample_job 1 StatusPending 5 0])
    (both_hold\<lparr>cl_db := tx_commit (cl_txs both_hold ! 0) [sample_job 1 StatusPending 5 0] (cl_db both_hold)\<rparr>)"
  let ?e = "set_phase 1 (Ended [sample_job 2 StatusPending 5 0])
    (?m\<lparr>cl_db := tx_commit (cl_txs ?m ! 1) [sample_job 2 StatusPending 5 0] (cl_db ?m)\<rparr>)"
  have 1: "claim_step both_hold ?m" using commit [of 0 both_hold] by (simp add: both_hold_def)
  have 2: "claim_step ?m ?e" using commit [of 1 ?m] by (simp add: both_hold_def)
  have "claim_step\<^sup>*\<^sup>* (claims_start two_jobs_db) ?e"
    using both_hold_reachable 1 2 by (meson rtranclp.rtrancl_into_rtrancl)
  moreover have "map tx_conc (cl_txs ?e) = [1, 1]" by (simp add: both_hold_def sample_tx_def)
  moreover have "running_count 7 (cl_db ?e) = 2"
    by (simp add: both_hold_def tx_commit_def claim_update_def two_jobs_db_def running_count_def mark_running_def)
  ultimately show ?thesis using two_jobs_count by (auto simp: claims_start_def)
qed

end
