(* ===== verification/WorkerService.thy ===== *)
theory WorkerService
  imports Pool Dispatcher CronEngine
begin

text \<open>
  A worker node (\<open>internal/worker/service.go\<close>): how NewService wires the components, and
  Start as a transition system of the node's goroutines: the ticker loops of the dispatcher, reaper,
  scheduler, cron engine and heartbeater, the pool, and the main goroutine, which after the
  cancellation waits for the loops and then drains the pool.
\<close>

section \<open>Wiring\<close>

record WorkerConfig =
  WC_Concurrency :: int
  WC_PollInterval :: duration
  WC_HeartbeatInterval :: duration
  WC_HeartbeatTimeout :: duration
  WC_VisibilityTimeout :: duration
  WC_DrainTimeout :: duration
  WC_MaxBatchSize :: int

record Reaper =
  R_pollInterval :: duration
  R_visibilityTimeout :: duration

record CronEngine =
  CE_pollInterval :: duration
  CE_lockTTL :: duration

record Heartbeater =
  H_workerID :: uuid
  H_interval :: duration

record Service =
  S_id :: uuid
  S_registry :: registry
  S_pool :: pool
  S_dispatcher :: Dispatcher
  S_reaper :: Reaper
  S_scheduler :: duration
  S_cronEngine :: CronEngine
  S_heartbeater :: Heartbeater

definition NewDispatcher :: "uuid \<Rightarrow> duration \<Rightarrow> int \<Rightarrow> Dispatcher" where
  "NewDispatcher workerID pollInterval batchSize =
     \<lparr>D_workerID = workerID, D_pollInterval = pollInterval, D_batchSize = batchSize\<rparr>"

text \<open>\<open>None\<close> is the panic of making a channel of negative size.\<close>

definition NewService :: "uuid \<Rightarrow> WorkerConfig \<Rightarrow> Service option" where
  "NewService workerID cfg =
     (if WC_Concurrency cfg < 0 then None
      else Some \<lparr>S_id = workerID, S_registry = NewRegistry,
        S_pool = NewPool (nat (WC_Concurrency cfg)),
        S_dispatcher = NewDispatcher workerID (WC_PollInterval cfg) (WC_MaxBatchSize cfg),
        S_reaper = \<lparr>R_pollInterval = WC_PollInterval cfg, R_visibilityTimeout = WC_VisibilityTimeout cfg\<rparr>,
        S_scheduler = WC_PollInterval cfg,
        S_cronEngine = \<lparr>CE_pollInterval = WC_PollInterval cfg, CE_lockTTL = 55 * time_Second\<rparr>,
        S_heartbeater = \<lparr>H_workerID = workerID, H_interval = 5 * time_Second\<rparr>\<rparr>)"

text \<open>The row the worker process registers.\<close>

definition worker_info :: "uuid \<Rightarrow> string \<Rightarrow> int \<Rightarrow> WorkerConfig \<Rightarrow> Worker" where
  "worker_info i hostname pid cfg = \<lparr>W_ID = i, W_Hostname = hostname, W_PID = pid, W_Version = ''v1.0.0'',
     W_Status = WorkerActive, W_Concurrency = WC_Concurrency cfg, W_Queues = [''default'', ''high-priority''],
     W_LastHeartbeatAt = zero_time, W_RegisteredAt = zero_time\<rparr>"

section \<open>The goroutines of a node\<close>

text \<open>A ticker loop waits in its \<open>select\<close>, runs its body on a tick, or has returned.\<close>

datatype loop = LWait | LTick | LExit

text \<open>The dispatcher's loop also claims and submits in its body; \<open>DPanic\<close> is a send on the
  closed channel.\<close>

datatype disp = DWait | DTick | DSubmit "Job list" | DExit | DPanic

datatype main_phase = MRun | MWait | MDrain | MDone

record node =
  n_cancelled :: bool
  n_loops :: "loop list"
  n_disp :: disp
  n_main :: main_phase
  n_pool :: pool
  n_claimed :: "Job list"

text \<open>Start: the pool's goroutines, then the dispatcher and the four other loops.\<close>

definition node_start :: "nat \<Rightarrow> node" where
  "node_start n = \<lparr>n_cancelled = False, n_loops = replicate 4 LWait, n_disp = DWait, n_main = MRun,
     n_pool = Pool_Start (NewPool n), n_claimed = []\<rparr>"

definition submit_step :: "Job \<Rightarrow> Job list \<Rightarrow> node \<Rightarrow> node option" where
  "submit_step j js s = (case Pool_Submit j (n_pool s) of
       Sent p \<Rightarrow> Some (s\<lparr>n_pool := p, n_disp := DSubmit js\<rparr>)
     | Blocked \<Rightarrow> None
     | SendPanic \<Rightarrow> Some (s\<lparr>n_disp := DPanic\<rparr>))"

definition loops_done :: "node \<Rightarrow> bool" where
  "loops_done s \<longleftrightarrow> list_all (\<lambda>l. l = LExit) (n_loops s) \<and> n_disp s = DExit"

inductive node_step :: "node \<Rightarrow> node \<Rightarrow> bool" where
  cancel: "node_step s (s\<lparr>n_cancelled := True\<rparr>)"
| tick: "i < length (n_loops s) \<Longrightarrow> n_loops s ! i = LWait \<Longrightarrow> node_step s (s\<lparr>n_loops := (n_loops s)[i := LTick]\<rparr>)"
| body: "i < length (n_loops s) \<Longrightarrow> n_loops s ! i = LTick \<Longrightarrow> node_step s (s\<lparr>n_loops := (n_loops s)[i := LWait]\<rparr>)"
| leave: "n_cancelled s \<Longrightarrow> i < length (n_loops s) \<Longrightarrow> n_loops s ! i = LWait \<Longrightarrow>
    node_step s (s\<lparr>n_loops := (n_loops s)[i := LExit]\<rparr>)"
| disp_tick: "n_disp s = DWait \<Longrightarrow> node_step s (s\<lparr>n_disp := DTick\<rparr>)"
| disp_claim: "n_disp s = DTick \<Longrightarrow> 0 < AvailableWorkers (n_pool s) \<Longrightarrow>
    node_step s (s\<lparr>n_disp := DSubmit js, n_claimed := n_claimed s @ js\<rparr>)"
| disp_submit: "n_disp s = DSubmit (j # js) \<Longrightarrow> submit_step j js s = Some s' \<Longrightarrow> node_step s s'"
| disp_next: "n_disp s = DSubmit [] \<Longrightarrow> node_step s (s\<lparr>n_disp := DTick\<rparr>)"
| disp_end: "n_disp s = DTick \<Longrightarrow> node_step s (s\<lparr>n_disp := DWait\<rparr>)"
| disp_leave: "n_cancelled s \<Longrightarrow> n_disp s = DWait \<Longrightarrow> node_step s (s\<lparr>n_disp := DExit\<rparr>)"
| work: "worker_step i (n_pool s) = Some p \<Longrightarrow> node_step s (s\<lparr>n_pool := p\<rparr>)"
| shutdown: "n_cancelled s \<Longrightarrow> n_main s = MRun \<Longrightarrow> node_step s (s\<lparr>n_main := MWait\<rparr>)"
| stop: "n_main s = MWait \<Longrightarrow> loops_done s \<Longrightarrow> node_step s (s\<lparr>n_main := MDrain, n_pool := Pool_close (n_pool s)\<rparr>)"
| stopped: "n_main s = MDrain \<Longrightarrow> Pool_stopped (n_pool s) \<Longrightarrow> node_step s (s\<lparr>n_main := MDone\<rparr>)"

section \<open>The invariant\<close>

fun unsubmitted :: "disp \<Rightarrow> Job list" where
  "unsubmitted (DSubmit js) = js"
| "unsubmitted _ = []"

definition node_inv :: "nat \<Rightarrow> node \<Rightarrow> bool" where
  "node_inv n s \<longleftrightarrow> pool_inv n (n_pool s) \<and> n_disp s \<noteq> DPanic \<and>
     mset (n_claimed s) = mset (pl_submitted (n_pool s)) + mset (unsubmitted (n_disp s)) \<and>
     (pl_closed (n_pool s) \<longleftrightarrow> n_main s = MDrain \<or> n_main s = MDone) \<and>
     (n_main s = MDrain \<or> n_main s = MDone \<longrightarrow> loops_done s) \<and>
     (n_main s = MDone \<longrightarrow> Pool_stopped (n_pool s)) \<and>
     (n_main s \<noteq> MRun \<longrightarrow> n_cancelled s)"

lemma worker_step_submitted: "worker_step i p = Some p' \<Longrightarrow> pl_submitted p' = pl_submitted p"
  by (erule worker_step_cases) simp_all

lemma stopped_no_step:
  assumes "Pool_stopped p"
  shows "worker_step i p = None"
proof -
  have "i < length (pl_workers p) \<Longrightarrow> pl_workers p ! i = WExit"
    using assms nth_mem [of i "pl_workers p"] by (simp add: Pool_stopped_def list_all_iff)
  then show ?thesis by (simp add: worker_step_def)
qed

lemma pool_inv_close: "pool_inv n p \<Longrightarrow> pool_inv n (Pool_close p)"
  by (simp add: pool_inv_def Pool_close_def)

lemma submit_step_inv:
  assumes "node_inv n s" and "n_disp s = DSubmit (j # js)" and "submit_step j js s = Some s'"
  shows "node_inv n s'"
proof -
  have c: "\<not> pl_closed (n_pool s)" using assms(1,2) by (auto simp: node_inv_def loops_done_def)
  then obtain p where p: "Pool_Submit j (n_pool s) = Sent p" "s' = s\<lparr>n_pool := p, n_disp := DSubmit js\<rparr>"
    using assms(3) by (auto simp: submit_step_def Pool_Submit_def split: send.splits if_splits)
  have "pl_submitted p = pl_submitted (n_pool s) @ [j]" "pl_closed p = pl_closed (n_pool s)"
    using p(1) by (auto simp: Pool_Submit_def split: if_splits)
  then show ?thesis using assms(1,2) p pool_inv_submit [OF _ p(1)] c
    by (auto simp: node_inv_def loops_done_def)
qed

lemma loops_exit_update: "i < length ls \<Longrightarrow> ls ! i \<noteq> LExit \<Longrightarrow> \<not> list_all (\<lambda>l. l = LExit) ls"
  by (auto simp: list_all_iff)

lemma node_inv_step: "node_step s s' \<Longrightarrow> node_inv n s \<Longrightarrow> node_inv n s'"
proof (induction rule: node_step.induct)
  case (disp_submit s j js s')
  then show ?case using submit_step_inv by blast
next
  case (work i s p)
  then show ?case using pool_inv_worker [OF _ work.hyps] worker_step_submitted [OF work.hyps]
      worker_step_closed [OF work.hyps] stopped_no_step [of "n_pool s" i]
    by (auto simp: node_inv_def loops_done_def)
next
  case (stop s)
  then show ?case by (auto simp: node_inv_def pool_inv_close loops_done_def) (simp_all add: Pool_close_def)
qed (auto simp: node_inv_def loops_done_def dest: loops_exit_update)

lemma node_inv_start: "node_inv n (node_start n)"
  using pool_inv_start [of n] by (simp add: node_inv_def node_start_def Pool_Start_def NewPool_def)

lemma node_inv_reach: "node_step\<^sup>*\<^sup>* s s' \<Longrightarrow> node_inv n s \<Longrightarrow> node_inv n s'"
  by (induction rule: rtranclp_induct) (auto intro: node_inv_step)

section \<open>Graceful shutdown\<close>

text \<open>C28: Graceful shutdown. Whatever the order of the goroutines, the dispatcher never sends on the
  closed channel; the channel is closed only when all loops have returned; and when Start returns,
  every job the node has claimed has been executed exactly as often as it was claimed: a job that was
  claimed before the signal is not lost.\<close>

theorem graceful_shutdown:
  assumes "node_step\<^sup>*\<^sup>* (node_start n) s" and "0 < n"
  shows "n_disp s \<noteq> DPanic \<and> (pl_closed (n_pool s) = (n_main s = MDrain \<or> n_main s = MDone)) \<and>
    (\<not> pl_closed (n_pool s) \<or> loops_done s) \<and>
    (n_main s \<noteq> MDone \<or> mset (pl_executed (n_pool s)) = mset (n_claimed s))"
proof -
  have inv: "node_inv n s" using node_inv_reach [OF assms(1) node_inv_start] .
  have "mset (pl_executed (n_pool s)) = mset (n_claimed s)" if "n_main s = MDone"
    using inv that pool_inv_drained [of n "n_pool s"] assms(2) by (simp add: node_inv_def loops_done_def)
  then show ?thesis using inv by (auto simp: node_inv_def)
qed

text \<open>Steps of the node that leave the main goroutine and the cancellation alone.\<close>

definition progress :: "node \<Rightarrow> node \<Rightarrow> bool" where
  "progress s s' \<longleftrightarrow> node_step\<^sup>*\<^sup>* s s' \<and> n_cancelled s' = n_cancelled s \<and> n_main s' = n_main s"

lemma progress_refl: "progress s s"
  by (simp add: progress_def)

lemma progress_trans: "progress s s' \<Longrightarrow> progress s' s'' \<Longrightarrow> progress s s''"
  by (auto simp: progress_def)

lemma progress_step: "node_step s s' \<Longrightarrow> n_cancelled s' = n_cancelled s \<Longrightarrow> n_main s' = n_main s \<Longrightarrow> progress s s'"
  by (simp add: progress_def)

lemma progress_inv: "progress s s' \<Longrightarrow> node_inv n s \<Longrightarrow> node_inv n s'"
  using node_inv_reach by (auto simp: progress_def)

lemma busy_pool_step:
  assumes "pool_inv n p" and "\<not> pl_closed p" and "pl_chan p \<noteq> []" and "0 < n"
  shows "\<exists>p'. worker_step 0 p = Some p'"
proof -
  have "pl_workers p \<noteq> []" using assms(1,4) by (auto simp: pool_inv_def)
  then have "pl_workers p ! 0 \<in> set (pl_workers p)" by simp
  then have "pl_workers p ! 0 \<noteq> WExit" using assms(1,2) by (auto simp: pool_inv_def)
  then show ?thesis using assms(3) \<open>pl_workers p \<noteq> []\<close>
    by (cases "pl_workers p ! 0"; cases "pl_chan p") (auto simp: worker_step_def)
qed

lemma submit_one:
  assumes "node_inv n s" and "0 < n" and "n_disp s = DSubmit (j # js)"
  shows "\<exists>s'. progress s s' \<and> n_disp s' = DSubmit js \<and> n_loops s' = n_loops s"
  using assms
proof (induction "drain_measure (n_pool s)" arbitrary: s rule: less_induct)
  case less
  have c: "\<not> pl_closed (n_pool s)" using less.prems by (auto simp: node_inv_def loops_done_def)
  show ?case
  proof (cases "length (pl_chan (n_pool s)) < pl_concurrency (n_pool s)")
    case True
    then obtain p where p: "Pool_Submit j (n_pool s) = Sent p" using c by (simp add: Pool_Submit_def)
    have "node_step s (s\<lparr>n_pool := p, n_disp := DSubmit js\<rparr>)"
      using node_step.disp_submit [OF less.prems(3)] p by (simp add: submit_step_def)
    from progress_step [OF this] show ?thesis by (intro exI [of _ "s\<lparr>n_pool := p, n_disp := DSubmit js\<rparr>"]) simp
  next
    case False
    have inv: "pool_inv n (n_pool s)" using less.prems(1) by (simp add: node_inv_def)
    then have "pl_chan (n_pool s) \<noteq> []" using False less.prems(2) by (auto simp: pool_inv_def)
    then obtain p where p: "worker_step 0 (n_pool s) = Some p" using busy_pool_step [OF inv c] less.prems(2) by blast
    let ?s = "s\<lparr>n_pool := p\<rparr>"
    have st: "progress s ?s" using progress_step [OF node_step.work [OF p]] by simp
    obtain s' where "progress ?s s'" "n_disp s' = DSubmit js" "n_loops s' = n_loops ?s"
      using less.hyps [of ?s] worker_step_measure [OF p] progress_inv [OF st less.prems(1)] less.prems(2,3) by auto
    then show ?thesis using progress_trans [OF st] by auto
  qed
qed

lemma submit_all:
  "node_inv n s \<Longrightarrow> 0 < n \<Longrightarrow> n_disp s = DSubmit js \<Longrightarrow>
   \<exists>s'. progress s s' \<and> n_disp s' = DSubmit [] \<and> n_loops s' = n_loops s"
proof (induction js arbitrary: s)
  case Nil
  then show ?case using progress_refl by blast
next
  case (Cons j js)
  obtain s1 where s1: "progress s s1" "n_disp s1 = DSubmit js" "n_loops s1 = n_loops s"
    using submit_one [OF Cons.prems] by blast
  obtain s2 where "progress s1 s2" "n_disp s2 = DSubmit []" "n_loops s2 = n_loops s1"
    using Cons.IH [OF progress_inv [OF s1(1) Cons.prems(1)] Cons.prems(2) s1(2)] by blast
  then show ?case using progress_trans [OF s1(1)] s1(3) by auto
qed

lemma disp_exits:
  assumes "node_inv n s" and "0 < n" and "n_cancelled s"
  shows "\<exists>s'. progress s s' \<and> n_disp s' = DExit \<and> n_loops s' = n_loops s"
proof -
  have wait: "\<exists>s'. progress s s' \<and> n_disp s' = DExit \<and> n_loops s' = n_loops s" if "n_disp s = DWait" "n_cancelled s" for s
    using progress_step [OF node_step.disp_leave [OF that(2,1)]]
    by (intro exI [of _ "s\<lparr>n_disp := DExit\<rparr>"]) simp
  have tick: "\<exists>s'. progress s s' \<and> n_disp s' = DExit \<and> n_loops s' = n_loops s" if "n_disp s = DTick" "n_cancelled s" for s
    using wait [of "s\<lparr>n_disp := DWait\<rparr>"] progress_step [OF node_step.disp_end [OF that(1)]] that(2) progress_trans
    by fastforce
  have idle: "\<exists>s'. progress s s' \<and> n_disp s' = DExit \<and> n_loops s' = n_loops s" if "n_disp s = DSubmit []" "n_cancelled s" for s
    using tick [of "s\<lparr>n_disp := DTick\<rparr>"] progress_step [OF node_step.disp_next [OF that(1)]] that(2) progress_trans
    by fastforce
  show ?thesis
  proof (cases "n_disp s")
    case (DSubmit js)
    then obtain s1 where s1: "progress s s1" "n_disp s1 = DSubmit []" "n_loops s1 = n_loops s"
      using submit_all [OF assms(1,2)] by blast
    then show ?thesis using idle [of s1] assms(3) progress_trans [OF s1(1)] by (auto simp: progress_def)
  next
    case DPanic
    then show ?thesis using assms(1) by (simp add: node_inv_def)
  next
    case DExit
    then show ?thesis using progress_refl by blast
  qed (use wait tick assms(3) in blast)+
qed

lemma one_loop_exits:
  assumes "n_cancelled s" and "i < length (n_loops s)"
  shows "\<exists>s'. progress s s' \<and> n_loops s' = (n_loops s)[i := LExit] \<and> n_disp s' = n_disp s"
proof (cases "n_loops s ! i")
  case LWait
  show ?thesis using progress_step [OF node_step.leave [OF assms LWait]]
    by (intro exI [of _ "s\<lparr>n_loops := (n_loops s)[i := LExit]\<rparr>"]) simp
next
  case LTick
  let ?s = "s\<lparr>n_loops := (n_loops s)[i := LWait]\<rparr>"
  have 1: "progress s ?s" using progress_step [OF node_step.body [OF assms(2) LTick]] by simp
  have "progress ?s (?s\<lparr>n_loops := (n_loops ?s)[i := LExit]\<rparr>)"
    by (rule progress_step [OF node_step.leave]) (simp_all add: assms)
  then show ?thesis using progress_trans [OF 1]
    by (intro exI [of _ "?s\<lparr>n_loops := (n_loops ?s)[i := LExit]\<rparr>"]) simp
next
  case LExit
  then have "(n_loops s)[i := LExit] = n_loops s" by (metis list_update_id)
  then show ?thesis using progress_refl [of s] by (intro exI [of _ s]) simp
qed

lemma loops_exit:
  "n_cancelled s \<Longrightarrow> k \<le> length (n_loops s) \<Longrightarrow>
   \<exists>s'. progress s s' \<and> n_disp s' = n_disp s \<and> length (n_loops s') = length (n_loops s) \<and>
     list_all (\<lambda>l. l = LExit) (take k (n_loops s'))"
proof (induction k)
  case 0
  then show ?case using progress_refl by auto
next
  case (Suc k)
  then obtain s1 where s1: "progress s s1" "n_disp s1 = n_disp s" "length (n_loops s1) = length (n_loops s)"
    "list_all (\<lambda>l. l = LExit) (take k (n_loops s1))" by auto
  obtain s2 where s2: "progress s1 s2" "n_loops s2 = (n_loops s1)[k := LExit]" "n_disp s2 = n_disp s1"
    using one_loop_exits [of s1 k] s1(1,3) Suc.prems by (auto simp: progress_def)
  have "take (Suc k) (n_loops s2) = take k (n_loops s1) @ [LExit]"
    using s2(2) s1(3) Suc.prems(2) by (simp add: take_Suc_conv_app_nth)
  then show ?case using s1 s2 progress_trans [OF s1(1) s2(1)] by (intro exI [of _ s2]) simp
qed

text \<open>What the goroutines of a closed pool do, they do in the node.\<close>

lemma drain_in_node:
  "drain_run is (n_pool s) = Some p \<Longrightarrow> progress s (s\<lparr>n_pool := p\<rparr>)"
proof (induction "is" arbitrary: s)
  case (Cons i "is")
  then obtain q where q: "worker_step i (n_pool s) = Some q" "drain_run is q = Some p" by (auto split: option.splits)
  have "progress s (s\<lparr>n_pool := q\<rparr>)" using progress_step [OF node_step.work [OF q(1)]] by simp
  from progress_trans [OF this Cons.IH [of "s\<lparr>n_pool := q\<rparr>"]] q(2) show ?case by simp
next
  case Nil
  then have "s\<lparr>n_pool := p\<rparr> = s" by simp
  then show ?case using progress_refl by simp
qed

lemma drain_to_done:
  assumes "node_inv n s" and "n_main s = MDrain"
  shows "\<exists>s'. node_step\<^sup>*\<^sup>* s s' \<and> n_main s' = MDone"
proof -
  have "pl_closed (n_pool s)" using assms by (simp add: node_inv_def)
  then obtain "is" p where p: "drain_run is (n_pool s) = Some p" "Pool_stopped p" using drain_run_exists by blast
  have "node_step\<^sup>*\<^sup>* s (s\<lparr>n_pool := p\<rparr>)" using drain_in_node [OF p(1)] by (simp add: progress_def)
  moreover have "node_step (s\<lparr>n_pool := p\<rparr>) (s\<lparr>n_pool := p, n_main := MDone\<rparr>)"
    using node_step.stopped [of "s\<lparr>n_pool := p\<rparr>"] assms(2) p(2) by simp
  ultimately have "node_step\<^sup>*\<^sup>* s (s\<lparr>n_pool := p, n_main := MDone\<rparr>)" by (rule rtranclp.rtrancl_into_rtrancl)
  then show ?thesis by (intro exI [of _ "s\<lparr>n_pool := p, n_main := MDone\<rparr>"]) simp
qed

lemma wait_to_done:
  assumes "node_inv n s" and "0 < n" and "n_main s = MWait"
  shows "\<exists>s'. node_step\<^sup>*\<^sup>* s s' \<and> n_main s' = MDone"
proof -
  have c: "n_cancelled s" using assms(1,3) by (simp add: node_inv_def)
  obtain s1 where s1: "progress s s1" "n_disp s1 = DExit" using disp_exits [OF assms(1,2) c] by blast
  obtain s2 where s2: "progress s1 s2" "n_disp s2 = DExit" "list_all (\<lambda>l. l = LExit) (n_loops s2)"
    using loops_exit [of s1 "length (n_loops s1)"] s1 c by (auto simp: progress_def)
  have p: "progress s s2" by (rule progress_trans [OF s1(1) s2(1)])
  let ?s3 = "s2\<lparr>n_main := MDrain, n_pool := Pool_close (n_pool s2)\<rparr>"
  have st: "node_step s2 ?s3"
    using node_step.stop [of s2] p assms(3) s2(2,3) by (simp add: loops_done_def progress_def)
  obtain s' where "node_step\<^sup>*\<^sup>* ?s3 s'" "n_main s' = MDone"
    using drain_to_done [OF node_inv_step [OF st progress_inv [OF p assms(1)]]] by auto
  moreover have "node_step\<^sup>*\<^sup>* s ?s3" using p st by (auto simp: progress_def)
  ultimately show ?thesis by (meson rtranclp_trans)
qed

text \<open>C29: Shutdown does not deadlock: from every reachable state of a cancelled node, a dispatcher
  blocked on a full pool and a half-drained pool included, Start can still return.\<close>

theorem shutdown_can_finish:
  assumes "node_step\<^sup>*\<^sup>* (node_start n) s" and "0 < n" and "n_cancelled s"
  shows "\<exists>s'. node_step\<^sup>*\<^sup>* s s' \<and> n_main s' = MDone"
proof -
  have inv: "node_inv n s" using node_inv_reach [OF assms(1) node_inv_start] .
  show ?thesis
  proof (cases "n_main s")
    case MRun
    have st: "node_step s (s\<lparr>n_main := MWait\<rparr>)" by (rule node_step.shutdown [OF assms(3) MRun])
    obtain s' where "node_step\<^sup>*\<^sup>* (s\<lparr>n_main := MWait\<rparr>) s'" "n_main s' = MDone"
      using wait_to_done [OF node_inv_step [OF st inv] assms(2)] by auto
    then show ?thesis using st by (meson converse_rtranclp_into_rtranclp)
  qed (use inv assms(2) wait_to_done drain_to_done in blast)+
qed

definition cancelled_node :: node where
  "cancelled_node = (node_start 1)\<lparr>n_cancelled := True\<rparr>"

lemma cancelled_node_reach: "node_step\<^sup>*\<^sup>* (node_start 1) cancelled_node"
  unfolding cancelled_node_def by (rule r_into_rtranclp) (rule node_step.cancel)

theorem graceful_shutdown_witness:
  "n_disp cancelled_node \<noteq> DPanic \<and> \<not> pl_closed (n_pool cancelled_node)"
  using graceful_shutdown [OF cancelled_node_reach] by (simp add: cancelled_node_def node_start_def)

theorem shutdown_can_finish_witness: "\<exists>s'. node_step\<^sup>*\<^sup>* cancelled_node s' \<and> n_main s' = MDone"
  using shutdown_can_finish [OF cancelled_node_reach] by (simp add: cancelled_node_def)

end
