(* ===== verification/Config.thy ===== *)
theory Config
  imports WorkerService AuthService
begin

text \<open>
  The configuration (\<open>internal/config/config.go\<close>): the sections of Config, the connection
  strings built from them, the defaults, and Load. Reading the environment is viper's: \<open>env\<close>
  gives the non-empty variables of the process and the .env file, and the conversions of a value to
  int, duration, bool and string are the fields of \<open>casts\<close>.
\<close>

record AppConfig =
  AC_Env :: string
  AC_Port :: int
  AC_BaseURL :: string

record PostgresConfig =
  PC_Host :: string
  PC_Port :: int
  PC_User :: string
  PC_Password :: string
  PC_DBName :: string
  PC_SSLMode :: string
  PC_MaxOpenConns :: int
  PC_MaxIdleConns :: int
  PC_ConnMaxLifetime :: duration

record RedisConfig =
  RC_Host :: string
  RC_Port :: int
  RC_Password :: string
  RC_DB :: int
  RC_MaxRetries :: int
  RC_PoolSize :: int

record SchedulerConfig =
  SC_TickInterval :: duration
  SC_CronLockTTL :: duration

record MetricsConfig =
  MC_FlushInterval :: duration

record LoggerConfig =
  LC_Level :: string
  LC_Format :: string

record CORSConfig =
  CC_AllowedOrigins :: "string list"

record RateLimitConfig =
  RL_Enabled :: bool
  RL_RequestsPerMinute :: int

record Config =
  Cfg_App :: AppConfig
  Cfg_JWT :: JWTConfig
  Cfg_Postgres :: PostgresConfig
  Cfg_Redis :: RedisConfig
  Cfg_Worker :: WorkerConfig
  Cfg_Scheduler :: SchedulerConfig
  Cfg_Metrics :: MetricsConfig
  Cfg_Logger :: LoggerConfig
  Cfg_CORS :: CORSConfig
  Cfg_RateLimit :: RateLimitConfig

section \<open>Connection strings\<close>

definition DSN :: "PostgresConfig \<Rightarrow> string" where
  "DSN c = ''host='' @ PC_Host c @ '' port='' @ show_int (PC_Port c) @ '' user='' @ PC_User c @
     '' password='' @ PC_Password c @ '' dbname='' @ PC_DBName c @ '' sslmode='' @ PC_SSLMode c"

definition URL :: "PostgresConfig \<Rightarrow> string" where
  "URL c = ''postgres://'' @ PC_User c @ '':'' @ PC_Password c @ ''@'' @ PC_Host c @ '':'' @
     show_int (PC_Port c) @ ''/'' @ PC_DBName c @ ''?sslmode='' @ PC_SSLMode c"

definition Addr :: "RedisConfig \<Rightarrow> string" where
  "Addr c = RC_Host c @ '':'' @ show_int (RC_Port c)"

section \<open>Reading the environment\<close>

datatype vval = VStr string | VInt int | VBool bool

record casts =
  GetString :: "vval option \<Rightarrow> string"
  GetInt :: "vval option \<Rightarrow> int"
  GetDuration :: "vval option \<Rightarrow> duration"
  GetBool :: "vval option \<Rightarrow> bool"

definition cfg_setDefaults :: "(string \<times> vval) list" where
  "cfg_setDefaults = [
     (''APP_ENV'', VStr ''development''), (''APP_PORT'', VInt 8080),
     (''APP_BASE_URL'', VStr ''http://localhost:8080''),
     (''JWT_ACCESS_TOKEN_TTL'', VStr ''15m''), (''JWT_REFRESH_TOKEN_TTL'', VStr ''168h''),
     (''POSTGRES_HOST'', VStr ''localhost''), (''POSTGRES_PORT'', VInt 5432),
     (''POSTGRES_SSL_MODE'', VStr ''disable''), (''POSTGRES_MAX_OPEN_CONNS'', VInt 25),
     (''POSTGRES_MAX_IDLE_CONNS'', VInt 5), (''POSTGRES_CONN_MAX_LIFETIME'', VStr ''5m''),
     (''REDIS_HOST'', VStr ''localhost''), (''REDIS_PORT'', VInt 6379), (''REDIS_DB'', VInt 0),
     (''REDIS_MAX_RETRIES'', VInt 3), (''REDIS_POOL_SIZE'', VInt 10),
     (''WORKER_CONCURRENCY'', VInt 10), (''WORKER_POLL_INTERVAL'', VStr ''1s''),
     (''WORKER_HEARTBEAT_INTERVAL'', VStr ''5s''), (''WORKER_HEARTBEAT_TIMEOUT'', VStr ''30s''),
     (''WORKER_VISIBILITY_TIMEOUT'', VStr ''5m''), (''WORKER_DRAIN_TIMEOUT'', VStr ''60s''),
     (''WORKER_MAX_BATCH_SIZE'', VInt 10),
     (''SCHEDULER_TICK_INTERVAL'', VStr ''1s''), (''SCHEDULER_CRON_LOCK_TTL'', VStr ''55s''),
     (''METRICS_FLUSH_INTERVAL'', VStr ''60s''),
     (''LOG_LEVEL'', VStr ''info''), (''LOG_FORMAT'', VStr ''json''),
     (''CORS_ALLOWED_ORIGINS'', VStr ''http://localhost:3000''),
     (''RATE_LIMIT_ENABLED'', VBool True), (''RATE_LIMIT_REQUESTS_PER_MIN'', VInt 120)]"

definition viper_value :: "(string \<Rightarrow> string option) \<Rightarrow> string \<Rightarrow> vval option" where
  "viper_value env key = (case env key of Some s \<Rightarrow> Some (VStr s) | None \<Rightarrow> map_of cfg_setDefaults key)"

text \<open>\<open>strings.Split(s, ",")\<close>\<close>

fun split_comma :: "string \<Rightarrow> string list" where
  "split_comma [] = [[]]"
| "split_comma (c # cs) = (if c = CHR '','' then [] # split_comma cs
     else case split_comma cs of [] \<Rightarrow> [[c]] | w # ws \<Rightarrow> (c # w) # ws)"

definition cfg_validate :: "Config \<Rightarrow> goerr option" where
  "cfg_validate cfg =
     (if JWT_Secret (Cfg_JWT cfg) = [] then Some (PlainErr ''JWT_SECRET must be set'')
      else if length (JWT_Secret (Cfg_JWT cfg)) < 32 then Some (PlainErr ''JWT_SECRET must be at least 32 characters'')
      else if PC_User (Cfg_Postgres cfg) = [] then Some (PlainErr ''POSTGRES_USER must be set'')
      else if PC_DBName (Cfg_Postgres cfg) = [] then Some (PlainErr ''POSTGRES_DB must be set'')
      else None)"

definition read_config :: "casts \<Rightarrow> (string \<Rightarrow> string option) \<Rightarrow> Config" where
  "read_config cs env =
    (let str = \<lambda>k. GetString cs (viper_value env k); num = \<lambda>k. GetInt cs (viper_value env k);
         dur = \<lambda>k. GetDuration cs (viper_value env k)
     in \<lparr>Cfg_App = \<lparr>AC_Env = str ''APP_ENV'', AC_Port = num ''APP_PORT'', AC_BaseURL = str ''APP_BASE_URL''\<rparr>,
       Cfg_JWT = \<lparr>JWT_Secret = str ''JWT_SECRET'', AccessTokenTTL = dur ''JWT_ACCESS_TOKEN_TTL'',
         RefreshTokenTTL = dur ''JWT_REFRESH_TOKEN_TTL''\<rparr>,
       Cfg_Postgres = \<lparr>PC_Host = str ''POSTGRES_HOST'', PC_Port = num ''POSTGRES_PORT'',
         PC_User = str ''POSTGRES_USER'', PC_Password = str ''POSTGRES_PASSWORD'',
         PC_DBName = str ''POSTGRES_DB'', PC_SSLMode = str ''POSTGRES_SSL_MODE'',
         PC_MaxOpenConns = num ''POSTGRES_MAX_OPEN_CONNS'', PC_MaxIdleConns = num ''POSTGRES_MAX_IDLE_CONNS'',
         PC_ConnMaxLifetime = dur ''POSTGRES_CONN_MAX_LIFETIME''\<rparr>,
       Cfg_Redis = \<lparr>RC_Host = str ''REDIS_HOST'', RC_Port = num ''REDIS_PORT'',
         RC_Password = str ''REDIS_PASSWORD'', RC_DB = num ''REDIS_DB'',
         RC_MaxRetries = num ''REDIS_MAX_RETRIES'', RC_PoolSize = num ''REDIS_POOL_SIZE''\<rparr>,
       Cfg_Worker = \<lparr>WC_Concurrency = num ''WORKER_CONCURRENCY'', WC_PollInterval = dur ''WORKER_POLL_INTERVAL'',
         WC_HeartbeatInterval = dur ''WORKER_HEARTBEAT_INTERVAL'', WC_HeartbeatTimeout = dur ''WORKER_HEARTBEAT_TIMEOUT'',
         WC_VisibilityTimeout = dur ''WORKER_VISIBILITY_TIMEOUT'', WC_DrainTimeout = dur ''WORKER_DRAIN_TIMEOUT'',
         WC_MaxBatchSize = num ''WORKER_MAX_BATCH_SIZE''\<rparr>,
       Cfg_Scheduler = \<lparr>SC_TickInterval = dur ''SCHEDULER_TICK_INTERVAL'', SC_CronLockTTL = dur ''SCHEDULER_CRON_LOCK_TTL''\<rparr>,
       Cfg_Metrics = \<lparr>MC_FlushInterval = dur ''METRICS_FLUSH_INTERVAL''\<rparr>,
       Cfg_Logger = \<lparr>LC_Level = str ''LOG_LEVEL'', LC_Format = str ''LOG_FORMAT''\<rparr>,
       Cfg_CORS = \<lparr>CC_AllowedOrigins = split_comma (str ''CORS_ALLOWED_ORIGINS'')\<rparr>,
       Cfg_RateLimit = \<lparr>RL_Enabled = GetBool cs (viper_value env ''RATE_LIMIT_ENABLED''),
         RL_RequestsPerMinute = num ''RATE_LIMIT_REQUESTS_PER_MIN''\<rparr>\<rparr>)"

definition Load :: "casts \<Rightarrow> (string \<Rightarrow> string option) \<Rightarrow> Config res" where
  "Load cs env = (let cfg = read_config cs env in
     case cfg_validate cfg of Some err \<Rightarrow> Inl err | None \<Rightarrow> Inr cfg)"

text \<open>\<open>joinStrings\<close> of the API's main, which undoes the split for the CORS middleware.\<close>

fun join_loop :: "nat \<Rightarrow> string list \<Rightarrow> string \<Rightarrow> string" where
  "join_loop i [] result = result"
| "join_loop i (s # ss) result = join_loop (Suc i) ss ((if 0 < i then result @ '','' else result) @ s)"

definition joinStrings :: "string list \<Rightarrow> string" where
  "joinStrings ss = join_loop 0 ss []"

section \<open>Properties\<close>

text \<open>The cast functions as viper documents them for the values used here.\<close>

definition casts_ok :: "casts \<Rightarrow> bool" where
  "casts_ok cs \<longleftrightarrow> GetString cs None = [] \<and> (\<forall>s. GetString cs (Some (VStr s)) = s) \<and>
     (\<forall>n. GetInt cs (Some (VInt n)) = n) \<and>
     (\<forall>b. GetBool cs (Some (VBool b)) = b)"

fun join_comma :: "string list \<Rightarrow> string" where
  "join_comma [] = []"
| "join_comma [w] = w"
| "join_comma (w # ws) = w @ CHR '','' # join_comma ws"

lemma join_loop_Suc: "join_loop (Suc i) ss r = r @ concat (map (\<lambda>s. CHR '','' # s) ss)"
  by (induction ss arbitrary: i r) auto

lemma join_comma_Cons: "join_comma (s # ss) = s @ concat (map (\<lambda>s. CHR '','' # s) ss)"
  by (induction ss arbitrary: s) auto

lemma joinStrings_join: "joinStrings ss = join_comma ss"
proof (cases ss)
  case (Cons s ss')
  then show ?thesis unfolding joinStrings_def Cons join_comma_Cons by (simp add: join_loop_Suc)
qed (simp add: joinStrings_def)

lemma split_comma_nonempty [simp]: "split_comma s \<noteq> []"
  by (induction s) (auto split: list.splits)

lemma join_split: "join_comma (split_comma s) = s"
proof (induction s)
  case (Cons c s)
  obtain w ws where w: "split_comma s = w # ws" by (cases "split_comma s") auto
  then show ?case using Cons by (cases ws) auto
qed simp

lemma split_no_comma: "CHR '','' \<notin> set w \<Longrightarrow> split_comma w = [w]"
  by (induction w) auto

lemma split_comma_append: "CHR '','' \<notin> set w \<Longrightarrow> split_comma (w @ CHR '','' # s) = w # split_comma s"
  by (induction w) auto

lemma split_join: "ws \<noteq> [] \<Longrightarrow> \<forall>w\<in>set ws. CHR '','' \<notin> set w \<Longrightarrow> split_comma (join_comma ws) = ws"
  by (induction ws rule: join_comma.induct) (auto simp: split_no_comma split_comma_append)

text \<open>The allowed origins survive the two conversions between the environment variable and
  the CORS middleware: joining the split text gives the text back, and splitting the joined origins
  (none of which contains a comma) gives the origins back.\<close>

theorem origins_roundtrip:
  "joinStrings (split_comma s) = s \<and>
   (ws = [] \<or> (\<exists>w\<in>set ws. CHR '','' \<in> set w) \<or> split_comma (joinStrings ws) = ws)"
  using join_split [of s] split_join [of ws] unfolding joinStrings_join by blast

text \<open>Load answers a configuration exactly when the secret has at least 32 characters and the
  database user and name are set, and reports the first of these that is missing; everything else has
  a value, the default where the environment gives none.\<close>

theorem load_outcomes:
  assumes "casts_ok cs"
  shows "(Load cs env = Inr cfg \<longleftrightarrow> cfg = read_config cs env \<and>
      (\<exists>k. env ''JWT_SECRET'' = Some k \<and> 32 \<le> length k) \<and>
      (\<exists>u. env ''POSTGRES_USER'' = Some u \<and> u \<noteq> []) \<and> (\<exists>n. env ''POSTGRES_DB'' = Some n \<and> n \<noteq> [])) \<and>
    (env ''WORKER_CONCURRENCY'' \<noteq> None \<or> WC_Concurrency (Cfg_Worker (read_config cs env)) = 10) \<and>
    (env ''WORKER_MAX_BATCH_SIZE'' \<noteq> None \<or> WC_MaxBatchSize (Cfg_Worker (read_config cs env)) = 10)"
proof -
  have k: "JWT_Secret (Cfg_JWT (read_config cs env)) = (case env ''JWT_SECRET'' of None \<Rightarrow> [] | Some s \<Rightarrow> s)"
    "PC_User (Cfg_Postgres (read_config cs env)) = (case env ''POSTGRES_USER'' of None \<Rightarrow> [] | Some s \<Rightarrow> s)"
    "PC_DBName (Cfg_Postgres (read_config cs env)) = (case env ''POSTGRES_DB'' of None \<Rightarrow> [] | Some s \<Rightarrow> s)"
    using assms by (simp_all add: read_config_def Let_def viper_value_def cfg_setDefaults_def casts_ok_def
        split: option.splits)
  have c: "env ''WORKER_CONCURRENCY'' \<noteq> None \<or> WC_Concurrency (Cfg_Worker (read_config cs env)) = 10"
    "env ''WORKER_MAX_BATCH_SIZE'' \<noteq> None \<or> WC_MaxBatchSize (Cfg_Worker (read_config cs env)) = 10"
    using assms by (auto simp: read_config_def Let_def viper_value_def cfg_setDefaults_def casts_ok_def)
  have v: "cfg_validate (read_config cs env) = None \<longleftrightarrow>
      (\<exists>k. env ''JWT_SECRET'' = Some k \<and> 32 \<le> length k) \<and>
      (\<exists>u. env ''POSTGRES_USER'' = Some u \<and> u \<noteq> []) \<and> (\<exists>n. env ''POSTGRES_DB'' = Some n \<and> n \<noteq> [])"
    unfolding cfg_validate_def k by (auto split: option.splits)
  show ?thesis unfolding v [symmetric] Load_def Let_def using c by (auto split: option.splits)
qed

definition plain_casts :: casts where
  "plain_casts = \<lparr>
     GetString = (\<lambda>v. case v of Some (VStr s) \<Rightarrow> s | _ \<Rightarrow> []),
     GetInt = (\<lambda>v. case v of Some (VInt n) \<Rightarrow> n
        | Some (VStr s) \<Rightarrow> if s = ''-1'' then - 1 else 0 | _ \<Rightarrow> 0),
     GetDuration = (\<lambda>_. 0), GetBool = (\<lambda>v. case v of Some (VBool b) \<Rightarrow> b | _ \<Rightarrow> False)\<rparr>"

lemma plain_casts_ok: "casts_ok plain_casts"
  by (simp add: casts_ok_def plain_casts_def)

definition plain_vars :: "(string \<times> string) list" where
  "plain_vars = [(''JWT_SECRET'', ''0123456789abcdef0123456789abcdef''), (''POSTGRES_USER'', ''app''),
     (''POSTGRES_DB'', ''jobs'')]"

theorem origins_roundtrip_witness:
  "joinStrings (split_comma ''http://a,http://b'') = ''http://a,http://b'' \<and>
   split_comma (joinStrings [''http://a'', ''http://b'']) = [''http://a'', ''http://b'']"
  using origins_roundtrip [of "''http://a,http://b''" "[''http://a'', ''http://b'']"] by auto

theorem load_outcomes_witness:
  "Load plain_casts (map_of plain_vars) = Inr (read_config plain_casts (map_of plain_vars)) \<and>
   WC_Concurrency (Cfg_Worker (read_config plain_casts (map_of plain_vars))) = 10"
  using load_outcomes [OF plain_casts_ok, of "map_of plain_vars" "read_config plain_casts (map_of plain_vars)"]
  by (simp add: plain_vars_def)

section \<open>What Load does not check\<close>

lemma no_slots_no_claims:
  assumes "node_step\<^sup>*\<^sup>* (node_start 0) s"
  shows "n_claimed s = []"
proof -
  have "node_inv 0 s \<and> n_claimed s = []"
    using assms
  proof (induction rule: rtranclp_induct)
    case base
    then show ?case using node_inv_start [of 0] by (simp add: node_start_def)
  next
    case (step s t)
    have "\<not> 0 < AvailableWorkers (n_pool s)"
      using step.IH counted_le [of "pl_workers (n_pool s)"]
      by (simp add: node_inv_def pool_inv_def AvailableWorkers_def)
    with step.hyps(2) have "n_claimed t = n_claimed s"
      by (cases rule: node_step.cases) (auto simp: submit_step_def split: send.splits)
    then show ?case using step.IH node_inv_step [OF step.hyps(2)] by simp
  qed
  then show ?thesis by simp
qed

text \<open>Load does not look at the worker section: a negative concurrency is accepted and then panics
  in NewService, where the job channel is made; a concurrency of zero is accepted and gives a node that
  never claims a job, in any run.\<close>

theorem concurrency_unchecked:
  assumes "Load cs env = Inr cfg" and "WC_Concurrency (Cfg_Worker cfg) = n" and "n \<le> 0"
  shows "(0 \<le> n \<or> NewService i (Cfg_Worker cfg) = None) \<and>
    (n < 0 \<or> (\<exists>sv. NewService i (Cfg_Worker cfg) = Some sv \<and> S_pool sv = NewPool 0)) \<and>
    (\<not> node_step\<^sup>*\<^sup>* (node_start 0) s \<or> n_claimed s = [])"
  using assms(2,3) no_slots_no_claims by (auto simp: NewService_def)

definition negative_vars :: "(string \<times> string) list" where
  "negative_vars = (''WORKER_CONCURRENCY'', ''-1'') # plain_vars"

theorem concurrency_unchecked_witness:
  "\<exists>cfg. Load plain_casts (map_of negative_vars) = Inr cfg \<and> NewService 1 (Cfg_Worker cfg) = None"
proof -
  have l: "Load plain_casts (map_of negative_vars) = Inr (read_config plain_casts (map_of negative_vars))"
    by (simp add: Load_def Let_def cfg_validate_def read_config_def viper_value_def plain_casts_def
        negative_vars_def plain_vars_def)
  have n: "WC_Concurrency (Cfg_Worker (read_config plain_casts (map_of negative_vars))) = - 1"
    by (simp add: read_config_def Let_def viper_value_def plain_casts_def negative_vars_def)
  show ?thesis using concurrency_unchecked [OF l n] l by simp
qed

text \<open>The connection string is built without quoting: a blank in the password ends it, and the
  text after it is read as further settings. Two configurations with different databases give the same
  connection string.\<close>

theorem dsn_not_injective:
  "\<exists>c c'. PC_DBName c \<noteq> PC_DBName c' \<and> PC_Password c \<noteq> PC_Password c' \<and> DSN c = DSN c'"
proof -
  let ?c = "\<lparr>PC_Host = ''db'', PC_Port = 5432, PC_User = ''app'', PC_Password = ''p dbname=other'',
    PC_DBName = ''jobs'', PC_SSLMode = ''disable'', PC_MaxOpenConns = 25, PC_MaxIdleConns = 5, PC_ConnMaxLifetime = 0\<rparr>"
  let ?c' = "?c\<lparr>PC_Password := ''p'', PC_DBName := ''other dbname=jobs''\<rparr>"
  have "PC_DBName ?c \<noteq> PC_DBName ?c' \<and> PC_Password ?c \<noteq> PC_Password ?c' \<and> DSN ?c = DSN ?c'"
    by (simp add: DSN_def)
  then show ?thesis by blast
qed

end
