(* ===== verification/Startup.thy ===== *)
theory Startup
  imports Config
begin

text \<open>
  Starting up: the connection loops of \<open>internal/platform/db\<close> and
  \<open>internal/platform/cache\<close>, and the migration runner. The outcome of each attempt (the pool
  constructor, the ping, the cancellation of the startup context during the pause after it) is the
  environment; times are in milliseconds.
\<close>

datatype 'p started = Started 'p | StartErr goerr

section \<open>PostgreSQL\<close>

record connect_env =
  ce_parse :: "string \<Rightarrow> goerr option"
  ce_new :: "nat \<Rightarrow> goerr option"
  ce_ping :: "nat \<Rightarrow> goerr option"
  ce_done :: "nat \<Rightarrow> goerr option"

text \<open>The pools opened and closed so far, and the time spent pausing.\<close>

record connect_trace =
  ct_opened :: nat
  ct_closed :: nat
  ct_waited :: nat

definition maxAttempts :: nat where
  "maxAttempts = 10"

text \<open>One try: the error it leaves, none if the pool answers the ping.\<close>

definition try_connect :: "connect_env \<Rightarrow> nat \<Rightarrow> connect_trace \<Rightarrow> goerr option \<times> connect_trace" where
  "try_connect env attempt t = (case ce_new env attempt of
       Some err \<Rightarrow> (Some err, t)
     | None \<Rightarrow> (let t' = t\<lparr>ct_opened := ct_opened t + 1\<rparr> in
         case ce_ping env attempt of
           None \<Rightarrow> (None, t')
         | Some pingErr \<Rightarrow> (Some pingErr, t'\<lparr>ct_closed := ct_closed t' + 1\<rparr>)))"

function connect_loop :: "connect_env \<Rightarrow> nat \<Rightarrow> goerr option \<Rightarrow> connect_trace \<Rightarrow> goerr option started \<times> connect_trace" where
  "connect_loop env attempt err t =
     (if maxAttempts < attempt then (Started err, t)
      else case try_connect env attempt t of
        (None, t') \<Rightarrow> (Started None, t')
      | (Some e, t') \<Rightarrow>
          (case ce_done env attempt of
             Some cancelled \<Rightarrow> (StartErr cancelled, t')
           | None \<Rightarrow> connect_loop env (attempt + 1) (Some e)
               (t'\<lparr>ct_waited := ct_waited t' + attempt * attempt * 500\<rparr>)))"
  by pat_completeness auto
termination by (relation "measure (\<lambda>(env, attempt, err, t). Suc maxAttempts - attempt)") auto

declare connect_loop.simps [simp del]

definition no_trace :: connect_trace where
  "no_trace = \<lparr>ct_opened = 0, ct_closed = 0, ct_waited = 0\<rparr>"

definition Connect :: "connect_env \<Rightarrow> PostgresConfig \<Rightarrow> unit started \<times> connect_trace" where
  "Connect env cfg = (case ce_parse env (DSN cfg) of
       Some err \<Rightarrow> (StartErr (WrapErr ''parse postgres config'' err), no_trace)
     | None \<Rightarrow> (case connect_loop env 1 None no_trace of
           (StartErr e, t) \<Rightarrow> (StartErr e, t)
         | (Started (Some err), t) \<Rightarrow> (StartErr (WrapErr (''connect to postgres after '' @ show_nat maxAttempts @ '' attempts'') err), t)
         | (Started None, t) \<Rightarrow> (Started (), t)))"

section \<open>Redis\<close>

record ping_env =
  pe_ping :: "nat \<Rightarrow> goerr option"
  pe_done :: "nat \<Rightarrow> goerr option"

text \<open>The loop breaks at a ping that answers and keeps \<open>lastErr\<close> as it is.\<close>

function cache_loop :: "ping_env \<Rightarrow> nat \<Rightarrow> goerr option \<Rightarrow> nat \<Rightarrow> goerr option started \<times> nat" where
  "cache_loop env attempt lastErr waited =
     (if maxAttempts < attempt then (Started lastErr, waited)
      else case pe_ping env attempt of
        None \<Rightarrow> (Started lastErr, waited)
      | Some err \<Rightarrow>
          (case pe_done env attempt of
             Some cancelled \<Rightarrow> (StartErr cancelled, waited)
           | None \<Rightarrow> cache_loop env (attempt + 1) (Some err) (waited + attempt * 500)))"
  by pat_completeness auto
termination by (relation "measure (\<lambda>(env, attempt, err, t). Suc maxAttempts - attempt)") auto

declare cache_loop.simps [simp del]

definition cache_New :: "ping_env \<Rightarrow> unit started \<times> nat" where
  "cache_New env = (case cache_loop env 1 None 0 of
       (StartErr e, w) \<Rightarrow> (StartErr e, w)
     | (Started (Some lastErr), w) \<Rightarrow> (StartErr (WrapErr ''connect to redis'' lastErr), w)
     | (Started None, w) \<Rightarrow> (Started (), w))"

section \<open>The cache client\<close>

text \<open>The operations the lock does not use. Each calls go-redis, the parameter \<open>rdb\<close>, and keeps either
  its result or only its error (\<open>Err()\<close>).\<close>

definition only_err :: "'a res \<times> 's \<Rightarrow> unit res \<times> 's" where
  "only_err = map_prod (map_sum id (\<lambda>_. ())) id"

record ZRangeBy =
  ZR_Min :: string
  ZR_Max :: string
  ZR_Offset :: int
  ZR_Count :: int

definition redisClient_Set :: "(string \<Rightarrow> 'v \<Rightarrow> duration \<Rightarrow> 's \<Rightarrow> string res \<times> 's) \<Rightarrow> string \<Rightarrow> 'v \<Rightarrow> duration \<Rightarrow> 's \<Rightarrow> unit res \<times> 's" where
  "redisClient_Set rdb key val ttl s = only_err (rdb key val ttl s)"
definition redisClient_Exists :: "(string list \<Rightarrow> 's \<Rightarrow> int res \<times> 's) \<Rightarrow> string list \<Rightarrow> 's \<Rightarrow> int res \<times> 's" where
  "redisClient_Exists rdb keys s = rdb keys s"
definition redisClient_Incr :: "(string \<Rightarrow> 's \<Rightarrow> int res \<times> 's) \<Rightarrow> string \<Rightarrow> 's \<Rightarrow> int res \<times> 's" where
  "redisClient_Incr rdb key s = rdb key s"
definition redisClient_IncrBy :: "(string \<Rightarrow> int \<Rightarrow> 's \<Rightarrow> int res \<times> 's) \<Rightarrow> string \<Rightarrow> int \<Rightarrow> 's \<Rightarrow> int res \<times> 's" where
  "redisClient_IncrBy rdb key n s = rdb key n s"
definition redisClient_DecrBy :: "(string \<Rightarrow> int \<Rightarrow> 's \<Rightarrow> int res \<times> 's) \<Rightarrow> string \<Rightarrow> int \<Rightarrow> 's \<Rightarrow> int res \<times> 's" where
  "redisClient_DecrBy rdb key n s = rdb key n s"
definition redisClient_ZAdd :: "(string \<Rightarrow> 'z list \<Rightarrow> 's \<Rightarrow> int res \<times> 's) \<Rightarrow> string \<Rightarrow> 'z list \<Rightarrow> 's \<Rightarrow> unit res \<times> 's" where
  "redisClient_ZAdd rdb key members s = only_err (rdb key members s)"
definition redisClient_ZRangeByScore ::
  "(string \<Rightarrow> ZRangeBy \<Rightarrow> 's \<Rightarrow> string list res \<times> 's) \<Rightarrow> string \<Rightarrow> string \<Rightarrow> string \<Rightarrow> int \<Rightarrow> int \<Rightarrow> 's \<Rightarrow> string list res \<times> 's" where
  "redisClient_ZRangeByScore rdb key mn mx offset cnt s =
     rdb key \<lparr>ZR_Min = mn, ZR_Max = mx, ZR_Offset = offset, ZR_Count = cnt\<rparr> s"
definition redisClient_ZRem :: "(string \<Rightarrow> 'z list \<Rightarrow> 's \<Rightarrow> int res \<times> 's) \<Rightarrow> string \<Rightarrow> 'z list \<Rightarrow> 's \<Rightarrow> unit res \<times> 's" where
  "redisClient_ZRem rdb key members s = only_err (rdb key members s)"
definition redisClient_ZCard :: "(string \<Rightarrow> 's \<Rightarrow> int res \<times> 's) \<Rightarrow> string \<Rightarrow> 's \<Rightarrow> int res \<times> 's" where
  "redisClient_ZCard rdb key s = rdb key s"
definition redisClient_Publish :: "(string \<Rightarrow> 'v \<Rightarrow> 's \<Rightarrow> int res \<times> 's) \<Rightarrow> string \<Rightarrow> 'v \<Rightarrow> 's \<Rightarrow> unit res \<times> 's" where
  "redisClient_Publish rdb channel message s = only_err (rdb channel message s)"
definition redisClient_Ping :: "('s \<Rightarrow> string res \<times> 's) \<Rightarrow> 's \<Rightarrow> unit res \<times> 's" where
  "redisClient_Ping rdb s = only_err (rdb s)"
definition redisClient_Close :: "('s \<Rightarrow> unit res \<times> 's) \<Rightarrow> 's \<Rightarrow> unit res \<times> 's" where
  "redisClient_Close rdb s = rdb s"

section \<open>Migrations\<close>

text \<open>\<open>Up\<close> reports that nothing was to be done with the sentinel ErrNoChange.\<close>

datatype up_result = UpDone | ErrNoChange | UpErr goerr

definition RunMigrations :: "(string \<Rightarrow> string \<Rightarrow> goerr option) \<Rightarrow> up_result \<Rightarrow> string \<Rightarrow> string \<Rightarrow> goerr option" where
  "RunMigrations migrate_New up databaseURL migrationsPath =
     (let source = ''file://'' @ migrationsPath in
      case migrate_New source databaseURL of
        Some err \<Rightarrow> Some (WrapErr ''create migrator'' err)
      | None \<Rightarrow> (case up of UpErr err \<Rightarrow> Some (WrapErr ''run migrations'' err) | _ \<Rightarrow> None))"

section \<open>The PostgreSQL loop\<close>

definition try_ok :: "connect_env \<Rightarrow> nat \<Rightarrow> bool" where
  "try_ok env k \<longleftrightarrow> ce_new env k = None \<and> ce_ping env k = None"

lemma try_connect_cases:
  obtains "try_ok env k" "try_connect env k t = (None, t\<lparr>ct_opened := ct_opened t + 1\<rparr>)"
    | e t' where "\<not> try_ok env k" "try_connect env k t = (Some e, t')"
      "ct_opened t' - ct_closed t' = ct_opened t - ct_closed t" "ct_closed t \<le> ct_opened t \<longrightarrow> ct_closed t' \<le> ct_opened t'"
      "ct_waited t' = ct_waited t"
  by (cases "ce_new env k"; cases "ce_ping env k") (auto simp: try_connect_def try_ok_def Let_def intro!: that)

definition sum_squares :: "nat \<Rightarrow> nat" where
  "sum_squares k = sum_list (map (\<lambda>i. i * i * 500) [k..<Suc maxAttempts])"

lemma sum_squares_step: "k \<le> maxAttempts \<Longrightarrow> sum_squares k = k * k * 500 + sum_squares (k + 1)"
  by (simp add: sum_squares_def upt_conv_Cons del: upt_Suc)

lemma first_ok_step:
  assumes "\<not> try_ok env k" and "ce_done env k = None"
  shows "(\<exists>i\<ge>k + 1. i \<le> maxAttempts \<and> try_ok env i \<and> (\<forall>j. k + 1 \<le> j \<longrightarrow> j < i \<longrightarrow> ce_done env j = None)) \<longleftrightarrow>
    (\<exists>i\<ge>k. i \<le> maxAttempts \<and> try_ok env i \<and> (\<forall>j. k \<le> j \<longrightarrow> j < i \<longrightarrow> ce_done env j = None))" (is "?l = ?r")
proof
  assume ?l
  then obtain i where i: "k + 1 \<le> i" "i \<le> maxAttempts" "try_ok env i"
    "\<And>j. k + 1 \<le> j \<Longrightarrow> j < i \<Longrightarrow> ce_done env j = None" by blast
  have "ce_done env j = None" if "k \<le> j" "j < i" for j
    using i(4) [of j] that assms(2) by (cases "j = k") auto
  then show ?r using i(1-3) by (intro exI [of _ i]) simp
next
  assume ?r
  then obtain i where i: "k \<le> i" "i \<le> maxAttempts" "try_ok env i"
    "\<And>j. k \<le> j \<Longrightarrow> j < i \<Longrightarrow> ce_done env j = None" by blast
  have "k \<noteq> i" using assms(1) i(3) by blast
  then show ?l using i by (intro exI [of _ i]) simp
qed

text \<open>What a run of the loop from attempt \<open>k\<close> on does.\<close>

lemma connect_loop_spec:
  assumes "connect_loop env k err t = (r, t')" and "ct_closed t \<le> ct_opened t"
  shows "ct_waited t' \<le> ct_waited t + sum_squares k \<and> ct_closed t' \<le> ct_opened t' \<and>
    ct_opened t' - ct_closed t' = (ct_opened t - ct_closed t) +
      (if r = Started None \<and> (k \<le> maxAttempts) then 1 else 0) \<and>
    (r = Started None \<longleftrightarrow> (maxAttempts < k \<and> err = None) \<or>
      (\<exists>i\<ge>k. i \<le> maxAttempts \<and> try_ok env i \<and> (\<forall>j. k \<le> j \<longrightarrow> j < i \<longrightarrow> ce_done env j = None)))"
  using assms
proof (induction env k err t arbitrary: r t' rule: connect_loop.induct)
  case (1 env k err t)
  show ?case
  proof (cases "maxAttempts < k")
    case True
    then show ?thesis using "1.prems" by (auto simp: connect_loop.simps sum_squares_def)
  next
    case k: False
    show ?thesis
    proof (cases rule: try_connect_cases [of env k t])
      case 1
      then show ?thesis using "1.prems" k by (auto simp: connect_loop.simps)
    next
      case (2 e t1)
      show ?thesis
      proof (cases "ce_done env k")
        case (Some c)
        then show ?thesis using "1.prems" k 2
          by (auto simp: connect_loop.simps) (metis le_neq_implies_less order_refl option.distinct(1))
      next
        case None
        let ?t2 = "t1\<lparr>ct_waited := ct_waited t1 + k * k * 500\<rparr>"
        have run: "connect_loop env (k + 1) (Some e) ?t2 = (r, t')"
          using "1.prems"(1) k 2 None by (simp add: connect_loop.simps [of env k])
        have IH: "ct_waited t' \<le> ct_waited ?t2 + sum_squares (k + 1) \<and> ct_closed t' \<le> ct_opened t' \<and>
          ct_opened t' - ct_closed t' = (ct_opened ?t2 - ct_closed ?t2) +
            (if r = Started None \<and> (k + 1 \<le> maxAttempts) then 1 else 0) \<and>
          (r = Started None \<longleftrightarrow> (maxAttempts < k + 1 \<and> Some e = None) \<or>
            (\<exists>i\<ge>k + 1. i \<le> maxAttempts \<and> try_ok env i \<and> (\<forall>j. k + 1 \<le> j \<longrightarrow> j < i \<longrightarrow> ce_done env j = None)))"
          using "1.IH" [OF k 2(2) [symmetric] refl None run] 2 "1.prems"(2) by simp
        have iff: "(\<exists>i\<ge>k + 1. i \<le> maxAttempts \<and> try_ok env i \<and> (\<forall>j. k + 1 \<le> j \<longrightarrow> j < i \<longrightarrow> ce_done env j = None)) \<longleftrightarrow>
          (\<exists>i\<ge>k. i \<le> maxAttempts \<and> try_ok env i \<and> (\<forall>j. k \<le> j \<longrightarrow> j < i \<longrightarrow> ce_done env j = None))"
          by (rule first_ok_step [OF 2(1) None])
        have later: "k + 1 \<le> maxAttempts" if "k \<le> i" "i \<le> maxAttempts" "try_ok env i" for i
          using that 2(1) by (cases "i = k") auto
        have le: "ct_closed t \<le> ct_opened t" by (rule "1.prems"(2))
        show ?thesis
        proof (cases "r = Started None")
          case True
          then obtain i where "k \<le> i" "i \<le> maxAttempts" "try_ok env i" using IH unfolding iff by auto
          then show ?thesis using IH 2 le k sum_squares_step [of k] later unfolding iff by auto
        next
          case False
          then show ?thesis using IH 2 le k sum_squares_step [of k] unfolding iff by auto
        qed
      qed
    qed
  qed
qed

lemma sum_squares_1: "sum_squares (Suc 0) = 192500"
proof -
  have "[Suc 0..<Suc maxAttempts] = Suc 0 # [2..<11]" by (simp add: maxAttempts_def upt_conv_Cons)
  then show ?thesis by (simp add: sum_squares_def del: upt_Suc)
qed

text \<open>C26: Connect gives a pool exactly when the connection string parses and one of the ten
  attempts succeeds before the startup context is cancelled; a successful Connect leaves exactly one
  pool open and a failed one none; and it pauses for at most 192.5 seconds in all.\<close>

theorem connect_outcome:
  assumes "Connect env cfg = (r, t)"
  shows "(r = Started () \<longleftrightarrow> ce_parse env (DSN cfg) = None \<and>
      (\<exists>i\<in>{1..10}. try_ok env i \<and> (\<forall>j\<in>{1..<i}. ce_done env j = None))) \<and>
    ct_opened t = ct_closed t + (if r = Started () then 1 else 0) \<and> ct_waited t \<le> 192500"
proof (cases "ce_parse env (DSN cfg)")
  case (Some e)
  then show ?thesis using assms by (auto simp: Connect_def no_trace_def)
next
  case None
  obtain q t1 where l: "connect_loop env 1 None no_trace = (q, t1)" by (cases "connect_loop env 1 None no_trace")
  have t: "t1 = t" and r: "r = Started () \<longleftrightarrow> q = Started None"
    using assms None l by (auto simp: Connect_def split: started.splits option.splits)
  have "ct_closed no_trace \<le> ct_opened no_trace" by (simp add: no_trace_def)
  note S = connect_loop_spec [OF l this]
  have "(\<exists>i\<ge>1. i \<le> maxAttempts \<and> try_ok env i \<and> (\<forall>j. 1 \<le> j \<longrightarrow> j < i \<longrightarrow> ce_done env j = None)) \<longleftrightarrow>
    (\<exists>i\<in>{1..10}. try_ok env i \<and> (\<forall>j\<in>{1..<i}. ce_done env j = None))"
    by (auto simp: maxAttempts_def Bex_def)
  then show ?thesis using S None unfolding t r
    by (auto simp: no_trace_def maxAttempts_def sum_squares_1 split: if_splits)
qed

definition third_time :: connect_env where
  "third_time = \<lparr>ce_parse = (\<lambda>_. None), ce_new = (\<lambda>_. None),
     ce_ping = (\<lambda>k. if k < 3 then Some (PlainErr ''refused'') else None), ce_done = (\<lambda>_. None)\<rparr>"

definition sample_pg :: PostgresConfig where
  "sample_pg = \<lparr>PC_Host = ''db'', PC_Port = 5432, PC_User = ''app'', PC_Password = ''p'', PC_DBName = ''jobs'',
     PC_SSLMode = ''disable'', PC_MaxOpenConns = 25, PC_MaxIdleConns = 5, PC_ConnMaxLifetime = 0\<rparr>"

theorem connect_outcome_witness: "fst (Connect third_time sample_pg) = Started ()"
proof -
  have "try_ok third_time 3" by (simp add: try_ok_def third_time_def)
  moreover have "\<forall>j\<in>{1..<3}. ce_done third_time j = None" by (simp add: third_time_def)
  ultimately have "\<exists>i\<in>{1..10}. try_ok third_time i \<and> (\<forall>j\<in>{1..<i}. ce_done third_time j = None)"
    by (intro bexI [of _ 3]) auto
  then show ?thesis
    using connect_outcome [of third_time sample_pg "fst (Connect third_time sample_pg)" "snd (Connect third_time sample_pg)"]
    by (simp add: third_time_def)
qed

section \<open>The Redis loop\<close>

lemma cache_loop_err: "cache_loop env k (Some e) w \<noteq> (Started None, w')"
proof (induction env k "Some e" w arbitrary: e rule: cache_loop.induct)
  case (1 env k w e)
  show ?case using "1.hyps" by (subst cache_loop.simps) (auto split: option.splits)
qed

text \<open>The Redis connection is retried in vain: New gives a client exactly when the very first ping
  answers. The error of a failed attempt is kept when a later ping succeeds, so after one failure New
  reports \<open>connect to redis\<close> even though Redis is there.\<close>

theorem cache_first_ping_decides:
  "(fst (cache_New env) = Started () \<longleftrightarrow> pe_ping env 1 = None) \<and>
   (pe_ping env 1 = Some e \<and> pe_done env 1 = None \<and> pe_ping env 2 = None \<longrightarrow>
      cache_New env = (StartErr (WrapErr ''connect to redis'' e), 500))"
proof (cases "pe_ping env 1")
  case None
  then show ?thesis by (simp add: cache_New_def cache_loop.simps [of env "Suc 0"] maxAttempts_def)
next
  case (Some e1)
  have a: "fst (cache_New env) \<noteq> Started ()"
    using Some cache_loop_err [of env 2 e1 500]
    by (auto simp: cache_New_def cache_loop.simps [of env "Suc 0"] maxAttempts_def numeral_2_eq_2
        split: option.splits started.splits prod.splits)
  have "cache_New env = (StartErr (WrapErr ''connect to redis'' e1), 500)"
    if "pe_done env 1 = None" "pe_ping env 2 = None"
    using that Some by (simp add: cache_New_def cache_loop.simps [of env "Suc 0"] cache_loop.simps [of env "Suc (Suc 0)"]
        maxAttempts_def numeral_2_eq_2)
  then show ?thesis using a Some by simp
qed

definition second_ping :: ping_env where
  "second_ping = \<lparr>pe_ping = (\<lambda>k. if k < 2 then Some (PlainErr ''refused'') else None), pe_done = (\<lambda>_. None)\<rparr>"

theorem cache_first_ping_decides_witness:
  "cache_New second_ping = (StartErr (WrapErr ''connect to redis'' (PlainErr ''refused'')), 500)"
  using cache_first_ping_decides [of second_ping "PlainErr ''refused''"] by (simp add: second_ping_def)

section \<open>Start of the processes\<close>

text \<open>Both processes load the configuration and connect; the API server also migrates. Any failure ends
  the process before it serves or claims anything.\<close>

datatype boot = Fatal string goerr | Up Config

record boot_env =
  be_casts :: casts
  be_vars :: "string \<Rightarrow> string option"
  be_connect :: connect_env
  be_ping :: ping_env
  be_new :: "string \<Rightarrow> string \<Rightarrow> goerr option"
  be_up :: up_result

definition connect_stores :: "string \<Rightarrow> string \<Rightarrow> boot_env \<Rightarrow> Config \<Rightarrow> boot" where
  "connect_stores m1 m2 env cfg = (case fst (Connect (be_connect env) (Cfg_Postgres cfg)) of
       StartErr e \<Rightarrow> Fatal m1 e
     | Started _ \<Rightarrow> (case fst (cache_New (be_ping env)) of
           StartErr e \<Rightarrow> Fatal m2 e
         | Started _ \<Rightarrow> Up cfg))"

definition api_startup :: "boot_env \<Rightarrow> boot" where
  "api_startup env = (case Load (be_casts env) (be_vars env) of
       Inl err \<Rightarrow> Fatal ''load config'' err
     | Inr cfg \<Rightarrow> (case connect_stores ''postgres connection failed'' ''redis connection failed'' env cfg of
           Fatal m e \<Rightarrow> Fatal m e
         | Up _ \<Rightarrow> (case RunMigrations (be_new env) (be_up env) (URL (Cfg_Postgres cfg)) ''migrations'' of
               Some e \<Rightarrow> Fatal ''migration failed'' e
             | None \<Rightarrow> Up cfg)))"

definition worker_startup :: "boot_env \<Rightarrow> boot" where
  "worker_startup env = (case Load (be_casts env) (be_vars env) of
       Inl err \<Rightarrow> Fatal ''load config'' err
     | Inr cfg \<Rightarrow> connect_stores ''failed to connect to postgres'' ''failed to connect to redis'' env cfg)"

text \<open>A process that comes up has a configuration with a secret of at least 32 characters and named
  database and user; the API server only after its migrations, and whatever stops the worker's start stops
  the API server's.\<close>

lemma connect_stores_Up: "connect_stores m1 m2 env x = Up cfg \<longleftrightarrow>
    cfg = x \<and> fst (Connect (be_connect env) (Cfg_Postgres x)) = Started () \<and> fst (cache_New (be_ping env)) = Started ()"
  by (auto simp: connect_stores_def split: started.splits)

lemma startup_requires_config:
  assumes "api_startup env = Up cfg"
  shows "32 \<le> length (JWT_Secret (Cfg_JWT cfg)) \<and> PC_User (Cfg_Postgres cfg) \<noteq> [] \<and>
    PC_DBName (Cfg_Postgres cfg) \<noteq> [] \<and> worker_startup env = Up cfg \<and>
    RunMigrations (be_new env) (be_up env) (URL (Cfg_Postgres cfg)) ''migrations'' = None"
  using assms
  by (cases "Load (be_casts env) (be_vars env)")
    (auto simp: api_startup_def worker_startup_def Load_def cfg_validate_def Let_def connect_stores_Up
      split: boot.splits if_splits option.splits)

end
