(* ===== verification/Validator.thy ===== *)
theory Validator
  imports AppErrors
begin

text \<open>
  Request validation (\<open>pkg/validator/validator.go\<close>): the two custom rules, the translation of
  the library's failures into field errors, and ParseAndValidate. The struct validation of the
  playground library is a parameter: for a request it gives the failed fields with their tags.
\<close>

section \<open>The slug rule\<close>

definition slug_char :: "char \<Rightarrow> bool" where
  "slug_char c = (let n = of_char c :: nat in
     (97 \<le> n \<and> n \<le> 122) \<or> (48 \<le> n \<and> n \<le> 57) \<or> n = 45)"

definition validateSlug :: "string \<Rightarrow> bool" where
  "validateSlug s = (if s = [] then False
     else if \<not> list_all slug_char s then False
     else hd s \<noteq> CHR ''-'' \<and> last s \<noteq> CHR ''-'')"

section \<open>The cron rule\<close>

text \<open>\<open>strings.Fields\<close>: the maximal runs of characters that are not white space (ASCII).\<close>

fun Fields_acc :: "string \<Rightarrow> string \<Rightarrow> string list" where
  "Fields_acc w [] = (if w = [] then [] else [rev w])"
| "Fields_acc w (c # cs) =
     (if is_space c then (if w = [] then Fields_acc [] cs else rev w # Fields_acc [] cs)
      else Fields_acc (c # w) cs)"

definition Fields :: "string \<Rightarrow> string list" where
  "Fields s = Fields_acc [] s"

definition validateCronExpr :: "string \<Rightarrow> bool" where
  "validateCronExpr s = (let parts = Fields s in length parts = 5 \<or> length parts = 6)"

lemma Fields_acc_clean:
  "list_all (\<lambda>c. \<not> is_space c) w \<Longrightarrow>
   list_all (\<lambda>f. f \<noteq> [] \<and> list_all (\<lambda>c. \<not> is_space c) f) (Fields_acc w s)"
  by (induction w s rule: Fields_acc.induct) (simp_all add: list_all_rev)

lemma Fields_acc_concat:
  "list_all (\<lambda>c. \<not> is_space c) w \<Longrightarrow>
   concat (Fields_acc w s) = rev w @ filter (\<lambda>c. \<not> is_space c) s"
  by (induction w s rule: Fields_acc.induct) (simp_all add: list_all_rev)

lemma Fields_acc_word:
  "list_all (\<lambda>c. \<not> is_space c) u \<Longrightarrow> Fields_acc w (u @ s) = Fields_acc (rev u @ w) s"
  by (induction u arbitrary: w) auto

lemma Fields_acc_end: "w \<noteq> [] \<Longrightarrow> is_space c \<Longrightarrow> Fields_acc (rev w) (c # s) = w # Fields s"
  by (simp add: Fields_def)

text \<open>Joining with single blanks.\<close>

fun join_blank :: "string list \<Rightarrow> string" where
  "join_blank [] = []"
| "join_blank [w] = w"
| "join_blank (w # ws) = w @ CHR '' '' # join_blank ws"

definition is_field :: "string \<Rightarrow> bool" where
  "is_field w \<longleftrightarrow> w \<noteq> [] \<and> list_all (\<lambda>c. \<not> is_space c) w"

lemma blank_space [simp]: "is_space CHR '' ''"
  by (simp add: is_space_def)

lemma Fields_join: "list_all is_field ws \<Longrightarrow> Fields (join_blank ws) = ws"
proof (induction ws rule: join_blank.induct)
  case (2 w)
  then show ?case using Fields_acc_word [of w "[]" "[]"] by (simp add: is_field_def Fields_def)
next
  case (3 w v vs)
  then have w: "w \<noteq> []" "list_all (\<lambda>c. \<not> is_space c) w" by (simp_all add: is_field_def)
  have "Fields (join_blank (w # v # vs)) = Fields_acc (rev w) (CHR '' '' # join_blank (v # vs))"
    using Fields_acc_word [OF w(2), of "[]"] by (simp add: Fields_def)
  also have "\<dots> = w # Fields (join_blank (v # vs))" by (rule Fields_acc_end [OF w(1) blank_space])
  finally show ?case using 3 by simp
qed (simp add: Fields_def)

lemma Fields_fields: "list_all is_field (Fields s)"
  using Fields_acc_clean [of "[]" s] by (simp add: Fields_def is_field_def list_all_iff)

text \<open>Splitting an expression into fields loses nothing but the white space: the fields are non-empty
  and free of blanks, their concatenation is the text without its blanks, and splitting the fields joined
  by single blanks gives the fields back; so the cron rule depends on the fields only, and accepts
  exactly the texts of five or six fields.\<close>

theorem cron_fields_roundtrip:
  "Fields (join_blank (Fields s)) = Fields s \<and> concat (Fields s) = filter (\<lambda>c. \<not> is_space c) s \<and>
   filter (\<lambda>f. \<not> is_field f) (Fields s) = [] \<and>
   validateCronExpr (join_blank (Fields s)) = validateCronExpr s \<and>
   (validateCronExpr s \<longleftrightarrow> length (Fields s) \<in> {5, 6})"
  using Fields_join [OF Fields_fields, of s] Fields_fields [of s] Fields_acc_concat [of "[]" s]
  by (auto simp: validateCronExpr_def Fields_def list_all_iff filter_empty_conv)

section \<open>Field errors\<close>

text \<open>One failure of the library: the field's JSON name, the tag and the tag's parameter.\<close>

record vfailure =
  vf_Field :: string
  vf_Tag :: string
  vf_Param :: string

definition humanize :: "vfailure \<Rightarrow> string" where
  "humanize e = (let f = vf_Field e; p = vf_Param e in
     if vf_Tag e = ''required'' then f @ '' is required''
     else if vf_Tag e = ''email'' then f @ '' must be a valid email address''
     else if vf_Tag e = ''min'' then f @ '' must be at least '' @ p @ '' characters''
     else if vf_Tag e = ''max'' then f @ '' must be at most '' @ p @ '' characters''
     else if vf_Tag e = ''slug'' then f @ '' must contain only lowercase letters, numbers, and hyphens''
     else if vf_Tag e = ''cron'' then f @ '' must be a valid cron expression''
     else if vf_Tag e = ''oneof'' then f @ '' must be one of: '' @ p
     else if vf_Tag e = ''gte'' then f @ '' must be greater than or equal to '' @ p
     else if vf_Tag e = ''lte'' then f @ '' must be less than or equal to '' @ p
     else f @ '' failed validation: '' @ vf_Tag e)"

text \<open>\<open>val_struct\<close> is the library's \<open>Struct\<close>: no error, or a non-empty list of failures;
  an empty Go slice that was never appended to is nil.\<close>

definition Validate :: "('a \<Rightarrow> vfailure list option) \<Rightarrow> 'a \<Rightarrow> FieldError list option" where
  "Validate val_struct s = (case val_struct s of
       None \<Rightarrow> None
     | Some failures \<Rightarrow>
         (let errs = map (\<lambda>e. \<lparr>FE_Field = vf_Field e, FE_Tag = vf_Tag e, FE_Message = humanize e\<rparr>) failures
          in if errs = [] then None else Some errs))"

definition ParseAndValidate :: "('a \<Rightarrow> vfailure list option) \<Rightarrow> 'a res \<Rightarrow> 'a res" where
  "ParseAndValidate val_struct body = (case body of
       Inl _ \<Rightarrow> Inl (InvalidInput ''invalid JSON body'')
     | Inr out \<Rightarrow> (case Validate val_struct out of
           Some errs \<Rightarrow> Inl (InvalidInputWithDetails ''validation failed'' errs)
         | None \<Rightarrow> Inr out))"

text \<open>The JSON name of a field: the tag up to its first comma, nothing for a dash.\<close>

definition json_name :: "string \<Rightarrow> string" where
  "json_name tag = (let name = takeWhile (\<lambda>c. c \<noteq> CHR '','') tag in if name = ''-'' then [] else name)"

definition slug_alnum :: "char \<Rightarrow> bool" where
  "slug_alnum c \<longleftrightarrow> slug_char c \<and> c \<noteq> CHR ''-''"

lemma slug_char_lower: "slug_char c \<Longrightarrow> lower_char c = c"
  by (auto simp: slug_char_def lower_char_def Let_def)

lemma slug_char_space: "slug_char c \<Longrightarrow> \<not> is_space c"
  by (auto simp: slug_char_def is_space_def Let_def)

lemma slug_char_slash: "\<not> slug_char CHR ''/''"
  by (simp add: slug_char_def)

lemma TrimSpace_clean: "list_all (\<lambda>c. \<not> is_space c) s \<Longrightarrow> TrimSpace s = s"
proof -
  have *: "TrimLeft t = t" if "list_all (\<lambda>c. \<not> is_space c) t" for t
    using that by (cases t) (simp_all add: TrimLeft_def)
  assume "list_all (\<lambda>c. \<not> is_space c) s"
  then show ?thesis using * [of s] * [of "rev s"] by (simp add: TrimSpace_def list_all_rev)
qed

lemma validateSlug_iff: "validateSlug s \<longleftrightarrow>
    s \<noteq> [] \<and> list_all slug_char s \<and> slug_alnum (hd s) \<and> slug_alnum (last s)"
  by (auto simp: validateSlug_def slug_alnum_def list_all_iff)

text \<open>A slug is one letter or digit, or a text of lower-case letters, digits and hyphens that
  begins and ends with a letter or digit; such a text is a URL path segment: no blank, no slash, no
  upper case, its own lower case and its own trimmed form.\<close>

theorem slug_shape:
  "(validateSlug s \<longleftrightarrow> s \<noteq> [] \<and> list_all slug_char s \<and> slug_alnum (hd s) \<and> slug_alnum (last s)) \<and>
   (\<not> validateSlug s \<or> (ToLower s = s \<and> TrimSpace s = s \<and> CHR ''/'' \<notin> set s))"
proof -
  have "ToLower s = s \<and> TrimSpace s = s \<and> CHR ''/'' \<notin> set s" if "validateSlug s"
  proof -
    have c: "list_all slug_char s" using that by (simp add: validateSlug_iff)
    then have "TrimSpace s = s" by (intro TrimSpace_clean) (auto simp: list_all_iff slug_char_space)
    moreover have "ToLower s = s" using c by (simp add: ToLower_def list_all_iff slug_char_lower map_idI)
    ultimately show ?thesis using c slug_char_slash by (auto simp: list_all_iff)
  qed
  then show ?thesis using validateSlug_iff by blast
qed

theorem slug_shape_witness: "ToLower ''my-queue-1'' = ''my-queue-1'' \<and> \<not> validateSlug ''-q''"
proof -
  have "validateSlug ''my-queue-1''" "\<not> validateSlug ''-q''" by code_simp+
  then show ?thesis using slug_shape [of "''my-queue-1''"] by blast
qed

text \<open>ParseAndValidate lets a request through exactly when its body parses and the library finds
  no failure; every refusal is an INVALID_INPUT error, and a failed validation carries one detail per
  failed field, in order, with its field and tag.\<close>

theorem parse_and_validate_outcomes:
  "(ParseAndValidate val body = Inr r \<longleftrightarrow> body = Inr r \<and> (val r = None \<or> val r = Some [])) \<and>
   (\<forall>e. ParseAndValidate val body = Inl e \<longrightarrow> (\<exists>m det. e = AppErr CodeInvalidInput m det None \<and>
      (det = None \<or> (\<exists>q fs errs. body = Inr q \<and> val q = Some fs \<and> det = Some errs \<and>
         map FE_Field errs = map vf_Field fs \<and> map FE_Tag errs = map vf_Tag fs))))"
  by (cases body) (auto simp: ParseAndValidate_def Validate_def Let_def err_defs comp_def split: option.splits if_splits)

definition name_required :: "string \<Rightarrow> vfailure list option" where
  "name_required s = (if s = [] then Some [\<lparr>vf_Field = ''name'', vf_Tag = ''required'', vf_Param = []\<rparr>] else None)"

theorem parse_and_validate_outcomes_witness:
  "\<exists>det. ParseAndValidate name_required (Inr []) = Inl (AppErr CodeInvalidInput ''validation failed'' det None)"
proof -
  have "ParseAndValidate name_required (Inr []) \<noteq> Inr []"
    using parse_and_validate_outcomes [of name_required "Inr []" "[]"] by (simp add: name_required_def)
  then show ?thesis by (simp add: ParseAndValidate_def Validate_def name_required_def err_defs)
qed

end
