(* ===== verification/Http.thy ===== *)
theory Http
  imports Validator AuthService OrgRepo ProjectRepo
begin

text \<open>
  The HTTP layer below the handlers: the request context and its locals
  (\<open>internal/middleware/context.go\<close>), the authentication and role middleware and the error
  serializer (\<open>internal/middleware/auth.go\<close>), and the error handler of the API server
  (\<open>cmd/api/main.go\<close>). Fiber's accessors (headers, URL parameters, query, address) are fields
  of the context; parsing a uuid and the JWT library are parameters.
\<close>

section \<open>Context\<close>

datatype local_value = LUuid uuid | LStr string

record ctx =
  cx_header :: "string \<Rightarrow> string"
  cx_param :: "string \<Rightarrow> string"
  cx_query :: "string \<Rightarrow> string"
  cx_ip :: string
  cx_locals :: "string \<Rightarrow> local_value option"

definition set_local :: "string \<Rightarrow> local_value \<Rightarrow> ctx \<Rightarrow> ctx" where
  "set_local k v c = c\<lparr>cx_locals := (cx_locals c)(k := Some v)\<rparr>"

text \<open>The type assertion of a getter gives the zero value when the local is missing or of another type.\<close>

definition local_uuid :: "string \<Rightarrow> ctx \<Rightarrow> uuid" where
  "local_uuid k c = (case cx_locals c k of Some (LUuid i) \<Rightarrow> i | _ \<Rightarrow> uuid_Nil)"

definition local_str :: "string \<Rightarrow> ctx \<Rightarrow> string" where
  "local_str k c = (case cx_locals c k of Some (LStr s) \<Rightarrow> s | _ \<Rightarrow> [])"

definition SetUserID :: "uuid \<Rightarrow> ctx \<Rightarrow> ctx" where "SetUserID i = set_local ''ctx_user_id'' (LUuid i)"
definition GetUserID :: "ctx \<Rightarrow> uuid" where "GetUserID = local_uuid ''ctx_user_id''"
definition SetUserEmail :: "string \<Rightarrow> ctx \<Rightarrow> ctx" where "SetUserEmail e = set_local ''ctx_user_email'' (LStr e)"
definition GetUserEmail :: "ctx \<Rightarrow> string" where "GetUserEmail = local_str ''ctx_user_email''"
definition SetOrgRole :: "string \<Rightarrow> ctx \<Rightarrow> ctx" where "SetOrgRole r = set_local ''ctx_org_role'' (LStr r)"
definition GetOrgRole :: "ctx \<Rightarrow> string" where "GetOrgRole = local_str ''ctx_org_role''"

lemmas ctx_defs = set_local_def local_uuid_def local_str_def SetUserID_def GetUserID_def
  SetUserEmail_def GetUserEmail_def SetOrgRole_def GetOrgRole_def

section \<open>Responses\<close>

text \<open>
  What a handler leaves behind: a response it has written, or an error it returns to Fiber.
  \<open>ErrBody\<close> is the error object: code, message, details.
\<close>

datatype 'b body = Data 'b | ErrBody string string "FieldError list option"

datatype 'b http = Resp int "'b body" | NoContent | Raised goerr

type_synonym 'b handlerf = "ctx \<Rightarrow> db \<Rightarrow> 'b http \<times> db"

definition RespondError :: "goerr \<Rightarrow> 'b http" where
  "RespondError err = (case err_As err of
       None \<Rightarrow> Resp 500 (ErrBody ''INTERNAL'' ''an unexpected error occurred'' None)
     | Some (code, message, details) \<Rightarrow> Resp (HTTPStatus code) (ErrBody (code_str code) message details))"

text \<open>An error that reaches Fiber: one of Fiber's own (status, message), or a returned Go error.\<close>

definition buildErrorHandler :: "(int \<times> string) + goerr \<Rightarrow> 'b http" where
  "buildErrorHandler err = (case err of
       Inl (code, message) \<Rightarrow> Resp code (ErrBody ''INTERNAL'' message None)
     | Inr _ \<Rightarrow> Resp 500 (ErrBody ''INTERNAL'' ''an unexpected error occurred'' None))"

text \<open>What the client receives.\<close>

definition served :: "'b http \<Rightarrow> 'b http" where
  "served r = (case r of Raised e \<Rightarrow> buildErrorHandler (Inr e) | _ \<Rightarrow> r)"

fun http_status :: "'b http \<Rightarrow> int" where
  "http_status (Resp n b) = n"
| "http_status NoContent = 204"
| "http_status (Raised e) = 500"

datatype health = Healthy time | Degraded

definition healthHandler :: "goerr option \<Rightarrow> time \<Rightarrow> health http" where
  "healthHandler ping now = (case ping of Some _ \<Rightarrow> Resp 503 (Data Degraded) | None \<Rightarrow> Resp 200 (Data (Healthy now)))"

section \<open>Middleware\<close>

text \<open>\<open>strings.SplitN(header, " ", 2)\<close>\<close>

definition split_blank :: "string \<Rightarrow> string list" where
  "split_blank s = (if CHR '' '' \<in> set s
     then [takeWhile (\<lambda>c. c \<noteq> CHR '' '') s, tl (dropWhile (\<lambda>c. c \<noteq> CHR '' '') s)] else [s])"

definition extractBearerToken :: "ctx \<Rightarrow> string res" where
  "extractBearerToken c = (let header = cx_header c ''Authorization'' in
     if header = [] then Inl (Unauthorized ''authorization header missing'')
     else case split_blank header of
       [scheme, token] \<Rightarrow>
         if \<not> EqualFold scheme ''Bearer'' then Inl (Unauthorized (''authorization header must be '' @ [CHR 0x27] @ ''Bearer <token>'' @ [CHR 0x27]))
         else if token = [] then Inl (Unauthorized ''token is empty'')
         else Inr token
     | _ \<Rightarrow> Inl (Unauthorized (''authorization header must be '' @ [CHR 0x27] @ ''Bearer <token>'' @ [CHR 0x27])))"

definition parseUUIDParam :: "(string \<Rightarrow> uuid option) \<Rightarrow> ctx \<Rightarrow> string \<Rightarrow> uuid res" where
  "parseUUIDParam uuid_Parse c param = (case uuid_Parse (cx_param c param) of
       None \<Rightarrow> Inl (InvalidInput (param @ '' must be a valid UUID'')) | Some i \<Rightarrow> Inr i)"

definition AuthRequired :: "(string \<Rightarrow> Claims res) \<Rightarrow> (string \<Rightarrow> uuid option) \<Rightarrow> 'b handlerf \<Rightarrow> 'b handlerf" where
  "AuthRequired validate uuid_Parse nxt c d =
     (case extractBearerToken c of
        Inl err \<Rightarrow> (RespondError err, d)
      | Inr token \<Rightarrow>
          (case validate token of
             Inl _ \<Rightarrow> (RespondError (Unauthorized ''invalid or expired token''), d)
           | Inr claims \<Rightarrow>
               (case uuid_Parse (Cl_UserID claims) of
                  None \<Rightarrow> (RespondError (Unauthorized ''malformed token subject''), d)
                | Some userID \<Rightarrow> nxt (SetUserEmail (Cl_Email claims) (SetUserID userID c)) d)))"

text \<open>The rank tables; a role that is not in the table would have rank 0.\<close>

fun org_rank :: "OrgRole \<Rightarrow> int" where
  "org_rank RoleOwner = 3"
| "org_rank RoleAdmin = 2"
| "org_rank RoleMember = 1"

fun project_rank :: "ProjectRole \<Rightarrow> int" where
  "project_rank ProjAdmin = 3"
| "project_rank ProjDeveloper = 2"
| "project_rank ProjViewer = 1"

fun org_role_str :: "OrgRole \<Rightarrow> string" where
  "org_role_str RoleOwner = ''owner''"
| "org_role_str RoleAdmin = ''admin''"
| "org_role_str RoleMember = ''member''"

definition RequireOrgRole :: "(string \<Rightarrow> uuid option) \<Rightarrow> fault \<Rightarrow> OrgRole \<Rightarrow> 'b handlerf \<Rightarrow> 'b handlerf" where
  "RequireOrgRole uuid_Parse f minRole nxt c d =
     (case parseUUIDParam uuid_Parse c ''orgId'' of
        Inl err \<Rightarrow> (RespondError err, d)
      | Inr orgID \<Rightarrow>
          (case OrgRepo_GetMember f orgID (GetUserID c) d of
             Inl _ \<Rightarrow> (RespondError (Forbidden ''you are not a member of this organization''), d)
           | Inr member \<Rightarrow>
               if org_rank (OM_Role member) < org_rank minRole
               then (RespondError (Forbidden ''insufficient organization role''), d)
               else nxt (SetOrgRole (org_role_str (OM_Role member)) c) d))"

definition RequireProjectRole :: "(string \<Rightarrow> uuid option) \<Rightarrow> fault \<Rightarrow> ProjectRole \<Rightarrow> 'b handlerf \<Rightarrow> 'b handlerf" where
  "RequireProjectRole uuid_Parse f minRole nxt c d =
     (case parseUUIDParam uuid_Parse c ''projectId'' of
        Inl err \<Rightarrow> (RespondError err, d)
      | Inr projectID \<Rightarrow>
          (case ProjectRepo_GetMember f projectID (GetUserID c) d of
             Inl _ \<Rightarrow> (RespondError (Forbidden ''you are not a member of this project''), d)
           | Inr member \<Rightarrow>
               if project_rank (PM_Role member) < project_rank minRole
               then (RespondError (Forbidden ''insufficient project role''), d)
               else nxt c d))"

section \<open>Facts\<close>

lemma ctx_get_set [simp]:
  "GetUserID (SetUserID i c) = i" "GetUserID (SetUserEmail e c) = GetUserID c" "GetUserID (SetOrgRole r c) = GetUserID c"
  "GetUserEmail (SetUserEmail e c) = e" "GetUserEmail (SetUserID i c) = GetUserEmail c" "GetUserEmail (SetOrgRole r c) = GetUserEmail c"
  "GetOrgRole (SetOrgRole r c) = r" "GetOrgRole (SetUserID i c) = GetOrgRole c" "GetOrgRole (SetUserEmail e c) = GetOrgRole c"
  by (simp_all add: ctx_defs)

lemma ctx_rest [simp]:
  "cx_header (SetUserID i c) = cx_header c" "cx_header (SetUserEmail e c) = cx_header c" "cx_header (SetOrgRole r c) = cx_header c"
  "cx_param (SetUserID i c) = cx_param c" "cx_param (SetUserEmail e c) = cx_param c" "cx_param (SetOrgRole r c) = cx_param c"
  by (simp_all add: ctx_defs)

lemma HTTPStatus_error: "400 \<le> HTTPStatus code"
  by (cases code) simp_all

lemma RespondError_status: "400 \<le> http_status (RespondError e :: 'b http)"
  by (auto simp: RespondError_def HTTPStatus_error split: option.splits prod.splits)

lemma split_blank_join:
  "split_blank h = [a, b] \<longleftrightarrow> h = a @ CHR '' '' # b \<and> CHR '' '' \<notin> set a"
proof
  assume l: "split_blank h = [a, b]"
  then have m: "CHR '' '' \<in> set h" by (auto simp: split_blank_def split: if_splits)
  then obtain x xs where x: "dropWhile (\<lambda>c. c \<noteq> CHR '' '') h = x # xs" "x = CHR '' ''"
    using hd_dropWhile [of "\<lambda>c. c \<noteq> CHR '' ''" h] by (cases "dropWhile (\<lambda>c. c \<noteq> CHR '' '') h") auto
  have "h = takeWhile (\<lambda>c. c \<noteq> CHR '' '') h @ CHR '' '' # xs"
    using takeWhile_dropWhile_id [of "\<lambda>c. c \<noteq> CHR '' ''" h] x by simp
  moreover have "a = takeWhile (\<lambda>c. c \<noteq> CHR '' '') h" "b = xs" using l m x by (simp_all add: split_blank_def)
  ultimately show "h = a @ CHR '' '' # b \<and> CHR '' '' \<notin> set a" by (auto dest: set_takeWhileD)
next
  assume "h = a @ CHR '' '' # b \<and> CHR '' '' \<notin> set a"
  then show "split_blank h = [a, b]"
    by (auto simp: split_blank_def takeWhile_append dropWhile_append)
qed

text \<open>The bearer token is read back from the header: the token is accepted exactly when the header is a
  scheme that is \<open>Bearer\<close> in any case, one blank and a non-empty rest, and the token is that rest, blanks
  included; every refusal is a 401.\<close>

theorem bearer_roundtrip:
  "(extractBearerToken c = Inr tok \<longleftrightarrow> tok \<noteq> [] \<and>
      (\<exists>scheme. cx_header c ''Authorization'' = scheme @ CHR '' '' # tok \<and> CHR '' '' \<notin> set scheme \<and>
         EqualFold scheme ''Bearer'')) \<and>
   (\<forall>e. extractBearerToken c = Inl e \<longrightarrow> http_status (RespondError e :: unit http) = 401)"
proof
  show "extractBearerToken c = Inr tok \<longleftrightarrow> tok \<noteq> [] \<and>
      (\<exists>scheme. cx_header c ''Authorization'' = scheme @ CHR '' '' # tok \<and> CHR '' '' \<notin> set scheme \<and>
         EqualFold scheme ''Bearer'')" (is "?l \<longleftrightarrow> ?r")
  proof
    assume ?l
    then show ?r using split_blank_join [of "cx_header c ''Authorization''"]
      by (auto simp: extractBearerToken_def Let_def split: list.splits if_splits)
  next
    assume ?r
    then obtain scheme where s: "split_blank (cx_header c ''Authorization'') = [scheme, tok]"
      "EqualFold scheme ''Bearer''" "tok \<noteq> []" "cx_header c ''Authorization'' \<noteq> []"
      using split_blank_join by auto
    then show ?l by (simp add: extractBearerToken_def)
  qed
  show "\<forall>e. extractBearerToken c = Inl e \<longrightarrow> http_status (RespondError e :: unit http) = 401"
    by (auto simp: extractBearerToken_def Let_def RespondError_def err_defs split: list.splits if_splits)
qed

definition bearer_ctx :: "string \<Rightarrow> ctx" where
  "bearer_ctx h = \<lparr>cx_header = (\<lambda>k. if k = ''Authorization'' then h else []), cx_param = (\<lambda>_. []),
     cx_query = (\<lambda>_. []), cx_ip = [], cx_locals = (\<lambda>_. None)\<rparr>"

theorem bearer_roundtrip_witness:
  "extractBearerToken (bearer_ctx ''bearer abc'') = Inr ''abc'' \<and>
   extractBearerToken (bearer_ctx ''Basic abc'') \<noteq> Inr ''abc''"
proof
  have "EqualFold ''bearer'' ''Bearer''" by code_simp
  then show "extractBearerToken (bearer_ctx ''bearer abc'') = Inr ''abc''"
    by (intro bearer_roundtrip [THEN conjunct1, THEN iffD2] conjI exI [of _ "''bearer''"])
      (simp_all add: bearer_ctx_def)
next
  have n: "\<not> EqualFold ''Basic'' ''Bearer''" by code_simp
  show "extractBearerToken (bearer_ctx ''Basic abc'') \<noteq> Inr ''abc''"
  proof
    assume "extractBearerToken (bearer_ctx ''Basic abc'') = Inr ''abc''"
    from bearer_roundtrip [THEN conjunct1, THEN iffD1, OF this] obtain scheme where
      "''Basic'' @ '' abc'' = scheme @ '' abc''" "EqualFold scheme ''Bearer''" by (auto simp: bearer_ctx_def)
    then have "scheme = ''Basic''" by (simp only: append_same_eq)
    then show False using n \<open>EqualFold scheme ''Bearer''\<close> by simp
  qed
qed

section \<open>The guards\<close>

lemma org_rank_order:
  "org_rank r < org_rank RoleMember \<longleftrightarrow> False"
  "org_rank r < org_rank RoleAdmin \<longleftrightarrow> \<not> CanManageMembers r"
  "org_rank r < org_rank RoleOwner \<longleftrightarrow> \<not> CanDeleteOrg r"
  by (cases r; simp)+

lemma project_rank_order:
  "project_rank r < project_rank ProjViewer \<longleftrightarrow> False"
  "project_rank r < project_rank ProjDeveloper \<longleftrightarrow> \<not> CanEnqueueJobs r"
  "project_rank r < project_rank ProjAdmin \<longleftrightarrow> r \<noteq> ProjAdmin"
  by (cases r; simp)+

definition org_role_of :: "db \<Rightarrow> uuid \<Rightarrow> uuid \<Rightarrow> OrgRole option" where
  "org_role_of d oid uid = (case OrgRepo_GetMember None oid uid d of Inl _ \<Rightarrow> None | Inr m \<Rightarrow> Some (OM_Role m))"

definition project_role_of :: "db \<Rightarrow> uuid \<Rightarrow> uuid \<Rightarrow> ProjectRole option" where
  "project_role_of d pid uid = (case ProjectRepo_GetMember None pid uid d of Inl _ \<Rightarrow> None | Inr m \<Rightarrow> Some (PM_Role m))"

lemma RequireOrgRole_pass:
  assumes "uuid_Parse (cx_param c ''orgId'') = Some oid"
  shows "RequireOrgRole uuid_Parse None m nxt c d =
    (case org_role_of d oid (GetUserID c) of
       None \<Rightarrow> (RespondError (Forbidden ''you are not a member of this organization''), d)
     | Some r \<Rightarrow> if org_rank r < org_rank m then (RespondError (Forbidden ''insufficient organization role''), d)
         else nxt (SetOrgRole (org_role_str r) c) d)"
  using assms by (auto simp: RequireOrgRole_def parseUUIDParam_def org_role_of_def split: sum.splits)

lemma RequireProjectRole_pass:
  assumes "uuid_Parse (cx_param c ''projectId'') = Some pid"
  shows "RequireProjectRole uuid_Parse None m nxt c d =
    (case project_role_of d pid (GetUserID c) of
       None \<Rightarrow> (RespondError (Forbidden ''you are not a member of this project''), d)
     | Some r \<Rightarrow> if project_rank r < project_rank m then (RespondError (Forbidden ''insufficient project role''), d)
         else nxt c d)"
  using assms by (auto simp: RequireProjectRole_def parseUUIDParam_def project_role_of_def split: sum.splits)

text \<open>The rank tables of the middleware are the permission predicates of the domain: the guard of
  an organization route lets a member through to the admin operations exactly when the role can manage
  members, to the deletion exactly when it can delete the organization, to reading always; the guard of
  a project route to the developer operations exactly when the role can enqueue jobs. A user who is not a
  member, or ranks too low, gets a 403 and the database is not touched.\<close>

theorem guards_are_permissions:
  assumes "uuid_Parse (cx_param c ''orgId'') = Some oid" and "uuid_Parse (cx_param c ''projectId'') = Some pid"
    and "org_role_of d oid (GetUserID c) = Some r" and "project_role_of d pid (GetUserID c) = Some q"
  shows "RequireOrgRole uuid_Parse None RoleAdmin nxt c d =
      (if CanManageMembers r then nxt (SetOrgRole (org_role_str r) c) d
       else (RespondError (Forbidden ''insufficient organization role''), d)) \<and>
    RequireOrgRole uuid_Parse None RoleOwner nxt c d =
      (if CanDeleteOrg r then nxt (SetOrgRole (org_role_str r) c) d
       else (RespondError (Forbidden ''insufficient organization role''), d)) \<and>
    RequireOrgRole uuid_Parse None RoleMember nxt c d = nxt (SetOrgRole (org_role_str r) c) d \<and>
    RequireProjectRole uuid_Parse None ProjDeveloper nxt c d =
      (if CanEnqueueJobs q then nxt c d else (RespondError (Forbidden ''insufficient project role''), d)) \<and>
    RequireProjectRole uuid_Parse None ProjViewer nxt c d = nxt c d"
  using assms(3,4) org_rank_order [of r] project_rank_order [of q]
  by (simp add: RequireOrgRole_pass [where uuid_Parse = uuid_Parse, OF assms(1)]
      RequireProjectRole_pass [where uuid_Parse = uuid_Parse, OF assms(2)])

section \<open>The guards as an interface\<close>

text \<open>The roles are ordered by the rank tables.\<close>

lemma org_rank_inj: "org_rank r = org_rank r' \<longleftrightarrow> r = r'"
  by (cases r; cases r'; simp)

lemma project_rank_inj: "project_rank r = project_rank r' \<longleftrightarrow> r = r'"
  by (cases r; cases r'; simp)

instantiation OrgRole :: linorder
begin

definition less_eq_OrgRole :: "OrgRole \<Rightarrow> OrgRole \<Rightarrow> bool" where
  "less_eq_OrgRole r r' \<longleftrightarrow> org_rank r \<le> org_rank r'"

definition less_OrgRole :: "OrgRole \<Rightarrow> OrgRole \<Rightarrow> bool" where
  "less_OrgRole r r' \<longleftrightarrow> org_rank r < org_rank r'"

instance
  by standard (auto simp: less_eq_OrgRole_def less_OrgRole_def org_rank_inj)

end

instantiation ProjectRole :: linorder
begin

definition less_eq_ProjectRole :: "ProjectRole \<Rightarrow> ProjectRole \<Rightarrow> bool" where
  "less_eq_ProjectRole r r' \<longleftrightarrow> project_rank r \<le> project_rank r'"

definition less_ProjectRole :: "ProjectRole \<Rightarrow> ProjectRole \<Rightarrow> bool" where
  "less_ProjectRole r r' \<longleftrightarrow> project_rank r < project_rank r'"

instance
  by standard (auto simp: less_eq_ProjectRole_def less_ProjectRole_def project_rank_inj)

end

text \<open>What both role guards promise the routes behind them. \<open>admit\<close> is what the guard leaves in the
  context of a request that it lets through.\<close>

locale role_guard =
  fixes require :: "'r :: linorder \<Rightarrow> 'b handlerf \<Rightarrow> 'b handlerf"
    and role_of :: "ctx \<Rightarrow> db \<Rightarrow> 'r option"
    and admit :: "'r \<Rightarrow> ctx \<Rightarrow> ctx"
    and denied :: goerr
  assumes member: "role_of c d = Some r \<Longrightarrow>
      require m nxt c d = (if m \<le> r then nxt (admit r c) d else (RespondError denied, d))"
    and stranger: "role_of c d = None \<Longrightarrow> \<exists>err. require m nxt c d = (RespondError err, d)"
    and same_role: "role_of (admit r c) d = role_of c d"
    and admit_twice: "admit r (admit r c) = admit r c"
begin

lemma passes_or_refuses:
  "(\<exists>r. role_of c d = Some r \<and> m \<le> r \<and> require m nxt c d = nxt (admit r c) d) \<or>
   (\<exists>err. require m nxt c d = (RespondError err, d))"
  using member [of c d] stranger [of c d m nxt] by (cases "role_of c d") auto

text \<open>Two guards one after the other are the guard of the greater role: the groups registered on one
  path do not choose, they add up.\<close>

lemma stacked:
  assumes "role_of c d = Some r"
  shows "require m (require m' nxt) c d = require (max m m') nxt c d"
  using assms by (simp add: member same_role admit_twice)

lemma greater_role_passes:
  assumes "role_of c d = Some r" and "role_of c' d' = Some r'" and "r \<le> r'"
    and "require m nxt c d \<noteq> (RespondError denied, d)"
  shows "require m nxt c' d' = nxt (admit r' c') d'"
  using assms by (auto simp: member split: if_splits)

end

definition route_org_role :: "(string \<Rightarrow> uuid option) \<Rightarrow> ctx \<Rightarrow> db \<Rightarrow> OrgRole option" where
  "route_org_role uuid_Parse c d =
     Option.bind (uuid_Parse (cx_param c ''orgId'')) (\<lambda>oid. org_role_of d oid (GetUserID c))"

definition route_project_role :: "(string \<Rightarrow> uuid option) \<Rightarrow> ctx \<Rightarrow> db \<Rightarrow> ProjectRole option" where
  "route_project_role uuid_Parse c d =
     Option.bind (uuid_Parse (cx_param c ''projectId'')) (\<lambda>pid. project_role_of d pid (GetUserID c))"

interpretation org_guard: role_guard "RequireOrgRole uuid_Parse None" "route_org_role uuid_Parse"
  "\<lambda>r. SetOrgRole (org_role_str r)" "Forbidden ''insufficient organization role''" for uuid_Parse
proof
  fix c d r m and nxt :: "'b handlerf"
  show "route_org_role uuid_Parse c d = Some r \<Longrightarrow> RequireOrgRole uuid_Parse None m nxt c d =
      (if m \<le> r then nxt (SetOrgRole (org_role_str r) c) d
       else (RespondError (Forbidden ''insufficient organization role''), d))"
    by (auto simp: route_org_role_def bind_eq_Some_conv RequireOrgRole_pass less_eq_OrgRole_def)
  show "route_org_role uuid_Parse c d = None \<Longrightarrow> \<exists>err. RequireOrgRole uuid_Parse None m nxt c d = (RespondError err, d)"
    by (cases "uuid_Parse (cx_param c ''orgId'')") (auto simp: route_org_role_def RequireOrgRole_def parseUUIDParam_def org_role_of_def
        split: sum.splits)
  show "route_org_role uuid_Parse (SetOrgRole (org_role_str r) c) d = route_org_role uuid_Parse c d"
    by (simp add: route_org_role_def)
  show "SetOrgRole (org_role_str r) (SetOrgRole (org_role_str r) c) = SetOrgRole (org_role_str r) c"
    by (simp add: ctx_defs)
qed

interpretation project_guard: role_guard "RequireProjectRole uuid_Parse None" "route_project_role uuid_Parse"
  "\<lambda>r c. c" "Forbidden ''insufficient project role''" for uuid_Parse
proof
  fix c d r m and nxt :: "'b handlerf"
  show "route_project_role uuid_Parse c d = Some r \<Longrightarrow> RequireProjectRole uuid_Parse None m nxt c d =
      (if m \<le> r then nxt c d else (RespondError (Forbidden ''insufficient project role''), d))"
    by (auto simp: route_project_role_def bind_eq_Some_conv RequireProjectRole_pass less_eq_ProjectRole_def)
  show "route_project_role uuid_Parse c d = None \<Longrightarrow> \<exists>err. RequireProjectRole uuid_Parse None m nxt c d = (RespondError err, d)"
    by (cases "uuid_Parse (cx_param c ''projectId'')") (auto simp: route_project_role_def RequireProjectRole_def parseUUIDParam_def project_role_of_def
        split: sum.splits)
qed simp_all

definition guard_db :: db where
  "guard_db = ann_db\<lparr>org_members := [\<lparr>omr_org_id = 5, omr_user_id = U_ID ann, omr_role = RoleAdmin, omr_joined_at = 0\<rparr>],
     project_members := [\<lparr>pmr_project_id = 6, pmr_user_id = U_ID ann, pmr_role = ProjDeveloper, pmr_joined_at = 0\<rparr>]\<rparr>"

definition guard_ctx :: ctx where
  "guard_ctx = SetUserID (U_ID ann) ((bearer_ctx [])\<lparr>cx_param := (\<lambda>p. if p = ''orgId'' then ''5'' else ''6'')\<rparr>)"

definition digit_uuid :: "string \<Rightarrow> uuid option" where
  "digit_uuid s = (case s of [c] \<Rightarrow> Some (of_char c - 48) | _ \<Rightarrow> None)"

lemma guard_roles: "org_role_of guard_db 5 (U_ID ann) = Some RoleAdmin"
  "project_role_of guard_db 6 (U_ID ann) = Some ProjDeveloper"
  by (simp_all add: org_role_of_def project_role_of_def OrgRepo_GetMember_def ProjectRepo_GetMember_def guard_db_def
      get_row_def org_member_join_def project_member_join_def ann_db_def)

lemma guard_ctx_sel: "digit_uuid (cx_param guard_ctx ''orgId'') = Some 5"
  "digit_uuid (cx_param guard_ctx ''projectId'') = Some 6" "GetUserID guard_ctx = U_ID ann"
  by (simp_all add: guard_ctx_def digit_uuid_def)

theorem guards_are_permissions_witness:
  "RequireOrgRole digit_uuid None RoleOwner (\<lambda>c d. (NoContent, d)) guard_ctx guard_db =
     (RespondError (Forbidden ''insufficient organization role'') :: unit http, guard_db) \<and>
   RequireProjectRole digit_uuid None ProjDeveloper (\<lambda>c d. (NoContent, d)) guard_ctx guard_db =
     (NoContent :: unit http, guard_db)"
  using guards_are_permissions [where c = guard_ctx and d = guard_db and uuid_Parse = digit_uuid
      and nxt = "\<lambda>c d. (NoContent :: unit http, d)", OF guard_ctx_sel(1,2)]
    guard_roles by (simp add: guard_ctx_sel)

section \<open>Tokens and the authentication guard\<close>

text \<open>What the JWT library documents for HS256: a token signed with the secret that the key function
  answers is valid with its claims from its not-before time until it expires.\<close>

definition jwt_reads_back ::
  "(string \<Rightarrow> Claims \<Rightarrow> string res) \<Rightarrow> ((bool \<Rightarrow> string \<Rightarrow> string res) \<Rightarrow> string \<Rightarrow> (Claims \<times> bool) res) \<Rightarrow> time \<Rightarrow> bool" where
  "jwt_reads_back sign parse t \<longleftrightarrow> (\<forall>secret claims tok kf. sign secret claims = Inr tok \<longrightarrow>
     kf True ''HS256'' = Inr secret \<longrightarrow> Cl_NotBefore claims \<le> t \<longrightarrow> t < Cl_ExpiresAt claims \<longrightarrow>
     parse kf tok = Inr (claims, True))"


definition ann_claims :: Claims where
  "ann_claims = \<lparr>Cl_Subject = ''7'', Cl_IssuedAt = 100, Cl_ExpiresAt = time_Add 100 (900 * time_Second),
     Cl_NotBefore = 100, Cl_Issuer = ''job-scheduler'', Cl_UserID = ''7'', Cl_Email = ''ann''\<rparr>"

definition one_claim_sign :: "string \<Rightarrow> Claims \<Rightarrow> string res" where
  "one_claim_sign secret cl = (if cl = ann_claims then Inr ''token'' else Inl (PlainErr ''no''))"

definition one_claim_parse :: "(bool \<Rightarrow> string \<Rightarrow> string res) \<Rightarrow> string \<Rightarrow> (Claims \<times> bool) res" where
  "one_claim_parse kf tok = Inr (ann_claims, True)"


end
