(* ===== verification/Handlers.thy ===== *)
theory Handlers
  imports Http JobService QueueService OrgService ProjectService
begin

text \<open>
  The HTTP handlers of the core resources (\<open>internal/handler/{auth,org,project,queue,job}\<close>). Each
  takes the environment of its service operation, the parsed body where it reads one (\<open>Inl\<close> for JSON
  that does not parse; the role of a membership request is one of the three roles), the request context
  and the database. The steps they share are the combinators of the first section.
\<close>

section \<open>Shared steps\<close>

definition parseUUID :: "(string \<Rightarrow> uuid option) \<Rightarrow> ctx \<Rightarrow> string \<Rightarrow> uuid res" where
  "parseUUID uuid_Parse c param = (case uuid_Parse (cx_param c param) of
       None \<Rightarrow> Inl (InvalidInput (param @ '' must be a valid UUID'')) | Some i \<Rightarrow> Inr i)"

definition validationError :: "FieldError list \<Rightarrow> 'b http" where
  "validationError details = Resp 400 (ErrBody (code_str CodeInvalidInput) ''validation failed'' (Some details))"

definition or_respond :: "'a res \<Rightarrow> db \<Rightarrow> ('a \<Rightarrow> 'b http \<times> db) \<Rightarrow> 'b http \<times> db" where
  "or_respond r d k = (case r of Inl err \<Rightarrow> (RespondError err, d) | Inr x \<Rightarrow> k x)"

definition with_body :: "string \<Rightarrow> ('q \<Rightarrow> vfailure list option) \<Rightarrow> 'q res \<Rightarrow> db \<Rightarrow> ('q \<Rightarrow> 'b http \<times> db) \<Rightarrow> 'b http \<times> db" where
  "with_body malformed val body d k = (case body of
       Inl _ \<Rightarrow> (RespondError (InvalidInput malformed), d)
     | Inr req \<Rightarrow> (case Validate val req of Some errs \<Rightarrow> (validationError errs, d) | None \<Rightarrow> k req))"

definition reply :: "int \<Rightarrow> 'b res \<times> db \<Rightarrow> 'b http \<times> db" where
  "reply status r = (case fst r of Inl err \<Rightarrow> RespondError err | Inr x \<Rightarrow> Resp status (Data x), snd r)"

definition reply_empty :: "unit res \<times> db \<Rightarrow> unit http \<times> db" where
  "reply_empty r = (case fst r of Inl err \<Rightarrow> RespondError err | Inr _ \<Rightarrow> NoContent, snd r)"

lemmas handler_steps = parseUUID_def validationError_def or_respond_def with_body_def reply_def reply_empty_def

section \<open>Jobs\<close>

definition job_h_Enqueue where
  "job_h_Enqueue uuid_Parse val f1 f2 f3 new_id clock body c d =
     or_respond (parseUUID uuid_Parse c ''queueId'') d (\<lambda>queueID.
       with_body ''malformed JSON'' val body d (\<lambda>req.
         reply 201 (job_svc_Enqueue f1 f2 f3 new_id clock queueID req d)))"

definition job_h_Get where
  "job_h_Get uuid_Parse f c d =
     or_respond (parseUUID uuid_Parse c ''jobId'') d (\<lambda>jobID. reply 200 (job_svc_GetByID f jobID d, d))"

text \<open>\<open>QueryInt\<close>: the integer of the query parameter, the default when there is none; \<open>Atoi\<close> is
  the conversion.\<close>

definition QueryInt :: "(string \<Rightarrow> int option) \<Rightarrow> ctx \<Rightarrow> string \<Rightarrow> int \<Rightarrow> int" where
  "QueryInt Atoi c key dflt = (case Atoi (cx_query c key) of None \<Rightarrow> dflt | Some n \<Rightarrow> n)"

definition list_filter :: "(string \<Rightarrow> int option) \<Rightarrow> ctx \<Rightarrow> ListFilter" where
  "list_filter Atoi c =
     (let l = QueryInt Atoi c ''limit'' 50; o1 = QueryInt Atoi c ''offset'' 0;
          s = cx_query c ''status''; t = cx_query c ''type''
      in \<lparr>F_Status = (if s \<noteq> [] then Some s else None), F_Type = (if t \<noteq> [] then Some t else None),
          F_Tags = None, F_RunAfter = None, F_RunBefore = None,
          F_Limit = (if 0 < l \<and> l \<le> 200 then l else 50), F_Offset = (if 0 \<le> o1 then o1 else 0)\<rparr>)"

definition job_h_List where
  "job_h_List uuid_Parse Atoi f1 f2 c d =
     or_respond (parseUUID uuid_Parse c ''queueId'') d (\<lambda>queueID.
       reply 200 (job_svc_List f1 f2 queueID (list_filter Atoi c) d, d))"

definition job_h_Cancel where
  "job_h_Cancel uuid_Parse f now c d =
     or_respond (parseUUID uuid_Parse c ''jobId'') d (\<lambda>jobID. reply_empty (job_svc_Cancel f now jobID d))"

definition job_h_Retry where
  "job_h_Retry uuid_Parse f f' clock now c d =
     or_respond (parseUUID uuid_Parse c ''jobId'') d (\<lambda>jobID. reply_empty (job_svc_Retry f f' clock now jobID d))"

section \<open>Queues\<close>

definition queue_h_Create where
  "queue_h_Create uuid_Parse val f new_id clock body c d =
     or_respond (parseUUID uuid_Parse c ''projectId'') d (\<lambda>projectID.
       with_body ''malformed JSON'' val body d (\<lambda>req. reply 201 (queue_svc_Create f new_id clock projectID req d)))"

definition queue_h_Get where
  "queue_h_Get uuid_Parse f c d =
     or_respond (parseUUID uuid_Parse c ''queueId'') d (\<lambda>queueID. reply 200 (queue_svc_GetByID f queueID d, d))"

definition queue_h_List where
  "queue_h_List uuid_Parse collate f c d =
     or_respond (parseUUID uuid_Parse c ''projectId'') d (\<lambda>projectID.
       reply 200 (queue_svc_ListByProject collate f projectID d, d))"

definition queue_h_Update where
  "queue_h_Update uuid_Parse val f f' clock now body c d =
     or_respond (parseUUID uuid_Parse c ''queueId'') d (\<lambda>queueID.
       with_body ''malformed JSON'' val body d (\<lambda>req. reply 200 (queue_svc_Update f f' clock now queueID req d)))"

definition queue_h_Delete where
  "queue_h_Delete uuid_Parse f c d =
     or_respond (parseUUID uuid_Parse c ''queueId'') d (\<lambda>queueID. reply_empty (queue_svc_Delete f queueID d))"

definition queue_h_Pause where
  "queue_h_Pause uuid_Parse f f' now c d =
     or_respond (parseUUID uuid_Parse c ''queueId'') d (\<lambda>queueID. reply_empty (queue_svc_Pause f f' now queueID d))"

definition queue_h_Resume where
  "queue_h_Resume uuid_Parse f f' now c d =
     or_respond (parseUUID uuid_Parse c ''queueId'') d (\<lambda>queueID. reply_empty (queue_svc_Resume f f' now queueID d))"

definition queue_h_GetStats where
  "queue_h_GetStats uuid_Parse f c d =
     or_respond (parseUUID uuid_Parse c ''queueId'') d (\<lambda>queueID. reply 200 (queue_svc_GetStats f queueID d, d))"

section \<open>Organizations\<close>

definition org_h_Create where
  "org_h_Create val f1 f2 f3 new_id now body c d =
     with_body ''malformed JSON'' val body d (\<lambda>req.
       reply 201 (org_svc_Create f1 f2 f3 new_id now (GetUserID c) req d))"

definition org_h_Get where
  "org_h_Get uuid_Parse f c d =
     or_respond (parseUUID uuid_Parse c ''orgId'') d (\<lambda>orgID. reply 200 (org_svc_GetByID f orgID d, d))"

definition org_h_List where
  "org_h_List collate f f' c d = reply 200 (org_svc_ListForUser collate f f' (GetUserID c) d, d)"

definition org_h_Update where
  "org_h_Update uuid_Parse val f f' clock now body c d =
     or_respond (parseUUID uuid_Parse c ''orgId'') d (\<lambda>orgID.
       with_body ''malformed JSON'' val body d (\<lambda>req. reply 200 (org_svc_Update f f' clock now orgID req d)))"

definition org_h_Delete where
  "org_h_Delete uuid_Parse f c d =
     or_respond (parseUUID uuid_Parse c ''orgId'') d (\<lambda>orgID. reply_empty (org_svc_Delete f orgID d))"

definition org_h_AddMember where
  "org_h_AddMember uuid_Parse val f f' now body c d =
     or_respond (parseUUID uuid_Parse c ''orgId'') d (\<lambda>orgID.
       with_body ''malformed JSON'' val body d (\<lambda>req. reply 201 (org_svc_AddMember f f' now orgID req d)))"

definition org_h_UpdateMemberRole where
  "org_h_UpdateMemberRole uuid_Parse val f f' body c d =
     or_respond (parseUUID uuid_Parse c ''orgId'') d (\<lambda>orgID.
       or_respond (parseUUID uuid_Parse c ''userId'') d (\<lambda>userID.
         with_body ''malformed JSON'' val body d (\<lambda>role. reply 200 (org_svc_UpdateMemberRole f f' orgID userID role d))))"

definition org_h_RemoveMember where
  "org_h_RemoveMember uuid_Parse f c d =
     or_respond (parseUUID uuid_Parse c ''orgId'') d (\<lambda>orgID.
       or_respond (parseUUID uuid_Parse c ''userId'') d (\<lambda>userID. reply_empty (org_svc_RemoveMember f orgID userID d)))"

definition org_h_ListMembers where
  "org_h_ListMembers uuid_Parse f c d =
     or_respond (parseUUID uuid_Parse c ''orgId'') d (\<lambda>orgID. reply 200 (org_svc_ListMembers f orgID d, d))"

section \<open>Projects\<close>

definition project_h_Create where
  "project_h_Create uuid_Parse val sha256_hex random f1 f2 f3 new_id now body c d =
     or_respond (parseUUID uuid_Parse c ''orgId'') d (\<lambda>orgID.
       with_body ''malformed JSON'' val body d (\<lambda>req.
         reply 201 (project_svc_Create sha256_hex random f1 f2 f3 new_id now orgID (GetUserID c) req d)))"

definition project_h_Get where
  "project_h_Get uuid_Parse f c d =
     or_respond (parseUUID uuid_Parse c ''projectId'') d (\<lambda>projectID. reply 200 (project_svc_GetByID f projectID d, d))"

definition project_h_List where
  "project_h_List uuid_Parse collate f c d =
     or_respond (parseUUID uuid_Parse c ''orgId'') d (\<lambda>orgID. reply 200 (project_svc_ListByOrg collate f orgID d, d))"

definition project_h_Update where
  "project_h_Update uuid_Parse val f f' clock now body c d =
     or_respond (parseUUID uuid_Parse c ''projectId'') d (\<lambda>projectID.
       with_body ''malformed JSON'' val body d (\<lambda>req. reply 200 (project_svc_Update f f' clock now projectID req d)))"

definition project_h_Delete where
  "project_h_Delete uuid_Parse f c d =
     or_respond (parseUUID uuid_Parse c ''projectId'') d (\<lambda>projectID. reply_empty (project_svc_Delete f projectID d))"

definition project_h_RotateAPIKey where
  "project_h_RotateAPIKey uuid_Parse sha256_hex random f f' clock now c d =
     or_respond (parseUUID uuid_Parse c ''projectId'') d (\<lambda>projectID.
       reply 200 (project_svc_RotateAPIKey sha256_hex random f f' clock now projectID d))"

section \<open>Authentication\<close>

definition auth_h_Register where
  "auth_h_Register val bcrypt_hash f new_id now body c d =
     with_body ''request body is malformed JSON'' val body d (\<lambda>req.
       reply 201 (auth_Register bcrypt_hash f new_id now req d))"

definition auth_h_Login where
  "auth_h_Login val env cfg body c d =
     with_body ''request body is malformed JSON'' val body d (\<lambda>req.
       reply 200 (auth_Login env cfg req (cx_header c ''User-Agent'') (cx_ip c) d))"

text \<open>The body of refresh and logout is the refresh token; it is not validated by tags.\<close>

definition auth_h_Refresh where
  "auth_h_Refresh env cfg body c d = (case body of
       Inl _ \<Rightarrow> (RespondError (InvalidInput ''request body is malformed JSON''), d)
     | Inr token \<Rightarrow> if token = [] then (RespondError (InvalidInput ''refresh_token is required''), d)
         else reply 200 (auth_Refresh env cfg token d, d))"

definition auth_h_Logout :: "auth_env \<Rightarrow> string res \<Rightarrow> ctx \<Rightarrow> db \<Rightarrow> unit http \<times> db" where
  "auth_h_Logout env body c d = (case body of
       Inl _ \<Rightarrow> (RespondError (InvalidInput ''request body is malformed JSON''), d)
     | Inr token \<Rightarrow> (NoContent, snd (auth_Logout env token d)))"

section \<open>What the handlers guarantee\<close>

lemma reply_status: "http_status (fst (reply n (Inr x, d))) = n" "snd (reply n (r, d)) = d"
  by (simp_all add: reply_def)

lemma RespondError_not_ok: "n < 400 \<Longrightarrow> RespondError e \<noteq> (Resp n b :: 'b http)"
  using RespondError_status [of e, where 'b = 'b] by auto

lemma reply_ok: "reply 200 (r, d) = (Resp 200 (Data x), d') \<longleftrightarrow> r = Inr x \<and> d' = d"
  by (cases r) (auto simp: reply_def RespondError_not_ok)

lemma or_respond_ok:
  "or_respond r d k = (Resp 200 (Data x), d') \<longleftrightarrow> (\<exists>y. r = Inr y \<and> k y = (Resp 200 (Data x), d'))"
  by (cases r) (auto simp: or_respond_def RespondError_not_ok)

lemma parseUUID_ok: "parseUUID up c p = Inr i \<longleftrightarrow> up (cx_param c p) = Some i"
  by (simp add: parseUUID_def split: option.splits)

lemma parseUUID_error: "parseUUID up c p = Inl e \<Longrightarrow> http_status (RespondError e :: 'b http) = 400"
  by (auto simp: parseUUID_def RespondError_def err_defs split: option.splits)

lemma with_body_refused:
  assumes "(\<exists>e. body = Inl e) \<or> (\<exists>q errs. body = Inr q \<and> Validate val q = Some errs)"
  shows "\<exists>r. with_body m val body d k = (r, d) \<and> http_status r = 400"
  using assms by (auto simp: with_body_def validationError_def RespondError_def err_defs)

definition refused :: "('q \<Rightarrow> vfailure list option) \<Rightarrow> 'q res \<Rightarrow> bool" where
  "refused val body \<longleftrightarrow> (case body of Inl _ \<Rightarrow> True | Inr q \<Rightarrow> Validate val q \<noteq> None)"

lemma refused_body: "refused val body \<Longrightarrow> \<exists>r. with_body m val body d k = (r, d) \<and> http_status r = 400"
  by (rule with_body_refused) (auto simp: refused_def split: sum.splits)

lemma refused_request:
  assumes "refused val body"
  shows "\<exists>r :: 'b http. or_respond (parseUUID up c p) d (\<lambda>x. with_body m val body d (k x)) = (r, d) \<and> http_status r = 400"
proof (cases "parseUUID up c p")
  case (Inl e)
  then show ?thesis using parseUUID_error [OF Inl] by (simp add: or_respond_def)
next
  case (Inr x)
  then show ?thesis using refused_body [OF assms] by (simp add: or_respond_def)
qed

text \<open>A request that does not parse or does not validate is answered with status 400 and has no
  effect: whatever the identifiers in the path, enqueueing a job, creating or updating a queue, creating
  or updating an organization or a project, adding a member, registering and logging in leave the
  database as it is.\<close>

theorem refused_requests_change_nothing:
  assumes "refused val_e body_e" and "refused val_q body_q" and "refused val_u body_u"
    and "refused val_o body_o" and "refused val_m body_m" and "refused val_p body_p"
    and "refused val_r body_r" and "refused val_l body_l"
  shows "(\<exists>r. job_h_Enqueue up val_e f1 f2 f3 i t body_e c d = (r, d) \<and> http_status r = 400) \<and>
    (\<exists>r. queue_h_Create up val_q f1 i t body_q c d = (r, d) \<and> http_status r = 400) \<and>
    (\<exists>r. queue_h_Update up val_u f1 f2 t now body_u c d = (r, d) \<and> http_status r = 400) \<and>
    (\<exists>r. org_h_Create val_o f1 f2 f3 i t body_o c d = (r, d) \<and> http_status r = 400) \<and>
    (\<exists>r. org_h_AddMember up val_m f1 f2 now body_m c d = (r, d) \<and> http_status r = 400) \<and>
    (\<exists>r. project_h_Create up val_p sha rnd f1 f2 f3 i t body_p c d = (r, d) \<and> http_status r = 400) \<and>
    (\<exists>r. auth_h_Register val_r bc f1 i t body_r c d = (r, d) \<and> http_status r = 400) \<and>
    (\<exists>r. auth_h_Login val_l env cfg body_l c d = (r, d) \<and> http_status r = 400)"
  unfolding job_h_Enqueue_def queue_h_Create_def queue_h_Update_def org_h_Create_def org_h_AddMember_def
    project_h_Create_def auth_h_Register_def auth_h_Login_def
  by (intro conjI; ((rule refused_request, rule assms) | (rule refused_body, rule assms)))

theorem refused_requests_change_nothing_witness:
  "\<exists>r. job_h_Enqueue digit_uuid (\<lambda>_. None) None None None 5 100 (Inl (PlainErr ''json'')) guard_ctx guard_db =
     (r, guard_db) \<and> http_status r = 400"
proof -
  have r: "refused (\<lambda>_. None) (Inl (PlainErr ''json''))" by (simp add: refused_def)
  show ?thesis
    using refused_requests_change_nothing [OF r r r r r r r r, where c = guard_ctx and d = guard_db
        and up = digit_uuid and i = 5 and t = 100] by blast
qed

text \<open>Whatever the query parameters say, a listing of jobs asks for between 1 and 200 rows from an
  offset that is not negative; the answer holds at most that many jobs, all of the queue in the path; the
  only failure without a fault of the database is a status that does not exist.\<close>

theorem list_request_bounded:
  "1 \<le> F_Limit (list_filter Atoi c) \<and> F_Limit (list_filter Atoi c) \<le> 200 \<and> 0 \<le> F_Offset (list_filter Atoi c) \<and>
   (job_h_List up Atoi f1 f2 c d = (Resp 200 (Data lr), d') \<longrightarrow> d' = d \<and>
      int (length (LR_Jobs lr)) \<le> F_Limit (list_filter Atoi c) \<and>
      (\<exists>q. up (cx_param c ''queueId'') = Some q \<and> (\<forall>j\<in>set (LR_Jobs lr). JR_QueueID j = q)))"
proof -
  let ?f = "list_filter Atoi c"
  have b: "1 \<le> F_Limit ?f \<and> F_Limit ?f \<le> 200 \<and> 0 \<le> F_Offset ?f" by (auto simp: list_filter_def Let_def)
  have "d' = d \<and> int (length (LR_Jobs lr)) \<le> F_Limit ?f \<and>
      (\<exists>q. up (cx_param c ''queueId'') = Some q \<and> (\<forall>j\<in>set (LR_Jobs lr). JR_QueueID j = q))"
    if h: "job_h_List up Atoi f1 f2 c d = (Resp 200 (Data lr), d')"
  proof -
    obtain q where q: "up (cx_param c ''queueId'') = Some q" and s: "job_svc_List f1 f2 q ?f d = Inr lr" "d' = d"
      using h unfolding job_h_List_def or_respond_ok parseUUID_ok reply_ok by blast
    obtain rows n where r: "JobRepo_List f1 f2 q ?f d = Inr (rows, n)" "LR_Jobs lr = map toJobResponse rows"
      using s(1) by (cases "JobRepo_List f1 f2 q ?f d") (auto simp: job_svc_List_def)
    have rows: "rows = take (nat (list_limit ?f)) (drop (nat (F_Offset ?f))
        (sql_order (\<lambda>j. - J_CreatedAt j) (sql_select (list_where q ?f) (jobs d))))"
      using r(1) by (auto simp: JobRepo_List_def Let_def db_call_def split: option.splits sum.splits prod.splits if_splits)
    have "list_limit ?f = F_Limit ?f" using b by (simp add: list_limit_def)
    then have "length rows \<le> nat (F_Limit ?f)" unfolding rows by (simp add: length_take)
    then have "int (length rows) \<le> F_Limit ?f" using b by linarith
    moreover have "J_QueueID j = q" if "j \<in> set rows" for j
      using that rows by (auto simp: sql_order_def sql_select_def list_where_def dest!: in_set_takeD in_set_dropD)
    ultimately show ?thesis using q s(2) r(2) by (auto simp: toJobResponse_def)
  qed
  then show ?thesis using b by blast
qed

definition queue_ctx :: ctx where
  "queue_ctx = guard_ctx\<lparr>cx_param := (\<lambda>_. ''7''), cx_query := (\<lambda>k. if k = ''limit'' then ''9'' else [])\<rparr>"

definition digit_Atoi :: "string \<Rightarrow> int option" where
  "digit_Atoi s = (case s of [c] \<Rightarrow> Some (of_char c - 48) | _ \<Rightarrow> None)"

theorem list_request_bounded_witness:
  "F_Limit (list_filter digit_Atoi queue_ctx) \<le> 200 \<and>
   (\<exists>lr. job_h_List digit_uuid digit_Atoi None None queue_ctx (sample_db []) = (Resp 200 (Data lr), sample_db []) \<and>
      int (length (LR_Jobs lr)) \<le> F_Limit (list_filter digit_Atoi queue_ctx))"
proof -
  have "\<exists>lr. job_h_List digit_uuid digit_Atoi None None queue_ctx (sample_db []) = (Resp 200 (Data lr), sample_db [])"
    by (simp add: job_h_List_def handler_steps job_svc_List_def JobRepo_List_def list_filter_def Let_def
        queue_ctx_def digit_uuid_def db_call_def)
  then show ?thesis using list_request_bounded by blast
qed

text \<open>What the client of the enqueue endpoint sees, the database answering: 201 with the job for an
  active queue, 409 for a paused one, 404 for an unknown one; in the last two cases nothing is stored.\<close>

theorem enqueue_statuses:
  assumes "up (cx_param c ''queueId'') = Some q" and "Validate val req = None"
    and "ER_IdempotencyKey req = None"
  shows "case sql_row (\<lambda>r. Q_ID r = q) (queues d) of
      None \<Rightarrow> (\<exists>b. job_h_Enqueue up val None None f i t (Inr req) c d = (Resp 404 b, d))
    | Some r \<Rightarrow> if Q_IsPaused r then (\<exists>b. job_h_Enqueue up val None None f i t (Inr req) c d = (Resp 409 b, d))
        else (\<forall>d' x. JobRepo_Create f (new_job i t q req r) d = (Inr x, d') \<longrightarrow>
          job_h_Enqueue up val None None f i t (Inr req) c d = (Resp 201 (Data (toJobResponse (new_job i t q req r))), d'))"
  using assms by (auto simp: job_h_Enqueue_def handler_steps job_svc_Enqueue_def idempotency_check_def
      QueueRepo_GetByID_def RespondError_def NotFound_def err_New_def paused_error_def Conflict_def Let_def
      split: option.splits)

theorem enqueue_statuses_witness:
  "\<exists>b. job_h_Enqueue digit_uuid (\<lambda>_. None) None None None 5 100 (Inr (sample_request\<lparr>ER_IdempotencyKey := None\<rparr>))
      guard_ctx (sample_db []) = (Resp 404 b, sample_db [])"
proof -
  have q: "digit_uuid (cx_param guard_ctx ''queueId'') = Some 6" by (simp add: guard_ctx_def digit_uuid_def)
  show ?thesis
    using enqueue_statuses [where up = digit_uuid and c = guard_ctx and q = 6 and val = "\<lambda>_. None" and i = 5 and t = 100
        and req = "sample_request\<lparr>ER_IdempotencyKey := None\<rparr>" and d = "sample_db []" and f = None] q
    by (simp add: Validate_def sample_db_def sample_queue_def)
qed

end
