(* ===== verification/Insights.thy ===== *)
theory Insights
  imports Http BatchService CronEngine
begin

text \<open>
  The read-only services and the handlers that return their errors to Fiber instead of writing them:
  batches, cron jobs, metrics and execution logs
  (\<open>internal/handler/{batch,cron,metrics,execlog}\<close>, \<open>internal/service/{metrics,execlog,ai}\<close>).
\<close>

section \<open>Services\<close>

definition metrics_svc_GetQueueMetrics :: "fault \<Rightarrow> uuid \<Rightarrow> time \<Rightarrow> db \<Rightarrow> QueueMetricsSnapshot list res" where
  "metrics_svc_GetQueueMetrics f queueID since d = MetricsRepo_GetSnapshots f queueID since d"

definition metrics_svc_GetSystemMetrics :: "fault \<Rightarrow> fault \<Rightarrow> fault \<Rightarrow> db \<Rightarrow> SystemMetrics res" where
  "metrics_svc_GetSystemMetrics f1 f2 f3 d = MetricsRepo_GetSystemMetrics f1 f2 f3 d"

definition execlog_svc_ListExecutions :: "fault \<Rightarrow> uuid \<Rightarrow> db \<Rightarrow> JobExecution list res" where
  "execlog_svc_ListExecutions f jobID d = ExecLogRepo_ListExecutionsByJob f jobID d"

definition execlog_svc_ListLogs :: "fault \<Rightarrow> uuid \<Rightarrow> db \<Rightarrow> ExecutionLog list res" where
  "execlog_svc_ListLogs f jobID d = ExecLogRepo_ListLogsByJob f jobID d"

definition ai_network :: string where
  "ai_network = ''AI Analysis: The job failed due to a network timeout or unreachable downstream service. Recommendation: Verify that the target service is online and accessible from the worker node.''"
definition ai_format :: string where
  "ai_format = ''AI Analysis: The job encountered a data formatting or syntax error while processing the payload. Recommendation: Check the payload schema and ensure all required fields are correctly typed.''"
definition ai_auth :: string where
  "ai_auth = ''AI Analysis: Authentication failed when the job attempted to access an external resource. Recommendation: Check the API credentials or token expiration.''"
definition ai_other :: string where
  "ai_other = ''AI Analysis: The job failed with an unexpected error. Recommendation: Review the stack trace for application-specific logic errors and consider adding more contextual logging to the handler.''"

definition SummarizeFailure :: "string \<Rightarrow> string \<Rightarrow> string \<Rightarrow> string res" where
  "SummarizeFailure jobType errorMessage stackTrace = (let lowerErr = ToLower errorMessage in
     if Contains lowerErr ''connection refused'' \<or> Contains lowerErr ''timeout'' then Inr ai_network
     else if Contains lowerErr ''syntax'' \<or> Contains lowerErr ''parse'' then Inr ai_format
     else if Contains lowerErr ''unauthorized'' \<or> Contains lowerErr ''forbidden'' then Inr ai_auth
     else Inr ai_other)"

section \<open>Handlers\<close>

definition raise_or :: "'a res \<Rightarrow> db \<Rightarrow> ('a \<Rightarrow> 'b http \<times> db) \<Rightarrow> 'b http \<times> db" where
  "raise_or r d k = (case r of Inl err \<Rightarrow> (Raised err, d) | Inr x \<Rightarrow> k x)"

definition path_id :: "(string \<Rightarrow> uuid option) \<Rightarrow> ctx \<Rightarrow> string \<Rightarrow> string \<Rightarrow> uuid res" where
  "path_id uuid_Parse c param message = (case uuid_Parse (cx_param c param) of
       None \<Rightarrow> Inl (InvalidInput message) | Some i \<Rightarrow> Inr i)"

record CreateBatchRequest =
  BR_Name :: string
  BR_Jobs :: "JobSpecBody list"

definition batch_h_CreateBatch ::
  "(string \<Rightarrow> uuid option) \<Rightarrow> (CreateBatchRequest \<Rightarrow> vfailure list option) \<Rightarrow> fault \<Rightarrow> (nat \<Rightarrow> fault) \<Rightarrow> uuid \<Rightarrow>
   (nat \<Rightarrow> uuid) \<Rightarrow> time \<Rightarrow> CreateBatchRequest res \<Rightarrow> ctx \<Rightarrow> db \<Rightarrow> Batch http \<times> db" where
  "batch_h_CreateBatch uuid_Parse val f faults new_id ids now body c d =
     raise_or (path_id uuid_Parse c ''queueId'' ''invalid queue ID'') d (\<lambda>queueID.
       raise_or (ParseAndValidate val body) d (\<lambda>req.
         case batch_svc_CreateBatch f faults new_id ids now queueID (BR_Name req) (map job_of_spec (BR_Jobs req)) d of
           (r, d') \<Rightarrow> raise_or r d' (\<lambda>b. (Resp 201 (Data b), d'))))"

definition batch_h_GetBatch :: "(string \<Rightarrow> uuid option) \<Rightarrow> fault \<Rightarrow> ctx \<Rightarrow> db \<Rightarrow> Batch http \<times> db" where
  "batch_h_GetBatch uuid_Parse f c d =
     raise_or (path_id uuid_Parse c ''batchId'' ''invalid batch ID'') d (\<lambda>batchID.
       raise_or (batch_svc_Get f batchID d) d (\<lambda>b. (Resp 200 (Data b), d)))"

definition cron_h_Create ::
  "(string \<Rightarrow> uuid option) \<Rightarrow> (CreateCronRequest \<Rightarrow> vfailure list option) \<Rightarrow> fault \<Rightarrow> uuid \<Rightarrow> time \<Rightarrow>
   CreateCronRequest res \<Rightarrow> ctx \<Rightarrow> db \<Rightarrow> CronJob http \<times> db" where
  "cron_h_Create uuid_Parse val f new_id now body c d =
     raise_or (path_id uuid_Parse c ''queueId'' ''invalid queue ID'') d (\<lambda>queueID.
       raise_or (ParseAndValidate val body) d (\<lambda>req.
         case cron_svc_Create f new_id now (cron_of_request queueID req) d of
           ((r, cj), d') \<Rightarrow> raise_or r d' (\<lambda>_. (Resp 201 (Data cj), d'))))"

definition cron_h_List ::
  "(string \<Rightarrow> uuid option) \<Rightarrow> (string \<Rightarrow> int) \<Rightarrow> fault \<Rightarrow> ctx \<Rightarrow> db \<Rightarrow> CronJob list http \<times> db" where
  "cron_h_List uuid_Parse collate f c d =
     raise_or (path_id uuid_Parse c ''queueId'' ''invalid queue ID'') d (\<lambda>queueID.
       raise_or (cron_svc_ListByQueueID collate f queueID d) d (\<lambda>crons. (Resp 200 (Data crons), d)))"

definition cron_h_Delete :: "(string \<Rightarrow> uuid option) \<Rightarrow> fault \<Rightarrow> ctx \<Rightarrow> db \<Rightarrow> unit http \<times> db" where
  "cron_h_Delete uuid_Parse f c d =
     raise_or (path_id uuid_Parse c ''cronId'' ''invalid cron ID'') d (\<lambda>cronID.
       case cron_svc_Delete f cronID d of (r, d') \<Rightarrow> raise_or r d' (\<lambda>_. (NoContent, d')))"

definition execlog_h_ListExecutions ::
  "(string \<Rightarrow> uuid option) \<Rightarrow> fault \<Rightarrow> ctx \<Rightarrow> db \<Rightarrow> JobExecution list http \<times> db" where
  "execlog_h_ListExecutions uuid_Parse f c d =
     raise_or (path_id uuid_Parse c ''jobId'' ''invalid job ID'') d (\<lambda>jobID.
       raise_or (execlog_svc_ListExecutions f jobID d) d (\<lambda>execs. (Resp 200 (Data execs), d)))"

definition execlog_h_ListLogs ::
  "(string \<Rightarrow> uuid option) \<Rightarrow> fault \<Rightarrow> ctx \<Rightarrow> db \<Rightarrow> ExecutionLog list http \<times> db" where
  "execlog_h_ListLogs uuid_Parse f c d =
     raise_or (path_id uuid_Parse c ''jobId'' ''invalid job ID'') d (\<lambda>jobID.
       raise_or (execlog_svc_ListLogs f jobID d) d (\<lambda>logs. (Resp 200 (Data logs), d)))"

text \<open>\<open>parse_time\<close> is \<open>time.Parse(time.RFC3339, _)\<close>; without a parameter the window is the last 24 hours.\<close>

definition metrics_since :: "(string \<Rightarrow> time option) \<Rightarrow> time \<Rightarrow> ctx \<Rightarrow> time res" where
  "metrics_since parse_time now c = (let sinceStr = cx_query c ''since'' in
     if sinceStr \<noteq> [] then (case parse_time sinceStr of
         None \<Rightarrow> Inl (InvalidInput ''invalid since format (use RFC3339)'') | Some t \<Rightarrow> Inr t)
     else Inr (time_Add now (- 24 * time_Hour)))"

definition metrics_h_GetQueueMetrics ::
  "(string \<Rightarrow> uuid option) \<Rightarrow> (string \<Rightarrow> time option) \<Rightarrow> fault \<Rightarrow> time \<Rightarrow> ctx \<Rightarrow> db \<Rightarrow> QueueMetricsSnapshot list http \<times> db" where
  "metrics_h_GetQueueMetrics uuid_Parse parse_time f now c d =
     raise_or (path_id uuid_Parse c ''queueId'' ''invalid queue ID'') d (\<lambda>queueID.
       raise_or (metrics_since parse_time now c) d (\<lambda>since.
         raise_or (metrics_svc_GetQueueMetrics f queueID since d) d (\<lambda>snaps. (Resp 200 (Data snaps), d))))"

definition metrics_h_GetSystemMetrics :: "fault \<Rightarrow> fault \<Rightarrow> fault \<Rightarrow> ctx \<Rightarrow> db \<Rightarrow> SystemMetrics http \<times> db" where
  "metrics_h_GetSystemMetrics f1 f2 f3 c d =
     raise_or (metrics_svc_GetSystemMetrics f1 f2 f3 d) d (\<lambda>sys. (Resp 200 (Data sys), d))"

section \<open>Facts\<close>

lemma raise_or_cases:
  "raise_or r d k = (x, d') \<Longrightarrow> (\<And>e. r = Inl e \<Longrightarrow> x = Raised e \<Longrightarrow> d' = d \<Longrightarrow> P) \<Longrightarrow>
   (\<And>y. r = Inr y \<Longrightarrow> k y = (x, d') \<Longrightarrow> P) \<Longrightarrow> P"
  by (cases r) (auto simp: raise_or_def)

lemma has_prefix_iff: "has_prefix p s \<longleftrightarrow> (\<exists>b. s = p @ b)"
  by (induction p s rule: has_prefix.induct) auto

lemma Contains_iff: "Contains s sub \<longleftrightarrow> (\<exists>a b. s = a @ sub @ b)"
  by (induction s) (auto simp: has_prefix_iff Cons_eq_append_conv)

text \<open>The failure summary looks for patterns anywhere in the message and in any case; a network
  pattern takes precedence over a format pattern, which takes precedence over an authorization pattern,
  and there is always an answer.\<close>

theorem failure_summary_spec:
  "\<exists>s. SummarizeFailure jobType (a @ m @ b) trace = Inr s \<and>
     (ToLower m = ''timeout'' \<or> ToLower m = ''connection refused'' \<longrightarrow> s = ai_network) \<and>
     (ToLower m = ''parse'' \<or> ToLower m = ''syntax'' \<longrightarrow> s = ai_network \<or> s = ai_format) \<and>
     (ToLower m = ''unauthorized'' \<or> ToLower m = ''forbidden'' \<longrightarrow> s \<noteq> ai_other)"
proof -
  have *: "Contains (ToLower (a @ m @ b)) (ToLower m)"
    unfolding Contains_iff ToLower_append by blast
  have d: "ai_network \<noteq> ai_other" "ai_format \<noteq> ai_other" "ai_auth \<noteq> ai_other"
    by (simp_all add: ai_network_def ai_format_def ai_auth_def ai_other_def)
  show ?thesis using * d by (auto simp: SummarizeFailure_def Let_def)
qed

theorem failure_summary_spec_witness:
  "SummarizeFailure ''t'' ''dial: TimeOut, cannot parse'' [] = Inr ai_network"
proof -
  have "ToLower ''TimeOut'' = ''timeout''" by code_simp
  then show ?thesis
    using failure_summary_spec [of "''t''" "''dial: ''" "''TimeOut''" "'', cannot parse''" "[]"] by simp
qed

definition internal_error :: "'b http" where
  "internal_error = Resp 500 (ErrBody ''INTERNAL'' ''an unexpected error occurred'' None)"

lemma served_Raised [simp]: "served (Raised e) = internal_error"
  by (simp add: served_def buildErrorHandler_def internal_error_def)

lemma create_batch_error:
  "batch_svc_CreateBatch f faults i ids now q name specs d = (Inl e, d') \<Longrightarrow> d' = d"
  by (cases f) (auto simp: batch_svc_CreateBatch_def BatchRepo_Create_def insert_batch_def Let_def
      split: prod.splits sum.splits if_splits)

lemma create_cron_error:
  "cron_svc_Create f i now cj d = ((Inl e, cj'), d') \<Longrightarrow> d' = d"
  by (cases f) (auto simp: cron_svc_Create_def CronRepo_Create_def insert_cron_def insert_err_def Let_def map_prod_def
      split: prod.splits sum.splits if_splits option.splits)

lemma delete_cron_error: "cron_svc_Delete f i d = (Inl e, d') \<Longrightarrow> d' = d"
  by (cases f) (auto simp: cron_svc_Delete_def CronRepo_Delete_def exec_tag_def Let_def split: if_splits)

text \<open>The batch, cron, metrics and log handlers answer with their own status only when they succeed:
  every failure, be it a malformed identifier, an invalid body, a name that is taken or a row that does
  not exist, reaches the client as a 500 with a generic message, and nothing is stored; the error object
  that the other handlers would write for a malformed identifier is a 400.\<close>

theorem raw_errors_are_500:
  "(case batch_h_CreateBatch up val_b f faults i ids now body_b c d of
      (r, d') \<Rightarrow> served r = internal_error \<and> d' = d \<or> (\<exists>b. r = Resp 201 (Data b))) \<and>
   (case batch_h_GetBatch up f c d of (r, d') \<Rightarrow> d' = d \<and> (served r = internal_error \<or> (\<exists>b. r = Resp 200 (Data b)))) \<and>
   (case cron_h_Create up val_c f i now body_c c d of
      (r, d') \<Rightarrow> served r = internal_error \<and> d' = d \<or> (\<exists>cj. r = Resp 201 (Data cj))) \<and>
   (case cron_h_Delete up f c d of (r, d') \<Rightarrow> served r = internal_error \<and> d' = d \<or> r = NoContent) \<and>
   (case metrics_h_GetQueueMetrics up pt f now c d of
      (r, d') \<Rightarrow> d' = d \<and> (served r = internal_error \<or> (\<exists>l. r = Resp 200 (Data l)))) \<and>
   (case execlog_h_ListLogs up f c d of
      (r, d') \<Rightarrow> d' = d \<and> (served r = internal_error \<or> (\<exists>l. r = Resp 200 (Data l)))) \<and>
   http_status (RespondError (InvalidInput m) :: unit http) = 400"
proof (intro conjI)
  show "case batch_h_CreateBatch up val_b f faults i ids now body_b c d of
      (r, d') \<Rightarrow> served r = internal_error \<and> d' = d \<or> (\<exists>b. r = Resp 201 (Data b))"
    by (auto simp: batch_h_CreateBatch_def dest: create_batch_error elim!: raise_or_cases split: prod.splits)
  show "case cron_h_Create up val_c f i now body_c c d of
      (r, d') \<Rightarrow> served r = internal_error \<and> d' = d \<or> (\<exists>cj. r = Resp 201 (Data cj))"
    by (auto simp: cron_h_Create_def dest: create_cron_error elim!: raise_or_cases split: prod.splits)
  show "case cron_h_Delete up f c d of (r, d') \<Rightarrow> served r = internal_error \<and> d' = d \<or> r = NoContent"
    by (auto simp: cron_h_Delete_def dest: delete_cron_error elim!: raise_or_cases split: prod.splits)
qed (auto simp: batch_h_GetBatch_def metrics_h_GetQueueMetrics_def execlog_h_ListLogs_def RespondError_def err_defs
    elim!: raise_or_cases split: prod.splits)

text \<open>The snapshots of a queue's metrics are exactly the stored ones of that queue whose window ends
  at or after the requested instant, by default one day before now, in the order of their windows.\<close>

theorem metrics_window:
  assumes "metrics_h_GetQueueMetrics up pt None now c d = (Resp 200 (Data snaps), d')"
  shows "\<exists>q since. up (cx_param c ''queueId'') = Some q \<and>
     (if cx_query c ''since'' = [] then since = now - 24 * 3600 * 1000000000 else pt (cx_query c ''since'') = Some since) \<and>
     set snaps = {m \<in> set (queue_metrics d). QM_QueueID m = q \<and> since \<le> QM_WindowEnd m} \<and>
     sorted (map QM_WindowStart snaps)"
proof -
  have day: "sint (- 24 * time_Hour) = - (24 * 3600 * 1000000000)" by (simp add: time_Hour_def)
  obtain q since where q: "up (cx_param c ''queueId'') = Some q" "metrics_since pt now c = Inr since"
    and s: "metrics_svc_GetQueueMetrics None q since d = Inr snaps"
    using assms by (auto simp: metrics_h_GetQueueMetrics_def path_id_def elim!: raise_or_cases split: option.splits)
  have "if cx_query c ''since'' = [] then since = now - 24 * 3600 * 1000000000 else pt (cx_query c ''since'') = Some since"
    using q(2) day by (auto simp: metrics_since_def Let_def time_Add_def split: option.splits if_splits)
  moreover have "snaps = sql_order QM_WindowStart (sql_select (\<lambda>m. QM_QueueID m = q \<and> since \<le> QM_WindowEnd m) (queue_metrics d))"
    using s by (simp add: metrics_svc_GetQueueMetrics_def MetricsRepo_GetSnapshots_def)
  ultimately show ?thesis using q(1) by (auto simp: sql_order_def sql_select_def)
qed

definition sample_snapshot :: QueueMetricsSnapshot where
  "sample_snapshot = \<lparr>QM_ID = 1, QM_QueueID = 6, QM_WindowStart = 0, QM_WindowEnd = 60, QM_JobsEnqueued = 1,
     QM_JobsSucceeded = 1, QM_JobsFailed = 0, QM_JobsDead = 0, QM_AvgWaitMs = 5, QM_AvgDurationMs = 7\<rparr>"

lemma guard_queue_param: "digit_uuid (cx_param guard_ctx ''queueId'') = Some 6"
  by (simp add: guard_ctx_def digit_uuid_def)

theorem metrics_window_witness:
  "\<exists>snaps. metrics_h_GetQueueMetrics digit_uuid (\<lambda>_. None) None 100 guard_ctx
      (guard_db\<lparr>queue_metrics := [sample_snapshot]\<rparr>) =
        (Resp 200 (Data snaps), guard_db\<lparr>queue_metrics := [sample_snapshot]\<rparr>) \<and> sample_snapshot \<in> set snaps"
proof -
  let ?d = "guard_db\<lparr>queue_metrics := [sample_snapshot]\<rparr>"
  let ?h = "metrics_h_GetQueueMetrics digit_uuid (\<lambda>_. None) None 100 guard_ctx ?d"
  have "cx_query guard_ctx ''since'' = []" by (simp add: guard_ctx_def bearer_ctx_def ctx_defs)
  then obtain snaps where h: "?h = (Resp 200 (Data snaps), ?d)"
    by (simp add: metrics_h_GetQueueMetrics_def raise_or_def path_id_def metrics_since_def guard_ctx_sel
        guard_queue_param metrics_svc_GetQueueMetrics_def MetricsRepo_GetSnapshots_def)
  have "sample_snapshot \<in> set snaps"
    using metrics_window [OF h] \<open>cx_query guard_ctx ''since'' = []\<close>
    by (auto simp: guard_queue_param sample_snapshot_def time_Add_def)
  then show ?thesis using h by blast
qed

end
