(* ===== verification/Routes.thy ===== *)
theory Routes
  imports Http
begin

text \<open>
  The route table: the \<open>RegisterRoutes\<close> methods of the handlers and the composition of
  \<open>cmd/api/main.go\<close>, as the list of registrations in their order. Fiber's router is a
  parameter: a matcher of path patterns, of which \<open>documented_router\<close> states what Fiber documents.
  A group with handlers registers them as \<open>Use\<close> routes of the group's prefix; the first registered
  route that matches runs, a \<open>Use\<close> route hands over to the routes registered after it.
  Paths are lists of segments, the fixed ones in lower case.
\<close>

section \<open>Routes\<close>

datatype seg = Lit string | Par string

datatype meth = GET | POST | PUT | DELETE

datatype guard = Authed | OrgAtLeast OrgRole | ProjectAtLeast ProjectRole | UpgradeOnly

datatype endpoint = Health
  | AuthRegister | AuthLogin | AuthRefresh | AuthLogout
  | OrgCreate | OrgGet | OrgList | OrgUpdate | OrgDelete
  | OrgAddMember | OrgUpdateMemberRole | OrgRemoveMember | OrgListMembers
  | ProjectCreate | ProjectGet | ProjectList | ProjectUpdate | ProjectDelete | ProjectRotateAPIKey
  | QueueCreate | QueueGet | QueueList | QueueUpdate | QueueDelete | QueuePause | QueueResume | QueueGetStats
  | JobEnqueue | JobGet | JobList | JobCancel | JobRetry
  | BatchCreate | BatchGet | CronCreate | CronList | CronDelete
  | MetricsQueue | MetricsSystem | LogExecutions | LogLines | WsLive

record route =
  R_Use :: bool
  R_Method :: meth
  R_Path :: "seg list"
  R_Guards :: "guard list"
  R_End :: "endpoint option"

definition Use :: "seg list \<Rightarrow> guard list \<Rightarrow> route list" where
  "Use p gs = (if gs = [] then [] else [\<lparr>R_Use = True, R_Method = GET, R_Path = p, R_Guards = gs, R_End = None\<rparr>])"

definition Handle :: "meth \<Rightarrow> seg list \<Rightarrow> guard list \<Rightarrow> endpoint \<Rightarrow> route list" where
  "Handle m p gs e = [\<lparr>R_Use = False, R_Method = m, R_Path = p, R_Guards = gs, R_End = Some e\<rparr>]"

section \<open>Registration\<close>

definition auth_RegisterRoutes :: "seg list \<Rightarrow> route list" where
  "auth_RegisterRoutes r =
     Handle POST (r @ [Lit ''register'']) [] AuthRegister @
     Handle POST (r @ [Lit ''login'']) [] AuthLogin @
     Handle POST (r @ [Lit ''refresh'']) [] AuthRefresh @
     Handle DELETE (r @ [Lit ''logout'']) [] AuthLogout"

definition org_RegisterRoutes :: "seg list \<Rightarrow> route list" where
  "org_RegisterRoutes r = (let orgGroup = r @ [Par ''orgId''] in
     Handle POST r [] OrgCreate @
     Handle GET r [] OrgList @
     Use orgGroup [] @
     Handle GET orgGroup [OrgAtLeast RoleMember] OrgGet @
     Handle GET (orgGroup @ [Lit ''members'']) [OrgAtLeast RoleMember] OrgListMembers @
     Handle PUT orgGroup [OrgAtLeast RoleAdmin] OrgUpdate @
     Handle POST (orgGroup @ [Lit ''members'']) [OrgAtLeast RoleAdmin] OrgAddMember @
     Handle PUT (orgGroup @ [Lit ''members'', Par ''userId'', Lit ''role'']) [OrgAtLeast RoleAdmin] OrgUpdateMemberRole @
     Handle DELETE (orgGroup @ [Lit ''members'', Par ''userId'']) [OrgAtLeast RoleAdmin] OrgRemoveMember @
     Handle DELETE orgGroup [OrgAtLeast RoleOwner] OrgDelete)"

definition project_RegisterRoutes :: "seg list \<Rightarrow> route list" where
  "project_RegisterRoutes r = (let proj = r @ [Par ''projectId''] in
     Handle GET r [OrgAtLeast RoleMember] ProjectList @
     Handle POST r [OrgAtLeast RoleAdmin] ProjectCreate @
     Use proj [ProjectAtLeast ProjViewer] @
     Handle GET proj [] ProjectGet @
     Use proj [ProjectAtLeast ProjDeveloper] @
     Handle PUT proj [] ProjectUpdate @
     Use proj [ProjectAtLeast ProjAdmin] @
     Handle DELETE proj [] ProjectDelete @
     Handle POST (proj @ [Lit ''rotate-key'']) [] ProjectRotateAPIKey)"

definition queue_RegisterRoutes :: "seg list \<Rightarrow> route list" where
  "queue_RegisterRoutes r = (let q = r @ [Par ''queueId''] in
     Handle GET r [ProjectAtLeast ProjViewer] QueueList @
     Handle POST r [ProjectAtLeast ProjAdmin] QueueCreate @
     Use q [ProjectAtLeast ProjViewer] @
     Handle GET q [] QueueGet @
     Handle GET (q @ [Lit ''stats'']) [] QueueGetStats @
     Use q [ProjectAtLeast ProjDeveloper] @
     Handle PUT q [] QueueUpdate @
     Handle POST (q @ [Lit ''pause'']) [] QueuePause @
     Handle POST (q @ [Lit ''resume'']) [] QueueResume @
     Use q [ProjectAtLeast ProjAdmin] @
     Handle DELETE q [] QueueDelete)"

definition job_RegisterRoutes :: "seg list \<Rightarrow> route list" where
  "job_RegisterRoutes r = (let j = r @ [Par ''jobId''] in
     Handle GET r [ProjectAtLeast ProjViewer] JobList @
     Handle POST r [ProjectAtLeast ProjDeveloper] JobEnqueue @
     Use j [ProjectAtLeast ProjViewer] @
     Handle GET j [] JobGet @
     Use j [ProjectAtLeast ProjDeveloper] @
     Handle POST (j @ [Lit ''cancel'']) [] JobCancel @
     Handle POST (j @ [Lit ''retry'']) [] JobRetry)"

definition batch_RegisterRoutes :: "seg list \<Rightarrow> seg list \<Rightarrow> route list" where
  "batch_RegisterRoutes queueGroup batchGroup =
     Handle POST (queueGroup @ [Lit ''batches'']) [] BatchCreate @
     Handle GET (batchGroup @ [Par ''batchId'']) [] BatchGet"

definition cron_RegisterRoutes :: "seg list \<Rightarrow> seg list \<Rightarrow> route list" where
  "cron_RegisterRoutes queueGroup cronGroup =
     Handle POST (queueGroup @ [Lit ''cron'']) [] CronCreate @
     Handle GET (queueGroup @ [Lit ''cron'']) [] CronList @
     Handle DELETE (cronGroup @ [Par ''cronId'']) [] CronDelete"

definition metrics_RegisterRoutes :: "seg list \<Rightarrow> route list" where
  "metrics_RegisterRoutes router =
     Handle GET (router @ [Lit ''queues'', Par ''queueId'']) [] MetricsQueue @
     Handle GET (router @ [Lit ''system'']) [] MetricsSystem"

definition execlog_RegisterRoutes :: "seg list \<Rightarrow> route list" where
  "execlog_RegisterRoutes jobGroup =
     Handle GET (jobGroup @ [Par ''jobId'', Lit ''executions'']) [] LogExecutions @
     Handle GET (jobGroup @ [Par ''jobId'', Lit ''logs'']) [] LogLines"

definition ws_RegisterRoutes :: "seg list \<Rightarrow> route list" where
  "ws_RegisterRoutes router =
     Use (router @ [Lit ''live'']) [UpgradeOnly] @
     Handle GET (router @ [Lit ''live'']) [] WsLive"

text \<open>Section 9 of \<open>main\<close>.\<close>

definition api :: "seg list" where "api = [Lit ''api'', Lit ''v1'']"

definition api_queues :: "seg list" where
  "api_queues = api @ [Lit ''projects'', Par ''projectId'', Lit ''queues'']"

definition api_routes :: "route list" where
  "api_routes =
     Handle GET [Lit ''health''] [] Health @
     auth_RegisterRoutes (api @ [Lit ''auth'']) @
     Use (api @ [Lit ''orgs'']) [Authed] @
     org_RegisterRoutes (api @ [Lit ''orgs'']) @
     Use (api @ [Lit ''orgs'', Par ''orgId'', Lit ''projects'']) [Authed] @
     project_RegisterRoutes (api @ [Lit ''orgs'', Par ''orgId'', Lit ''projects'']) @
     Use api_queues [Authed] @
     queue_RegisterRoutes api_queues @
     Use (api_queues @ [Par ''queueId'', Lit ''jobs'']) [Authed] @
     job_RegisterRoutes (api_queues @ [Par ''queueId'', Lit ''jobs'']) @
     Use (api @ [Lit ''batches'']) [Authed] @
     batch_RegisterRoutes api_queues (api @ [Lit ''batches'']) @
     Use (api @ [Lit ''cron'']) [Authed] @
     cron_RegisterRoutes api_queues (api @ [Lit ''cron'']) @
     Use (api @ [Lit ''metrics'']) [Authed] @
     metrics_RegisterRoutes (api @ [Lit ''metrics'']) @
     Use (api @ [Lit ''jobs'']) [Authed] @
     execlog_RegisterRoutes (api @ [Lit ''jobs'']) @
     Use (api @ [Lit ''ws'']) [Authed] @
     ws_RegisterRoutes (api @ [Lit ''ws''])"

section \<open>Serving\<close>

type_synonym bindings = "(string \<times> string) list"
type_synonym router = "bool \<Rightarrow> seg list \<Rightarrow> string list \<Rightarrow> bindings option"

record request =
  RQ_Method :: meth
  RQ_Path :: "string list"
  RQ_Upgrade :: bool

text \<open>What the middleware needs: the token validation, the uuid parser, the faults of its queries,
  and what Fiber answers when no route is left (its 404 or 405).\<close>

record 'b serve_env =
  S_validate :: "string \<Rightarrow> Claims res"
  S_uuid :: "string \<Rightarrow> uuid option"
  S_fault :: fault
  S_run :: "endpoint \<Rightarrow> 'b handlerf"
  S_fallback :: "'b http"

fun run_guard :: "('b, 'z) serve_env_scheme \<Rightarrow> request \<Rightarrow> guard \<Rightarrow> 'b handlerf \<Rightarrow> 'b handlerf" where
  "run_guard env q Authed nxt = AuthRequired (S_validate env) (S_uuid env) nxt"
| "run_guard env q (OrgAtLeast r) nxt = RequireOrgRole (S_uuid env) (S_fault env) r nxt"
| "run_guard env q (ProjectAtLeast r) nxt = RequireProjectRole (S_uuid env) (S_fault env) r nxt"
| "run_guard env q UpgradeOnly nxt = (\<lambda>c d. if RQ_Upgrade q then nxt c d
     else (buildErrorHandler (Inl (426, ''Upgrade Required'')), d))"

fun run_guards :: "('b, 'z) serve_env_scheme \<Rightarrow> request \<Rightarrow> guard list \<Rightarrow> 'b handlerf \<Rightarrow> 'b handlerf" where
  "run_guards env q [] nxt = nxt"
| "run_guards env q (g # gs) nxt = run_guard env q g (run_guards env q gs nxt)"

definition params_of :: "bindings \<Rightarrow> string \<Rightarrow> string" where
  "params_of b k = (case map_of b k of None \<Rightarrow> [] | Some s \<Rightarrow> s)"

fun serve :: "('b, 'z) serve_env_scheme \<Rightarrow> router \<Rightarrow> request \<Rightarrow> route list \<Rightarrow> 'b handlerf" where
  "serve env m q [] = (\<lambda>c d. (S_fallback env, d))"
| "serve env m q (r # rs) =
     (if R_Use r \<or> R_Method r = RQ_Method q then
        (case m (R_Use r) (R_Path r) (RQ_Path q) of
           None \<Rightarrow> serve env m q rs
         | Some b \<Rightarrow> (\<lambda>c. run_guards env q (R_Guards r)
             (case R_End r of None \<Rightarrow> serve env m q rs | Some e \<Rightarrow> S_run env e) (c\<lparr>cx_param := params_of b\<rparr>)))
      else serve env m q rs)"

text \<open>What Fiber documents of its matching, in its default configuration: a method route matches a path of
  exactly its segments, where a parameter takes any non-empty segment; a \<open>Use\<close> route matches every
  path that begins with its segments, and only paths with that prefix as text.\<close>

fun seg_bind :: "seg list \<Rightarrow> string list \<Rightarrow> bindings option" where
  "seg_bind [] [] = Some []"
| "seg_bind (Lit a # p) (s # ss) = (if a = s then seg_bind p ss else None)"
| "seg_bind (Par x # p) (s # ss) = (if s = [] then None else map_option (Cons (x, s)) (seg_bind p ss))"
| "seg_bind _ _ = None"

fun seg_loose :: "seg \<Rightarrow> string \<Rightarrow> bool" where
  "seg_loose (Lit a) s \<longleftrightarrow> take (length a) s = a"
| "seg_loose (Par x) s \<longleftrightarrow> s \<noteq> []"

definition documented_router :: "router \<Rightarrow> bool" where
  "documented_router m \<longleftrightarrow>
     (\<forall>p path. m False p path = seg_bind p path) \<and>
     (\<forall>p path b. seg_bind p (take (length p) path) = Some b \<longrightarrow> m True p path = Some b) \<and>
     (\<forall>p path. m True p path \<noteq> None \<longrightarrow> length p \<le> length path \<and> list_all2 seg_loose p (take (length p) path))"

definition seg_router :: router where
  "seg_router use p path = seg_bind p (if use then take (length p) path else path)"

lemma seg_router_documented: "documented_router seg_router"
proof -
  have "list_all2 seg_loose p path" if "seg_bind p path = Some b" for p path b
    using that by (induction p path arbitrary: b rule: seg_bind.induct) (auto split: if_splits)
  moreover have len: "length p = length path" if "seg_bind p path = Some b" for p path b
    using that by (induction p path arbitrary: b rule: seg_bind.induct) (auto split: if_splits)
  have "length p \<le> length path" if "seg_bind p (take (length p) path) = Some b" for p path b
    using len [OF that] by simp
  ultimately show ?thesis by (fastforce simp: documented_router_def seg_router_def)
qed

section \<open>Stepping through the table\<close>

lemma serve_Handle [simp]:
  "serve env m q (Handle mt p gs e @ rs) = (if mt = RQ_Method q then
     (case m False p (RQ_Path q) of None \<Rightarrow> serve env m q rs
      | Some b \<Rightarrow> (\<lambda>c. run_guards env q gs (S_run env e) (c\<lparr>cx_param := params_of b\<rparr>))) else serve env m q rs)"
  by (cases "m False p (RQ_Path q)") (simp_all add: Handle_def)

lemma serve_Use [simp]:
  "gs \<noteq> [] \<Longrightarrow> serve env m q (Use p gs @ rs) = (case m True p (RQ_Path q) of None \<Rightarrow> serve env m q rs
      | Some b \<Rightarrow> (\<lambda>c. run_guards env q gs (serve env m q rs) (c\<lparr>cx_param := params_of b\<rparr>)))"
  by (cases "m True p (RQ_Path q)") (simp_all add: Use_def)

lemma serve_last_Handle [simp]:
  "serve env m q (Handle mt p gs e) = (if mt = RQ_Method q then
     (case m False p (RQ_Path q) of None \<Rightarrow> (\<lambda>c d. (S_fallback env, d))
      | Some b \<Rightarrow> (\<lambda>c. run_guards env q gs (S_run env e) (c\<lparr>cx_param := params_of b\<rparr>))) else (\<lambda>c d. (S_fallback env, d)))"
  by (cases "m False p (RQ_Path q)") (simp_all add: Handle_def)

lemma serve_no_Use [simp]: "serve env m q (Use p [] @ rs) = serve env m q rs"
  by (simp add: Use_def)

lemma router_method: "documented_router m \<Longrightarrow> m False p path = seg_bind p path"
  by (simp add: documented_router_def)

lemma router_use:
  "documented_router m \<Longrightarrow> seg_bind p (take (length p) path) \<noteq> None \<Longrightarrow> m True p path = seg_bind p (take (length p) path)"
  by (auto simp: documented_router_def)

lemma router_no_use:
  assumes "documented_router m" and "\<not> (length p \<le> length path \<and> list_all2 seg_loose p (take (length p) path))"
  shows "m True p path = None"
  using assms unfolding documented_router_def by metis

lemmas table = api_routes_def api_def api_queues_def auth_RegisterRoutes_def org_RegisterRoutes_def
  project_RegisterRoutes_def queue_RegisterRoutes_def job_RegisterRoutes_def batch_RegisterRoutes_def
  cron_RegisterRoutes_def metrics_RegisterRoutes_def execlog_RegisterRoutes_def ws_RegisterRoutes_def Let_def

text \<open>A request that carries a valid token, and the context its user gets.\<close>

definition authenticated :: "('b, 'z) serve_env_scheme \<Rightarrow> ctx \<Rightarrow> uuid \<Rightarrow> string \<Rightarrow> bool" where
  "authenticated env c u e \<longleftrightarrow> (case extractBearerToken c of Inl _ \<Rightarrow> False | Inr tok \<Rightarrow>
     (case S_validate env tok of Inl _ \<Rightarrow> False | Inr claims \<Rightarrow>
       S_uuid env (Cl_UserID claims) = Some u \<and> Cl_Email claims = e))"

definition as_user :: "uuid \<Rightarrow> string \<Rightarrow> ctx \<Rightarrow> ctx" where
  "as_user u e c = SetUserEmail e (SetUserID u c)"

lemma as_user_param [simp]:
  "(as_user u e c)\<lparr>cx_param := f\<rparr> = as_user u e (c\<lparr>cx_param := f\<rparr>)"
  "as_user u e (as_user u e c) = as_user u e c" "cx_param (as_user u e c) = cx_param c"
  "GetUserID (as_user u e c) = u" "cx_header (as_user u e c) = cx_header c"
  by (simp_all add: as_user_def ctx_defs fun_upd_twist)

lemma authenticated_ctx [simp]:
  "authenticated env (c\<lparr>cx_param := f\<rparr>) u e = authenticated env c u e"
  "authenticated env (as_user u' e' c) u e = authenticated env c u e"
  by (simp_all add: authenticated_def extractBearerToken_def)

declare run_guard.simps [simp del]

lemma Authed_pass: "authenticated env c u e \<Longrightarrow> run_guard env q Authed nxt c d = nxt (as_user u e c) d"
  by (auto simp: run_guard.simps authenticated_def AuthRequired_def as_user_def split: sum.splits)

lemma required_project_role:
  "ProjViewer \<le> r" "ProjDeveloper \<le> r \<longleftrightarrow> CanEnqueueJobs r" "ProjAdmin \<le> r \<longleftrightarrow> r = ProjAdmin"
  by (cases r; simp add: less_eq_ProjectRole_def)+

lemma required_org_role:
  "RoleMember \<le> r" "RoleAdmin \<le> r \<longleftrightarrow> CanManageMembers r" "RoleOwner \<le> r \<longleftrightarrow> CanDeleteOrg r"
  by (cases r; simp add: less_eq_OrgRole_def)+

lemma Project_pass:
  assumes "S_fault env = None" and "S_uuid env (cx_param c ''projectId'') = Some pid"
    and "project_role_of d pid (GetUserID c) = Some r"
  shows "run_guard env q (ProjectAtLeast ProjViewer) nxt c d = nxt c d"
    "run_guard env q (ProjectAtLeast ProjDeveloper) nxt c d = (if CanEnqueueJobs r then nxt c d
       else (RespondError (Forbidden ''insufficient project role''), d))"
    "run_guard env q (ProjectAtLeast ProjAdmin) nxt c d = (if r = ProjAdmin then nxt c d
       else (RespondError (Forbidden ''insufficient project role''), d))"
  using assms by (simp_all add: run_guard.simps project_guard.member [where r = r] route_project_role_def
      required_project_role)

lemma Org_pass:
  assumes "S_fault env = None" and "S_uuid env (cx_param c ''orgId'') = Some oid"
    and "org_role_of d oid (GetUserID c) = Some r"
  shows "run_guard env q (OrgAtLeast RoleMember) nxt c d = nxt (SetOrgRole (org_role_str r) c) d"
    "run_guard env q (OrgAtLeast RoleAdmin) nxt c d = (if CanManageMembers r then nxt (SetOrgRole (org_role_str r) c) d
       else (RespondError (Forbidden ''insufficient organization role''), d))"
    "run_guard env q (OrgAtLeast RoleOwner) nxt c d = (if CanDeleteOrg r then nxt (SetOrgRole (org_role_str r) c) d
       else (RespondError (Forbidden ''insufficient organization role''), d))"
  using assms by (simp_all add: run_guard.simps org_guard.member [where r = r] route_org_role_def
      required_org_role)

definition gate :: "bool \<Rightarrow> ('b, 'z) serve_env_scheme \<Rightarrow> endpoint \<Rightarrow> ctx \<Rightarrow> db \<Rightarrow> 'b http \<times> db" where
  "gate ok env ep c d = (if ok then S_run env ep c d
     else (RespondError (Forbidden ''insufficient project role''), d))"

lemma params_of_simps [simp]:
  "params_of [] k = []" "params_of ((x, s) # b) k = (if k = x then s else params_of b k)"
  by (simp_all add: params_of_def)

definition queues_path :: "string \<Rightarrow> string list" where
  "queues_path P = [''api'', ''v1'', ''projects'', P, ''queues'']"

definition sent :: "meth \<Rightarrow> string list \<Rightarrow> request" where
  "sent mt path = \<lparr>RQ_Method = mt, RQ_Path = path, RQ_Upgrade = False\<rparr>"

lemma sent_sel [simp]: "RQ_Method (sent mt path) = mt" "RQ_Path (sent mt path) = path"
  by (simp_all add: sent_def)

text \<open>No route registered before the queues matches a path below the queues of a project.\<close>

definition queue_section :: "route list" where
  "queue_section = Use api_queues [Authed] @ queue_RegisterRoutes api_queues @
     Use (api_queues @ [Par ''queueId'', Lit ''jobs'']) [Authed] @
     job_RegisterRoutes (api_queues @ [Par ''queueId'', Lit ''jobs'']) @
     Use (api @ [Lit ''batches'']) [Authed] @
     batch_RegisterRoutes api_queues (api @ [Lit ''batches'']) @
     Use (api @ [Lit ''cron'']) [Authed] @
     cron_RegisterRoutes api_queues (api @ [Lit ''cron'']) @
     Use (api @ [Lit ''metrics'']) [Authed] @
     metrics_RegisterRoutes (api @ [Lit ''metrics'']) @
     Use (api @ [Lit ''jobs'']) [Authed] @
     execlog_RegisterRoutes (api @ [Lit ''jobs'']) @
     Use (api @ [Lit ''ws'']) [Authed] @
     ws_RegisterRoutes (api @ [Lit ''ws''])"

lemma to_queue_section:
  assumes "documented_router m" and "P \<noteq> []"
  shows "serve env m (sent mt (queues_path P @ ss)) api_routes = serve env m (sent mt (queues_path P @ ss)) queue_section"
  unfolding api_routes_def queue_section_def [symmetric] using assms(2)
  by (simp add: api_def auth_RegisterRoutes_def org_RegisterRoutes_def project_RegisterRoutes_def Let_def queues_path_def
      router_method [OF assms(1)] router_no_use [OF assms(1)])

lemmas queue_table = queue_section_def api_queues_def api_def queue_RegisterRoutes_def job_RegisterRoutes_def
  batch_RegisterRoutes_def cron_RegisterRoutes_def metrics_RegisterRoutes_def execlog_RegisterRoutes_def ws_RegisterRoutes_def
  Let_def queues_path_def gate_def

lemma queue_requests:
  assumes "documented_router m" and "authenticated env c u e" and "S_fault env = None"
    and "S_uuid env P = Some pid" and "P \<noteq> []" and "Q \<noteq> []" and "project_role_of d pid u = Some r"
    and c0: "c0 = as_user u e (c\<lparr>cx_param := params_of [(''projectId'', P)]\<rparr>)"
    and cq: "cq = as_user u e (c\<lparr>cx_param := params_of [(''projectId'', P), (''queueId'', Q)]\<rparr>)"
  shows "serve env m (sent GET (queues_path P)) queue_section c d = gate True env QueueList c0 d"
    "serve env m (sent POST (queues_path P)) queue_section c d = gate (r = ProjAdmin) env QueueCreate c0 d"
    "serve env m (sent GET (queues_path P @ [Q])) queue_section c d = gate True env QueueGet cq d"
    "serve env m (sent GET (queues_path P @ [Q, ''stats''])) queue_section c d = gate True env QueueGetStats cq d"
    "serve env m (sent PUT (queues_path P @ [Q])) queue_section c d = gate (CanEnqueueJobs r) env QueueUpdate cq d"
    "serve env m (sent POST (queues_path P @ [Q, ''pause''])) queue_section c d = gate (CanEnqueueJobs r) env QueuePause cq d"
    "serve env m (sent POST (queues_path P @ [Q, ''resume''])) queue_section c d = gate (CanEnqueueJobs r) env QueueResume cq d"
    "serve env m (sent DELETE (queues_path P @ [Q])) queue_section c d = gate (r = ProjAdmin) env QueueDelete cq d"
  unfolding c0 cq using assms(2-7)
  by (cases r; simp add: queue_table router_method [OF assms(1)] router_use [OF assms(1)] router_no_use [OF assms(1)]
      Authed_pass Project_pass; simp)+

lemma misplaced_requests:
  assumes "documented_router m" and "authenticated env c u e" and "S_fault env = None"
    and "S_uuid env P = Some pid" and "P \<noteq> []" and "project_role_of d pid u = Some r"
    and c0: "c0 = as_user u e (c\<lparr>cx_param := params_of [(''projectId'', P)]\<rparr>)"
  shows "serve env m (sent POST (queues_path P @ [''batches''])) queue_section c d = gate (r = ProjAdmin) env BatchCreate c0 d"
    "serve env m (sent POST (queues_path P @ [''cron''])) queue_section c d = gate (r = ProjAdmin) env CronCreate c0 d"
  unfolding c0 using assms(2-6)
  by (cases r; simp add: queue_table router_method [OF assms(1)] router_use [OF assms(1)] router_no_use [OF assms(1)]
      Authed_pass Project_pass; simp)+

lemma job_requests:
  assumes "documented_router m" and "authenticated env c u e" and "S_fault env = None"
    and "S_uuid env P = Some pid" and "P \<noteq> []" and "Q \<noteq> []" and "J \<noteq> []" and "project_role_of d pid u = Some r"
    and cq: "cq = as_user u e (c\<lparr>cx_param := params_of [(''projectId'', P), (''queueId'', Q)]\<rparr>)"
    and cj: "cj = as_user u e (c\<lparr>cx_param := params_of [(''projectId'', P), (''queueId'', Q), (''jobId'', J)]\<rparr>)"
  shows "serve env m (sent GET (queues_path P @ [Q, ''jobs''])) queue_section c d = gate (r = ProjAdmin) env JobList cq d"
    "serve env m (sent POST (queues_path P @ [Q, ''jobs''])) queue_section c d = gate (r = ProjAdmin) env JobEnqueue cq d"
    "serve env m (sent GET (queues_path P @ [Q, ''jobs'', J])) queue_section c d = gate (r = ProjAdmin) env JobGet cj d"
    "serve env m (sent POST (queues_path P @ [Q, ''jobs'', J, ''cancel''])) queue_section c d = gate (r = ProjAdmin) env JobCancel cj d"
    "serve env m (sent POST (queues_path P @ [Q, ''jobs'', J, ''retry''])) queue_section c d = gate (r = ProjAdmin) env JobRetry cj d"
  unfolding cq cj using assms(2-8)
  by (cases r; simp add: queue_table router_method [OF assms(1)] router_use [OF assms(1)] router_no_use [OF assms(1)]
      Authed_pass Project_pass; simp)+

text \<open>Which role the queue endpoints need. For a member of the project with a valid token, listing
  the queues, reading one and its statistics runs for every role; changing, pausing and resuming one for
  those who can enqueue jobs; creating and deleting one for administrators; everybody else gets a 403
  and nothing changes. The handler runs with the user of the token and the path's identifiers.\<close>

theorem queue_role_matrix:
  assumes "documented_router m" and "authenticated env c u e" and "S_fault env = None"
    and "S_uuid env P = Some pid" and "P \<noteq> []" and "Q \<noteq> []" and "project_role_of d pid u = Some r"
  shows "let c0 = as_user u e (c\<lparr>cx_param := params_of [(''projectId'', P)]\<rparr>);
             cq = as_user u e (c\<lparr>cx_param := params_of [(''projectId'', P), (''queueId'', Q)]\<rparr>);
             run = (\<lambda>mt path. serve env m (sent mt (queues_path P @ path)) api_routes c d)
    in run GET [] = gate True env QueueList c0 d \<and>
       run POST [] = gate (r = ProjAdmin) env QueueCreate c0 d \<and>
       run GET [Q] = gate True env QueueGet cq d \<and>
       run GET [Q, ''stats''] = gate True env QueueGetStats cq d \<and>
       run PUT [Q] = gate (CanEnqueueJobs r) env QueueUpdate cq d \<and>
       run POST [Q, ''pause''] = gate (CanEnqueueJobs r) env QueuePause cq d \<and>
       run POST [Q, ''resume''] = gate (CanEnqueueJobs r) env QueueResume cq d \<and>
       run DELETE [Q] = gate (r = ProjAdmin) env QueueDelete cq d"
  using queue_requests [OF assms refl refl]
  by (simp add: Let_def to_queue_section [OF assms(1,5)])

definition route_env :: "endpoint serve_env" where
  "route_env = \<lparr>S_validate = (\<lambda>_. Inr ann_claims), S_uuid = digit_uuid, S_fault = None,
     S_run = (\<lambda>e c d. (Resp 200 (Data e), d)), S_fallback = Resp 404 (ErrBody ''INTERNAL'' ''Not Found'' None)\<rparr>"

definition developer_db :: db where
  "developer_db = guard_db\<lparr>project_members := [\<lparr>pmr_project_id = 6, pmr_user_id = 7, pmr_role = ProjDeveloper, pmr_joined_at = 0\<rparr>],
     users := [ann\<lparr>U_ID := 7\<rparr>]\<rparr>"

lemma route_sample:
  "authenticated route_env (bearer_ctx ''Bearer token'') 7 ''ann''" "S_uuid route_env ''6'' = Some 6"
  "project_role_of developer_db 6 7 = Some ProjDeveloper" "S_fault route_env = None"
  "S_run route_env = (\<lambda>e c d. (Resp 200 (Data e), d))"
proof -
  have "EqualFold ''Bearer'' ''Bearer''" by (simp add: EqualFold_def)
  then have "extractBearerToken (bearer_ctx ''Bearer token'') = Inr ''token''"
    by (simp add: extractBearerToken_def split_blank_def bearer_ctx_def)
  then show "authenticated route_env (bearer_ctx ''Bearer token'') 7 ''ann''"
    by (simp add: authenticated_def route_env_def ann_claims_def digit_uuid_def)
  show "project_role_of developer_db 6 7 = Some ProjDeveloper"
    by (simp add: project_role_of_def ProjectRepo_GetMember_def developer_db_def get_row_def project_member_join_def
        guard_db_def)
qed (simp_all add: route_env_def digit_uuid_def)

theorem queue_role_matrix_witness:
  "serve route_env seg_router (sent POST [''api'', ''v1'', ''projects'', ''6'', ''queues'', ''7'', ''pause'']) api_routes
     (bearer_ctx ''Bearer token'') developer_db = (Resp 200 (Data QueuePause), developer_db) \<and>
   serve route_env seg_router (sent DELETE [''api'', ''v1'', ''projects'', ''6'', ''queues'', ''7'']) api_routes
     (bearer_ctx ''Bearer token'') developer_db = (RespondError (Forbidden ''insufficient project role''), developer_db)"
  using queue_role_matrix [OF seg_router_documented route_sample(1) route_sample(4) route_sample(2) _ _ route_sample(3),
      of "''7''"]
  by (simp add: Let_def gate_def route_sample(5) queues_path_def)

text \<open>The job endpoints. They lie below the path of their queue, so the guards of the queue's groups
  run first, the administrators' included: whatever their own guards say (viewer for reading, developer
  for enqueueing, cancelling and retrying), only a project administrator gets through; viewers and
  developers get a 403 for all five.\<close>

theorem job_routes_need_admin:
  assumes "documented_router m" and "authenticated env c u e" and "S_fault env = None"
    and "S_uuid env P = Some pid" and "P \<noteq> []" and "Q \<noteq> []" and "J \<noteq> []" and "project_role_of d pid u = Some r"
  shows "let cq = as_user u e (c\<lparr>cx_param := params_of [(''projectId'', P), (''queueId'', Q)]\<rparr>);
             cj = as_user u e (c\<lparr>cx_param := params_of [(''projectId'', P), (''queueId'', Q), (''jobId'', J)]\<rparr>);
             run = (\<lambda>mt path. serve env m (sent mt (queues_path P @ Q # ''jobs'' # path)) api_routes c d)
    in run GET [] = gate (r = ProjAdmin) env JobList cq d \<and>
       run POST [] = gate (r = ProjAdmin) env JobEnqueue cq d \<and>
       run GET [J] = gate (r = ProjAdmin) env JobGet cj d \<and>
       run POST [J, ''cancel''] = gate (r = ProjAdmin) env JobCancel cj d \<and>
       run POST [J, ''retry''] = gate (r = ProjAdmin) env JobRetry cj d"
  using job_requests [OF assms refl refl]
  by (simp add: Let_def to_queue_section [OF assms(1,5)])

theorem job_routes_need_admin_witness:
  "serve route_env seg_router (sent POST [''api'', ''v1'', ''projects'', ''6'', ''queues'', ''7'', ''jobs'']) api_routes
     (bearer_ctx ''Bearer token'') developer_db = (RespondError (Forbidden ''insufficient project role''), developer_db)"
  using job_routes_need_admin [OF seg_router_documented route_sample(1) route_sample(4) route_sample(2) _ _ _ route_sample(3),
      of "''7''" "''1''"]
  by (simp add: Let_def gate_def route_sample(5) queues_path_def)

section \<open>Organizations, projects and the routes without a role\<close>

definition org_path :: "string \<Rightarrow> string list" where
  "org_path x = [''api'', ''v1'', ''orgs'', x]"

definition org_gate :: "bool \<Rightarrow> ('b, 'z) serve_env_scheme \<Rightarrow> endpoint \<Rightarrow> ctx \<Rightarrow> db \<Rightarrow> 'b http \<times> db" where
  "org_gate ok env ep c d = (if ok then S_run env ep c d
     else (RespondError (Forbidden ''insufficient organization role''), d))"

lemma org_requests:
  assumes "documented_router m" and "authenticated env c u e" and "S_fault env = None"
    and "S_uuid env X = Some oid" and "X \<noteq> []" and "U \<noteq> []" and "org_role_of d oid u = Some r"
    and co: "co = SetOrgRole (org_role_str r) (as_user u e (c\<lparr>cx_param := params_of [(''orgId'', X)]\<rparr>))"
    and cu: "cu = SetOrgRole (org_role_str r) (as_user u e (c\<lparr>cx_param := params_of [(''orgId'', X), (''userId'', U)]\<rparr>))"
  shows "serve env m (sent GET (org_path X)) api_routes c d = org_gate True env OrgGet co d"
    "serve env m (sent GET (org_path X @ [''members''])) api_routes c d = org_gate True env OrgListMembers co d"
    "serve env m (sent PUT (org_path X)) api_routes c d = org_gate (CanManageMembers r) env OrgUpdate co d"
    "serve env m (sent POST (org_path X @ [''members''])) api_routes c d = org_gate (CanManageMembers r) env OrgAddMember co d"
    "serve env m (sent PUT (org_path X @ [''members'', U, ''role''])) api_routes c d = org_gate (CanManageMembers r) env OrgUpdateMemberRole cu d"
    "serve env m (sent DELETE (org_path X @ [''members'', U])) api_routes c d = org_gate (CanManageMembers r) env OrgRemoveMember cu d"
    "serve env m (sent DELETE (org_path X)) api_routes c d = org_gate (CanDeleteOrg r) env OrgDelete co d"
  unfolding co cu using assms(2-7)
  by (simp add: table org_path_def org_gate_def router_method [OF assms(1)] router_use [OF assms(1)]
      router_no_use [OF assms(1)] Authed_pass Org_pass)+


definition admin_db :: db where
  "admin_db = guard_db\<lparr>org_members := [\<lparr>omr_org_id = 5, omr_user_id = 7, omr_role = RoleAdmin, omr_joined_at = 0\<rparr>],
     users := [ann\<lparr>U_ID := 7\<rparr>]\<rparr>"

lemma admin_sample: "org_role_of admin_db 5 7 = Some RoleAdmin" "S_uuid route_env ''5'' = Some 5"
  by (simp_all add: org_role_of_def OrgRepo_GetMember_def admin_db_def get_row_def org_member_join_def guard_db_def
      route_env_def digit_uuid_def)


text \<open>The routes that ask for no role. Any holder of a valid token, of whatever organization or none,
  reads any batch, the metrics of any queue and the executions and logs of any job, and deletes any cron
  job, by its identifier alone.\<close>

theorem token_only_routes:
  assumes "documented_router m" and "authenticated env c u e" and "X \<noteq> []"
  shows "let cx = (\<lambda>p. as_user u e (c\<lparr>cx_param := params_of [(p, X)]\<rparr>));
             run = (\<lambda>mt path. serve env m (sent mt (''api'' # ''v1'' # path)) api_routes c d)
    in run GET [''batches'', X] = S_run env BatchGet (cx ''batchId'') d \<and>
       run GET [''metrics'', ''queues'', X] = S_run env MetricsQueue (cx ''queueId'') d \<and>
       run GET [''jobs'', X, ''executions''] = S_run env LogExecutions (cx ''jobId'') d \<and>
       run GET [''jobs'', X, ''logs''] = S_run env LogLines (cx ''jobId'') d \<and>
       run DELETE [''cron'', X] = S_run env CronDelete (cx ''cronId'') d"
  unfolding Let_def using assms(2,3)
  by (intro conjI; simp add: table router_method [OF assms(1)] router_use [OF assms(1)]
      router_no_use [OF assms(1)] Authed_pass)

theorem token_only_routes_witness:
  "serve route_env seg_router (sent DELETE [''api'', ''v1'', ''cron'', ''3'']) api_routes (bearer_ctx ''Bearer token'') empty_db =
     (Resp 200 (Data CronDelete), empty_db)"
  using token_only_routes [OF seg_router_documented route_sample(1), of "''3''" empty_db]
  by (simp add: Let_def route_sample(5))

text \<open>Which role the endpoints of a project need: reading any, changing the developers', deleting and
  rotating the key the administrators'. The organization in the path is not looked at: any text will do,
  a project of another organization included.\<close>

theorem project_role_matrix:
  assumes "documented_router m" and "authenticated env c u e" and "S_fault env = None"
    and "S_uuid env P = Some pid" and "P \<noteq> []" and "X \<noteq> []" and "project_role_of d pid u = Some r"
  shows "let cp = as_user u e (c\<lparr>cx_param := params_of [(''orgId'', X), (''projectId'', P)]\<rparr>);
             run = (\<lambda>mt path. serve env m (sent mt (org_path X @ ''projects'' # P # path)) api_routes c d)
    in run GET [] = gate True env ProjectGet cp d \<and>
       run PUT [] = gate (CanEnqueueJobs r) env ProjectUpdate cp d \<and>
       run DELETE [] = gate (r = ProjAdmin) env ProjectDelete cp d \<and>
       run POST [''rotate-key''] = gate (r = ProjAdmin) env ProjectRotateAPIKey cp d"
  unfolding Let_def using assms(2-7)
  by (intro conjI; cases r; simp add: table org_path_def gate_def router_method [OF assms(1)] router_use [OF assms(1)]
      router_no_use [OF assms(1)] Authed_pass Project_pass; simp)

theorem project_role_matrix_witness:
  "serve route_env seg_router (sent PUT [''api'', ''v1'', ''orgs'', ''no such org'', ''projects'', ''6'']) api_routes
     (bearer_ctx ''Bearer token'') developer_db = (Resp 200 (Data ProjectUpdate), developer_db)"
  using project_role_matrix [OF seg_router_documented route_sample(1) route_sample(4) route_sample(2) _ _ route_sample(3),
      of "''no such org''"]
  by (simp add: Let_def gate_def route_sample(5) org_path_def)

lemma missing_requests:
  assumes "documented_router m" and "authenticated env c u e" and "S_fault env = None"
    and "S_uuid env P = Some pid" and "P \<noteq> []" and "Q \<noteq> []" and "J \<noteq> []" and "project_role_of d pid u = Some ProjAdmin"
  shows "serve env m (sent POST (queues_path P @ [Q, ''cron''])) queue_section c d = (S_fallback env, d)"
    "serve env m (sent GET (queues_path P @ [Q, ''cron''])) queue_section c d = (S_fallback env, d)"
    "serve env m (sent DELETE (queues_path P @ [Q, ''jobs'', J])) queue_section c d = (S_fallback env, d)"
  using assms(2-8)
  by (simp add: queue_table router_method [OF assms(1)] router_use [OF assms(1)] router_no_use [OF assms(1)]
      Authed_pass Project_pass)+

lemma no_api_health:
  assumes "documented_router m"
  shows "serve env m (sent GET [''api'', ''v1'', ''health'']) api_routes c d = (S_fallback env, d)"
  by (simp add: table router_method [OF assms] router_no_use [OF assms])

text \<open>Endpoints that the documentation lists and the server does not have: creating and listing the cron
  jobs of a queue, deleting a job, and the health check under \<open>/api/v1\<close>. Even a project administrator gets
  Fiber's answer for an unknown route.\<close>

theorem documented_routes_missing:
  assumes "documented_router m" and "authenticated env c u e" and "S_fault env = None"
    and "S_uuid env P = Some pid" and "P \<noteq> []" and "Q \<noteq> []" and "J \<noteq> []" and "project_role_of d pid u = Some ProjAdmin"
  shows "serve env m (sent POST (queues_path P @ [Q, ''cron''])) api_routes c d = (S_fallback env, d) \<and>
    serve env m (sent GET (queues_path P @ [Q, ''cron''])) api_routes c d = (S_fallback env, d) \<and>
    serve env m (sent DELETE (queues_path P @ [Q, ''jobs'', J])) api_routes c d = (S_fallback env, d) \<and>
    serve env m (sent GET [''api'', ''v1'', ''health'']) api_routes c d = (S_fallback env, d)"
  unfolding to_queue_section [OF assms(1,5)]
  by (intro conjI missing_requests [OF assms] no_api_health [OF assms(1)])

theorem documented_routes_missing_witness:
  "serve route_env seg_router (sent POST [''api'', ''v1'', ''projects'', ''6'', ''queues'', ''7'', ''cron'']) api_routes
     (bearer_ctx ''Bearer token'') (developer_db\<lparr>project_members :=
       [\<lparr>pmr_project_id = 6, pmr_user_id = 7, pmr_role = ProjAdmin, pmr_joined_at = 0\<rparr>]\<rparr>) =
   (S_fallback route_env, developer_db\<lparr>project_members :=
       [\<lparr>pmr_project_id = 6, pmr_user_id = 7, pmr_role = ProjAdmin, pmr_joined_at = 0\<rparr>]\<rparr>)"
proof -
  have "project_role_of (developer_db\<lparr>project_members :=
      [\<lparr>pmr_project_id = 6, pmr_user_id = 7, pmr_role = ProjAdmin, pmr_joined_at = 0\<rparr>]\<rparr>) 6 7 = Some ProjAdmin"
    by (simp add: project_role_of_def ProjectRepo_GetMember_def developer_db_def get_row_def project_member_join_def guard_db_def)
  from documented_routes_missing [OF seg_router_documented route_sample(1) route_sample(4) route_sample(2) _ _ _ this,
      of "''7''" "''1''"]
  show ?thesis by (simp add: queues_path_def)
qed

end
