(* ===== verification/Api.thy ===== *)
theory Api
  imports Routes Handlers Insights
begin

text \<open>
  The API server as a whole: every endpoint of the route table run by its handler, behind the
  middleware (\<open>cmd/api/main.go\<close>). \<open>api_env\<close> collects what one request brings and what
  the libraries answer: the parsed bodies, the struct validation, identifiers, clocks, faults, the
  cryptographic functions. The global middleware (recovery, request ids, helmet, compression, CORS, rate
  limiter) and the WebSocket upgrade are Fiber's and not modelled; a WebSocket request is a parameter.
\<close>

section \<open>Endpoints\<close>

datatype api_data = DHealth health | DUser UserDTO | DLogin LoginResponse | DRefresh RefreshResponse
  | DOrg OrgResponse | DOrgs "OrgResponse list" | DMember MemberResponse | DMembers "MemberResponse list"
  | DNewProject "ProjectResponse \<times> APIKeyResponse" | DProject ProjectResponse | DProjects "ProjectResponse list"
  | DKey APIKeyResponse | DQueue QueueResponse | DQueues "QueueResponse list" | DStats Stats
  | DJob JobResponse | DJobs ListResponse | DBatch Batch | DCron CronJob | DCrons "CronJob list"
  | DSnapshots "QueueMetricsSnapshot list" | DSystem SystemMetrics | DExecutions "JobExecution list"
  | DLogs "ExecutionLog list" | DNothing unit

definition as_data :: "('a \<Rightarrow> api_data) \<Rightarrow> 'a http \<times> db \<Rightarrow> api_data http \<times> db" where
  "as_data f x = (served (map_http f (fst x)), snd x)"

text \<open>The struct validation of each request type.\<close>

record validators =
  V_register :: "RegisterRequest \<Rightarrow> vfailure list option"
  V_login :: "LoginRequest \<Rightarrow> vfailure list option"
  V_org_create :: "OrgCreateRequest \<Rightarrow> vfailure list option"
  V_org_update :: "OrgUpdateRequest \<Rightarrow> vfailure list option"
  V_add_member :: "AddMemberRequest \<Rightarrow> vfailure list option"
  V_role :: "OrgRole \<Rightarrow> vfailure list option"
  V_project_create :: "ProjectCreateRequest \<Rightarrow> vfailure list option"
  V_project_update :: "ProjectUpdateRequest \<Rightarrow> vfailure list option"
  V_queue_create :: "QueueCreateRequest \<Rightarrow> vfailure list option"
  V_queue_update :: "QueueUpdateRequest \<Rightarrow> vfailure list option"
  V_enqueue :: "EnqueueRequest \<Rightarrow> vfailure list option"
  V_batch :: "CreateBatchRequest \<Rightarrow> vfailure list option"
  V_cron :: "CreateCronRequest \<Rightarrow> vfailure list option"

text \<open>The body of the request as the JSON parser reads it for each type.\<close>

record bodies =
  B_register :: "RegisterRequest res"
  B_login :: "LoginRequest res"
  B_token :: "string res"
  B_org_create :: "OrgCreateRequest res"
  B_org_update :: "OrgUpdateRequest res"
  B_add_member :: "AddMemberRequest res"
  B_role :: "OrgRole res"
  B_project_create :: "ProjectCreateRequest res"
  B_project_update :: "ProjectUpdateRequest res"
  B_queue_create :: "QueueCreateRequest res"
  B_queue_update :: "QueueUpdateRequest res"
  B_enqueue :: "EnqueueRequest res"
  B_batch :: "CreateBatchRequest res"
  B_cron :: "CreateCronRequest res"

record api_env =
  E_val :: validators
  E_body :: bodies
  E_auth :: auth_env
  E_jwt :: JWTConfig
  E_bcrypt :: "string \<Rightarrow> string res"
  E_uuid :: "string \<Rightarrow> uuid option"
  E_Atoi :: "string \<Rightarrow> int option"
  E_time :: "string \<Rightarrow> time option"
  E_collate :: "string \<Rightarrow> int"
  E_random :: "8 word list res"
  E_id :: uuid
  E_ids :: "nat \<Rightarrow> uuid"
  E_clock :: time
  E_now :: time
  E_f1 :: fault
  E_f2 :: fault
  E_f3 :: fault
  E_row_faults :: "nat \<Rightarrow> fault"
  E_org_faults :: "uuid \<Rightarrow> fault"
  E_ping :: "goerr option"
  E_ws :: "api_data handlerf"

fun run_endpoint :: "api_env \<Rightarrow> endpoint \<Rightarrow> api_data handlerf" where
  "run_endpoint E Health c d = as_data DHealth (healthHandler (E_ping E) (E_now E), d)"
| "run_endpoint E AuthRegister c d = as_data DUser (auth_h_Register (V_register (E_val E)) (E_bcrypt E) (E_f1 E)
     (E_id E) (E_clock E) (B_register (E_body E)) c d)"
| "run_endpoint E AuthLogin c d = as_data DLogin (auth_h_Login (V_login (E_val E)) (E_auth E) (E_jwt E) (B_login (E_body E)) c d)"
| "run_endpoint E AuthRefresh c d = as_data DRefresh (auth_h_Refresh (E_auth E) (E_jwt E) (B_token (E_body E)) c d)"
| "run_endpoint E AuthLogout c d = as_data DNothing (auth_h_Logout (E_auth E) (B_token (E_body E)) c d)"
| "run_endpoint E OrgCreate c d = as_data DOrg (org_h_Create (V_org_create (E_val E)) (E_f1 E) (E_f2 E) (E_f3 E)
     (E_id E) (E_clock E) (B_org_create (E_body E)) c d)"
| "run_endpoint E OrgGet c d = as_data DOrg (org_h_Get (E_uuid E) (E_f1 E) c d)"
| "run_endpoint E OrgList c d = as_data DOrgs (org_h_List (E_collate E) (E_f1 E) (E_org_faults E) c d)"
| "run_endpoint E OrgUpdate c d = as_data DOrg (org_h_Update (E_uuid E) (V_org_update (E_val E)) (E_f1 E) (E_f2 E)
     (E_clock E) (E_now E) (B_org_update (E_body E)) c d)"
| "run_endpoint E OrgDelete c d = as_data DNothing (org_h_Delete (E_uuid E) (E_f1 E) c d)"
| "run_endpoint E OrgAddMember c d = as_data DMember (org_h_AddMember (E_uuid E) (V_add_member (E_val E)) (E_f1 E) (E_f2 E)
     (E_now E) (B_add_member (E_body E)) c d)"
| "run_endpoint E OrgUpdateMemberRole c d = as_data DMember (org_h_UpdateMemberRole (E_uuid E) (V_role (E_val E)) (E_f1 E)
     (E_f2 E) (B_role (E_body E)) c d)"
| "run_endpoint E OrgRemoveMember c d = as_data DNothing (org_h_RemoveMember (E_uuid E) (E_f1 E) c d)"
| "run_endpoint E OrgListMembers c d = as_data DMembers (org_h_ListMembers (E_uuid E) (E_f1 E) c d)"
| "run_endpoint E ProjectCreate c d = as_data DNewProject (project_h_Create (E_uuid E) (V_project_create (E_val E))
     (ae_sha256_hex (E_auth E)) (E_random E) (E_f1 E) (E_f2 E) (E_f3 E) (E_id E) (E_clock E) (B_project_create (E_body E)) c d)"
| "run_endpoint E ProjectGet c d = as_data DProject (project_h_Get (E_uuid E) (E_f1 E) c d)"
| "run_endpoint E ProjectList c d = as_data DProjects (project_h_List (E_uuid E) (E_collate E) (E_f1 E) c d)"
| "run_endpoint E ProjectUpdate c d = as_data DProject (project_h_Update (E_uuid E) (V_project_update (E_val E)) (E_f1 E)
     (E_f2 E) (E_clock E) (E_now E) (B_project_update (E_body E)) c d)"
| "run_endpoint E ProjectDelete c d = as_data DNothing (project_h_Delete (E_uuid E) (E_f1 E) c d)"
| "run_endpoint E ProjectRotateAPIKey c d = as_data DKey (project_h_RotateAPIKey (E_uuid E) (ae_sha256_hex (E_auth E))
     (E_random E) (E_f1 E) (E_f2 E) (E_clock E) (E_now E) c d)"
| "run_endpoint E QueueCreate c d = as_data DQueue (queue_h_Create (E_uuid E) (V_queue_create (E_val E)) (E_f1 E)
     (E_id E) (E_clock E) (B_queue_create (E_body E)) c d)"
| "run_endpoint E QueueGet c d = as_data DQueue (queue_h_Get (E_uuid E) (E_f1 E) c d)"
| "run_endpoint E QueueList c d = as_data DQueues (queue_h_List (E_uuid E) (E_collate E) (E_f1 E) c d)"
| "run_endpoint E QueueUpdate c d = as_data DQueue (queue_h_Update (E_uuid E) (V_queue_update (E_val E)) (E_f1 E) (E_f2 E)
     (E_clock E) (E_now E) (B_queue_update (E_body E)) c d)"
| "run_endpoint E QueueDelete c d = as_data DNothing (queue_h_Delete (E_uuid E) (E_f1 E) c d)"
| "run_endpoint E QueuePause c d = as_data DNothing (queue_h_Pause (E_uuid E) (E_f1 E) (E_f2 E) (E_now E) c d)"
| "run_endpoint E QueueResume c d = as_data DNothing (queue_h_Resume (E_uuid E) (E_f1 E) (E_f2 E) (E_now E) c d)"
| "run_endpoint E QueueGetStats c d = as_data DStats (queue_h_GetStats (E_uuid E) (E_f1 E) c d)"
| "run_endpoint E JobEnqueue c d = as_data DJob (job_h_Enqueue (E_uuid E) (V_enqueue (E_val E)) (E_f1 E) (E_f2 E) (E_f3 E)
     (E_id E) (E_clock E) (B_enqueue (E_body E)) c d)"
| "run_endpoint E JobGet c d = as_data DJob (job_h_Get (E_uuid E) (E_f1 E) c d)"
| "run_endpoint E JobList c d = as_data DJobs (job_h_List (E_uuid E) (E_Atoi E) (E_f1 E) (E_f2 E) c d)"
| "run_endpoint E JobCancel c d = as_data DNothing (job_h_Cancel (E_uuid E) (E_f1 E) (E_now E) c d)"
| "run_endpoint E JobRetry c d = as_data DNothing (job_h_Retry (E_uuid E) (E_f1 E) (E_f2 E) (E_clock E) (E_now E) c d)"
| "run_endpoint E BatchCreate c d = as_data DBatch (batch_h_CreateBatch (E_uuid E) (V_batch (E_val E)) (E_f1 E)
     (E_row_faults E) (E_id E) (E_ids E) (E_clock E) (B_batch (E_body E)) c d)"
| "run_endpoint E BatchGet c d = as_data DBatch (batch_h_GetBatch (E_uuid E) (E_f1 E) c d)"
| "run_endpoint E CronCreate c d = as_data DCron (cron_h_Create (E_uuid E) (V_cron (E_val E)) (E_f1 E)
     (E_id E) (E_clock E) (B_cron (E_body E)) c d)"
| "run_endpoint E CronList c d = as_data DCrons (cron_h_List (E_uuid E) (E_collate E) (E_f1 E) c d)"
| "run_endpoint E CronDelete c d = as_data DNothing (cron_h_Delete (E_uuid E) (E_f1 E) c d)"
| "run_endpoint E MetricsQueue c d = as_data DSnapshots (metrics_h_GetQueueMetrics (E_uuid E) (E_time E) (E_f1 E) (E_now E) c d)"
| "run_endpoint E MetricsSystem c d = as_data DSystem (metrics_h_GetSystemMetrics (E_f1 E) (E_f2 E) (E_f3 E) c d)"
| "run_endpoint E LogExecutions c d = as_data DExecutions (execlog_h_ListExecutions (E_uuid E) (E_f1 E) c d)"
| "run_endpoint E LogLines c d = as_data DLogs (execlog_h_ListLogs (E_uuid E) (E_f1 E) c d)"
| "run_endpoint E WsLive c d = E_ws E c d"

section \<open>The server\<close>

definition api_serve_env :: "(string \<Rightarrow> Claims res) \<Rightarrow> fault \<Rightarrow> api_data http \<Rightarrow> api_env \<Rightarrow> api_data serve_env" where
  "api_serve_env validate guard_fault unrouted E = \<lparr>S_validate = validate, S_uuid = E_uuid E, S_fault = guard_fault,
     S_run = run_endpoint E, S_fallback = unrouted\<rparr>"

definition api_request ::
  "router \<Rightarrow> (string \<Rightarrow> Claims res) \<Rightarrow> fault \<Rightarrow> api_data http \<Rightarrow> api_env \<Rightarrow> request \<Rightarrow> api_data handlerf" where
  "api_request m validate guard_fault unrouted E q =
     serve (api_serve_env validate guard_fault unrouted E) m q api_routes"

section \<open>Facts\<close>

lemma api_serve_env_sel [simp]:
  "S_fault (api_serve_env v f n E) = f" "S_uuid (api_serve_env v f n E) = E_uuid E"
  "S_run (api_serve_env v f n E) = run_endpoint E"
  by (simp_all add: api_serve_env_def)

lemma served_simps [simp]:
  "served (Resp n b) = Resp n b" "served NoContent = NoContent" "served (RespondError err) = RespondError err"
  by (simp_all add: served_def RespondError_def split: option.split prod.split)

lemma map_http_error [simp]: "map_http f (RespondError err) = RespondError err" "map_http f internal_error = internal_error"
  by (simp_all add: RespondError_def internal_error_def split: option.split prod.split)

lemma job_h_Cancel_one:
  assumes "up (cx_param c ''jobId'') = Some i" and "j \<in> set (jobs d)" and "J_ID j = i" and "cancellable j"
  shows "job_h_Cancel up None now c d = (NoContent, d\<lparr>jobs := sql_update (\<lambda>j. J_ID j = i \<and> cancellable j)
     (\<lambda>j. j\<lparr>J_Status := StatusCancelled, J_UpdatedAt := now\<rparr>) (jobs d)\<rparr>)"
proof -
  have "sql_count (\<lambda>j. J_ID j = i \<and> cancellable j) (jobs d) \<noteq> 0" using assms by (auto simp: sql_count_0)
  then show ?thesis using assms(1)
    by (simp add: job_h_Cancel_def handler_steps job_svc_Cancel_def JobRepo_Cancel_def job_exec_def)
qed

text \<open>The job handlers do not look at the project or the queue in the path. An administrator of some
  project cancels a pending job of any other project's queue by putting its identifier after the path of
  the own project and any text for the queue: the answer is a 204 and the job is cancelled.\<close>

theorem cross_project_cancel:
  assumes "documented_router m" and "authenticated (api_serve_env v None n E) c u e"
    and "E_uuid E P = Some pid" and "project_role_of d pid u = Some ProjAdmin" and "E_uuid E X = Some i"
    and "P \<noteq> []" and "Q \<noteq> []" and "X \<noteq> []" and "E_f1 E = None"
    and "j \<in> set (jobs d)" and "J_ID j = i" and "cancellable j"
  shows "\<exists>d'. api_request m v None n E (sent POST (queues_path P @ [Q, ''jobs'', X, ''cancel''])) c d = (NoContent, d') \<and>
    j\<lparr>J_Status := StatusCancelled, J_UpdatedAt := E_now E\<rparr> \<in> set (jobs d')"
proof -
  let ?env = "api_serve_env v None n E"
  let ?c = "as_user u e (c\<lparr>cx_param := params_of [(''projectId'', P), (''queueId'', Q), (''jobId'', X)]\<rparr>)"
  have "api_request m v None n E (sent POST (queues_path P @ [Q, ''jobs'', X, ''cancel''])) c d =
      as_data DNothing (job_h_Cancel (E_uuid E) None (E_now E) ?c d)"
    using job_requests(4) [OF assms(1,2) _ _ assms(6,7,8,4) refl refl] assms(3,9)
    by (simp add: api_request_def to_queue_section [OF assms(1,6)] gate_def)
  then show ?thesis
    using job_h_Cancel_one [of "E_uuid E" ?c i j d] assms(5,10,11,12)
    by (auto simp: as_data_def sql_update_mem)
qed

text \<open>C39: Batches and cron jobs cannot be created through the API. Their routes are registered below the
  queue collection without a queue in the path, so the handlers always miss their queue identifier: every
  such request of a project member, whatever the role and the body, ends in a 500 (or a 403 before that)
  and nothing is stored.\<close>

theorem batch_and_cron_creation_fails:
  assumes "documented_router m" and "authenticated (api_serve_env v None n E) c u e"
    and "E_uuid E P = Some pid" and "P \<noteq> []" and "project_role_of d pid u = Some r" and "E_uuid E [] = None"
  shows "api_request m v None n E (sent POST (queues_path P @ [''batches''])) c d =
      (if r = ProjAdmin then internal_error else RespondError (Forbidden ''insufficient project role''), d) \<and>
    api_request m v None n E (sent POST (queues_path P @ [''cron''])) c d =
      (if r = ProjAdmin then internal_error else RespondError (Forbidden ''insufficient project role''), d)"
  using misplaced_requests [OF assms(1,2) _ _ assms(4,5) refl] assms(3,6)
  by (simp add: api_request_def to_queue_section [OF assms(1,4)] gate_def batch_h_CreateBatch_def cron_h_Create_def
      raise_or_def path_id_def as_data_def)

text \<open>Any holder of a valid token deletes any cron job.\<close>

theorem anyone_deletes_cron:
  assumes "documented_router m" and "authenticated (api_serve_env v None n E) c u e"
    and "X \<noteq> []" and "E_uuid E X = Some i" and "E_f1 E = None" and "cj \<in> set (cron_jobs d)" and "C_ID cj = i"
  shows "\<exists>d'. api_request m v None n E (sent DELETE [''api'', ''v1'', ''cron'', X]) c d = (NoContent, d') \<and>
    cron_jobs d' = filter (\<lambda>c. C_ID c \<noteq> i) (cron_jobs d)"
proof -
  let ?c = "as_user u e (c\<lparr>cx_param := params_of [(''cronId'', X)]\<rparr>)"
  have "sql_count (\<lambda>c. C_ID c = i) (cron_jobs d) \<noteq> 0" using assms(6,7) by (auto simp: sql_count_0)
  then have "cron_h_Delete (E_uuid E) None ?c d = (NoContent, cascade_crons (\<lambda>x. x = i) d)"
    using assms(4) by (simp add: cron_h_Delete_def raise_or_def path_id_def cron_svc_Delete_def CronRepo_Delete_def
        exec_tag_def Let_def)
  then have "api_request m v None n E (sent DELETE [''api'', ''v1'', ''cron'', X]) c d = (NoContent, cascade_crons (\<lambda>x. x = i) d)"
    using assms(2,3,5) by (simp add: api_request_def table router_method [OF assms(1)] router_use [OF assms(1)]
        router_no_use [OF assms(1)] Authed_pass as_data_def)
  then show ?thesis by (simp add: cascade_crons_def sql_delete_def)
qed

lemma sql_row_update_kept:
  "(\<And>r. P r \<Longrightarrow> P (f r)) \<Longrightarrow> sql_row P (sql_update P f rows) = map_option f (sql_row P rows)"
  by (induction rows) auto

lemma own_role_changed:
  assumes "org_role_of d oid u = Some r"
    and d': "d' = d\<lparr>org_members := sql_update (\<lambda>m. omr_org_id m = oid \<and> omr_user_id m = u)
      (\<lambda>m. m\<lparr>omr_role := r'\<rparr>) (org_members d)\<rparr>"
  shows "\<exists>x. org_svc_UpdateMemberRole None None oid u r' d = (Inr x, d')" and "org_role_of d' oid u = Some r'"
proof -
  obtain m where m1: "sql_row (\<lambda>m. omr_org_id m = oid \<and> omr_user_id m = u) (org_members d) = Some m"
    using assms(1) by (cases "sql_row (\<lambda>m. omr_org_id m = oid \<and> omr_user_id m = u) (org_members d)")
      (simp_all add: org_role_of_def OrgRepo_GetMember_def get_row_def)
  have k: "omr_org_id m = oid \<and> omr_user_id m = u" using sql_row_Some [OF m1] by simp
  obtain w where "sql_row (\<lambda>w. U_ID w = u) (users d) = Some w"
    using assms(1) m1 k by (cases "sql_row (\<lambda>w. U_ID w = u) (users d)")
      (simp_all add: org_role_of_def OrgRepo_GetMember_def get_row_def org_member_join_def)
  note m = m1 this
  from k
  have "sql_count (\<lambda>m. omr_org_id m = oid \<and> omr_user_id m = u) (org_members d) \<noteq> 0"
    using sql_row_Some [OF m(1)] by (auto simp: sql_count_0)
  moreover have row: "sql_row (\<lambda>m. omr_org_id m = oid \<and> omr_user_id m = u) (org_members d') = Some (m\<lparr>omr_role := r'\<rparr>)"
    using m(1) by (simp add: d' sql_row_update_kept)
  ultimately show "\<exists>x. org_svc_UpdateMemberRole None None oid u r' d = (Inr x, d')"
    using m(2) k by (simp add: d' org_svc_UpdateMemberRole_def OrgRepo_UpdateMemberRole_def exec_tag_def read_member_def
        OrgRepo_GetMember_def get_row_def org_member_join_def)
  show "org_role_of d' oid u = Some r'"
    using row m(2) k by (simp add: d' org_role_of_def OrgRepo_GetMember_def get_row_def org_member_join_def)
qed

text \<open>An administrator of an organization, who may not delete it, makes himself its owner and then
  deletes it: the role endpoint accepts any role for any member, the caller included.\<close>

theorem org_admin_takes_ownership:
  assumes "documented_router m" and "authenticated (api_serve_env v None n E) c u e"
    and "E_uuid E X = Some oid" and "X \<noteq> []" and "E_uuid E U = Some u" and "U \<noteq> []"
    and "org_role_of d oid u = Some RoleAdmin" and "og \<in> set (organizations d)" and "O_ID og = oid"
    and "B_role (E_body E) = Inr RoleOwner" and "V_role (E_val E) RoleOwner = None"
    and "E_f1 E = None" and "E_f2 E = None"
  shows "\<exists>x d' d''. api_request m v None n E (sent PUT (org_path X @ [''members'', U, ''role''])) c d = (Resp 200 (Data (DMember x)), d') \<and>
    org_role_of d' oid u = Some RoleOwner \<and>
    api_request m v None n E (sent DELETE (org_path X)) c d' = (NoContent, d'') \<and>
    organizations d'' = filter (\<lambda>r. O_ID r \<noteq> oid) (organizations d)"
proof -
  let ?d = "d\<lparr>org_members := sql_update (\<lambda>m. omr_org_id m = oid \<and> omr_user_id m = u)
    (\<lambda>m. m\<lparr>omr_role := RoleOwner\<rparr>) (org_members d)\<rparr>"
  obtain x where x: "org_svc_UpdateMemberRole None None oid u RoleOwner d = (Inr x, ?d)"
    using own_role_changed(1) [OF assms(7) refl] by blast
  have own: "org_role_of ?d oid u = Some RoleOwner" by (rule own_role_changed(2) [OF assms(7) refl])
  have "api_request m v None n E (sent PUT (org_path X @ [''members'', U, ''role''])) c d = (Resp 200 (Data (DMember x)), ?d)"
    using org_requests(5) [OF assms(1,2) _ _ assms(4,6,7) refl refl] assms(3,5,10-13) x
    by (simp add: api_request_def org_gate_def org_h_UpdateMemberRole_def handler_steps Validate_def as_data_def SetOrgRole_def
        set_local_def)
  moreover have "sql_count (\<lambda>r. O_ID r = oid) (organizations d) \<noteq> 0" using assms(8,9) by (auto simp: sql_count_0)
  then have "fst (OrgRepo_Delete None oid ?d) = Inr ()"
    by (simp add: OrgRepo_Delete_def exec_tag_def Let_def)
  then have "api_request m v None n E (sent DELETE (org_path X)) c ?d = (NoContent, snd (OrgRepo_Delete None oid ?d))"
    using org_requests(7) [OF assms(1,2) _ _ assms(4,6) own refl refl] assms(3,12)
    by (simp add: api_request_def org_gate_def org_h_Delete_def handler_steps org_svc_Delete_def as_data_def SetOrgRole_def
        set_local_def)
  ultimately show ?thesis using own Delete_organizations [of oid ?d] by (auto simp: sql_delete_def)
qed

section \<open>Sample requests\<close>

definition no_failures :: validators where
  "no_failures = \<lparr>V_register = (\<lambda>_. None), V_login = (\<lambda>_. None), V_org_create = (\<lambda>_. None), V_org_update = (\<lambda>_. None),
     V_add_member = (\<lambda>_. None), V_role = (\<lambda>_. None), V_project_create = (\<lambda>_. None), V_project_update = (\<lambda>_. None),
     V_queue_create = (\<lambda>_. None), V_queue_update = (\<lambda>_. None), V_enqueue = (\<lambda>_. None), V_batch = (\<lambda>_. None),
     V_cron = (\<lambda>_. None)\<rparr>"

definition role_body :: bodies where
  "role_body = \<lparr>B_register = Inl (PlainErr ''json''), B_login = Inl (PlainErr ''json''), B_token = Inl (PlainErr ''json''),
     B_org_create = Inl (PlainErr ''json''), B_org_update = Inl (PlainErr ''json''), B_add_member = Inl (PlainErr ''json''),
     B_role = Inr RoleOwner, B_project_create = Inl (PlainErr ''json''), B_project_update = Inl (PlainErr ''json''),
     B_queue_create = Inl (PlainErr ''json''), B_queue_update = Inl (PlainErr ''json''), B_enqueue = Inl (PlainErr ''json''),
     B_batch = Inl (PlainErr ''json''), B_cron = Inl (PlainErr ''json'')\<rparr>"

definition sample_api :: api_env where
  "sample_api = \<lparr>E_val = no_failures, E_body = role_body, E_auth = plain_env,
     E_jwt = \<lparr>JWT_Secret = ''k'', AccessTokenTTL = 900 * time_Second, RefreshTokenTTL = 0\<rparr>, E_bcrypt = Inr,
     E_uuid = digit_uuid, E_Atoi = digit_Atoi, E_time = (\<lambda>_. None), E_collate = (\<lambda>_. 0), E_random = Inr [],
     E_id = 5, E_ids = (\<lambda>n. 100 + of_nat n), E_clock = 100, E_now = 100, E_f1 = None, E_f2 = None, E_f3 = None,
     E_row_faults = (\<lambda>_. None), E_org_faults = (\<lambda>_. None), E_ping = None, E_ws = (\<lambda>c d. (NoContent, d))\<rparr>"

abbreviation sample_request_to :: "meth \<Rightarrow> string list \<Rightarrow> db \<Rightarrow> api_data http \<times> db" where
  "sample_request_to mt path \<equiv> api_request seg_router (\<lambda>_. Inr ann_claims) None (Resp 404 (Data (DNothing ()))) sample_api
     (sent mt path) (bearer_ctx ''Bearer token'')"

lemma sample_api_sel:
  "authenticated (api_serve_env (\<lambda>_. Inr ann_claims) None n sample_api) (bearer_ctx ''Bearer token'') 7 ''ann''"
  "E_uuid sample_api ''6'' = Some 6" "E_uuid sample_api ''5'' = Some 5" "E_uuid sample_api ''7'' = Some 7"
  "E_uuid sample_api ''1'' = Some 1" "E_uuid sample_api ''3'' = Some 3" "E_uuid sample_api [] = None"
  "E_f1 sample_api = None" "E_f2 sample_api = None" "E_now sample_api = 100"
  "B_role (E_body sample_api) = Inr RoleOwner" "V_role (E_val sample_api) RoleOwner = None"
  using route_sample(1)
  by (simp_all add: authenticated_def api_serve_env_def route_env_def sample_api_def digit_uuid_def role_body_def
      no_failures_def split: sum.splits)

definition two_project_db :: db where
  "two_project_db = (sample_db [sample_job 1 StatusPending 5 0])\<lparr>
     project_members := [\<lparr>pmr_project_id = 6, pmr_user_id = 7, pmr_role = ProjAdmin, pmr_joined_at = 0\<rparr>],
     users := [ann\<lparr>U_ID := 7\<rparr>]\<rparr>"

lemma two_project_role: "project_role_of two_project_db 6 7 = Some ProjAdmin"
  "jobs two_project_db = [sample_job 1 StatusPending 5 0]"
  by (simp_all add: project_role_of_def ProjectRepo_GetMember_def two_project_db_def get_row_def project_member_join_def
      sample_db_def)

text \<open>The job of the sample lies in queue 7 of project 70; the administrator is one of project 6.\<close>

theorem cross_project_cancel_witness:
  "\<exists>d'. sample_request_to POST (queues_path ''6'' @ [''no queue'', ''jobs'', ''1'', ''cancel'']) two_project_db = (NoContent, d') \<and>
     (sample_job 1 StatusPending 5 0)\<lparr>J_Status := StatusCancelled, J_UpdatedAt := 100\<rparr> \<in> set (jobs d')"
  using cross_project_cancel [OF seg_router_documented sample_api_sel(1,2) two_project_role(1) sample_api_sel(5) _ _ _
      sample_api_sel(8), of "''no queue''" "sample_job 1 StatusPending 5 0"]
  by (simp add: two_project_role(2) cancellable_def sample_api_sel(10))

theorem batch_and_cron_creation_fails_witness:
  "sample_request_to POST (queues_path ''6'' @ [''batches'']) two_project_db = (internal_error, two_project_db)"
  using batch_and_cron_creation_fails [OF seg_router_documented sample_api_sel(1,2) _ two_project_role(1) sample_api_sel(7)]
  by simp

theorem anyone_deletes_cron_witness:
  "\<exists>d'. sample_request_to DELETE [''api'', ''v1'', ''cron'', ''3''] (empty_db\<lparr>cron_jobs := [sample_cron]\<rparr>) = (NoContent, d') \<and>
     cron_jobs d' = []"
  using anyone_deletes_cron [OF seg_router_documented sample_api_sel(1) _ sample_api_sel(6,8), of sample_cron
      "empty_db\<lparr>cron_jobs := [sample_cron]\<rparr>"]
  by (simp add: sample_cron_def)

definition owned_db :: db where
  "owned_db = admin_db\<lparr>organizations := [\<lparr>O_ID = 5, O_Name = ''o'', O_Slug = ''o'', O_Description = [],
     O_CreatedAt = 0, O_UpdatedAt = 0\<rparr>]\<rparr>"

lemma owned_role: "org_role_of owned_db 5 7 = Some RoleAdmin" "filter (\<lambda>r. O_ID r \<noteq> 5) (organizations owned_db) = []"
  "\<exists>og. og \<in> set (organizations owned_db) \<and> O_ID og = 5"
  by (simp_all add: owned_db_def org_role_of_def OrgRepo_GetMember_def admin_db_def get_row_def org_member_join_def guard_db_def)

theorem org_admin_takes_ownership_witness:
  "\<exists>x d' d''. sample_request_to PUT (org_path ''5'' @ [''members'', ''7'', ''role'']) owned_db = (Resp 200 (Data (DMember x)), d') \<and>
     sample_request_to DELETE (org_path ''5'') d' = (NoContent, d'') \<and> organizations d'' = []"
proof -
  obtain og where og: "og \<in> set (organizations owned_db)" "O_ID og = 5" using owned_role(3) by blast
  show ?thesis
    using org_admin_takes_ownership [where n = "Resp 404 (Data (DNothing ()))", OF seg_router_documented sample_api_sel(1,3) _
        sample_api_sel(4) _ owned_role(1) og sample_api_sel(11,12,8,9)]
    unfolding owned_role(2) by blast
qed

end
