(* ===== verification/Access.thy ===== *)
theory Access
  imports Routes
begin

text \<open>
  Who gets past the middleware, whatever the method and the path: requests without a valid token, and
  requests of users who belong to no organization and no project. Both follow one argument, the locale
  \<open>barrier\<close>: a guard that stops a kind of request stands before every endpoint of the table but the
  exempt ones, either on the route itself or on a group whose pattern covers the route's.
\<close>

section \<open>Barriers\<close>

text \<open>A pattern that covers another matches the beginning of whatever the other matches.\<close>

fun covers :: "seg list \<Rightarrow> seg list \<Rightarrow> bool" where
  "covers [] p' \<longleftrightarrow> True"
| "covers (Lit a # p) (Lit b # p') \<longleftrightarrow> a = b \<and> covers p p'"
| "covers (Par x # p) (Par y # p') \<longleftrightarrow> covers p p'"
| "covers (Par x # p) (Lit b # p') \<longleftrightarrow> b \<noteq> [] \<and> covers p p'"
| "covers _ _ \<longleftrightarrow> False"

text \<open>Every route that is not exempt has a stopping guard of its own, or stands after a group with one
  whose pattern covers its own.\<close>

fun behind :: "(guard \<Rightarrow> bool) \<Rightarrow> (route \<Rightarrow> bool) \<Rightarrow> seg list list \<Rightarrow> route list \<Rightarrow> bool" where
  "behind stops exempt seen [] \<longleftrightarrow> True"
| "behind stops exempt seen (r # rs) \<longleftrightarrow>
     (if R_Use r then R_End r = None \<and>
        behind stops exempt (if list_ex stops (R_Guards r) then R_Path r # seen else seen) rs
      else (exempt r \<or> list_ex stops (R_Guards r) \<or> list_ex (\<lambda>p. covers p (R_Path r)) seen) \<and>
        behind stops exempt seen rs)"

lemma seg_bind_covers:
  "covers p' p \<Longrightarrow> seg_bind p path = Some b \<Longrightarrow> \<exists>b'. seg_bind p' (take (length p') path) = Some b'"
proof (induction p' p arbitrary: path b rule: covers.induct)
  case (2 a p b' p')
  then show ?case by (cases path) (auto split: if_splits)
next
  case (3 x p y p')
  then show ?case by (cases path) (auto split: if_splits)
next
  case (4 x p a p')
  then show ?case by (cases path) (auto split: if_splits)
qed auto

lemma matched_prefix:
  assumes "documented_router m" and "m False p path = Some b" and "covers p' p"
  shows "m True p' path \<noteq> None"
proof -
  have "seg_bind p path = Some b" using assms(1,2) router_method by simp
  from seg_bind_covers [OF assms(3) this] show ?thesis using router_use [OF assms(1), of p' path] by auto
qed

locale barrier =
  fixes env :: "('b, 'z) serve_env_scheme" and q :: request and d :: db
    and held :: "ctx \<Rightarrow> bool" and stops :: "guard \<Rightarrow> bool" and ok :: "'b http \<times> db \<Rightarrow> bool"
  assumes stop: "held c \<Longrightarrow> stops g \<Longrightarrow> ok (run_guard env q g nxt c d)"
    and pass: "held c \<Longrightarrow> (\<And>c'. held c' \<Longrightarrow> ok (nxt c' d)) \<Longrightarrow> ok (run_guard env q g nxt c d)"
    and held_param: "held c \<Longrightarrow> held (c\<lparr>cx_param := f\<rparr>)"
    and unrouted: "ok (S_fallback env, d)"
begin

lemma guards_stop: "list_ex stops gs \<Longrightarrow> held c \<Longrightarrow> ok (run_guards env q gs nxt c d)"
proof (induction gs arbitrary: c)
  case (Cons g gs)
  show ?case
  proof (cases "stops g")
    case True
    then show ?thesis using stop [OF Cons.prems(2)] by simp
  next
    case False
    then show ?thesis using Cons by (simp add: pass)
  qed
qed simp

lemma guards_pass: "held c \<Longrightarrow> (\<And>c'. held c' \<Longrightarrow> ok (nxt c' d)) \<Longrightarrow> ok (run_guards env q gs nxt c d)"
  by (induction gs arbitrary: c) (simp_all add: pass)

lemma served_behind:
  assumes m: "documented_router m"
    and exempt_ok: "\<And>r b e c. exempt r \<Longrightarrow> r \<in> set all \<Longrightarrow> \<not> R_Use r \<Longrightarrow> R_Method r = RQ_Method q \<Longrightarrow>
      m False (R_Path r) (RQ_Path q) = Some b \<Longrightarrow> R_End r = Some e \<Longrightarrow> held c \<Longrightarrow>
      ok (run_guards env q (R_Guards r) (S_run env e) c d)"
  shows "behind stops exempt seen rs \<Longrightarrow> set rs \<subseteq> set all \<Longrightarrow> list_all (\<lambda>r. R_Use r \<or> R_End r \<noteq> None) rs \<Longrightarrow> held c \<Longrightarrow>
    (\<And>p. p \<in> set seen \<Longrightarrow> m True p (RQ_Path q) = None) \<Longrightarrow> ok (serve env m q rs c d)"
proof (induction rs arbitrary: seen c)
  case Nil
  then show ?case by (simp add: unrouted)
next
  case (Cons r rs)
  have skip: "ok (serve env m q rs c' d)" if "held c'" "R_Use r \<longrightarrow> list_ex stops (R_Guards r) \<longrightarrow> m True (R_Path r) (RQ_Path q) = None"
    for c'
    using Cons.prems that
    by (intro Cons.IH [of "if R_Use r \<and> list_ex stops (R_Guards r) then R_Path r # seen else seen"]) (auto split: if_splits)
  show ?case
  proof (cases "if R_Use r \<or> R_Method r = RQ_Method q then m (R_Use r) (R_Path r) (RQ_Path q) else None")
    case None
    then have "serve env m q (r # rs) c d = serve env m q rs c d"
      by (cases "R_Use r") (simp_all split: if_splits)
    then show ?thesis using skip [OF Cons.prems(4)] None by (cases "R_Use r") (simp_all split: if_splits)
  next
    case (Some b)
    let ?c = "c\<lparr>cx_param := params_of b\<rparr>"
    have c: "held ?c" by (rule held_param [OF Cons.prems(4)])
    show ?thesis
    proof (cases "R_Use r")
      case True
      have eq: "serve env m q (r # rs) c d = run_guards env q (R_Guards r) (serve env m q rs) ?c d"
        using Some True Cons.prems(1) by simp
      show ?thesis unfolding eq
        using guards_stop [OF _ c] guards_pass [OF c, of "serve env m q rs"] skip
        by (cases "list_ex stops (R_Guards r)") auto
    next
      case False
      then obtain e where e: "R_End r = Some e" using Cons.prems(3) by auto
      have mt: "R_Method r = RQ_Method q" using Some False by (simp split: if_splits)
      have hit: "m False (R_Path r) (RQ_Path q) = Some b" using Some False by (simp split: if_splits)
      have eq: "serve env m q (r # rs) c d = run_guards env q (R_Guards r) (S_run env e) ?c d"
        using Some False e by (simp split: if_splits)
      have "\<not> list_ex (\<lambda>p. covers p (R_Path r)) seen"
        using matched_prefix [OF m hit] Cons.prems(5) by (fastforce simp: list_ex_iff)
      then consider "exempt r" | "list_ex stops (R_Guards r)" using Cons.prems(1) False by auto
      then have "ok (run_guards env q (R_Guards r) (S_run env e) ?c d)"
      proof cases
        case 1
        then show ?thesis using exempt_ok [OF 1 _ False mt hit e c] Cons.prems(2) by simp
      next
        case 2
        then show ?thesis by (rule guards_stop [OF _ c])
      qed
      then show ?thesis by (simp only: eq)
    qed
  qed
qed

end

text \<open>The routes of the table that are no groups have endpoints.\<close>

lemma api_endpoints: "list_all (\<lambda>r. R_Use r \<or> R_End r \<noteq> None) api_routes"
  by code_simp

section \<open>Requests without a valid token\<close>

definition unauthenticated :: "('b, 'z) serve_env_scheme \<Rightarrow> ctx \<Rightarrow> bool" where
  "unauthenticated env c \<longleftrightarrow> (case extractBearerToken c of Inl _ \<Rightarrow> True | Inr tok \<Rightarrow>
     (case S_validate env tok of Inl _ \<Rightarrow> True | Inr claims \<Rightarrow> S_uuid env (Cl_UserID claims) = None))"

definition public_path :: "string list \<Rightarrow> bool" where
  "public_path path \<longleftrightarrow> path = [''health''] \<or> take 3 path = [''api'', ''v1'', ''auth'']"

definition public_pattern :: "seg list \<Rightarrow> bool" where
  "public_pattern p \<longleftrightarrow> p = [Lit ''health''] \<or> take 3 p = [Lit ''api'', Lit ''v1'', Lit ''auth'']"

lemma api_behind_auth: "behind (\<lambda>g. g = Authed) (\<lambda>r. public_pattern (R_Path r)) [] api_routes"
  by code_simp

lemma seg_bind_Lit:
  "seg_bind (Lit a # p) path = Some b \<longleftrightarrow> (\<exists>ss. path = a # ss \<and> seg_bind p ss = Some b)"
  by (cases path) auto

lemma seg_bind_Nil: "seg_bind [] path = Some b \<longleftrightarrow> path = [] \<and> b = []"
  by (cases path) auto

lemma public_match: "seg_bind p path = Some b \<Longrightarrow> public_pattern p \<Longrightarrow> public_path path"
proof -
  assume b: "seg_bind p path = Some b" and "public_pattern p"
  then consider "p = [Lit ''health'']" | p' where "p = Lit ''api'' # Lit ''v1'' # Lit ''auth'' # p'"
    unfolding public_pattern_def by (metis append_Cons append_Nil append_take_drop_id)
  then show "public_path path"
    using b by cases (auto simp: seg_bind_Lit seg_bind_Nil public_path_def)
qed

definition rejected :: "('b, 'z) serve_env_scheme \<Rightarrow> db \<Rightarrow> 'b http \<times> db \<Rightarrow> bool" where
  "rejected env d x \<longleftrightarrow> snd x = d \<and> (fst x = S_fallback env \<or> 400 \<le> http_status (fst x))"

lemma rejected_error [simp]: "rejected env d (RespondError e, d)"
  by (simp add: rejected_def RespondError_status)

lemma unauthenticated_header: "cx_header c' = cx_header c \<Longrightarrow> unauthenticated env c' = unauthenticated env c"
  by (simp add: unauthenticated_def extractBearerToken_def)

lemma Authed_refuses: "unauthenticated env c \<Longrightarrow> rejected env d (run_guard env q Authed nxt c d)"
  by (auto simp: run_guard.simps AuthRequired_def unauthenticated_def split: sum.splits option.splits)

interpretation no_token: barrier env q d "unauthenticated env" "\<lambda>g. g = Authed" "rejected env d" for env q d
proof
  fix c g and nxt :: "'a handlerf"
  assume u: "unauthenticated env c"
  show "g = Authed \<Longrightarrow> rejected env d (run_guard env q g nxt c d)" using Authed_refuses [OF u] by simp
  show "rejected env d (run_guard env q g nxt c d)" if n: "\<And>c'. unauthenticated env c' \<Longrightarrow> rejected env d (nxt c' d)"
  proof -
    have n': "rejected env d (nxt c' d)" if "cx_header c' = cx_header c" for c'
      using n u unauthenticated_header [OF that, of env] by simp
    show ?thesis
    proof (cases g)
      case Authed
      then show ?thesis using Authed_refuses [OF u] by simp
    next
      case (OrgAtLeast r)
      then show ?thesis using n' by (auto simp: run_guard.simps RequireOrgRole_def split: sum.splits)
    next
      case (ProjectAtLeast r)
      then show ?thesis using n' by (auto simp: run_guard.simps RequireProjectRole_def split: sum.splits)
    next
      case UpgradeOnly
      then show ?thesis using n' by (auto simp: run_guard.simps rejected_def buildErrorHandler_def)
    qed
  qed
  show "unauthenticated env (c\<lparr>cx_param := f\<rparr>)" for f using u unauthenticated_header [of "c\<lparr>cx_param := f\<rparr>" c env] by simp
qed (simp add: rejected_def)

text \<open>C8: No request without a valid token reaches an endpoint beyond the public ones: unless the path is
  the health check or lies under \<open>/api/v1/auth\<close>, whatever the method and the path, the answer is an
  error (or Fiber's own for an unknown route) and the database is unchanged.\<close>

theorem no_token_no_effect:
  assumes "documented_router m" and "\<not> public_path (RQ_Path q)" and "unauthenticated env c"
  shows "\<exists>x. serve env m q api_routes c d = (x, d) \<and> (x = S_fallback env \<or> 400 \<le> http_status x)"
proof -
  have "rejected env d (serve env m q api_routes c d)"
  proof (rule no_token.served_behind [OF assms(1) _ api_behind_auth subset_refl api_endpoints assms(3)])
    fix r b e c assume "public_pattern (R_Path r)" "m False (R_Path r) (RQ_Path q) = Some b"
    then have False using public_match assms(2) router_method [OF assms(1)] by simp
    then show "rejected env d (run_guards env q (R_Guards r) (S_run env e) c d)" by simp
  qed simp
  then show ?thesis by (cases "serve env m q api_routes c d") (simp add: rejected_def)
qed

theorem no_token_no_effect_witness:
  "\<exists>x. serve route_env seg_router (sent DELETE [''api'', ''v1'', ''orgs'', ''5'']) api_routes (bearer_ctx []) guard_db =
     (x, guard_db) \<and> 400 \<le> http_status x"
proof -
  have u: "unauthenticated route_env (bearer_ctx [])"
    by (simp add: unauthenticated_def extractBearerToken_def bearer_ctx_def)
  have p: "\<not> public_path (RQ_Path (sent DELETE [''api'', ''v1'', ''orgs'', ''5'']))" by (simp add: public_path_def)
  show ?thesis
    using no_token_no_effect [OF seg_router_documented p u, of guard_db] by (auto simp: route_env_def)
qed

section \<open>What a request reaches\<close>

text \<open>A request does nothing, or is the work of one endpoint registered for its method.\<close>

definition handled :: "meth \<Rightarrow> route list \<Rightarrow> endpoint list" where
  "handled mt rs = List.map_filter (\<lambda>r. if \<not> R_Use r \<and> R_Method r = mt then R_End r else None) rs"

definition reaches :: "('b, 'z) serve_env_scheme \<Rightarrow> db \<Rightarrow> (endpoint \<Rightarrow> ctx \<Rightarrow> bool) \<Rightarrow> 'b http \<times> db \<Rightarrow> bool" where
  "reaches env d P x \<longleftrightarrow> snd x = d \<or> (\<exists>ep c'. P ep c' \<and> x = S_run env ep c' d)"

lemma reaches_error [simp]: "reaches env d P (RespondError e, d)" "reaches env d P (buildErrorHandler x, d)"
  by (simp_all add: reaches_def)

lemma guard_stops_or_runs:
  "(\<exists>x. run_guard env q g nxt c d = (x, d)) \<or> (\<exists>c'. run_guard env q g nxt c d = nxt c' d)"
  by (cases g) (auto simp: run_guard.simps AuthRequired_def RequireOrgRole_def RequireProjectRole_def
      split: sum.splits option.splits)

lemma reaches_guard:
  assumes "\<And>c'. reaches env d P (nxt c' d)"
  shows "reaches env d P (run_guard env q g nxt c d)"
  using guard_stops_or_runs [of env q g nxt c d]
proof (elim disjE exE)
  fix c' assume "run_guard env q g nxt c d = nxt c' d"
  then show ?thesis using assms by simp
qed (simp add: reaches_def)

interpretation any_request: barrier env q d "\<lambda>_. True" "\<lambda>_. False" "reaches env d P" for env q d P
  by unfold_locales (simp_all add: reaches_guard, simp add: reaches_def)

lemma behind_all: "behind stops (\<lambda>r. True) seen rs \<longleftrightarrow> list_all (\<lambda>r. R_Use r \<longrightarrow> R_End r = None) rs"
  by (induction rs arbitrary: seen) auto

lemma api_groups: "list_all (\<lambda>r. R_Use r \<longrightarrow> R_End r = None) api_routes"
  by code_simp

lemma request_reaches:
  assumes "documented_router m"
  shows "reaches env d (\<lambda>ep _. ep \<in> set (handled (RQ_Method q) api_routes)) (serve env m q api_routes c d)"
proof (rule any_request.served_behind [OF assms, where exempt = "\<lambda>_. True" and all = api_routes and seen = "[]"])
  fix r b e c assume r: "r \<in> set api_routes" "\<not> R_Use r" "R_Method r = RQ_Method q" "R_End r = Some e"
  then have "e \<in> set (handled (RQ_Method q) api_routes)" by (force simp: handled_def List.map_filter_def)
  then show "reaches env d (\<lambda>ep _. ep \<in> set (handled (RQ_Method q) api_routes)) (run_guards env q (R_Guards r) (S_run env e) c d)"
    by (intro any_request.guards_pass) (auto simp: reaches_def)
qed (use api_endpoints api_groups in \<open>simp_all add: behind_all\<close>)

section \<open>Users without a membership\<close>

definition stranger :: "db \<Rightarrow> uuid \<Rightarrow> bool" where
  "stranger d u \<longleftrightarrow> list_all (\<lambda>m. omr_user_id m \<noteq> u) (org_members d) \<and>
     list_all (\<lambda>m. pmr_user_id m \<noteq> u) (project_members d)"

definition role_guarded :: "guard \<Rightarrow> bool" where
  "role_guarded g \<longleftrightarrow> (case g of OrgAtLeast _ \<Rightarrow> True | ProjectAtLeast _ \<Rightarrow> True | _ \<Rightarrow> False)"

definition open_endpoints :: "endpoint list" where
  "open_endpoints = [Health, AuthRegister, AuthLogin, AuthRefresh, AuthLogout, OrgCreate, OrgList, BatchGet, CronDelete,
     MetricsQueue, MetricsSystem, LogExecutions, LogLines, WsLive]"

lemma api_behind_roles: "behind role_guarded (\<lambda>r. case R_End r of None \<Rightarrow> False | Some e \<Rightarrow> e \<in> set open_endpoints) [] api_routes"
  by code_simp

lemma stranger_no_role:
  assumes "stranger d u"
  shows "\<exists>e. OrgRepo_GetMember f oid u d = Inl e" and "\<exists>e. ProjectRepo_GetMember f pid u d = Inl e"
proof -
  have "sql_row (\<lambda>m. omr_org_id m = oid \<and> omr_user_id m = u) (org_members d) = None"
    "sql_row (\<lambda>m. pmr_project_id m = pid \<and> pmr_user_id m = u) (project_members d) = None"
    using assms by (auto simp: stranger_def sql_row_None list_all_iff)
  then show "\<exists>e. OrgRepo_GetMember f oid u d = Inl e" "\<exists>e. ProjectRepo_GetMember f pid u d = Inl e"
    by (cases f; simp add: OrgRepo_GetMember_def ProjectRepo_GetMember_def)+
qed

definition strange_ctx :: "('b, 'z) serve_env_scheme \<Rightarrow> db \<Rightarrow> ctx \<Rightarrow> bool" where
  "strange_ctx env d c \<longleftrightarrow> stranger d (GetUserID c) \<and> (\<forall>u e. authenticated env c u e \<longrightarrow> stranger d u)"

lemma strange_ctx_header:
  "cx_header c' = cx_header c \<Longrightarrow> GetUserID c' = GetUserID c \<Longrightarrow> strange_ctx env d c' = strange_ctx env d c"
  by (simp add: strange_ctx_def authenticated_def extractBearerToken_def)

lemma strange_role_stops:
  assumes "strange_ctx env d c" and "role_guarded g"
  shows "\<exists>e. run_guard env q g nxt c d = (RespondError e, d)"
proof -
  have "stranger d (GetUserID c)" using assms(1) by (simp add: strange_ctx_def)
  note no = stranger_no_role [OF this]
  show ?thesis
  proof (cases g)
    case (OrgAtLeast r)
    show ?thesis
    proof (cases "parseUUIDParam (S_uuid env) c ''orgId''")
      case (Inr oid)
      obtain e where "OrgRepo_GetMember (S_fault env) oid (GetUserID c) d = Inl e" using no(1) by blast
      then show ?thesis using Inr OrgAtLeast by (auto simp: run_guard.simps RequireOrgRole_def)
    qed (auto simp: OrgAtLeast run_guard.simps RequireOrgRole_def)
  next
    case (ProjectAtLeast r)
    show ?thesis
    proof (cases "parseUUIDParam (S_uuid env) c ''projectId''")
      case (Inr pid)
      obtain e where "ProjectRepo_GetMember (S_fault env) pid (GetUserID c) d = Inl e" using no(2) by blast
      then show ?thesis using Inr ProjectAtLeast by (auto simp: run_guard.simps RequireProjectRole_def)
    qed (auto simp: ProjectAtLeast run_guard.simps RequireProjectRole_def)
  qed (use assms(2) in \<open>simp_all add: role_guarded_def\<close>)
qed

lemma strange_guard_passes:
  assumes "strange_ctx env d c"
  shows "(\<exists>x. run_guard env q g nxt c d = (x, d)) \<or> (\<exists>c'. strange_ctx env d c' \<and> run_guard env q g nxt c d = nxt c' d)"
proof (cases g)
  case Authed
  show ?thesis
  proof (cases "\<exists>u e. authenticated env c u e")
    case True
    then obtain u e where a: "authenticated env c u e" by blast
    have "strange_ctx env d (as_user u e c)" using assms a by (auto simp: strange_ctx_def)
    then show ?thesis using Authed_pass [OF a] Authed by blast
  next
    case False
    then have "unauthenticated env c" by (auto simp: unauthenticated_def authenticated_def split: sum.splits option.splits)
    then have "rejected env d (run_guard env q Authed nxt c d)" by (rule Authed_refuses)
    then show ?thesis using Authed by (cases "run_guard env q Authed nxt c d") (simp add: rejected_def)
  qed
next
  case UpgradeOnly
  then show ?thesis using assms by (auto simp: run_guard.simps)
qed (use strange_role_stops [OF assms, of g q nxt] in \<open>auto simp: role_guarded_def\<close>)

interpretation strange: barrier env q d "strange_ctx env d" role_guarded "reaches env d P" for env q d P
proof
  fix c g and nxt :: "'a handlerf"
  assume c: "strange_ctx env d c"
  show "role_guarded g \<Longrightarrow> reaches env d P (run_guard env q g nxt c d)"
    using strange_role_stops [OF c, of g q nxt] by auto
  show "reaches env d P (run_guard env q g nxt c d)" if "\<And>c'. strange_ctx env d c' \<Longrightarrow> reaches env d P (nxt c' d)"
    using strange_guard_passes [OF c, of q g nxt]
  proof (elim disjE exE conjE)
    fix c' assume "strange_ctx env d c'" "run_guard env q g nxt c d = nxt c' d"
    then show ?thesis using that by simp
  qed (simp add: reaches_def)
  show "strange_ctx env d (c\<lparr>cx_param := f\<rparr>)" for f
    using c strange_ctx_header [of "c\<lparr>cx_param := f\<rparr>" c env d] by (simp add: GetUserID_def local_uuid_def)
qed (simp add: reaches_def)

lemma stranger_reaches:
  assumes "documented_router m" and "strange_ctx env d c"
  shows "reaches env d (\<lambda>ep c'. ep \<in> set open_endpoints \<and> strange_ctx env d c') (serve env m q api_routes c d)"
proof (rule strange.served_behind [OF assms(1) _ api_behind_roles subset_refl api_endpoints assms(2)])
  fix r b e c assume "case R_End r of None \<Rightarrow> False | Some e \<Rightarrow> e \<in> set open_endpoints" "R_End r = Some e" "strange_ctx env d c"
  then show "reaches env d (\<lambda>ep c'. ep \<in> set open_endpoints \<and> strange_ctx env d c') (run_guards env q (R_Guards r) (S_run env e) c d)"
    by (intro strange.guards_pass) (auto simp: reaches_def)
qed simp

end
