(* ===== verification/Frames.thy ===== *)
theory Frames
  imports Api Access
begin

text \<open>
  What each operation may write: the tables of the database, the frame of a change (\<open>only ts d d'\<close>: no
  table outside \<open>ts\<close> differs), and the frame of every endpoint of the API (\<open>writes\<close>). From it and the
  route table: requests with the method GET are safe, and what a user without memberships can touch.
\<close>

section \<open>Tables and frames\<close>

datatype tbl = TUsers | TTokens | TOrgs | TOrgMembers | TProjects | TProjectMembers | TQueues | TCrons | TBatches
  | TJobs | TWorkers | TExecutions | TLogs | TMetrics

definition all_tables :: "tbl list" where
  "all_tables = [TUsers, TTokens, TOrgs, TOrgMembers, TProjects, TProjectMembers, TQueues, TCrons, TBatches, TJobs,
     TWorkers, TExecutions, TLogs, TMetrics]"

fun same :: "tbl \<Rightarrow> db \<Rightarrow> db \<Rightarrow> bool" where
  "same TUsers d d' \<longleftrightarrow> users d' = users d"
| "same TTokens d d' \<longleftrightarrow> refresh_tokens d' = refresh_tokens d"
| "same TOrgs d d' \<longleftrightarrow> organizations d' = organizations d"
| "same TOrgMembers d d' \<longleftrightarrow> org_members d' = org_members d"
| "same TProjects d d' \<longleftrightarrow> projects d' = projects d"
| "same TProjectMembers d d' \<longleftrightarrow> project_members d' = project_members d"
| "same TQueues d d' \<longleftrightarrow> queues d' = queues d"
| "same TCrons d d' \<longleftrightarrow> cron_jobs d' = cron_jobs d"
| "same TBatches d d' \<longleftrightarrow> batches d' = batches d"
| "same TJobs d d' \<longleftrightarrow> jobs d' = jobs d"
| "same TWorkers d d' \<longleftrightarrow> workers d' = workers d"
| "same TExecutions d d' \<longleftrightarrow> job_executions d' = job_executions d"
| "same TLogs d d' \<longleftrightarrow> execution_logs d' = execution_logs d"
| "same TMetrics d d' \<longleftrightarrow> queue_metrics d' = queue_metrics d"

definition only :: "tbl list \<Rightarrow> db \<Rightarrow> db \<Rightarrow> bool" where
  "only ts d d' \<longleftrightarrow> list_all (\<lambda>t. t \<in> set ts \<or> same t d d') all_tables"

lemma set_all_tables: "set all_tables = UNIV"
proof -
  have "t \<in> set all_tables" for t by (cases t) (simp_all add: all_tables_def)
  then show ?thesis by blast
qed

lemma only_iff: "only ts d d' \<longleftrightarrow> (\<forall>t. t \<in> set ts \<or> same t d d')"
  by (simp add: only_def list_all_iff set_all_tables)

lemma same_refl [simp]: "same t d d"
  by (cases t) simp_all

lemma same_trans: "same t d d' \<Longrightarrow> same t d' d'' \<Longrightarrow> same t d d''"
  by (cases t) simp_all

lemma only_refl [simp]: "only ts d d"
  by (simp add: only_iff)

lemma only_none [simp]: "only [] d d' \<longleftrightarrow> d' = d"
  by (auto simp: only_def all_tables_def)

lemma only_mono: "only ts d d' \<Longrightarrow> set ts \<subseteq> set ts' \<Longrightarrow> only ts' d d'"
  by (auto simp: only_iff)

lemma only_trans: "only ts d d' \<Longrightarrow> only ts d' d'' \<Longrightarrow> only ts d d''"
  by (auto simp: only_iff intro: same_trans)

lemma only_same: "only ts d d' \<Longrightarrow> t \<notin> set ts \<Longrightarrow> same t d d'"
  by (auto simp: only_iff)

lemmas frame_defs = only_def all_tables_def

text \<open>The cascades.\<close>

definition below_queues :: "tbl list" where
  "below_queues = [TQueues, TCrons, TBatches, TJobs, TExecutions, TLogs, TMetrics]"
definition below_projects :: "tbl list" where
  "below_projects = [TProjects, TProjectMembers] @ below_queues"
definition below_orgs :: "tbl list" where
  "below_orgs = [TOrgs, TOrgMembers] @ below_projects"

lemmas below_defs = below_orgs_def below_projects_def below_queues_def

lemmas cascade_defs = cascade_orgs_def cascade_projects_def cascade_queues_def cascade_batches_def cascade_crons_def
  cascade_jobs_def cascade_executions_def Let_def

lemma only_cascade:
  "only [TCrons, TJobs] d (cascade_crons X d)" "only below_queues d (cascade_queues X d)"
  "only below_projects d (cascade_projects X d)" "only below_orgs d (cascade_orgs X d)"
  by (simp_all add: frame_defs below_defs cascade_defs)

text \<open>A cascade that starts from nothing deletes nothing: the clean-up after a failed membership.\<close>

lemma clear_none [simp]: "clear_opt (\<lambda>_. False) r = r"
  by (simp add: clear_opt_def split: option.split)

lemma cascade_nothing [simp]:
  "cascade_jobs (\<lambda>_. False) d = d" "cascade_crons (\<lambda>_. False) d = d" "cascade_batches (\<lambda>_. False) d = d"
  "cascade_queues (\<lambda>_. False) d = d" "cascade_projects (\<lambda>_. False) d = d"
proof -
  show 1: "cascade_jobs (\<lambda>_. False) d = d" for d :: db
    by (simp add: cascade_jobs_def cascade_executions_def sql_delete_def sql_select_def exists_id_def)
  show 2: "cascade_crons (\<lambda>_. False) d = d" for d :: db by (simp add: cascade_crons_def sql_delete_def)
  show 3: "cascade_batches (\<lambda>_. False) d = d" for d :: db by (simp add: cascade_batches_def sql_delete_def)
  show 4: "cascade_queues (\<lambda>_. False) d = d" for d :: db
    by (simp add: cascade_queues_def sql_delete_def sql_select_def exists_id_def 1 2 3)
  show "cascade_projects (\<lambda>_. False) d = d"
    by (simp add: cascade_projects_def sql_delete_def sql_select_def exists_id_def 4)
qed

text \<open>Every project has its organization, every queue its project, every membership what it is one of.\<close>

definition rooted :: "db \<Rightarrow> bool" where
  "rooted d \<longleftrightarrow> list_all (\<lambda>p. exists_id O_ID (P_OrgID p) (organizations d)) (projects d) \<and>
     list_all (\<lambda>q. exists_id P_ID (Q_ProjectID q) (projects d)) (queues d) \<and>
     list_all (\<lambda>m. exists_id O_ID (omr_org_id m) (organizations d)) (org_members d) \<and>
     list_all (\<lambda>m. exists_id P_ID (pmr_project_id m) (projects d)) (project_members d)"

lemma cascade_new_org:
  assumes "\<forall>p\<in>set (projects d). P_OrgID p \<noteq> i"
  shows "cascade_orgs (\<lambda>x. x = i) d = d\<lparr>organizations := sql_delete (\<lambda>r. O_ID r = i) (organizations d),
    org_members := sql_delete (\<lambda>m. omr_org_id m = i) (org_members d)\<rparr>"
proof -
  have "sql_select (\<lambda>p. P_OrgID p = i) (projects d) = []" using assms by (simp add: sql_select_def filter_empty_conv)
  then show ?thesis by (simp add: cascade_orgs_def exists_id_def Let_def)
qed

lemma cascade_new_project:
  assumes "\<forall>q\<in>set (queues d). Q_ProjectID q \<noteq> i"
  shows "cascade_projects (\<lambda>x. x = i) d = d\<lparr>projects := sql_delete (\<lambda>r. P_ID r = i) (projects d),
    project_members := sql_delete (\<lambda>m. pmr_project_id m = i) (project_members d)\<rparr>"
proof -
  have "sql_select (\<lambda>q. Q_ProjectID q = i) (queues d) = []" using assms by (simp add: sql_select_def filter_empty_conv)
  then show ?thesis by (simp add: cascade_projects_def exists_id_def Let_def)
qed

section \<open>The services\<close>

named_theorems frame "frames of the services' operations"

lemma only_db_call: "only ts d (snd (stmt d)) \<Longrightarrow> only ts d (snd (db_call f stmt d))"
  by (cases f) simp_all

lemma only_exec_tag: "only ts d (snd (stmt d)) \<Longrightarrow> only ts d (snd (exec_tag nf msg f stmt d))"
  using only_db_call [of ts d stmt f] by (cases "db_call f stmt d") (auto simp: exec_tag_def split: sum.split)

lemma only_pair: "x = (r, d') \<Longrightarrow> only ts d (snd x) \<Longrightarrow> only ts d d'"
  by simp

lemma auth_frames [frame]:
  "only [TUsers] d (snd (auth_Register bcrypt_hash f new_id now req d))"
  "only [TTokens] d (snd (auth_Login env cfg lreq ua ip d))"
  "only [TTokens] d (snd (auth_Logout env raw d))"
  by (auto simp: frame_defs auth_Register_def auth_Login_def auth_Logout_def UserRepo_Create_def insert_user_def
      RefreshTokenRepo_Create_def insert_token_def RefreshTokenRepo_RevokeByID_def revoke_where_def db_call_def Let_def
      split: sum.splits prod.splits option.splits if_splits)

lemma OrgRepo_frames [frame]:
  "only [TOrgs] d (snd (OrgRepo_Create f o1 d))" "only [TOrgs] d (snd (OrgRepo_Update f now o1 d))"
  "only below_orgs d (snd (OrgRepo_Delete f i d))" "only [TOrgMembers] d (snd (OrgRepo_AddMember f now oid uid role d))"
  "only [TOrgMembers] d (snd (OrgRepo_UpdateMemberRole f oid uid role d))"
  "only [TOrgMembers] d (snd (OrgRepo_RemoveMember f oid uid d))"
  by (auto simp: OrgRepo_Create_def OrgRepo_Update_def OrgRepo_Delete_def OrgRepo_AddMember_def
      OrgRepo_UpdateMemberRole_def OrgRepo_RemoveMember_def insert_org_def upsert_org_member_def only_cascade Let_def
      intro!: only_exec_tag only_db_call) (simp_all add: frame_defs)

lemmas OrgRepo_pairs = OrgRepo_frames [THEN only_pair [rotated]]

lemma read_member_snd [simp]: "snd (read_member f oid uid r) = snd r"
  by (simp add: read_member_def split: prod.split sum.split)

lemma org_frames [frame]:
  "only [TOrgs] d (snd (org_svc_Update f f' clock now i req d))" "only below_orgs d (snd (org_svc_Delete f i d))"
  "only [TOrgMembers] d (snd (org_svc_AddMember f f' now oid areq d))"
  "only [TOrgMembers] d (snd (org_svc_UpdateMemberRole f f' oid uid role d))"
  "only [TOrgMembers] d (snd (org_svc_RemoveMember f oid uid d))"
  by (auto simp: org_svc_Update_def org_svc_Delete_def org_svc_AddMember_def org_svc_UpdateMemberRole_def
      org_svc_RemoveMember_def Let_def frame intro: OrgRepo_pairs split: sum.splits prod.splits)

lemma org_create_frame:
  assumes "rooted d"
  shows "only [TOrgs, TOrgMembers] d (snd (org_svc_Create f1 f2 f3 new_id now owner req d))"
proof -
  let ?o = "new_org new_id now req"
  obtain r d1 where c: "OrgRepo_Create f1 ?o d = (r, d1)" by (cases "OrgRepo_Create f1 ?o d")
  have i: "O_ID ?o = new_id" by (simp add: new_org_def)
  from c show ?thesis
  proof (cases rule: OrgRepo_Create_cases)
    case (error e)
    then show ?thesis using c by (simp add: org_svc_Create_def Let_def)
  next
    case new
    obtain r2 d2 where a: "OrgRepo_AddMember f2 now new_id owner RoleOwner d1 = (r2, d2)"
      by (cases "OrgRepo_AddMember f2 now new_id owner RoleOwner d1")
    have d2: "only [TOrgs, TOrgMembers] d d2"
      using OrgRepo_frames(4) [of d1 f2 now new_id owner RoleOwner] a new(2) by (simp add: frame_defs)
    show ?thesis
    proof (cases r2)
      case (Inr u)
      then show ?thesis using c a new(1) d2 i by (simp add: org_svc_Create_def Let_def)
    next
      case (Inl e)
      have "\<forall>p\<in>set (projects d2). P_OrgID p \<noteq> new_id"
      proof -
        have "projects d2 = projects d" using d2 by (simp add: frame_defs)
        then show ?thesis using assms new(3) i by (auto simp: rooted_def list_all_iff exists_id_def)
      qed
      note del = cascade_new_org [OF this]
      have "only [TOrgs, TOrgMembers] d (snd (OrgRepo_Delete f3 new_id d2))"
        using d2 by (cases f3) (auto simp: OrgRepo_Delete_def exec_tag_def del Let_def frame_defs)
      then show ?thesis using c a new(1) Inl i by (simp add: org_svc_Create_def Let_def)
    qed
  qed
qed

lemma ProjectRepo_frames [frame]:
  "only [TProjects] d (snd (ProjectRepo_Create f p d))" "only [TProjects] d (snd (ProjectRepo_Update f now p d))"
  "only below_projects d (snd (ProjectRepo_Delete f i d))"
  "only [TProjectMembers] d (snd (ProjectRepo_AddMember f now pid uid role d))"
  by (auto simp: ProjectRepo_Create_def ProjectRepo_Update_def ProjectRepo_Delete_def ProjectRepo_AddMember_def
      insert_project_def upsert_project_member_def only_cascade Let_def
      intro!: only_exec_tag only_db_call) (simp_all add: frame_defs)

lemmas ProjectRepo_pairs = ProjectRepo_frames [THEN only_pair [rotated]]

lemma project_frames [frame]:
  "only [TProjects] d (snd (project_svc_Update f f' clock now i req d))"
  "only [TProjects] d (snd (project_svc_RotateAPIKey sha random f f' clock now i d))"
  "only below_projects d (snd (project_svc_Delete f i d))"
  by (auto simp: project_svc_Update_def project_svc_RotateAPIKey_def project_svc_Delete_def Let_def frame
      intro: ProjectRepo_pairs split: sum.splits prod.splits)

lemma project_create_frame:
  assumes "rooted d"
  shows "only [TProjects, TProjectMembers] d (snd (project_svc_Create sha random f1 f2 f3 new_id now oid owner req d))"
proof (cases "generateAPIKey sha random")
  case (Inl e)
  then show ?thesis by (simp add: project_svc_Create_def)
next
  case (Inr k)
  obtain rawKey keyHash prefix where k: "k = (rawKey, keyHash, prefix)" by (cases k)
  let ?p = "new_project new_id now oid keyHash prefix req"
  have i: "P_ID ?p = new_id" by (simp add: new_project_def)
  obtain r d1 where c: "ProjectRepo_Create f1 ?p d = (r, d1)" by (cases "ProjectRepo_Create f1 ?p d")
  have d1: "r = Inr () \<longrightarrow> (\<forall>v\<in>set (projects d). P_ID v \<noteq> new_id)"
    using c i by (cases f1) (auto simp: ProjectRepo_Create_def insert_project_def insert_err_Inl exists_id_def split: if_splits)
  have f1: "only [TProjects, TProjectMembers] d d1" by (rule only_mono [OF ProjectRepo_pairs(1) [OF c]]) simp
  show ?thesis
  proof (cases r)
    case (Inl e)
    then show ?thesis using c Inr k f1 by (simp add: project_svc_Create_def Let_def)
  next
    case ok: (Inr u)
    obtain r2 d2 where a: "ProjectRepo_AddMember f2 now new_id owner ProjAdmin d1 = (r2, d2)"
      by (cases "ProjectRepo_AddMember f2 now new_id owner ProjAdmin d1")
    have "only [TProjects, TProjectMembers] d1 d2" by (rule only_mono [OF ProjectRepo_pairs(4) [OF a]]) simp
    then have d2: "only [TProjects, TProjectMembers] d d2" using f1 only_trans by blast
    show ?thesis
    proof (cases r2)
      case (Inr u)
      then show ?thesis using c ok a d2 i \<open>generateAPIKey sha random = Inr k\<close> k
        by (simp add: project_svc_Create_def Let_def)
    next
      case (Inl e)
      have "\<forall>q\<in>set (queues d2). Q_ProjectID q \<noteq> new_id"
      proof -
        have "queues d2 = queues d" using d2 by (simp add: frame_defs)
        then show ?thesis using assms d1 ok by (auto simp: rooted_def list_all_iff exists_id_def)
      qed
      note del = cascade_new_project [OF this]
      have "only [TProjects, TProjectMembers] d (snd (ProjectRepo_Delete f3 new_id d2))"
        using d2 by (cases f3) (auto simp: ProjectRepo_Delete_def exec_tag_def del Let_def frame_defs)
      then show ?thesis using c ok a Inl i \<open>generateAPIKey sha random = Inr k\<close> k
        by (simp add: project_svc_Create_def Let_def)
    qed
  qed
qed

lemma QueueRepo_frames [frame]:
  "only [TQueues] d (snd (QueueRepo_Create f q d))" "only [TQueues] d (snd (QueueRepo_Update f now q d))"
  "only below_queues d (snd (QueueRepo_Delete f i d))" "only [TQueues] d (snd (QueueRepo_SetPaused f now i b d))"
  by (auto simp: QueueRepo_Create_def QueueRepo_Update_def QueueRepo_Delete_def QueueRepo_SetPaused_def
      insert_queue_def update_queue_def only_cascade Let_def intro!: only_exec_tag only_db_call split: option.split)
    (simp_all add: frame_defs)

lemmas QueueRepo_pairs = QueueRepo_frames [THEN only_pair [rotated]]

lemma queue_frames [frame]:
  "only [TQueues] d (snd (queue_svc_Create f new_id clock pid creq d))"
  "only [TQueues] d (snd (queue_svc_Update f f' clock now i req d))"
  "only below_queues d (snd (queue_svc_Delete f i d))"
  "only [TQueues] d (snd (queue_svc_Pause f f' now i d))" "only [TQueues] d (snd (queue_svc_Resume f f' now i d))"
  by (auto simp: queue_svc_Create_def queue_svc_Update_def queue_svc_Delete_def queue_svc_Pause_def queue_svc_Resume_def
      Let_def frame intro: QueueRepo_pairs split: sum.splits prod.splits)

lemma JobRepo_frames [frame]:
  "only [TJobs] d (snd (JobRepo_Create f j d))" "only [TJobs] d (snd (job_exec f P u d))"
  by (auto simp: JobRepo_Create_def insert_job_def job_exec_def intro!: only_db_call split: option.split)
    (simp_all add: frame_defs)

lemmas JobRepo_pairs = JobRepo_frames [THEN only_pair [rotated]]

lemma job_frames [frame]:
  "only [TJobs] d (snd (job_svc_Enqueue f1 f2 f3 new_id clock qid req d))"
  "only [TJobs] d (snd (job_svc_Cancel f now i d))" "only [TJobs] d (snd (job_svc_Retry f f' clock now i d))"
  by (auto simp: job_svc_Enqueue_def job_svc_Cancel_def job_svc_Retry_def JobRepo_Cancel_def JobRepo_ScheduleRetry_def
      ignore_tag_def Let_def frame intro: JobRepo_pairs split: sum.splits prod.splits option.splits)

lemma batch_frame [frame]:
  "only [TBatches, TJobs] d (snd (batch_svc_CreateBatch f faults new_id ids now qid name specs d))"
proof -
  obtain r d' where c: "batch_svc_CreateBatch f faults new_id ids now qid name specs d = (r, d')"
    by (cases "batch_svc_CreateBatch f faults new_id ids now qid name specs d")
  from create_batch_rows [OF c] show ?thesis unfolding c by (auto simp: frame_defs)
qed

lemma cron_frames [frame]:
  "only [TCrons] d (snd (cron_svc_Create f new_id now c0 d))" "only [TCrons, TJobs] d (snd (cron_svc_Delete f i d))"
proof -
  have "only [TCrons] d (snd (CronRepo_Create f c d))" for c
    by (auto simp: CronRepo_Create_def insert_cron_def intro!: only_db_call split: option.split) (simp_all add: frame_defs)
  then show "only [TCrons] d (snd (cron_svc_Create f new_id now c0 d))"
    by (simp add: cron_svc_Create_def Let_def split: prod.split) (metis snd_conv)
  show "only [TCrons, TJobs] d (snd (cron_svc_Delete f i d))"
    by (auto simp: cron_svc_Delete_def CronRepo_Delete_def Let_def only_cascade intro!: only_exec_tag)
qed

section \<open>The endpoints\<close>

fun writes :: "endpoint \<Rightarrow> tbl list" where
  "writes AuthRegister = [TUsers]"
| "writes AuthLogin = [TTokens]"
| "writes AuthLogout = [TTokens]"
| "writes OrgCreate = [TOrgs, TOrgMembers]"
| "writes OrgUpdate = [TOrgs]"
| "writes OrgDelete = below_orgs"
| "writes OrgAddMember = [TOrgMembers]"
| "writes OrgUpdateMemberRole = [TOrgMembers]"
| "writes OrgRemoveMember = [TOrgMembers]"
| "writes ProjectCreate = [TProjects, TProjectMembers]"
| "writes ProjectUpdate = [TProjects]"
| "writes ProjectRotateAPIKey = [TProjects]"
| "writes ProjectDelete = below_projects"
| "writes QueueCreate = [TQueues]"
| "writes QueueUpdate = [TQueues]"
| "writes QueuePause = [TQueues]"
| "writes QueueResume = [TQueues]"
| "writes QueueDelete = below_queues"
| "writes JobEnqueue = [TJobs]"
| "writes JobCancel = [TJobs]"
| "writes JobRetry = [TJobs]"
| "writes BatchCreate = [TBatches, TJobs]"
| "writes CronCreate = [TCrons]"
| "writes CronDelete = [TCrons, TJobs]"
| "writes _ = []"

lemma handler_snd [simp]:
  "snd (as_data f x) = snd x" "snd (reply n r) = snd r" "snd (reply_empty u) = snd u"
  by (simp_all add: as_data_def reply_def reply_empty_def)

lemma only_steps [intro]:
  "(\<And>x. only ts d (snd (k x))) \<Longrightarrow> only ts d (snd (or_respond r d k))"
  "(\<And>x. only ts d (snd (k' x))) \<Longrightarrow> only ts d (snd (with_body msg val body d k'))"
  "(\<And>x. only ts d (snd (k x))) \<Longrightarrow> only ts d (snd (raise_or r d k))"
  by (simp_all add: or_respond_def with_body_def raise_or_def split: sum.split option.split)

lemma snd_steps [simp]:
  "(\<And>x. snd (k x) = d) \<Longrightarrow> snd (or_respond r d k) = d" "(\<And>x. snd (k x) = d) \<Longrightarrow> snd (raise_or r d k) = d"
  by (simp_all add: or_respond_def raise_or_def split: sum.split)

lemmas core_handler_defs = job_h_Enqueue_def job_h_Get_def job_h_List_def job_h_Cancel_def job_h_Retry_def
  queue_h_Create_def queue_h_Get_def queue_h_List_def queue_h_Update_def queue_h_Delete_def queue_h_Pause_def
  queue_h_Resume_def queue_h_GetStats_def org_h_Create_def org_h_Get_def org_h_List_def org_h_Update_def org_h_Delete_def
  org_h_AddMember_def org_h_UpdateMemberRole_def org_h_RemoveMember_def org_h_ListMembers_def project_h_Create_def
  project_h_Get_def project_h_List_def project_h_Update_def project_h_Delete_def project_h_RotateAPIKey_def
  auth_h_Register_def auth_h_Login_def auth_h_Refresh_def auth_h_Logout_def

lemmas raising_handler_defs = batch_h_CreateBatch_def batch_h_GetBatch_def cron_h_Create_def cron_h_List_def cron_h_Delete_def
  execlog_h_ListExecutions_def execlog_h_ListLogs_def metrics_h_GetQueueMetrics_def metrics_h_GetSystemMetrics_def

lemma raise_after:
  "only ts d (snd x) \<Longrightarrow> only ts d (snd (case x of (r, d') \<Rightarrow> raise_or r d' (\<lambda>y. (g y, d'))))"
  "only ts d (snd z) \<Longrightarrow> only ts d (snd (case z of ((r, cj), d') \<Rightarrow> raise_or r d' (\<lambda>y. (g' cj, d'))))"
  by (auto simp: raise_or_def split: prod.splits sum.splits)

lemma raising_frames:
  "only [TBatches, TJobs] d (snd (batch_h_CreateBatch up val f faults new_id ids now body c d))"
  "only [TCrons] d (snd (cron_h_Create up cval f new_id now cbody c d))"
  "only [TCrons, TJobs] d (snd (cron_h_Delete up f c d))"
  unfolding raising_handler_defs by (intro only_steps raise_after frame)+

text \<open>The WebSocket endpoint hands the connection over to the hub, which has no access to the database.\<close>

definition ws_pure :: "api_env \<Rightarrow> bool" where
  "ws_pure E \<longleftrightarrow> (\<forall>c d. snd (E_ws E c d) = d)"

lemma endpoint_frame:
  assumes "ep = OrgCreate \<or> ep = ProjectCreate \<Longrightarrow> rooted d" and "ws_pure E"
  shows "only (writes ep) d (snd (run_endpoint E ep c d))"
  using assms
  by (cases ep; simp add: raising_frames ws_pure_def)
    (auto simp: core_handler_defs raising_handler_defs frame org_create_frame
      project_create_frame intro!: only_steps
      split: sum.split if_split)

section \<open>Safe methods\<close>

lemma handled_GET: "list_all (\<lambda>ep. writes ep = []) (handled GET api_routes)"
  by code_simp

lemma api_request_reaches:
  assumes "documented_router m"
  shows "snd (api_request m v f n E q c d) = d \<or>
    (\<exists>ep c'. ep \<in> set (handled (RQ_Method q) api_routes) \<and> api_request m v f n E q c d = run_endpoint E ep c' d)"
  using request_reaches [OF assms, of "api_serve_env v f n E" d q c] by (auto simp: reaches_def api_request_def)

text \<open>C22: GET is safe: no request with the method GET changes the database, whatever its path, its headers and
  its user, and whatever fails while it is served.\<close>

theorem get_is_safe:
  assumes "documented_router m" and "RQ_Method q = GET" and "ws_pure E"
  shows "snd (api_request m v f n E q c d) = d"
proof (cases "snd (api_request m v f n E q c d) = d")
  case False
  then obtain ep c' where ep: "ep \<in> set (handled GET api_routes)" "api_request m v f n E q c d = run_endpoint E ep c' d"
    using api_request_reaches [OF assms(1), of v f n E q c d] assms(2) by auto
  then have "writes ep = []" using handled_GET by (simp add: list_all_iff)
  moreover from this have "only (writes ep) d (snd (run_endpoint E ep c' d))" by (intro endpoint_frame assms(3)) auto
  ultimately show ?thesis using ep(2) by simp
qed

theorem get_is_safe_witness:
  "snd (sample_request_to GET (queues_path ''6'' @ [''7'', ''jobs'', ''1'', ''cancel'']) two_project_db) = two_project_db"
  using get_is_safe [OF seg_router_documented, of "sent GET (queues_path ''6'' @ [''7'', ''jobs'', ''1'', ''cancel''])" sample_api]
  by (simp add: ws_pure_def sample_api_def)

text \<open>What an endpoint can write: whatever the request and whatever fails on the way, an endpoint touches no
  table outside its list, which is the resource's own table, the tables below it for a deletion, and never
  the accounts, the workers, or another resource.\<close>

theorem endpoint_writes:
  assumes "rooted d" and "ws_pure E" and "t \<notin> set (writes ep)"
  shows "same t d (snd (run_endpoint E ep c d))"
  using only_same [OF endpoint_frame [OF assms(1,2)] assms(3)] .

lemma rooted_empty: "rooted empty_db"
  by (simp add: rooted_def empty_db_def)

lemma sample_pure: "ws_pure sample_api"
  by (simp add: ws_pure_def sample_api_def)

theorem endpoint_writes_witness:
  "users (snd (run_endpoint sample_api OrgDelete (bearer_ctx []) empty_db)) = []"
  using endpoint_writes [OF rooted_empty sample_pure, of TUsers OrgDelete "bearer_ctx []"]
  by (simp add: below_defs) (simp add: empty_db_def)

end
