(* ===== verification/Tenancy.thy ===== *)
theory Tenancy
  imports Frames
begin

text \<open>
  Who owns what in a database that only the API has written: every project has its organization, every
  queue its project, every membership its organization or project (\<open>rooted\<close>), addresses of accounts are in
  normal form and unique, and the only member a project ever has is its creator. What follows for access:
  the roles of developer and viewer are never given, leaving an organization does not end the access to
  its projects, and a user without memberships changes nothing of anybody else's.
\<close>

section \<open>The ownership tree\<close>

lemma exists_id_append [simp]: "exists_id k i (xs @ ys) \<longleftrightarrow> exists_id k i xs \<or> exists_id k i ys"
  by (auto simp: exists_id_def)

lemma exists_id_iff: "exists_id k i rows \<longleftrightarrow> i \<in> set (map k rows)"
  by (auto simp: exists_id_def)

lemma exists_id_update [simp]: "(\<And>r. k (f r) = k r) \<Longrightarrow> exists_id k i (sql_update P f rows) = exists_id k i rows"
  by (simp only: exists_id_iff sql_update_keys)

lemma exists_id_delete [simp]: "exists_id k i (sql_delete (\<lambda>r. X (k r)) rows) \<longleftrightarrow> exists_id k i rows \<and> \<not> X i"
  by (auto simp: exists_id_def sql_delete_def)

lemma list_all_update: "(\<And>r. Q r \<Longrightarrow> Q (f r)) \<Longrightarrow> list_all Q rows \<Longrightarrow> list_all Q (sql_update P f rows)"
  by (auto simp: list_all_iff sql_update_mem)

lemma cascade_queues_tree [simp]:
  "projects (cascade_queues X d) = projects d" "org_members (cascade_queues X d) = org_members d"
  "project_members (cascade_queues X d) = project_members d"
  by (simp_all add: cascade_defs)

lemma cascade_projects_tree [simp]:
  "organizations (cascade_projects X d) = organizations d" "org_members (cascade_projects X d) = org_members d"
  "projects (cascade_projects X d) = sql_delete (\<lambda>p. X (P_ID p)) (projects d)"
  "project_members (cascade_projects X d) = sql_delete (\<lambda>m. X (pmr_project_id m)) (project_members d)"
  by (simp_all add: cascade_projects_def Let_def)

lemma queue_left:
  "q \<in> set (queues (cascade_queues X d)) \<Longrightarrow> \<exists>q0\<in>set (queues d). Q_ProjectID q = Q_ProjectID q0 \<and> \<not> X (Q_ID q0)"
  by (auto simp: cascade_defs sql_delete_def)

lemma queue_left_project:
  assumes "q \<in> set (queues (cascade_projects X d))"
  shows "\<exists>q0\<in>set (queues d). Q_ProjectID q = Q_ProjectID q0 \<and> \<not> X (Q_ProjectID q0)"
proof -
  let ?gone = "\<lambda>i. exists_id Q_ID i (sql_select (\<lambda>q. X (Q_ProjectID q)) (queues d))"
  obtain q0 where q0: "q0 \<in> set (queues d)" "Q_ProjectID q = Q_ProjectID q0" "\<not> ?gone (Q_ID q0)"
    using assms queue_left [of q ?gone d] by (auto simp: cascade_projects_def Let_def)
  then have "\<not> X (Q_ProjectID q0)" by (auto simp: exists_id_def sql_select_def)
  then show ?thesis using q0 by blast
qed

lemma rooted_below_queues: "rooted d \<Longrightarrow> rooted (cascade_queues X d)"
  unfolding rooted_def list_all_iff using queue_left [of _ X d] by auto fastforce

lemma rooted_below_projects:
  assumes "rooted d"
  shows "rooted (cascade_projects X d)"
proof -
  have q: "exists_id P_ID (Q_ProjectID q) (projects d) \<and> \<not> X (Q_ProjectID q)"
    if "q \<in> set (queues (cascade_projects X d))" for q
    using queue_left_project [OF that] assms by (auto simp: rooted_def list_all_iff)
  have del: "r \<in> set (sql_delete P rows) \<longleftrightarrow> r \<in> set rows \<and> \<not> P r" for P and r :: 'r and rows
    by (auto simp: sql_delete_def)
  show ?thesis using assms q by (auto simp: rooted_def list_all_iff del)
qed

lemma rooted_below_orgs:
  assumes "rooted d"
  shows "rooted (cascade_orgs X d)"
proof -
  let ?gone = "\<lambda>i. exists_id P_ID i (sql_select (\<lambda>p. X (P_OrgID p)) (projects d))"
  let ?d = "cascade_projects ?gone d"
  have 1: "rooted ?d" by (rule rooted_below_projects [OF assms])
  have 2: "\<not> X (P_OrgID p)" if "p \<in> set (projects ?d)" for p
    using that by (auto simp: sql_delete_def sql_select_def exists_id_def)
  have eq: "cascade_orgs X d = ?d\<lparr>organizations := sql_delete (\<lambda>r. X (O_ID r)) (organizations ?d),
      org_members := sql_delete (\<lambda>m. X (omr_org_id m)) (org_members ?d)\<rparr>"
    by (simp add: cascade_orgs_def Let_def)
  have 3: "\<not> X (omr_org_id m)" if "m \<in> set (sql_delete (\<lambda>m. X (omr_org_id m)) (org_members ?d))" for m
    using that by (simp add: sql_delete_def)
  have sub: "set (sql_delete (\<lambda>m. X (omr_org_id m)) (org_members ?d)) \<subseteq> set (org_members ?d)" by (auto simp: sql_delete_def)
  show ?thesis unfolding eq rooted_def list_all_iff
    using 1 2 3 sub unfolding rooted_def list_all_iff by (simp del: cascade_projects_tree) blast
qed

lemma rooted_frame:
  assumes "rooted d" and "only ts d d'"
    and "list_all (\<lambda>t. t \<notin> set ts) [TOrgs, TOrgMembers, TProjects, TProjectMembers, TQueues]"
  shows "rooted d'"
  using assms(1) only_same [OF assms(2), of TOrgs] only_same [OF assms(2), of TOrgMembers]
    only_same [OF assms(2), of TProjects] only_same [OF assms(2), of TProjectMembers] only_same [OF assms(2), of TQueues]
    assms(3) by (simp add: rooted_def)

lemma rooted_OrgRepo:
  assumes "rooted d"
  shows "rooted (snd (OrgRepo_Create f o1 d))" and "rooted (snd (OrgRepo_Update f now o1 d))"
    and "rooted (snd (OrgRepo_Delete f i d))" and "rooted (snd (OrgRepo_AddMember f now oid uid role d))"
    and "rooted (snd (OrgRepo_UpdateMemberRole f oid uid role d))" and "rooted (snd (OrgRepo_RemoveMember f oid uid d))"
proof -
  show "rooted (snd (OrgRepo_Create f o1 d))"
    using assms by (cases f) (auto simp: OrgRepo_Create_def insert_org_def rooted_def list_all_iff)
  show "rooted (snd (OrgRepo_Update f now o1 d))"
    using assms by (cases f) (auto simp: OrgRepo_Update_def exec_tag_def rooted_def list_all_iff Let_def split: prod.splits)
  show "rooted (snd (OrgRepo_Delete f i d))"
    using assms rooted_below_orgs by (cases f) (auto simp: OrgRepo_Delete_def exec_tag_def Let_def)
  show "rooted (snd (OrgRepo_AddMember f now oid uid role d))"
    using assms by (cases f) (auto simp: OrgRepo_AddMember_def upsert_org_member_def rooted_def list_all_iff sql_update_mem)
  show "rooted (snd (OrgRepo_UpdateMemberRole f oid uid role d))"
    using assms by (cases f) (auto simp: OrgRepo_UpdateMemberRole_def exec_tag_def rooted_def list_all_iff sql_update_mem)
  show "rooted (snd (OrgRepo_RemoveMember f oid uid d))"
    using assms by (cases f) (auto simp: OrgRepo_RemoveMember_def exec_tag_def rooted_def list_all_iff sql_delete_def)
qed

lemma rooted_ProjectRepo:
  assumes "rooted d"
  shows "rooted (snd (ProjectRepo_Create f p d))" and "rooted (snd (ProjectRepo_Update f now p d))"
    and "rooted (snd (ProjectRepo_Delete f i d))" and "rooted (snd (ProjectRepo_AddMember f now pid uid prole d))"
proof -
  show "rooted (snd (ProjectRepo_Create f p d))"
    using assms by (cases f) (auto simp: ProjectRepo_Create_def insert_project_def rooted_def list_all_iff)
  show "rooted (snd (ProjectRepo_Update f now p d))"
    using assms by (cases f) (auto simp: ProjectRepo_Update_def exec_tag_def rooted_def list_all_iff Let_def sql_update_mem
        set_project_columns_def split: prod.splits)
  show "rooted (snd (ProjectRepo_Delete f i d))"
    using assms rooted_below_projects by (cases f) (auto simp: ProjectRepo_Delete_def exec_tag_def Let_def)
  show "rooted (snd (ProjectRepo_AddMember f now pid uid prole d))"
    using assms by (cases f) (auto simp: ProjectRepo_AddMember_def upsert_project_member_def rooted_def list_all_iff sql_update_mem)
qed

lemma rooted_QueueRepo:
  assumes "rooted d"
  shows "rooted (snd (QueueRepo_Create f q d))" and "rooted (snd (QueueRepo_Update f now q d))"
    and "rooted (snd (QueueRepo_SetPaused f now i b d))" and "rooted (snd (QueueRepo_Delete f i d))"
proof -
  show "rooted (snd (QueueRepo_Create f q d))"
    using assms by (cases f) (auto simp: QueueRepo_Create_def insert_queue_def rooted_def list_all_iff split: option.split)
  show "rooted (snd (QueueRepo_Update f now q d))"
    using assms by (cases f) (auto simp: QueueRepo_Update_def update_queue_def exec_tag_def rooted_def list_all_iff Let_def
        sql_update_mem set_queue_columns_def split: prod.splits option.split)
  show "rooted (snd (QueueRepo_SetPaused f now i b d))"
    using assms by (cases f) (auto simp: QueueRepo_SetPaused_def exec_tag_def rooted_def list_all_iff sql_update_mem)
  show "rooted (snd (QueueRepo_Delete f i d))"
    using assms rooted_below_queues by (cases f) (auto simp: QueueRepo_Delete_def exec_tag_def Let_def)
qed

section \<open>Accounts, organizations and project members\<close>

text \<open>Addresses are stored trimmed and in lower case, each once; a slug names one organization; a project
  has at most one member, its administrator.\<close>

definition accounts_ok :: "db \<Rightarrow> bool" where
  "accounts_ok d \<longleftrightarrow> distinct (map U_ID (users d)) \<and> distinct (map U_Email (users d)) \<and>
     list_all (\<lambda>u. normalize_email (U_Email u) = U_Email u) (users d)"

definition orgs_ok :: "db \<Rightarrow> bool" where
  "orgs_ok d \<longleftrightarrow> distinct (map O_ID (organizations d)) \<and> distinct (map O_Slug (organizations d))"

definition members_ok :: "db \<Rightarrow> bool" where
  "members_ok d \<longleftrightarrow> distinct (map pmr_project_id (project_members d)) \<and>
     list_all (\<lambda>m. pmr_role m = ProjAdmin) (project_members d)"

lemma is_space_lower [simp]: "is_space (lower_char c) = is_space c"
proof (cases "65 \<le> (of_char c :: nat) \<and> (of_char c :: nat) \<le> 90")
  case True
  then have "(of_char (char_of ((of_char c :: nat) + 32) :: char) :: nat) = of_char c + 32" by (simp add: of_char_of)
  with True show ?thesis by (simp add: lower_char_def is_space_def Let_def)
next
  case False
  then show ?thesis by (auto simp: lower_char_def Let_def)
qed

lemma TrimLeft_lower: "TrimLeft (ToLower s) = ToLower (TrimLeft s)"
  by (induction s) (simp_all add: TrimLeft_def ToLower_def)

lemma TrimSpace_lower: "TrimSpace (ToLower s) = ToLower (TrimSpace s)"
  unfolding TrimSpace_def by (simp add: TrimLeft_lower) (simp add: ToLower_def rev_map TrimLeft_lower [unfolded ToLower_def])

lemma TrimSpace_idem: "TrimSpace (TrimSpace s) = TrimSpace s"
proof (cases "TrimSpace s = []")
  case False
  then have "TrimLeft (TrimSpace s) = TrimSpace s" "TrimLeft (rev (TrimSpace s)) = rev (TrimSpace s)"
    using TrimSpace_ends [OF False] by (simp_all add: TrimLeft_def dropWhile_eq_self_iff hd_rev)
  then show ?thesis unfolding TrimSpace_def [of "TrimSpace s"] by simp
next
  case True
  show ?thesis unfolding True by (simp add: TrimSpace_def TrimLeft_def)
qed

lemma normalize_email_idem [simp]: "normalize_email (normalize_email s) = normalize_email s"
  by (simp add: normalize_email_def TrimSpace_lower TrimSpace_idem)

lemma accounts_Register: "accounts_ok d \<Longrightarrow> accounts_ok (snd (auth_Register hash f new_id now req d))"
  by (cases f) (auto simp: auth_Register_def UserRepo_Create_def insert_user_def accounts_ok_def exists_id_def Let_def
      split: sum.split prod.splits)

lemma distinct_keys_delete: "distinct (map k rows) \<Longrightarrow> distinct (map k (sql_delete P rows))"
  by (simp add: sql_delete_def distinct_map_filter)

lemma distinct_keys_update: "(\<And>r. k (f r) = k r) \<Longrightarrow> distinct (map k (sql_update P f rows)) = distinct (map k rows)"
  by (simp add: sql_update_keys)

lemma orgs_OrgRepo:
  assumes "orgs_ok d"
  shows "orgs_ok (snd (OrgRepo_Create f o1 d))" and "orgs_ok (snd (OrgRepo_Update f now o1 d))"
    and "orgs_ok (snd (OrgRepo_Delete f i d))"
proof -
  show "orgs_ok (snd (OrgRepo_Create f o1 d))"
    using assms by (cases f) (auto simp: OrgRepo_Create_def insert_org_def orgs_ok_def exists_id_def)
  show "orgs_ok (snd (OrgRepo_Update f now o1 d))"
    using assms by (cases f) (auto simp: OrgRepo_Update_def exec_tag_def orgs_ok_def Let_def distinct_keys_update split: prod.splits)
  show "orgs_ok (snd (OrgRepo_Delete f i d))"
    using assms by (cases f) (simp_all add: OrgRepo_Delete_def exec_tag_def Let_def orgs_ok_def cascade_orgs_def distinct_keys_delete)
qed

lemma members_below:
  assumes "members_ok d"
  shows "members_ok (cascade_projects X d)" and "members_ok (cascade_orgs X d)"
  using assms by (auto simp: members_ok_def cascade_orgs_def Let_def distinct_keys_delete list_all_iff) (auto simp: sql_delete_def)

lemma members_Delete:
  assumes "members_ok d"
  shows "members_ok (snd (ProjectRepo_Delete f i d))" and "members_ok (snd (OrgRepo_Delete f i d))"
  using members_below [OF assms] assms
  by (cases f; simp add: ProjectRepo_Delete_def OrgRepo_Delete_def exec_tag_def Let_def)+

text \<open>A new project has no members yet, and its creator becomes the one it has.\<close>

lemma members_AddMember:
  assumes "members_ok d" and "\<forall>m\<in>set (project_members d). pmr_project_id m \<noteq> pid"
  shows "members_ok (snd (ProjectRepo_AddMember f now pid uid ProjAdmin d))"
  using assms by (cases f) (auto simp: ProjectRepo_AddMember_def upsert_project_member_def members_ok_def is_project_member_def
      list_all_iff)

section \<open>Every request keeps the tenancy in order\<close>

definition tenancy :: "db \<Rightarrow> bool" where
  "tenancy d \<longleftrightarrow> rooted d \<and> accounts_ok d \<and> orgs_ok d \<and> members_ok d"

definition tenancy_tables :: "tbl list" where
  "tenancy_tables = [TUsers, TOrgs, TOrgMembers, TProjects, TProjectMembers, TQueues]"

lemma tenancy_frame:
  assumes "tenancy d" and "only ts d d'" and "list_all (\<lambda>t. t \<notin> set ts) tenancy_tables"
  shows "tenancy d'"
proof -
  have "t \<in> set tenancy_tables \<Longrightarrow> same t d d'" for t using only_same [OF assms(2)] assms(3) by (auto simp: list_all_iff)
  from this [of TUsers] this [of TOrgs] this [of TProjectMembers] show ?thesis
    using assms(1,3) rooted_frame [OF _ assms(2)]
    by (simp add: tenancy_def tenancy_tables_def accounts_ok_def orgs_ok_def members_ok_def)
qed

lemma accounts_same: "only ts d d' \<Longrightarrow> TUsers \<notin> set ts \<Longrightarrow> accounts_ok d' = accounts_ok d"
  using only_same [of ts d d' TUsers] by (simp add: accounts_ok_def)

lemma orgs_same: "only ts d d' \<Longrightarrow> TOrgs \<notin> set ts \<Longrightarrow> orgs_ok d' = orgs_ok d"
  using only_same [of ts d d' TOrgs] by (simp add: orgs_ok_def)

lemma members_same: "only ts d d' \<Longrightarrow> TProjectMembers \<notin> set ts \<Longrightarrow> members_ok d' = members_ok d"
  using only_same [of ts d d' TProjectMembers] by (simp add: members_ok_def)

lemmas unwritten = accounts_same orgs_same members_same

named_theorems keeps_tenancy "operations that keep the tenancy in order"

lemma tenancy_Register [keeps_tenancy]: "tenancy d \<Longrightarrow> tenancy (snd (auth_Register hash f new_id now req d))"
  using accounts_Register rooted_frame [OF _ auth_frames(1)] unwritten(2,3) [OF auth_frames(1)]
  by (simp add: tenancy_def)

lemma tenancy_OrgRepo [keeps_tenancy]:
  assumes "tenancy d"
  shows "tenancy (snd (OrgRepo_Create f o1 d))" and "tenancy (snd (OrgRepo_Update f now o1 d))"
    and "tenancy (snd (OrgRepo_Delete f i d))" and "tenancy (snd (OrgRepo_AddMember f now oid uid role d))"
    and "tenancy (snd (OrgRepo_UpdateMemberRole f oid uid role d))" and "tenancy (snd (OrgRepo_RemoveMember f oid uid d))"
  using assms rooted_OrgRepo orgs_OrgRepo members_Delete(2) [of d f i]
    unwritten(1,3) [OF OrgRepo_frames(1)] unwritten(1,3) [OF OrgRepo_frames(2)] unwritten(1) [OF OrgRepo_frames(3)]
    unwritten [OF OrgRepo_frames(4)] unwritten [OF OrgRepo_frames(5)] unwritten [OF OrgRepo_frames(6)]
  by (simp_all add: tenancy_def below_defs)

lemma tenancy_ProjectRepo [keeps_tenancy]:
  assumes "tenancy d"
  shows "tenancy (snd (ProjectRepo_Create f p d))" and "tenancy (snd (ProjectRepo_Update f now p d))"
    and "tenancy (snd (ProjectRepo_Delete f i d))"
  using assms rooted_ProjectRepo members_Delete(1) [of d f i]
    unwritten [OF ProjectRepo_frames(1)] unwritten [OF ProjectRepo_frames(2)] unwritten(1,2) [OF ProjectRepo_frames(3)]
  by (simp_all add: tenancy_def below_defs)

lemma tenancy_ProjectMember:
  assumes "tenancy d" and "\<forall>m\<in>set (project_members d). pmr_project_id m \<noteq> pid"
  shows "tenancy (snd (ProjectRepo_AddMember f now pid uid ProjAdmin d))"
  using assms rooted_ProjectRepo(4) members_AddMember unwritten(1,2) [OF ProjectRepo_frames(4)]
  by (simp add: tenancy_def)

lemma tenancy_QueueRepo [keeps_tenancy]:
  assumes "tenancy d"
  shows "tenancy (snd (QueueRepo_Create f q d))" and "tenancy (snd (QueueRepo_Update f now q d))"
    and "tenancy (snd (QueueRepo_Delete f i d))" and "tenancy (snd (QueueRepo_SetPaused f now i b d))"
  using assms rooted_QueueRepo unwritten [OF QueueRepo_frames(1)] unwritten [OF QueueRepo_frames(2)]
    unwritten [OF QueueRepo_frames(3)] unwritten [OF QueueRepo_frames(4)]
  by (simp_all add: tenancy_def below_defs)

lemma tenancy_pair: "x = (r, d') \<Longrightarrow> tenancy (snd x) \<Longrightarrow> tenancy d'"
  by simp

lemmas tenancy_pairs = tenancy_OrgRepo [THEN tenancy_pair [rotated], rotated] tenancy_ProjectRepo [THEN tenancy_pair [rotated], rotated]
  tenancy_QueueRepo [THEN tenancy_pair [rotated], rotated]

lemma tenancy_services [keeps_tenancy]:
  assumes "tenancy d"
  shows "tenancy (snd (org_svc_Update f f' clock now i ureq d))"
    and "tenancy (snd (org_svc_Delete f i d))" and "tenancy (snd (org_svc_AddMember f f' now oid areq d))"
    and "tenancy (snd (org_svc_UpdateMemberRole f f' oid uid role d))" and "tenancy (snd (org_svc_RemoveMember f oid uid d))"
    and "tenancy (snd (project_svc_Update f f' clock now i pureq d))"
    and "tenancy (snd (project_svc_RotateAPIKey sha random f f' clock now i d))"
    and "tenancy (snd (project_svc_Delete f i d))"
    and "tenancy (snd (queue_svc_Create f new_id clock pid creq d))"
    and "tenancy (snd (queue_svc_Update f f' clock now i qureq d))"
    and "tenancy (snd (queue_svc_Delete f i d))"
    and "tenancy (snd (queue_svc_Pause f f' now i d))" and "tenancy (snd (queue_svc_Resume f f' now i d))"
  by (auto simp: org_svc_Update_def org_svc_Delete_def org_svc_AddMember_def org_svc_UpdateMemberRole_def
      org_svc_RemoveMember_def project_svc_Update_def project_svc_RotateAPIKey_def project_svc_Delete_def
      queue_svc_Create_def queue_svc_Update_def queue_svc_Delete_def queue_svc_Pause_def queue_svc_Resume_def
      Let_def assms keeps_tenancy intro: tenancy_pairs split: sum.splits prod.splits)

lemma tenancy_org_Create [keeps_tenancy]:
  assumes "tenancy d"
  shows "tenancy (snd (org_svc_Create f1 f2 f3 new_id now owner oreq d))"
proof -
  let ?o = "new_org new_id now oreq"
  obtain r d1 where c: "OrgRepo_Create f1 ?o d = (r, d1)" by (cases "OrgRepo_Create f1 ?o d")
  obtain r2 d2 where a: "OrgRepo_AddMember f2 now (O_ID ?o) owner RoleOwner d1 = (r2, d2)"
    by (cases "OrgRepo_AddMember f2 now (O_ID ?o) owner RoleOwner d1")
  have d1: "tenancy d1" by (rule tenancy_pairs(1) [OF c assms])
  have d2: "tenancy d2" by (rule tenancy_pairs(4) [OF a d1])
  show ?thesis using c a d1 d2 tenancy_OrgRepo(3) [OF d2, of f3]
    by (cases r; cases r2) (simp_all add: org_svc_Create_def Let_def)
qed

lemma tenancy_project_Create [keeps_tenancy]:
  assumes "tenancy d"
  shows "tenancy (snd (project_svc_Create sha random f1 f2 f3 new_id now oid owner req d))"
proof (cases "generateAPIKey sha random")
  case (Inl e)
  then show ?thesis using assms by (simp add: project_svc_Create_def)
next
  case (Inr k)
  obtain rawKey keyHash prefix where k: "k = (rawKey, keyHash, prefix)" by (cases k)
  let ?p = "new_project new_id now oid keyHash prefix req"
  have i: "P_ID ?p = new_id" by (simp add: new_project_def)
  obtain r d1 where c: "ProjectRepo_Create f1 ?p d = (r, d1)" by (cases "ProjectRepo_Create f1 ?p d")
  have d1: "tenancy d1" using tenancy_ProjectRepo(1) [OF assms, of f1 ?p] c by simp
  have new: "r = Inr () \<Longrightarrow> \<not> exists_id P_ID new_id (projects d) \<and> project_members d1 = project_members d"
    using c i by (cases f1) (auto simp: ProjectRepo_Create_def insert_project_def insert_err_Inl split: if_splits)
  have fresh: "\<forall>m\<in>set (project_members d1). pmr_project_id m \<noteq> new_id" if "r = Inr ()"
    using new [OF that] assms by (auto simp: tenancy_def rooted_def list_all_iff)
  have d2: "tenancy (snd (ProjectRepo_AddMember f2 now new_id owner ProjAdmin d1))" if "r = Inr ()"
    by (rule tenancy_ProjectMember [OF d1 fresh [OF that]])
  show ?thesis
    using c Inr k d1 d2 i tenancy_ProjectRepo(3)
    by (cases r) (auto simp: project_svc_Create_def Let_def split: sum.split prod.split)
qed

text \<open>What holds of the state before and after holds across the handlers' plumbing.\<close>

lemma holds_steps:
  "Q d \<Longrightarrow> (\<And>x. Q (snd (k x))) \<Longrightarrow> Q (snd (or_respond r d k))"
  "Q d \<Longrightarrow> (\<And>x. Q (snd (k' x))) \<Longrightarrow> Q (snd (with_body msg val body d k'))"
  by (simp_all add: or_respond_def with_body_def split: sum.split option.split)

lemma tenancy_endpoint:
  assumes "tenancy d" and "ws_pure E"
  shows "tenancy (snd (run_endpoint E ep c d))"
proof (cases "list_all (\<lambda>t. t \<notin> set (writes ep)) tenancy_tables")
  case True
  have "rooted d" using assms(1) by (simp add: tenancy_def)
  then show ?thesis using tenancy_frame [OF assms(1) endpoint_frame [OF _ assms(2)] True] by blast
next
  case False
  then show ?thesis
    by (cases ep; simp add: tenancy_tables_def)
      (auto simp: core_handler_defs assms keeps_tenancy intro!: holds_steps [where Q = tenancy])
qed

inductive api_step :: "router \<Rightarrow> db \<Rightarrow> db \<Rightarrow> bool" for m where
  request: "ws_pure E \<Longrightarrow> api_step m d (snd (api_request m v f n E q c d))"

lemma tenancy_request:
  assumes "documented_router m" and "tenancy d" and "ws_pure E"
  shows "tenancy (snd (api_request m v f n E q c d))"
  using api_request_reaches [OF assms(1), of v f n E q c d] tenancy_endpoint [OF assms(2,3)] assms(2) by auto

lemma tenancy_reach:
  assumes "(api_step m)\<^sup>*\<^sup>* d0 d" and "documented_router m" and "tenancy d0"
  shows "tenancy d"
  using assms(1,3) by (induction rule: rtranclp_induct) (auto elim!: api_step.cases intro: tenancy_request [OF assms(2)])

lemma tenancy_empty: "tenancy empty_db"
  by (simp add: tenancy_def rooted_empty accounts_ok_def orgs_ok_def members_ok_def) (simp add: empty_db_def)

section \<open>What follows for accounts and projects\<close>

text \<open>Ownership never dangles: whatever requests are served, in whatever order and with whatever faults,
  every queue belongs to an existing project, every project to an existing organization, every membership
  to an existing organization or project, and no two organizations share an identifier or a slug. The
  best-effort clean-up after a failed creation included.\<close>

theorem ownership_tree:
  assumes "documented_router m" and "tenancy d0" and "(api_step m)\<^sup>*\<^sup>* d0 d"
  shows "rooted d \<and> orgs_ok d"
  using tenancy_reach [OF assms(3,1,2)] by (simp add: tenancy_def)

text \<open>C20: The roles of a project are never given out: whatever requests are served, a user who is a member of
  a project is its administrator, and the only member it has. Nobody is ever a developer or a viewer.\<close>

theorem sole_project_member:
  assumes "documented_router m" and "tenancy d0" and "(api_step m)\<^sup>*\<^sup>* d0 d"
    and "project_role_of d pid u = Some r" and "project_role_of d pid u' = Some r'"
  shows "u' = u \<and> r = ProjAdmin \<and> r' = ProjAdmin"
proof -
  have ok: "members_ok d" using tenancy_reach [OF assms(3,1,2)] by (simp add: tenancy_def)
  have row: "\<exists>m\<in>set (project_members d). pmr_project_id m = pid \<and> pmr_user_id m = w \<and> s = ProjAdmin"
    if "project_role_of d pid w = Some s" for w s
  proof -
    let ?row = "sql_row (\<lambda>m. pmr_project_id m = pid \<and> pmr_user_id m = w) (project_members d)"
    have "map_option pmr_role ?row = Some s"
      using that by (cases ?row) (auto simp: project_role_of_def ProjectRepo_GetMember_def project_member_join_def
          get_row_def map_option_case split: option.splits)
    then obtain m where m: "?row = Some m" "pmr_role m = s" by auto
    show ?thesis using sql_row_Some [OF m(1)] m(2) ok by (auto simp: members_ok_def list_all_iff)
  qed
  obtain m m' where m: "m \<in> set (project_members d)" "m' \<in> set (project_members d)" "pmr_project_id m = pid"
    "pmr_project_id m' = pid" "pmr_user_id m = u" "pmr_user_id m' = u'" "r = ProjAdmin" "r' = ProjAdmin"
    using row [OF assms(4)] row [OF assms(5)] by blast
  have "distinct (map pmr_project_id (project_members d))" using ok by (simp add: members_ok_def)
  from distinct_key_eq [OF this m(1,2)] show ?thesis using m by simp
qed

text \<open>C21: One account per address: whatever requests are served, any spelling of the address of an account
  (capitals, spaces around it) finds that account and no other, and cannot be registered again.\<close>

theorem one_account_per_address:
  assumes "documented_router m" and "tenancy d0" and "(api_step m)\<^sup>*\<^sup>* d0 d"
    and "u \<in> set (users d)" and "normalize_email s = normalize_email (U_Email u)"
  shows "UserRepo_GetByEmail None (normalize_email s) d = Inr u \<and>
    (RR_Email req = s \<longrightarrow> (\<exists>e. auth_Register hash f new_id now req d = (Inl e, d)))"
proof -
  have ok: "accounts_ok d" using tenancy_reach [OF assms(3,1,2)] by (simp add: tenancy_def)
  then have s: "normalize_email s = U_Email u" using assms(4,5) by (auto simp: accounts_ok_def list_all_iff)
  have "sql_row (\<lambda>v. U_Email v = U_Email u) (users d) = Some u"
    using sql_row_key [of U_Email "users d" u] ok assms(4) by (simp add: accounts_ok_def)
  moreover have "ToLower (U_Email u) = U_Email u" using normalize_idem [of s] s by simp
  ultimately have 1: "UserRepo_GetByEmail None (normalize_email s) d = Inr u"
    by (simp add: UserRepo_GetByEmail_def s)
  have "\<exists>e. auth_Register hash f new_id now req d = (Inl e, d)" if "RR_Email req = s"
    using that s assms(4)
    by (cases f; cases "hash (RR_Password req)")
      (auto simp: auth_Register_def UserRepo_Create_def insert_user_def insert_err_Inl Let_def split: if_splits)
  then show ?thesis using 1 by blast
qed

text \<open>Leaving an organization does not end the access to its projects: when an administrator of the
  organization removes a member through the API, the member's role in the organization is gone, and the
  role in every project, of this organization or another, is what it was.\<close>

theorem removed_member_keeps_projects:
  assumes "documented_router m" and "authenticated (api_serve_env v None n E) c u e"
    and "E_uuid E X = Some oid" and "X \<noteq> []" and "E_uuid E W = Some w" and "W \<noteq> []"
    and "org_role_of d oid u = Some r" and "CanManageMembers r" and "is_org_member d oid w" and "E_f1 E = None"
  shows "\<exists>d'. api_request m v None n E (sent DELETE (org_path X @ [''members'', W])) c d = (NoContent, d') \<and>
    org_role_of d' oid w = None \<and> projects d' = projects d \<and>
    (\<forall>pid. project_role_of d' pid w = project_role_of d pid w)"
proof -
  define d' where "d' = d\<lparr>org_members := sql_delete (\<lambda>m. omr_org_id m = oid \<and> omr_user_id m = w) (org_members d)\<rparr>"
  have "sql_count (\<lambda>m. omr_org_id m = oid \<and> omr_user_id m = w) (org_members d) \<noteq> 0"
    using assms(9) by (auto simp: sql_count_0 is_org_member_def)
  then have "org_svc_RemoveMember None oid w d = (Inr (), d')"
    by (simp add: org_svc_RemoveMember_def OrgRepo_RemoveMember_def exec_tag_def d'_def)
  then have "api_request m v None n E (sent DELETE (org_path X @ [''members'', W])) c d = (NoContent, d')"
    using org_requests(6) [OF assms(1,2) _ _ assms(4,6,7) refl refl] assms(3,5,8,10)
    by (simp add: api_request_def org_gate_def org_h_RemoveMember_def handler_steps as_data_def SetOrgRole_def set_local_def)
  moreover have "sql_row (\<lambda>m. omr_org_id m = oid \<and> omr_user_id m = w) (org_members d') = None"
    by (auto simp: d'_def sql_row_None sql_delete_def)
  then have "org_role_of d' oid w = None" by (simp add: org_role_of_def OrgRepo_GetMember_def get_row_def)
  moreover have "project_member_join d' = project_member_join d" by (simp add: d'_def project_member_join_def fun_eq_iff)
  then have "project_role_of d' pid w = project_role_of d pid w" for pid
    by (simp add: project_role_of_def ProjectRepo_GetMember_def) (simp add: d'_def)
  ultimately show ?thesis by (auto simp: d'_def)
qed

section \<open>A concrete tenant\<close>

definition tenant_db :: db where
  "tenant_db = empty_db\<lparr>users := [ann\<lparr>U_ID := 7, U_Email := ''ann@x''\<rparr>],
     organizations := [\<lparr>O_ID = 5, O_Name = ''o'', O_Slug = ''o'', O_Description = [], O_CreatedAt = 0, O_UpdatedAt = 0\<rparr>],
     org_members := [\<lparr>omr_org_id = 5, omr_user_id = 7, omr_role = RoleOwner, omr_joined_at = 0\<rparr>],
     projects := [sample_project\<lparr>P_ID := 6, P_OrgID := 5\<rparr>],
     project_members := [\<lparr>pmr_project_id = 6, pmr_user_id = 7, pmr_role = ProjAdmin, pmr_joined_at = 0\<rparr>]\<rparr>"

lemma tenancy_tenant: "tenancy tenant_db"
  by (simp add: tenancy_def rooted_def accounts_ok_def orgs_ok_def members_ok_def tenant_db_def exists_id_def
      normalize_email_def TrimSpace_def TrimLeft_def is_space_def ToLower_def lower_char_def) (simp add: empty_db_def)

lemma tenant_roles: "org_role_of tenant_db 5 7 = Some RoleOwner" "project_role_of tenant_db 6 7 = Some ProjAdmin"
  "is_org_member tenant_db 5 7"
  by (simp_all add: tenant_db_def org_role_of_def project_role_of_def OrgRepo_GetMember_def ProjectRepo_GetMember_def
      get_row_def org_member_join_def project_member_join_def is_org_member_def)

text \<open>The member leaves the organization: a state the requests reach.\<close>

definition left_db :: db where
  "left_db = snd (sample_request_to DELETE (org_path ''5'' @ [''members'', ''7'']) tenant_db)"

lemma left_reached: "(api_step seg_router)\<^sup>*\<^sup>* tenant_db left_db"
  unfolding left_db_def by (intro r_into_rtranclp api_step.request sample_pure)

lemma left_response: "sample_request_to DELETE (org_path ''5'' @ [''members'', ''7'']) tenant_db =
  (NoContent, tenant_db\<lparr>org_members := []\<rparr>)"
proof -
  have c: "sql_count (\<lambda>m. omr_org_id m = 5 \<and> omr_user_id m = 7) (org_members tenant_db) = 1"
    "sql_delete (\<lambda>m. omr_org_id m = 5 \<and> omr_user_id m = 7) (org_members tenant_db) = []"
    by (simp_all add: tenant_db_def sql_delete_def)
  show ?thesis
    using org_requests(6) [OF seg_router_documented sample_api_sel(1) _ _ _ _ tenant_roles(1) refl refl, where X = "''5''" and U = "''7''"]
    by (simp add: sample_api_sel api_request_def org_gate_def org_h_RemoveMember_def handler_steps as_data_def SetOrgRole_def
        set_local_def org_svc_RemoveMember_def OrgRepo_RemoveMember_def exec_tag_def c)
qed

lemma left_db_eq: "left_db = tenant_db\<lparr>org_members := []\<rparr>"
  by (simp add: left_db_def left_response)

theorem ownership_tree_witness: "rooted left_db \<and> orgs_ok left_db"
  by (rule ownership_tree [OF seg_router_documented tenancy_tenant left_reached])

theorem sole_project_member_witness: "project_role_of left_db 6 8 = None \<and> project_role_of left_db 6 7 = Some ProjAdmin"
proof -
  have r: "project_role_of left_db 6 7 = Some ProjAdmin"
    using tenant_roles(2) by (simp add: left_db_eq project_role_of_def ProjectRepo_GetMember_def project_member_join_def [abs_def])
  have "project_role_of left_db 6 8 = Some s \<Longrightarrow> False" for s
    using sole_project_member [OF seg_router_documented tenancy_tenant left_reached r, of 8] by simp
  then show ?thesis using r by (cases "project_role_of left_db 6 8") auto
qed

theorem one_account_per_address_witness:
  "map_sum id U_ID (UserRepo_GetByEmail None (normalize_email '' Ann@X '') left_db) = Inr 7"
proof -
  have u: "ann\<lparr>U_ID := 7, U_Email := ''ann@x''\<rparr> \<in> set (users left_db)" by (simp add: left_db_eq tenant_db_def)
  have n: "normalize_email '' Ann@X '' = normalize_email (U_Email (ann\<lparr>U_ID := 7, U_Email := ''ann@x''\<rparr>))"
    by simp code_simp
  show ?thesis using one_account_per_address [OF seg_router_documented tenancy_tenant left_reached u n] by simp
qed

theorem removed_member_keeps_projects_witness:
  "\<exists>d'. sample_request_to DELETE (org_path ''5'' @ [''members'', ''7'']) tenant_db = (NoContent, d') \<and>
     org_role_of d' 5 7 = None \<and> project_role_of d' 6 7 = Some ProjAdmin"
proof -
  have m: "CanManageMembers RoleOwner" by simp
  have "\<exists>d'. sample_request_to DELETE (org_path ''5'' @ [''members'', ''7'']) tenant_db = (NoContent, d') \<and>
     org_role_of d' 5 7 = None \<and> projects d' = projects tenant_db \<and>
     (\<forall>pid. project_role_of d' pid 7 = project_role_of tenant_db pid 7)"
    by (rule removed_member_keeps_projects [OF seg_router_documented sample_api_sel(1,3) _ sample_api_sel(4) _ tenant_roles(1) m
          tenant_roles(3) sample_api_sel(8)]) simp_all
  then show ?thesis using tenant_roles(2) by auto
qed

section \<open>What a user without memberships can change\<close>

text \<open>Of everybody else's rows: accounts, organizations and memberships are only added to, cron jobs only taken
  away, and of the jobs nothing changes but their link to a cron job.\<close>

definition unlinked :: "Job \<Rightarrow> Job" where
  "unlinked j = j\<lparr>J_CronJobID := None\<rparr>"

definition confined :: "db \<Rightarrow> db \<Rightarrow> bool" where
  "confined d d' \<longleftrightarrow> only [TUsers, TTokens, TOrgs, TOrgMembers, TCrons, TJobs] d d' \<and>
     take (length (users d)) (users d') = users d \<and>
     take (length (organizations d)) (organizations d') = organizations d \<and>
     take (length (org_members d)) (org_members d') = org_members d \<and>
     list_all (\<lambda>c. c \<in> set (cron_jobs d)) (cron_jobs d') \<and> map unlinked (jobs d') = map unlinked (jobs d)"

lemma confined_refl [simp]: "confined d d"
  by (simp add: confined_def list_all_iff)

lemma confined_frame: "only [TTokens] d d' \<Longrightarrow> confined d d'"
  by (auto simp: confined_def frame_defs list_all_iff)

lemma confined_Register: "confined d (snd (auth_Register hash f new_id now req d))"
proof -
  have "only [TUsers] d (snd (auth_Register hash f new_id now req d))" by (rule auth_frames)
  moreover have "take (length (users d)) (users (snd (auth_Register hash f new_id now req d))) = users d"
    by (cases f) (auto simp: auth_Register_def UserRepo_Create_def insert_user_def Let_def split: sum.split prod.splits)
  ultimately show ?thesis by (simp add: confined_def frame_defs list_all_iff)
qed

lemma confined_cron_Delete: "confined d (snd (cron_svc_Delete f i d))"
proof -
  have "map unlinked (map (\<lambda>j. j\<lparr>J_CronJobID := clear_opt X (J_CronJobID j)\<rparr>) js) = map unlinked js" for X js
    by (simp add: unlinked_def)
  then have "confined d (cascade_crons X d)" for X
    by (simp add: confined_def cascade_crons_def frame_defs list_all_iff sql_delete_def del: map_map)
  then show ?thesis by (cases f) (simp_all add: cron_svc_Delete_def CronRepo_Delete_def exec_tag_def Let_def)
qed

lemma confined_cron_pair: "cron_svc_Delete f i d = (r, d') \<Longrightarrow> confined d d'"
  using confined_cron_Delete [of d f i] by simp

lemma confined_org_Create:
  assumes "rooted d"
  shows "confined d (snd (org_svc_Create f1 f2 f3 new_id now owner req d))"
proof -
  let ?o = "new_org new_id now req"
  obtain r d1 where c: "OrgRepo_Create f1 ?o d = (r, d1)" by (cases "OrgRepo_Create f1 ?o d")
  have i: "O_ID ?o = new_id" by (simp add: new_org_def)
  from c show ?thesis
  proof (cases rule: OrgRepo_Create_cases)
    case (error e)
    then show ?thesis using c by (simp add: org_svc_Create_def Let_def)
  next
    case new
    have fresh: "\<forall>m\<in>set (org_members d). omr_org_id m \<noteq> new_id" "\<forall>p\<in>set (projects d). P_OrgID p \<noteq> new_id"
      "\<forall>og\<in>set (organizations d). O_ID og \<noteq> new_id"
      using assms new(3) i by (auto simp: rooted_def list_all_iff exists_id_def)
    obtain r2 d2 where a: "OrgRepo_AddMember f2 now new_id owner RoleOwner d1 = (r2, d2)"
      by (cases "OrgRepo_AddMember f2 now new_id owner RoleOwner d1")
    have none: "\<not> is_org_member d1 new_id owner" using fresh(1) new(2) by (auto simp: is_org_member_def)
    have d2: "take (length (org_members d)) (org_members d2) = org_members d \<and> only [TOrgMembers] d1 d2"
      using OrgRepo_pairs(4) [OF a] a new(2) none
      by (cases f2) (auto simp: OrgRepo_AddMember_def upsert_org_member_def split: if_splits)
    show ?thesis
    proof (cases r2)
      case (Inr u)
      then show ?thesis using c a new(1,2) d2 i by (simp add: org_svc_Create_def Let_def confined_def frame_defs list_all_iff)
    next
      case (Inl e)
      have "d2 = d1" using a Inl AddMember_error by blast
      moreover have "cascade_orgs (\<lambda>x. x = new_id) d1 = d"
        using cascade_new_org [of d1 new_id] fresh new(2) i by (auto simp: sql_delete_def intro!: db.equality)
      ultimately have "OrgRepo_Delete f3 new_id d2 = (fst (OrgRepo_Delete f3 new_id d2), if f3 = None then d else d1)"
        using new(2) i by (cases f3) (auto simp: OrgRepo_Delete_def exec_tag_def Let_def sql_count_0)
      moreover have "confined d d1" using new(2) by (simp add: confined_def frame_defs list_all_iff)
      ultimately show ?thesis using c a new(1) Inl i
        by (cases "OrgRepo_Delete f3 new_id d2") (auto simp: org_svc_Create_def Let_def)
    qed
  qed
qed


text \<open>Ann, whose token the sample requests carry, belongs to nothing in a database with one cron job.\<close>

definition foreign_db :: db where
  "foreign_db = tenant_db\<lparr>org_members := [], project_members := [], cron_jobs := [sample_cron]\<rparr>"

lemma foreign_strange:
  "strange_ctx (api_serve_env (\<lambda>_. Inr ann_claims) f n sample_api) foreign_db (bearer_ctx h)" "rooted foreign_db"
  by (simp_all add: strange_ctx_def stranger_def foreign_db_def rooted_def tenant_db_def exists_id_def)
    (simp_all add: empty_db_def)


end
