(* ===== verification/JobEffects.thy ===== *)
theory JobEffects
  imports Tenancy Lifecycle
begin

text \<open>
  What a request does to the jobs table, deletions included: rows appear only under the identifiers the
  request draws, disappear only in the deletion of a queue, a project or an organization, and otherwise take
  a step of the status machine (\<open>job_effect\<close>); the integrity of the table is kept (\<open>sound\<close>). One lemma
  per service, composed to one per endpoint and one per request (\<open>sound_request\<close>).
\<close>

section \<open>The effect of a request on the jobs\<close>

text \<open>A job without its links to other rows, which deletions clear.\<close>

definition core :: "Job \<Rightarrow> Job" where
  "core j = j\<lparr>J_ParentJobID := None, J_BatchID := None, J_CronJobID := None\<rparr>"

lemma core_sel [simp]:
  "J_ID (core j) = J_ID j" "J_QueueID (core j) = J_QueueID j" "J_Status (core j) = J_Status j"
  "J_IdempotencyKey (core j) = J_IdempotencyKey j" "J_Priority (core j) = J_Priority j"
  "J_RetryStrategy (core j) = J_RetryStrategy j" "J_Tags (core j) = J_Tags j" "J_ClaimedBy (core j) = J_ClaimedBy j"
  "J_AttemptCount (core j) = J_AttemptCount j" "J_MaxRetries (core j) = J_MaxRetries j"
  "J_RunAt (core j) = J_RunAt j" "J_ClaimedAt (core j) = J_ClaimedAt j"
  by (simp_all add: core_def)

lemma core_eq:
  assumes "core a = core b"
  shows "J_ID a = J_ID b" "J_QueueID a = J_QueueID b" "J_Status a = J_Status b" "J_IdempotencyKey a = J_IdempotencyKey b"
    "J_Priority a = J_Priority b" "J_RetryStrategy a = J_RetryStrategy b" "J_Tags a = J_Tags b"
    "J_ClaimedBy a = J_ClaimedBy b" "J_AttemptCount a = J_AttemptCount b" "J_MaxRetries a = J_MaxRetries b"
    "J_RunAt a = J_RunAt b" "J_ClaimedAt a = J_ClaimedAt b"
  using assms by (metis core_sel)+

lemma row_step_core [simp]: "row_step r r' \<Longrightarrow> row_step (core r) (core r')"
  by (auto simp: row_step_def)

text \<open>Rows appear only under fresh identifiers and disappear only in a deletion; the others take a step of the
  status machine, the running ones none, and none starts to run.\<close>

definition job_effect :: "(uuid \<Rightarrow> bool) \<Rightarrow> bool \<Rightarrow> db \<Rightarrow> db \<Rightarrow> bool" where
  "job_effect fresh del d d' \<longleftrightarrow> (\<forall>i. case job_at d i of
     None \<Rightarrow> (case job_at d' i of None \<Rightarrow> True | Some r' \<Rightarrow> fresh i \<and> J_Status r' \<noteq> StatusRunning)
   | Some r \<Rightarrow> (case job_at d' i of None \<Rightarrow> del
       | Some r' \<Rightarrow> row_step (core r) (core r') \<and>
           (J_Status r = StatusRunning \<or> J_Status r' = StatusRunning \<longrightarrow> core r' = core r)))"

lemma job_effectD:
  assumes "job_effect fresh del d d'"
  shows "job_at d i = None \<Longrightarrow> job_at d' i = None \<or> fresh i"
    and "job_at d i = Some r \<Longrightarrow> job_at d' i = None \<Longrightarrow> del"
    and "job_at d i = Some r \<Longrightarrow> job_at d' i = Some r' \<Longrightarrow>
      row_step (core r) (core r') \<and> (J_Status r = StatusRunning \<longrightarrow> core r' = core r)"
    and "job_at d' i = Some r' \<Longrightarrow> J_Status r' = StatusRunning \<Longrightarrow> \<exists>r. job_at d i = Some r \<and> core r' = core r"
  using assms [unfolded job_effect_def, rule_format, of i] by (auto split: option.splits)

lemma job_effect_mono:
  assumes "job_effect fresh del d d'" and "del \<Longrightarrow> del'"
  shows "job_effect fresh del' d d'"
  unfolding job_effect_def
proof (rule allI)
  fix i
  show "case job_at d i of
       None \<Rightarrow> (case job_at d' i of None \<Rightarrow> True | Some r' \<Rightarrow> fresh i \<and> J_Status r' \<noteq> StatusRunning)
     | Some r \<Rightarrow> (case job_at d' i of None \<Rightarrow> del'
       | Some r' \<Rightarrow> row_step (core r) (core r') \<and> (J_Status r = StatusRunning \<or> J_Status r' = StatusRunning \<longrightarrow> core r' = core r))"
    using assms(1) [unfolded job_effect_def, rule_format, of i] assms(2) by (simp split: option.splits)
qed

lemma job_effect_same: "jobs d' = jobs d \<Longrightarrow> job_effect fresh del d d'"
  by (simp add: job_effect_def job_at_def split: option.split)

lemma job_effect_map:
  assumes "\<And>i. job_at d' i = map_option (h i) (job_at d i)"
    and "\<And>i r. job_at d i = Some r \<Longrightarrow> row_step r (h i r) \<and>
      (J_Status r = StatusRunning \<or> J_Status (h i r) = StatusRunning \<longrightarrow> h i r = r)"
  shows "job_effect fresh del d d'"
  unfolding job_effect_def assms(1) using assms(2) by (simp split: option.split) (metis row_step_core)

lemma job_effect_append:
  assumes "jobs d' = jobs d @ js" and "\<And>j. j \<in> set js \<Longrightarrow> fresh (J_ID j) \<and> J_Status j \<noteq> StatusRunning"
  shows "job_effect fresh del d d'"
proof -
  have "job_at d' i = (case job_at d i of Some r \<Rightarrow> Some r | None \<Rightarrow> sql_row (\<lambda>j. J_ID j = i) js)" for i
    using job_at_append [of d js i] assms(1) by (simp add: job_at_def)
  moreover have "fresh i \<and> J_Status r \<noteq> StatusRunning" if "sql_row (\<lambda>j. J_ID j = i) js = Some r" for i r
    using sql_row_Some [OF that] assms(2) by auto
  ultimately show ?thesis by (auto simp: job_effect_def split: option.split)
qed

section \<open>Deletions\<close>

lemma job_at_delete:
  assumes "jobs d' = map g (sql_delete (\<lambda>j. P (J_ID j)) (jobs d))" and "\<And>j. core (g j) = core j"
  shows "job_at d' i = (if P i then None else map_option g (job_at d i))"
proof -
  have "J_ID (g j) = J_ID j" for j using core_eq(1) [OF assms(2)] .
  then have "sql_row (\<lambda>j. J_ID j = i) (map g (sql_delete (\<lambda>j. P (J_ID j)) rows)) =
      (if P i then None else map_option g (sql_row (\<lambda>j. J_ID j = i) rows))" for rows
    by (induction rows) (auto simp: sql_delete_def)
  then show ?thesis by (simp add: job_at_def assms(1))
qed

lemma job_effect_delete:
  assumes "jobs d' = map g (sql_delete (\<lambda>j. P (J_ID j)) (jobs d))" and "\<And>j. core (g j) = core j"
    and "\<And>i. P i \<Longrightarrow> del"
  shows "job_effect fresh del d d'"
  using assms(2,3) by (auto simp: job_effect_def job_at_delete [OF assms(1,2)] split: option.split)

lemma distinct_keys_filter: "distinct (filter Q (map k xs)) \<Longrightarrow> distinct (filter Q (map k (filter P xs)))"
  by (induction xs) auto

lemma jobs_ok_delete:
  assumes "jobs_ok d" and g: "jobs d' = map g (sql_delete (\<lambda>j. P (J_ID j)) (jobs d))" "\<And>j. core (g j) = core j"
    and "\<And>j. j \<in> set (jobs d) \<Longrightarrow> \<not> P (J_ID j) \<Longrightarrow> exists_id Q_ID (J_QueueID j) (queues d) \<Longrightarrow>
      exists_id Q_ID (J_QueueID j) (queues d')"
  shows "jobs_ok d'"
proof -
  have eq: "map J_ID (jobs d') = map J_ID (sql_delete (\<lambda>j. P (J_ID j)) (jobs d))"
    "map J_IdempotencyKey (jobs d') = map J_IdempotencyKey (sql_delete (\<lambda>j. P (J_ID j)) (jobs d))"
    unfolding g(1) using core_eq [OF g(2)] by simp_all
  have "distinct (map J_ID (jobs d'))" unfolding eq using assms(1) by (simp add: jobs_ok_def distinct_keys_delete)
  moreover have "distinct (filter (\<lambda>k. k \<noteq> None) (map J_IdempotencyKey (jobs d')))"
    unfolding eq using assms(1) by (simp add: jobs_ok_def sql_delete_def distinct_keys_filter)
  ultimately show ?thesis
    using assms(1,4) core_eq [OF g(2)] by (auto simp: jobs_ok_def g(1) sql_delete_def)
qed

lemma cascade_queues_jobs:
  "\<exists>g P. jobs (cascade_queues X d) = map g (sql_delete (\<lambda>j. P (J_ID j)) (jobs d)) \<and> (\<forall>j. core (g j) = core j) \<and>
     (\<forall>j\<in>set (jobs d). X (J_QueueID j) \<longrightarrow> P (J_ID j))"
proof -
  let ?P = "\<lambda>i. exists_id J_ID i (sql_select (\<lambda>j. X (J_QueueID j)) (jobs d))"
  let ?c = "\<lambda>i. exists_id C_ID i (sql_select (\<lambda>c. X (C_QueueID c)) (cron_jobs d))"
  let ?b = "\<lambda>i. exists_id B_ID i (sql_select (\<lambda>b. X (B_QueueID b)) (batches d))"
  let ?g = "\<lambda>j. j\<lparr>J_ParentJobID := clear_opt ?P (J_ParentJobID j), J_BatchID := clear_opt ?b (J_BatchID j),
    J_CronJobID := clear_opt ?c (J_CronJobID j)\<rparr>"
  have "jobs (cascade_queues X d) = map ?g (sql_delete (\<lambda>j. ?P (J_ID j)) (jobs d))" by (simp add: cascade_defs)
  moreover have "core (?g j) = core j" for j by (simp add: core_def)
  moreover have "\<forall>j\<in>set (jobs d). X (J_QueueID j) \<longrightarrow> ?P (J_ID j)" by (auto simp: exists_id_def sql_select_def)
  ultimately show ?thesis by (intro exI [of _ ?g] exI [of _ ?P]) auto
qed

lemma cascade_queues_ids: "exists_id Q_ID i (queues (cascade_queues X d)) \<longleftrightarrow> exists_id Q_ID i (queues d) \<and> \<not> X i"
  by (auto simp: cascade_defs exists_id_def sql_delete_def)

text \<open>A deletion of queues, alone or below projects and organizations.\<close>

definition queues_gone :: "db \<Rightarrow> db \<Rightarrow> bool" where
  "queues_gone d d' \<longleftrightarrow> (\<exists>X. jobs d' = jobs (cascade_queues X d) \<and> queues d' = queues (cascade_queues X d))"

lemma cascades_queues_gone:
  "queues_gone d (cascade_queues X d)" "queues_gone d (cascade_projects X d)" "queues_gone d (cascade_orgs X d)"
  by (auto simp: queues_gone_def cascade_projects_def cascade_orgs_def Let_def)

lemma queues_gone_ok:
  assumes "queues_gone d d'"
  shows "job_effect fresh True d d'" and "jobs_ok d \<Longrightarrow> jobs_ok d'"
proof -
  obtain X where X: "jobs d' = jobs (cascade_queues X d)" "queues d' = queues (cascade_queues X d)"
    using assms by (auto simp: queues_gone_def)
  obtain g P where g: "jobs d' = map g (sql_delete (\<lambda>j. P (J_ID j)) (jobs d))" "\<And>j. core (g j) = core j"
    "\<forall>j\<in>set (jobs d). X (J_QueueID j) \<longrightarrow> P (J_ID j)"
    using cascade_queues_jobs [of X d] X(1) by auto
  show "job_effect fresh True d d'" by (rule job_effect_delete [OF g(1,2)]) simp
  show "jobs_ok d'" if "jobs_ok d"
    by (rule jobs_ok_delete [OF that g(1,2)]) (use g(3) in \<open>auto simp: X(2) cascade_queues_ids\<close>)
qed

section \<open>The services that write jobs\<close>

lemma enqueue_effect:
  assumes "job_svc_Enqueue f1 f2 f3 new_id clock qid req d = (r, d')" and "fresh new_id"
  shows "job_effect fresh del d d'"
  using assms(1)
proof (cases rule: Enqueue_cases)
  case (new q)
  then show ?thesis using assms(2)
    by (intro job_effect_append [of _ _ "[new_job new_id clock qid req q]"]) (auto split: option.split)
qed (simp_all add: job_effect_same)

lemma insert_batch_jobs_ids:
  "\<exists>js. jobs (insert_batch_jobs faults ids q b now n specs d) = jobs d @ js \<and> 
     (\<forall>j\<in>set js. (\<exists>k. J_ID j = ids k) \<and> J_Status j \<noteq> StatusRunning)"
proof (induction specs arbitrary: n d)
  case (Cons s specs)
  let ?j = "batch_job (ids n) q b now s"
  obtain r d1 where c: "JobRepo_Create (faults n) ?j d = (r, d1)" by (cases "JobRepo_Create (faults n) ?j d")
  have i: "J_ID (inserted_job ?j) = ids n" "J_Status (inserted_job ?j) \<noteq> StatusRunning" by (simp_all add: batch_job_def inserted_job_def Let_def)
  have "jobs d1 = jobs d \<or> jobs d1 = jobs d @ [inserted_job ?j]"
    using c by (cases "faults n") (auto simp: JobRepo_Create_def insert_job_def split: option.splits if_splits)
  then obtain js1 where js1: "jobs d1 = jobs d @ js1"
    "\<forall>j\<in>set js1. (\<exists>k. J_ID j = ids k) \<and> J_Status j \<noteq> StatusRunning" using i by force
  obtain js where js: "jobs (insert_batch_jobs faults ids q b now (Suc n) specs d1) = jobs d1 @ js"
    "\<forall>j\<in>set js. (\<exists>k. J_ID j = ids k) \<and> J_Status j \<noteq> StatusRunning" using Cons.IH by blast
  show ?case using c js js1 by (intro exI [of _ "js1 @ js"]) auto
qed simp

lemma batch_effect:
  assumes "batch_svc_CreateBatch f faults new_id ids now qid name specs d = (r, d')" and "\<And>k. fresh (ids k)"
  shows "job_effect fresh del d d'"
proof -
  let ?b = "new_batch new_id now qid name (length specs)"
  obtain x d1 where c: "BatchRepo_Create f ?b d = (x, d1)" by (cases "BatchRepo_Create f ?b d")
  have d1: "jobs d1 = jobs d" using c by (cases f) (auto simp: BatchRepo_Create_def insert_batch_def split: if_splits)
  obtain js where "jobs (insert_batch_jobs faults ids qid new_id now 0 specs d1) = jobs d1 @ js"
    "\<forall>j\<in>set js. (\<exists>k. J_ID j = ids k) \<and> J_Status j \<noteq> StatusRunning" using insert_batch_jobs_ids by blast
  then have "\<exists>js. jobs d' = jobs d @ js \<and> (\<forall>j\<in>set js. fresh (J_ID j) \<and> J_Status j \<noteq> StatusRunning)"
    using c d1 assms by (fastforce simp: batch_svc_CreateBatch_def Let_def split: sum.splits)
  then show ?thesis using job_effect_append by blast
qed

lemma cancel_effect: "job_effect fresh del d (snd (job_svc_Cancel f now i d))"
  by (rule job_effect_map [OF cancel_row]) (auto simp: row_step_def cancellable_def)

lemma retry_row_None: "job_at d k = None \<Longrightarrow> job_at (snd (job_svc_Retry f f' clock now i d)) k = None"
proof -
  assume n: "job_at d k = None"
  have "job_at (snd (JobRepo_ScheduleRetry f' now i clock a d)) k = None" for a
    using repo.retry_row [where f = f' and now = now and i = i and k = k and s = d and t = clock and n = a] n
    by (auto split: if_splits)
  then show ?thesis using n by (auto simp: job_svc_Retry_def split: sum.split)
qed

lemma retry_effect: "job_effect fresh del d (snd (job_svc_Retry f f' clock now i d))"
  unfolding job_effect_def
proof (rule allI)
  fix k
  let ?d' = "snd (job_svc_Retry f f' clock now i d)"
  show "case job_at d k of
       None \<Rightarrow> (case job_at ?d' k of None \<Rightarrow> True | Some r' \<Rightarrow> fresh k \<and> J_Status r' \<noteq> StatusRunning)
     | Some r \<Rightarrow> (case job_at ?d' k of None \<Rightarrow> del
       | Some r' \<Rightarrow> row_step (core r) (core r') \<and> (J_Status r = StatusRunning \<or> J_Status r' = StatusRunning \<longrightarrow> core r' = core r))"
  proof (cases "job_at d k")
    case None
    then show ?thesis using retry_row_None by simp
  next
    case (Some r)
    have "row_step r (set_retry now clock (J_AttemptCount r) r) \<and>
        J_Status (set_retry now clock (J_AttemptCount r) r) \<noteq> StatusRunning" if "J_Status r = StatusDead \<or> J_Status r = StatusFailed"
      using that by (auto simp: row_step_def set_retry_def)
    then show ?thesis using retry_row [OF Some, of f f' clock now i] Some by fastforce
  qed
qed

lemma cron_delete_ok:
  shows "job_effect fresh del d (snd (cron_svc_Delete f i d))" and "jobs_ok d \<Longrightarrow> jobs_ok (snd (cron_svc_Delete f i d))"
proof -
  let ?g = "\<lambda>j. j\<lparr>J_CronJobID := clear_opt (\<lambda>x. x = i) (J_CronJobID j)\<rparr>"
  have e: "snd (cron_svc_Delete f i d) = d \<or> (jobs (snd (cron_svc_Delete f i d)) = map ?g (sql_delete (\<lambda>j. False) (jobs d)) \<and>
      queues (snd (cron_svc_Delete f i d)) = queues d)"
    by (cases f) (auto simp: cron_svc_Delete_def CronRepo_Delete_def exec_tag_def Let_def cascade_crons_def sql_delete_def)
  have g: "core (?g j) = core j" for j by (simp add: core_def)
  from e show "job_effect fresh del d (snd (cron_svc_Delete f i d))"
  proof (elim disjE conjE)
    assume "jobs (snd (cron_svc_Delete f i d)) = map ?g (sql_delete (\<lambda>j. False) (jobs d))"
    from job_effect_delete [where P = "\<lambda>_. False", OF this g] show ?thesis by simp
  qed (simp add: job_effect_same)
  show "jobs_ok (snd (cron_svc_Delete f i d))" if ok: "jobs_ok d"
    using e
  proof (elim disjE conjE)
    assume j: "jobs (snd (cron_svc_Delete f i d)) = map ?g (sql_delete (\<lambda>j. False) (jobs d))"
      and q: "queues (snd (cron_svc_Delete f i d)) = queues d"
    show ?thesis by (rule jobs_ok_delete [where P = "\<lambda>_. False", OF ok j g]) (simp add: q)
  qed (simp add: ok)
qed

section \<open>Requests\<close>

text \<open>The identifiers a request draws, and the requests that delete queues.\<close>

definition drawn :: "api_env \<Rightarrow> uuid \<Rightarrow> bool" where
  "drawn E i \<longleftrightarrow> i = E_id E \<or> (\<exists>k. i = E_ids E k)"

fun deletes :: "endpoint \<Rightarrow> bool" where
  "deletes OrgDelete = True"
| "deletes ProjectDelete = True"
| "deletes QueueDelete = True"
| "deletes _ = False"

definition sound :: "(uuid \<Rightarrow> bool) \<Rightarrow> bool \<Rightarrow> db \<Rightarrow> db \<Rightarrow> bool" where
  "sound fresh del d d' \<longleftrightarrow> job_effect fresh del d d' \<and> (jobs_ok d \<longrightarrow> jobs_ok d')"

lemma sound_refl [simp]: "sound fresh del d d"
  by (simp add: sound_def job_effect_same)

lemma sound_same:
  assumes "jobs d' = jobs d" and "\<And>i. exists_id Q_ID i (queues d) \<Longrightarrow> exists_id Q_ID i (queues d')"
  shows "sound fresh del d d'"
  using assms by (auto simp: sound_def job_effect_same jobs_ok_def)

lemma sound_queues:
  "sound fresh del d (snd (queue_svc_Create f new_id clock pid creq d))"
  "sound fresh del d (snd (queue_svc_Update f f' clock now i req d))"
  "sound fresh del d (snd (queue_svc_Pause f f' now i d))" "sound fresh del d (snd (queue_svc_Resume f f' now i d))"
proof -
  have c: "sound fresh del d (snd (QueueRepo_Create f q d))" for f q
    by (rule sound_same) (cases f; auto simp: QueueRepo_Create_def insert_queue_def split: option.split)+
  have u: "sound fresh del d (snd (QueueRepo_Update f now q d))" for f q
    by (rule sound_same) (cases f; auto simp: QueueRepo_Update_def update_queue_def exec_tag_def Let_def set_queue_columns_def
        split: option.split)+
  have p: "sound fresh del d (snd (QueueRepo_SetPaused f now i b d))" for f b
    by (rule sound_same) (cases f; auto simp: QueueRepo_SetPaused_def exec_tag_def)+
  show "sound fresh del d (snd (queue_svc_Create f new_id clock pid creq d))"
    using c [of f "new_queue new_id clock pid (queue_setDefaults creq)"]
    by (auto simp: queue_svc_Create_def Let_def split: prod.split sum.split)
  show "sound fresh del d (snd (queue_svc_Update f f' clock now i req d))"
    using u by (auto simp: queue_svc_Update_def Let_def split: prod.split sum.split) (metis snd_conv)+
  show "sound fresh del d (snd (queue_svc_Pause f f' now i d))" "sound fresh del d (snd (queue_svc_Resume f f' now i d))"
    using p by (auto simp: queue_svc_Pause_def queue_svc_Resume_def split: sum.split)
qed

lemma sound_deletes:
  "sound fresh True d (snd (queue_svc_Delete f i d))" "sound fresh True d (snd (project_svc_Delete f i d))"
  "sound fresh True d (snd (org_svc_Delete f i d))"
  using queues_gone_ok [OF cascades_queues_gone(1)] queues_gone_ok [OF cascades_queues_gone(2)]
    queues_gone_ok [OF cascades_queues_gone(3)]
  by (cases f; simp add: queue_svc_Delete_def QueueRepo_Delete_def project_svc_Delete_def ProjectRepo_Delete_def
      org_svc_Delete_def OrgRepo_Delete_def exec_tag_def Let_def sound_def job_effect_same)+

lemma sound_job_writes:
  "fresh new_id \<Longrightarrow> sound fresh del d (snd (job_svc_Enqueue f1 f2 f3 new_id clock qid req d))"
  "sound fresh del d (snd (job_svc_Cancel f now i d))" "sound fresh del d (snd (job_svc_Retry f f' clock now i d))"
  "(\<And>k. fresh (ids k)) \<Longrightarrow> sound fresh del d (snd (batch_svc_CreateBatch f faults new_id ids now qid name specs d))"
  "sound fresh del d (snd (cron_svc_Delete f i d))"
proof -
  show "sound fresh del d (snd (job_svc_Enqueue f1 f2 f3 new_id clock qid req d))" if "fresh new_id"
  proof (cases "job_svc_Enqueue f1 f2 f3 new_id clock qid req d")
    case (Pair r d')
    then show ?thesis using enqueue_effect [where fresh = fresh, OF Pair that] jobs_ok_enqueue [OF Pair] by (simp add: sound_def)
  qed
  show "sound fresh del d (snd (batch_svc_CreateBatch f faults new_id ids now qid name specs d))" if "\<And>k. fresh (ids k)"
  proof (cases "batch_svc_CreateBatch f faults new_id ids now qid name specs d")
    case (Pair r d')
    then show ?thesis using batch_effect [where fresh = fresh, OF Pair that] jobs_ok_batch [OF Pair] by (simp add: sound_def)
  qed
qed (simp_all add: sound_def cancel_effect retry_effect cron_delete_ok jobs_ok_svc_cancel jobs_ok_retry)

lemma sound_steps:
  "(\<And>x. sound fresh del d (snd (k x))) \<Longrightarrow> sound fresh del d (snd (or_respond r d k))"
  "(\<And>x. sound fresh del d (snd (k' x))) \<Longrightarrow> sound fresh del d (snd (with_body msg val body d k'))"
  "(\<And>x. sound fresh del d (snd (k x))) \<Longrightarrow> sound fresh del d (snd (raise_or r d k))"
  "sound fresh del d (snd x) \<Longrightarrow> sound fresh del d (snd (case x of (r, d') \<Rightarrow> raise_or r d' (\<lambda>y. (g y, d'))))"
  by (auto simp: or_respond_def with_body_def raise_or_def split: sum.splits option.split prod.splits)

lemma drawn_ids: "drawn E (E_id E)" "drawn E (E_ids E k)"
  by (auto simp: drawn_def)

lemma sound_endpoint:
  assumes "rooted d" and "ws_pure E"
  shows "sound (drawn E) (deletes ep) d (snd (run_endpoint E ep c d))"
proof (cases "TJobs \<notin> set (writes ep) \<and> TQueues \<notin> set (writes ep)")
  case True
  have f: "only (writes ep) d (snd (run_endpoint E ep c d))" by (rule endpoint_frame [OF assms])
  show ?thesis using only_same [OF f, of TJobs] only_same [OF f, of TQueues] True by (intro sound_same) simp_all
next
  case False
  then show ?thesis
    by (cases ep; simp add: below_defs)
      ((simp only: core_handler_defs raising_handler_defs)?; (intro sound_steps)?; (simp only: handler_snd)?;
        (intro sound_steps sound_queues sound_deletes sound_job_writes drawn_ids)?)+
qed

lemma handled_deletes:
  "list_all (\<lambda>ep. \<not> deletes ep) (handled GET api_routes)" "list_all (\<lambda>ep. \<not> deletes ep) (handled POST api_routes)"
  "list_all (\<lambda>ep. \<not> deletes ep) (handled PUT api_routes)"
  by code_simp+

lemma sound_request:
  assumes "documented_router m" and "rooted d" and "ws_pure E"
  shows "sound (drawn E) (RQ_Method q = DELETE) d (snd (api_request m v f n E q c d))"
proof -
  have "sound (drawn E) (RQ_Method q = DELETE) d (snd (run_endpoint E ep c' d))"
    if "ep \<in> set (handled (RQ_Method q) api_routes)" for ep c'
  proof -
    have "deletes ep \<longrightarrow> RQ_Method q = DELETE"
      using that handled_deletes by (cases "RQ_Method q") (auto simp: list_all_iff)
    then show ?thesis using sound_endpoint [OF assms(2,3), of ep c'] job_effect_mono unfolding sound_def by blast
  qed
  then show ?thesis using api_request_reaches [OF assms(1), of v f n E q c d] by auto
qed

end
