(* ===== verification/System.thy ===== *)
theory System
  imports JobEffects CronEngine
begin

text \<open>
  The whole system on one database: requests served by the API, route table and handlers included, among
  the claims, executions, crashes and housekeeping of the workers and the fires of the cron engine. A request
  that deletes a queue, a project or an organization takes jobs away while they are executed; the lifecycle
  invariants are restated with that. Requests other than deletions refine the lifecycle of \<open>Lifecycle\<close>.
\<close>

section \<open>Steps of the whole system\<close>

text \<open>The identifiers the API draws are new also to the executions in progress, whose rows may be gone.\<close>

inductive world_step :: "router \<Rightarrow> registry \<Rightarrow> sys \<Rightarrow> sys \<Rightarrow> bool" for m reg where
  request: "ws_pure E \<Longrightarrow> list_all (\<lambda>x. \<not> drawn E (J_ID (snd x))) (s_inflight s) \<Longrightarrow>
    world_step m reg s (s\<lparr>s_db := snd (api_request m v f n E q c (s_db s))\<rparr>)"
| claim: "JobRepo_ClaimBatch cf locked now qid wid k conc (s_db s) = (Inr js, d') \<Longrightarrow>
    world_step m reg s (s\<lparr>s_db := d', s_inflight := s_inflight s @ map (Pair wid) js\<rparr>)"
| finish: "(w, j) \<in> set (s_inflight s) \<Longrightarrow> execute_job f now reg env j (s_db s) = (ExecDone, d') \<Longrightarrow>
    world_step m reg s (s\<lparr>s_db := d', s_inflight := remove1 (w, j) (s_inflight s)\<rparr>)"
| crash: "world_step m reg s (s\<lparr>s_inflight := filter (\<lambda>x. fst x \<noteq> w) (s_inflight s)\<rparr>)"
| promote: "world_step m reg s (s\<lparr>s_db := Scheduler_promote f now (s_db s)\<rparr>)"
| reclaim: "no_inflight_stale now vis s \<Longrightarrow> world_step m reg s (s\<lparr>s_db := Reaper_reclaim f now vis (s_db s)\<rparr>)"
| heartbeat: "world_step m reg s (s\<lparr>s_db := Heartbeater_tick f now w (s_db s)\<rparr>)"
| register: "world_step m reg s (s\<lparr>s_db := snd (WorkerRepo_Register f now wi (s_db s))\<rparr>)"
| fire: "world_step m reg s (s\<lparr>s_db := snd (executeFire parse ff i dbnow cj now (s_db s))\<rparr>)"

section \<open>Executions in progress\<close>

text \<open>An execution holds its row, unless a deletion has taken the row away.\<close>

definition held :: "db \<Rightarrow> uuid \<times> Job \<Rightarrow> bool" where
  "held d x \<longleftrightarrow> (case job_at d (J_ID (snd x)) of None \<Rightarrow> True
     | Some r \<Rightarrow> J_Status r = StatusRunning \<and> J_ClaimedBy r = Some (fst x) \<and> J_AttemptCount r = J_AttemptCount (snd x))"

definition claim_kept :: "db \<Rightarrow> db \<Rightarrow> uuid \<Rightarrow> bool" where
  "claim_kept d d' i \<longleftrightarrow> (case job_at d' i of None \<Rightarrow> True
     | Some r' \<Rightarrow> (case job_at d i of None \<Rightarrow> False | Some r \<Rightarrow> J_Status r = StatusRunning \<longrightarrow> core r' = core r))"

lemma held_kept:
  assumes "held d x" and "claim_kept d d' (J_ID (snd x))"
  shows "held d' x"
proof (cases "job_at d' (J_ID (snd x))")
  case (Some r')
  then obtain r where r: "job_at d (J_ID (snd x)) = Some r" "J_Status r = StatusRunning \<longrightarrow> core r' = core r"
    using assms(2) by (auto simp: claim_kept_def split: option.splits)
  then have "core r' = core r" using assms(1) by (simp add: held_def)
  then show ?thesis using assms(1) r(1) Some core_eq [of r' r] by (simp add: held_def)
qed (simp add: held_def)

lemma claim_kept_same: "job_at d' i = job_at d i \<Longrightarrow> claim_kept d d' i"
  by (simp add: claim_kept_def split: option.split)

lemma claim_kept_sound:
  assumes "sound fresh del d d'" and "\<not> fresh i"
  shows "claim_kept d d' i"
proof -
  have e: "job_effect fresh del d d'" using assms(1) by (simp add: sound_def)
  show ?thesis
  proof (cases "job_at d i")
    case None
    then show ?thesis using job_effectD(1) [OF e None] assms(2) by (simp add: claim_kept_def)
  next
    case (Some r)
    then show ?thesis using job_effectD(3) [OF e Some] by (simp add: claim_kept_def split: option.split)
  qed
qed

definition world_ok :: "sys \<Rightarrow> bool" where
  "world_ok s \<longleftrightarrow> tenancy (s_db s) \<and> jobs_ok (s_db s) \<and> distinct (map (J_ID \<circ> snd) (s_inflight s)) \<and>
     list_all (held (s_db s)) (s_inflight s)"

lemma world_quiet:
  assumes "world_ok s" and "tenancy d'" and "jobs_ok d'" and "\<And>x. x \<in> set (s_inflight s) \<Longrightarrow> claim_kept (s_db s) d' (J_ID (snd x))"
  shows "world_ok (s\<lparr>s_db := d'\<rparr>)"
  using assms held_kept by (auto simp: world_ok_def list_all_iff)

lemma worker_frames:
  "JobRepo_ClaimBatch cf locked now qid wid k conc d = (Inr js, d') \<Longrightarrow> only [TJobs] d d'"
  "only [TJobs] d (snd (execute_job f now reg env j d))"
  "only [TJobs] d (Scheduler_promote f now d)" "only [TJobs] d (Reaper_reclaim f now vis d)"
  "only [TWorkers] d (Heartbeater_tick f now w d)" "only [TWorkers] d (snd (WorkerRepo_Register f now wi d))"
  "only [TCrons, TJobs] d (snd (executeFire parse ff i dbnow cj now d))"
proof -
  show "JobRepo_ClaimBatch cf locked now qid wid k conc d = (Inr js, d') \<Longrightarrow> only [TJobs] d d'"
    by (erule ClaimBatch_cases) (simp_all add: claim_update_def frame_defs)
  show "only [TJobs] d (snd (execute_job f now reg env j d))"
    by (cases "Registry_Get reg (J_Type j)")
      (auto simp: execute_job_def Executor_Execute_def JobRepo_MarkSucceeded_def JobRepo_MarkDead_def JobRepo_ScheduleRetry_def
        ignore_tag_def Let_def frame split: hresult.splits option.splits)
  show "only [TJobs] d (Scheduler_promote f now d)" "only [TJobs] d (Reaper_reclaim f now vis d)"
    by (simp_all add: Scheduler_promote_def Reaper_reclaim_def JobRepo_PromoteScheduled_def JobRepo_ReclaimStale_def frame)
  show "only [TWorkers] d (Heartbeater_tick f now w d)" "only [TWorkers] d (snd (WorkerRepo_Register f now wi d))"
    by (cases f; auto simp: Heartbeater_tick_def WorkerRepo_Heartbeat_def WorkerRepo_Register_def exec_tag_def frame_defs Let_def)+
  show "only [TCrons, TJobs] d (snd (executeFire parse ff i dbnow cj now d))"
    by (auto simp: executeFire_def CronRepo_SetActive_def CronRepo_UpdateFireTimes_def exec_tag_def frame_defs Let_def
        db_call_def JobRepo_Create_def insert_job_def split: sum.split prod.splits option.splits if_splits)
qed

lemma tenancy_worker:
  assumes "only ts d d'" and "ts = [TJobs] \<or> ts = [TWorkers] \<or> ts = [TCrons, TJobs]" and "tenancy d"
  shows "tenancy d'"
  using tenancy_frame [OF assms(3,1)] assms(2) by (auto simp: tenancy_tables_def)

text \<open>Housekeeping that leaves the running rows of the executions alone.\<close>

lemma world_frame:
  assumes "world_ok s" and "only ts (s_db s) d'" and "ts = [TWorkers] \<or> (ts = [TCrons, TJobs] \<and> jobs d' = jobs (s_db s))"
  shows "world_ok (s\<lparr>s_db := d'\<rparr>)"
proof (rule world_quiet [OF assms(1)])
  have j: "jobs d' = jobs (s_db s)" "queues d' = queues (s_db s)"
    using assms(3) only_same [OF assms(2), of TJobs] only_same [OF assms(2), of TQueues] by auto
  show "tenancy d'" using tenancy_worker [OF assms(2)] assms(1,3) by (auto simp: world_ok_def)
  show "jobs_ok d'" using assms(1) j by (simp add: world_ok_def jobs_ok_def)
  show "claim_kept (s_db s) d' (J_ID (snd x))" for x using j by (intro claim_kept_same) (simp add: job_at_def)
qed

lemma claim_job_at_None:
  "JobRepo_ClaimBatch cf locked now qid wid k conc d = (Inr js, d') \<Longrightarrow> distinct (map J_ID (jobs d)) \<Longrightarrow>
   job_at d i = None \<Longrightarrow> job_at d' i = None"
  using claim_rows(3) by fastforce

lemma world_claim:
  assumes c: "JobRepo_ClaimBatch cf locked now qid wid k conc (s_db s) = (Inr js, d')" and ok: "world_ok s"
  shows "world_ok (s\<lparr>s_db := d', s_inflight := s_inflight s @ map (Pair wid) js\<rparr>)"
proof -
  have d: "distinct (map J_ID (jobs (s_db s)))" and h: "list_all (held (s_db s)) (s_inflight s)"
    and x: "distinct (map (J_ID \<circ> snd) (s_inflight s))" and j: "jobs_ok (s_db s)" and t: "tenancy (s_db s)"
    using ok by (auto simp: world_ok_def jobs_ok_def)
  note R = claim_rows [OF c d]
  have fresh: "J_ID (snd y) \<noteq> J_ID i" if "y \<in> set (s_inflight s)" "i \<in> set js" for y i
  proof
    assume e: "J_ID (snd y) = J_ID i"
    have "job_at (s_db s) (J_ID i) = Some i" "J_Status i = StatusPending" using R(4) that(2) by (auto simp: claim_eligible_def)
    then show False using h that(1) e by (auto simp: held_def list_all_iff)
  qed
  have "claim_kept (s_db s) d' i" for i
  proof (cases "job_at (s_db s) i")
    case None
    then show ?thesis using claim_job_at_None [OF c d] by (simp add: claim_kept_def)
  next
    case (Some r)
    then show ?thesis using claim_row_status [OF c d Some] by (auto simp: claim_kept_def split: if_splits)
  qed
  then have "list_all (held d') (s_inflight s)" using h held_kept by (auto simp: list_all_iff)
  moreover have "list_all (held d') (map (Pair wid) js)"
    using owned_claimed [OF c d] by (auto simp: list_all_iff owned_def held_def split: option.splits)
  moreover have "distinct (map (J_ID \<circ> snd) (s_inflight s @ map (Pair wid) js))"
    using x R(5) fresh by (auto simp: comp_def)
  ultimately show ?thesis
    using jobs_ok_claim [OF j c] tenancy_worker [OF worker_frames(1) [OF c] _ t] by (simp add: world_ok_def)
qed

lemma world_finish:
  assumes m: "(w, j) \<in> set (s_inflight s)" and ok: "world_ok s"
  shows "world_ok (s\<lparr>s_db := snd (execute_job f now reg env j (s_db s)), s_inflight := remove1 (w, j) (s_inflight s)\<rparr>)"
proof -
  let ?s = "s\<lparr>s_inflight := remove1 (w, j) (s_inflight s)\<rparr>"
  let ?d' = "snd (execute_job f now reg env j (s_db s))"
  have x: "distinct (map (J_ID \<circ> snd) (s_inflight s))" using ok by (simp add: world_ok_def)
  then have "distinct (s_inflight s)" by (simp add: distinct_map)
  then have rm: "set (remove1 (w, j) (s_inflight s)) = set (s_inflight s) - {(w, j)}" by simp
  have dist: "distinct (map (J_ID \<circ> snd) (remove1 (w, j) (s_inflight s)))"
    using x unfolding distinct_map rm by (auto intro: inj_on_subset)
  then have ok': "world_ok ?s" using ok rm by (auto simp: world_ok_def list_all_iff)
  have "world_ok (?s\<lparr>s_db := ?d'\<rparr>)"
  proof (rule world_quiet [OF ok'])
    show "tenancy ?d'" using tenancy_worker [OF worker_frames(2)] ok by (simp add: world_ok_def)
    show "jobs_ok ?d'" using jobs_ok_execute ok by (simp add: world_ok_def)
    fix y assume "y \<in> set (s_inflight ?s)"
    then have y: "y \<in> set (s_inflight s)" "y \<noteq> (w, j)" using rm by auto
    have "J_ID (snd y) \<noteq> J_ID j"
      using x m y inj_onD [of "J_ID \<circ> snd" "set (s_inflight s)" y "(w, j)"] by (auto simp: distinct_map)
    then show "claim_kept (s_db ?s) ?d' (J_ID (snd y))"
      unfolding execute_job_def using repo.Execute_frame by (intro claim_kept_same) simp
  qed
  then show ?thesis by (simp add: world_ok_def)
qed

lemma world_step_ok:
  assumes "world_step m reg s s'" and "documented_router m" and "world_ok s"
  shows "world_ok s'"
  using assms(1,3)
proof (induction rule: world_step.induct)
  case (request E s v f n q c)
  have d: "tenancy (s_db s)" "rooted (s_db s)" "jobs_ok (s_db s)" using request.prems by (auto simp: world_ok_def tenancy_def)
  have e: "sound (drawn E) (RQ_Method q = DELETE) (s_db s) (snd (api_request m v f n E q c (s_db s)))"
    by (rule sound_request [OF assms(2) d(2) request.hyps(1)])
  then have "jobs_ok (snd (api_request m v f n E q c (s_db s)))" using d(3) by (simp add: sound_def)
  then show ?case
    using claim_kept_sound [OF e] request.hyps(2) tenancy_request [OF assms(2) d(1) request.hyps(1)]
    by (intro world_quiet [OF request.prems]) (auto simp: list_all_iff)
next
  case (claim cf locked now qid wid k conc s js d')
  then show ?case by (rule world_claim)
next
  case (finish w j s f now env d')
  then show ?case using world_finish [of w j s f now reg env] by simp
next
  case (crash s w)
  then show ?case by (auto simp: world_ok_def list_all_iff distinct_map inj_on_def)
next
  case (promote s f now)
  then have "tenancy (Scheduler_promote f now (s_db s))" "jobs_ok (Scheduler_promote f now (s_db s))"
    using tenancy_worker [OF worker_frames(3)] jobs_ok_promote by (auto simp: world_ok_def)
  then show ?case
    by (intro world_quiet [OF promote.prems]) (auto simp: claim_kept_def promote_row due_scheduled_def split: option.split)
next
  case (reclaim now vis s f)
  then have t: "tenancy (Reaper_reclaim f now vis (s_db s))" "jobs_ok (Reaper_reclaim f now vis (s_db s))"
    using tenancy_worker [OF worker_frames(4)] jobs_ok_reclaim by (auto simp: world_ok_def)
  have "claim_kept (s_db s) (Reaper_reclaim f now vis (s_db s)) (J_ID (snd x))" if "x \<in> set (s_inflight s)" for x
    using reclaim.hyps that
    by (auto simp: no_inflight_stale_def list_all_iff claim_kept_def reclaim_row split: option.splits)
  then show ?case using world_quiet [OF reclaim.prems t] by blast
next
  case (heartbeat s f now w)
  then show ?case using world_frame [OF _ worker_frames(5)] by blast
next
  case (register s f now wi)
  then show ?case using world_frame [OF _ worker_frames(6)] by blast
next
  case (fire s parse ff i dbnow cj now)
  then show ?case using world_frame [OF _ worker_frames(7)] executeFire_jobs by blast
qed

lemma world_reach:
  assumes "(world_step m reg)\<^sup>*\<^sup>* s s'" and "documented_router m" and "world_ok s"
  shows "world_ok s'"
  using assms(1,3) by (induction rule: rtranclp_induct) (auto intro: world_step_ok [OF _ assms(2)])

lemma world_start: "tenancy d \<Longrightarrow> jobs_ok d \<Longrightarrow> world_ok (sys_start d)"
  by (simp add: world_ok_def sys_start_def)

section \<open>One row under one step\<close>

lemma world_row:
  assumes "world_step m reg s s'" and "documented_router m" and "world_ok s" and "job_at (s_db s) i = Some r"
    and "job_at (s_db s') i = Some r'"
  shows "row_step (core r) (core r')"
  using assms(1,3-5)
proof (induction rule: world_step.induct)
  case (request E s v f n q c)
  have "rooted (s_db s)" using request.prems by (auto simp: world_ok_def tenancy_def)
  from sound_request [OF assms(2) this request.hyps(1), of q v f n c] show ?case
    using job_effectD(3) [OF _ request.prems(2)] request.prems(3) by (auto simp: sound_def)
next
  case (claim cf locked now qid wid k conc s js d')
  have "distinct (map J_ID (jobs (s_db s)))" using claim.prems(1) by (simp add: world_ok_def jobs_ok_def)
  from claim_row_status [OF claim.hyps this claim.prems(2)] claim.prems(3) have "row_step r r'"
    by (auto simp: row_step_def mark_running_def split: if_splits)
  then show ?case by simp
next
  case (finish w j s f now env d')
  have "i = J_ID j \<Longrightarrow> J_Status r = StatusRunning \<and> J_AttemptCount r = J_AttemptCount j"
    using finish.prems(1,2) finish.hyps(1) by (auto simp: world_ok_def list_all_iff held_def)
  from row_step_finish [OF finish.prems(2) this, of f now reg env] have "row_step r r'"
    using finish.prems(3) by (simp add: finish.hyps(2))
  then show ?case by simp
next
  case (promote s f now)
  have "row_step r r'" using promote.prems(2,3) by (auto simp: promote_row row_step_def due_scheduled_def split: if_splits)
  then show ?case by simp
next
  case (reclaim now vis s f)
  have "r' = r \<or> (J_Status r = StatusRunning \<and> r' = r\<lparr>J_Status := StatusPending, J_ClaimedBy := None, J_ClaimedAt := None, J_UpdatedAt := now\<rparr>)"
    using reclaim.prems(2,3) by (simp add: reclaim_row stale_running_def split: if_splits)
  then have "row_step r r'" by (auto simp: row_step_def)
  then show ?case by simp
next
  case (heartbeat s f now w)
  then show ?case using only_same [OF worker_frames(5), of TJobs "s_db s" f now w] by (simp add: job_at_def)
next
  case (register s f now wi)
  then show ?case using only_same [OF worker_frames(6), of TJobs "s_db s" f now wi] by (simp add: job_at_def)
next
  case (fire s parse ff k dbnow cj now)
  then show ?case by (simp add: job_at_def executeFire_jobs)
qed simp

section \<open>The lifecycle of the whole system\<close>



text \<open>C18: The integrity of the database holds in every state of the whole system: job identifiers and
  idempotency keys are unique, every job lies in an existing queue with a priority from 1 to 10, every queue,
  project and membership has its parent, accounts, organizations and project members are in order.\<close>

theorem system_integrity:
  assumes "documented_router m" and "tenancy d" and "jobs_ok d" and "(world_step m reg)\<^sup>*\<^sup>* (sys_start d) s"
  shows "jobs_ok (s_db s) \<and> tenancy (s_db s)"
  using world_reach [OF assms(4,1) world_start [OF assms(2,3)]] by (simp add: world_ok_def)

text \<open>C19: Jobs are lost by deletions only: a request whose method is not DELETE keeps every job of the
  database, and a request of any method creates none but under the identifiers it draws.\<close>

theorem jobs_lost_by_delete_only:
  assumes "documented_router m" and "rooted d" and "ws_pure E"
  shows "(RQ_Method q \<noteq> DELETE \<longrightarrow> job_at d i \<noteq> None \<longrightarrow> job_at (snd (api_request m v f n E q c d)) i \<noteq> None) \<and>
    (job_at d i = None \<longrightarrow> job_at (snd (api_request m v f n E q c d)) i \<noteq> None \<longrightarrow> drawn E i)"
proof -
  have "job_effect (drawn E) (RQ_Method q = DELETE) d (snd (api_request m v f n E q c d))"
    using sound_request [OF assms, of q v f n c] by (simp add: sound_def)
  note e = job_effectD [OF this, of i]
  show ?thesis
  proof (cases "job_at d i")
    case None
    then show ?thesis using e(1) [OF None] by auto
  next
    case (Some r)
    then show ?thesis using e(2) [OF Some] by (metis option.distinct(1))
  qed
qed

section \<open>Requests refine the lifecycle\<close>

text \<open>A request acts on the jobs as one step of the lifecycle, or not at all.\<close>

definition lifecycle_move :: "bool \<Rightarrow> registry \<Rightarrow> sys \<Rightarrow> db \<Rightarrow> bool" where
  "lifecycle_move timely reg s d' \<longleftrightarrow> (\<exists>s'. (sys_step timely reg)\<^sup>=\<^sup>= s s' \<and> s_inflight s' = s_inflight s \<and> jobs (s_db s') = jobs d')"

lemma move_same: "jobs d' = jobs (s_db s) \<Longrightarrow> lifecycle_move timely reg s d'"
  by (auto simp: lifecycle_move_def)

lemma move_step: "sys_step timely reg s (s\<lparr>s_db := d'\<rparr>) \<Longrightarrow> lifecycle_move timely reg s d'"
  unfolding lifecycle_move_def by (rule exI [of _ "s\<lparr>s_db := d'\<rparr>"]) simp

lemma move_jobs:
  "lifecycle_move timely reg s (snd (job_svc_Enqueue f1 f2 f3 new_id clock qid req (s_db s)))"
  "lifecycle_move timely reg s (snd (job_svc_Cancel f now i (s_db s)))"
  "lifecycle_move timely reg s (snd (job_svc_Retry f f' clock now i (s_db s)))"
  "lifecycle_move timely reg s (snd (batch_svc_CreateBatch f faults new_id ids now qid name specs (s_db s)))"
  by (rule move_step, rule sys_step.intros, rule surjective_pairing, (rule move_step, rule sys_step.intros)+,
      rule surjective_pairing)

lemma move_steps:
  "(\<And>x. lifecycle_move timely reg s (snd (k x))) \<Longrightarrow> lifecycle_move timely reg s (snd (or_respond r (s_db s) k))"
  "(\<And>x. lifecycle_move timely reg s (snd (k' x))) \<Longrightarrow> lifecycle_move timely reg s (snd (with_body msg val body (s_db s) k'))"
  "(\<And>x. lifecycle_move timely reg s (snd (k x))) \<Longrightarrow> lifecycle_move timely reg s (snd (raise_or r (s_db s) k))"
  "lifecycle_move timely reg s (snd x) \<Longrightarrow>
    lifecycle_move timely reg s (snd (case x of (r, d') \<Rightarrow> raise_or r d' (\<lambda>y. (g y, d'))))"
  by (auto simp: or_respond_def with_body_def raise_or_def move_same split: sum.splits option.split prod.splits)

lemma handled_writes:
  "list_all (\<lambda>ep. TJobs \<in> set (writes ep) \<longrightarrow> ep \<in> set [JobEnqueue, JobCancel, JobRetry, BatchCreate]) (handled POST api_routes)"
  "list_all (\<lambda>ep. TJobs \<notin> set (writes ep)) (handled PUT api_routes)"
  "list_all (\<lambda>ep. TJobs \<notin> set (writes ep)) (handled GET api_routes)"
  by code_simp+

lemma move_endpoint:
  assumes "rooted (s_db s)" and "ws_pure E" and "TJobs \<in> set (writes ep) \<longrightarrow> ep \<in> set [JobEnqueue, JobCancel, JobRetry, BatchCreate]"
  shows "lifecycle_move timely reg s (snd (run_endpoint E ep c (s_db s)))"
proof (cases "TJobs \<in> set (writes ep)")
  case False
  show ?thesis using only_same [OF endpoint_frame [OF assms(1,2)] False] by (intro move_same) simp
next
  case True
  then have "ep = JobEnqueue \<or> ep = JobCancel \<or> ep = JobRetry \<or> ep = BatchCreate" using assms(3) by simp
  then show ?thesis
    by (elim disjE; simp)
      ((simp only: core_handler_defs raising_handler_defs)?; (intro move_steps)?; (simp only: handler_snd)?; (intro move_steps move_jobs)?)+
qed


section \<open>A run of the whole system\<close>

text \<open>The tenant of \<open>Tenancy\<close> with one queue and one pending job. A worker claims the job, and while it executes it
  the administrator deletes the queue.\<close>

definition busy_db :: db where
  "busy_db = tenant_db\<lparr>queues := [sample_queue\<lparr>Q_ProjectID := 6\<rparr>], jobs := [sample_job 1 StatusPending 5 0]\<rparr>"

lemma busy_ok: "tenancy busy_db" "jobs_ok busy_db"
proof -
  have "rooted tenant_db" "accounts_ok tenant_db" "orgs_ok tenant_db" "members_ok tenant_db"
    using tenancy_tenant by (simp_all add: tenancy_def)
  moreover have "exists_id P_ID 6 (projects tenant_db)" by (simp add: tenant_db_def exists_id_def)
  ultimately show "tenancy busy_db"
    by (simp add: tenancy_def rooted_def accounts_ok_def orgs_ok_def members_ok_def busy_db_def)
  show "jobs_ok busy_db" by (simp add: jobs_ok_def busy_db_def exists_id_def valid_strategy_def)
qed

definition working :: sys where
  "working = \<lparr>s_db = claim_update 77 100 [1] busy_db, s_inflight = [(77, sample_job 1 StatusPending 5 0)]\<rparr>"

lemma busy_claim: "JobRepo_ClaimBatch no_claim_faults (\<lambda>_. False) 100 7 77 5 2 busy_db =
    (Inr [sample_job 1 StatusPending 5 0], claim_update 77 100 [1] busy_db)"
  by (simp add: JobRepo_ClaimBatch_def no_claim_faults_def running_count_def busy_db_def claim_select_def
      sql_select_def sql_order_def claim_eligible_def Let_def)

lemma working_step: "world_step m reg (sys_start busy_db) working"
  using world_step.claim [of no_claim_faults "\<lambda>_. False" 100 7 77 5 2 "sys_start busy_db" _ _ m reg]
  by (simp add: sys_start_def busy_claim working_def)

abbreviation delete_queue :: "db \<Rightarrow> api_data http \<times> db" where
  "delete_queue \<equiv> sample_request_to DELETE (queues_path ''6'' @ [''7''])"

definition orphaned :: sys where
  "orphaned = working\<lparr>s_db := snd (delete_queue (s_db working))\<rparr>"

lemma orphaned_step: "world_step seg_router reg working orphaned"
  unfolding orphaned_def
  by (rule world_step.request [OF sample_pure]) (simp add: drawn_def working_def sample_api_def)

lemma orphaned_reach: "(world_step seg_router reg)\<^sup>*\<^sup>* (sys_start busy_db) orphaned"
  using working_step orphaned_step by (meson rtranclp.rtrancl_into_rtrancl rtranclp.rtrancl_refl)

lemma orphaned_gone: "job_at (s_db orphaned) 1 = None" "s_inflight orphaned = [(77, sample_job 1 StatusPending 5 0)]"
proof -
  let ?d = "s_db working"
  have role: "project_role_of ?d 6 7 = Some ProjAdmin"
    using tenant_roles(2) by (simp add: working_def claim_update_def busy_db_def project_role_of_def ProjectRepo_GetMember_def
        project_member_join_def [abs_def])
  have q: "sql_count (\<lambda>q. Q_ID q = 7) (queues ?d) = 1" "J_QueueID (mark_running 77 100 (sample_job 1 StatusPending 5 0)) = 7"
    "jobs ?d = [mark_running 77 100 (sample_job 1 StatusPending 5 0)]"
    by (simp_all add: working_def claim_update_def busy_db_def mark_running_def)
  have "snd (delete_queue ?d) = cascade_queues (\<lambda>x. x = 7) ?d"
    using queue_requests(8) [OF seg_router_documented sample_api_sel(1) _ _ _ _ role refl refl, where P = "''6''" and Q = "''7''"]
    by (simp add: sample_api_sel api_request_def gate_def to_queue_section [OF seg_router_documented] queue_h_Delete_def
        handler_steps as_data_def queue_svc_Delete_def QueueRepo_Delete_def exec_tag_def Let_def q(1))
  moreover have "jobs (cascade_queues (\<lambda>x. x = 7) ?d) = []"
    by (simp add: cascade_defs q exists_id_def sql_select_def sql_delete_def)
  ultimately show "job_at (s_db orphaned) 1 = None" by (simp add: orphaned_def job_at_def)
  show "s_inflight orphaned = [(77, sample_job 1 StatusPending 5 0)]" by (simp add: orphaned_def working_def)
qed


lemma busy_job: "job_at (s_db (sys_start busy_db)) 1 = Some (sample_job 1 StatusPending 5 0)"
  "job_at (s_db working) 1 = Some (mark_running 77 100 (sample_job 1 StatusPending 5 0))"
  by (simp_all add: busy_db_def sys_start_def working_def claim_update_def job_at_def mark_running_def)


theorem system_integrity_witness: "jobs_ok (s_db orphaned)"
  using system_integrity [OF seg_router_documented busy_ok orphaned_reach [where reg = echo_registry]] by simp

abbreviation cancel_job :: "db \<Rightarrow> api_data http \<times> db" where
  "cancel_job \<equiv> sample_request_to POST (queues_path ''6'' @ [''7'', ''jobs'', ''1'', ''cancel''])"

lemma busy_rooted: "rooted busy_db"
  using busy_ok by (simp add: tenancy_def)

theorem jobs_lost_by_delete_only_witness: "job_at (snd (cancel_job busy_db)) 1 \<noteq> None"
  using jobs_lost_by_delete_only [OF seg_router_documented busy_rooted sample_pure,
      where q = "sent POST (queues_path ''6'' @ [''7'', ''jobs'', ''1'', ''cancel''])" and i = 1] busy_job(1)
  by (simp add: sys_start_def)


end
