(* ===== verification/Cluster.thy ===== *)
theory Cluster
  imports System WorkerService
begin

text \<open>
  The composition of the worker nodes of \<open>WorkerService\<close> with the system of \<open>System\<close>: several
  worker processes, each with its dispatcher, its channel and its goroutines, on one database that the
  API serves too. The abstract executions in progress of \<open>System\<close> are here the jobs a node has
  claimed and not yet executed: those its dispatcher still submits, those in its channel and those in the
  hands of its goroutines. The composition refines the system, so its invariants hold of the goroutines.
\<close>

section \<open>Simulation with silent steps\<close>

locale stutter_simulation =
  fixes conc :: "'c \<Rightarrow> 'c \<Rightarrow> bool" and abst :: "'a \<Rightarrow> 'a \<Rightarrow> bool" and match :: "'c \<Rightarrow> 'a \<Rightarrow> bool"
  assumes match_step: "conc c c' \<Longrightarrow> match c a \<Longrightarrow> \<exists>a'. abst\<^sup>=\<^sup>= a a' \<and> match c' a'"
begin

lemma match_reach: "conc\<^sup>*\<^sup>* c c' \<Longrightarrow> match c a \<Longrightarrow> \<exists>a'. abst\<^sup>*\<^sup>* a a' \<and> match c' a'"
proof (induction rule: rtranclp_induct)
  case (step c1 c2)
  then obtain a1 where a1: "abst\<^sup>*\<^sup>* a a1" "match c1 a1" by blast
  from match_step [OF step.hyps(2) a1(2)] obtain a2 where "abst\<^sup>=\<^sup>= a1 a2" "match c2 a2" by blast
  then show ?case using a1(1) by (auto intro: rtranclp.rtrancl_into_rtrancl)
qed blast

end

lemma distinct_submset:
  assumes "mset xs \<subseteq># mset ys" and "distinct ys"
  shows "distinct xs"
proof -
  obtain M where "mset ys = mset xs + M" using assms(1) by (auto simp: subset_mset.le_iff_add)
  moreover obtain zs where "M = mset zs" using ex_mset by metis
  ultimately have "mset ys = mset (xs @ zs)" by simp
  then show ?thesis using assms(2) mset_eq_imp_distinct_iff [of ys "xs @ zs"] by simp
qed

section \<open>The jobs of a node\<close>

definition node_jobs :: "node \<Rightarrow> Job multiset" where
  "node_jobs n = mset (unsubmitted (n_disp n)) + mset (pl_chan (n_pool n)) + held_all (pl_workers (n_pool n))"

lemma node_claimed: "node_inv k n \<Longrightarrow> mset (n_claimed n) = mset (pl_executed (n_pool n)) + node_jobs n"
  by (simp add: node_inv_def pool_inv_def node_jobs_def add_ac)

lemma node_jobs_start: "node_jobs (node_start k) = {#}"
  using held_none [of "replicate k WIdle"] by (simp add: node_jobs_def node_start_def Pool_Start_def NewPool_def)

lemma node_jobs_silent:
  assumes "node_inv k n" and "node_step n n'" and "n_claimed n' = n_claimed n" and "pl_executed (n_pool n') = pl_executed (n_pool n)"
  shows "node_jobs n' = node_jobs n"
  using node_claimed [OF assms(1)] node_claimed [OF node_inv_step [OF assms(2,1)]] assms(3,4) by simp

lemma node_jobs_claim: "n_disp n = DTick \<Longrightarrow> node_jobs (n\<lparr>n_disp := DSubmit js, n_claimed := cs\<rparr>) = node_jobs n + mset js"
  by (simp add: node_jobs_def)

lemma node_jobs_execute:
  assumes "i < length (pl_workers (n_pool n))" and "pl_workers (n_pool n) ! i = WRun j" and "worker_step i (n_pool n) = Some p"
  shows "node_jobs n = add_mset j (node_jobs (n\<lparr>n_pool := p\<rparr>))"
  using held_update [OF assms(1), of "WFin j"] assms by (auto simp: worker_step_def node_jobs_def)

text \<open>The jobs the goroutines of a node execute.\<close>

fun executing :: "wphase list \<Rightarrow> Job list" where
  "executing [] = []"
| "executing (WRun j # ws) = j # executing ws"
| "executing (_ # ws) = executing ws"

lemma executing_held: "mset (executing ws) \<subseteq># held_all ws"
proof (induction ws rule: executing.induct)
  case (2 j ws)
  then show ?case by (simp add: held_all_def)
qed (auto simp: held_all_def intro: subset_mset.trans)

lemma executing_jobs: "mset (executing (pl_workers (n_pool n))) \<subseteq># node_jobs n"
  unfolding node_jobs_def by (rule subset_mset.trans [OF executing_held]) simp

section \<open>The cluster\<close>

record cluster =
  cl_db :: db
  cl_nodes :: "(uuid \<times> node) list"

definition cluster_start :: "db \<Rightarrow> cluster" where
  "cluster_start d = \<lparr>cl_db = d, cl_nodes = []\<rparr>"

definition tagged :: "uuid \<times> node \<Rightarrow> (uuid \<times> Job) multiset" where
  "tagged x = image_mset (Pair (fst x)) (node_jobs (snd x))"

definition outstanding :: "(uuid \<times> node) list \<Rightarrow> (uuid \<times> Job) multiset" where
  "outstanding ns = sum_list (map tagged ns)"

text \<open>The executions of the whole cluster, each with the identifier of its worker process.\<close>

definition running_slots :: "cluster \<Rightarrow> (uuid \<times> Job) list" where
  "running_slots c = concat (map (\<lambda>(w, n). map (Pair w) (executing (pl_workers (n_pool n)))) (cl_nodes c))"

text \<open>
  A step of node \<open>k\<close> is an internal one (its history of claims and executions stays as it is), the claim
  of its dispatcher on a tick, or the call of the executor by goroutine \<open>i\<close>, which either returns or
  panics and takes the process down. A process can also be killed, and a new one can join under an
  identifier of its own. The rest is what else happens to the database: the requests of the API and the
  bodies of the other loops of the nodes.
\<close>

inductive cl_step :: "router \<Rightarrow> registry \<Rightarrow> cluster \<Rightarrow> cluster \<Rightarrow> bool" for m reg where
  internal: "k < length (cl_nodes c) \<Longrightarrow> cl_nodes c ! k = (w, n) \<Longrightarrow> node_step n n' \<Longrightarrow>
    n_claimed n' = n_claimed n \<Longrightarrow> pl_executed (n_pool n') = pl_executed (n_pool n) \<Longrightarrow>
    cl_step m reg c (c\<lparr>cl_nodes := (cl_nodes c)[k := (w, n')]\<rparr>)"
| claim: "k < length (cl_nodes c) \<Longrightarrow> cl_nodes c ! k = (w, n) \<Longrightarrow> n_disp n = DTick \<Longrightarrow> 0 < AvailableWorkers (n_pool n) \<Longrightarrow>
    D_workerID dsp = w \<Longrightarrow> dispatchQueue dsp qe q (cl_db c) = (js, d') \<Longrightarrow>
    cl_step m reg c (c\<lparr>cl_db := d', cl_nodes := (cl_nodes c)[k := (w, n\<lparr>n_disp := DSubmit js, n_claimed := n_claimed n @ js\<rparr>)]\<rparr>)"
| execute: "k < length (cl_nodes c) \<Longrightarrow> cl_nodes c ! k = (w, n) \<Longrightarrow> i < length (pl_workers (n_pool n)) \<Longrightarrow>
    pl_workers (n_pool n) ! i = WRun j \<Longrightarrow> worker_step i (n_pool n) = Some p \<Longrightarrow>
    execute_job f now reg env j (cl_db c) = (ExecDone, d') \<Longrightarrow>
    cl_step m reg c (c\<lparr>cl_db := d', cl_nodes := (cl_nodes c)[k := (w, n\<lparr>n_pool := p\<rparr>)]\<rparr>)"
| panic: "(w, n) \<in> set (cl_nodes c) \<Longrightarrow> i < length (pl_workers (n_pool n)) \<Longrightarrow> pl_workers (n_pool n) ! i = WRun j \<Longrightarrow>
    execute_job f now reg env j (cl_db c) = (ExecPanic, d') \<Longrightarrow>
    cl_step m reg c (c\<lparr>cl_db := d', cl_nodes := filter (\<lambda>x. fst x \<noteq> w) (cl_nodes c)\<rparr>)"
| kill: "cl_step m reg c (c\<lparr>cl_nodes := filter (\<lambda>x. fst x \<noteq> w) (cl_nodes c)\<rparr>)"
| join: "w \<notin> fst ` set (cl_nodes c) \<Longrightarrow> cl_step m reg c (c\<lparr>cl_nodes := cl_nodes c @ [(w, node_start sz)]\<rparr>)"
| request: "ws_pure E \<Longrightarrow> (\<And>x. x \<in># outstanding (cl_nodes c) \<Longrightarrow> \<not> drawn E (J_ID (snd x))) \<Longrightarrow>
    cl_step m reg c (c\<lparr>cl_db := snd (api_request m v f h E rq cn (cl_db c))\<rparr>)"
| promote: "cl_step m reg c (c\<lparr>cl_db := Scheduler_promote f now (cl_db c)\<rparr>)"
| reclaim: "(\<And>x r. x \<in># outstanding (cl_nodes c) \<Longrightarrow> job_at (cl_db c) (J_ID (snd x)) = Some r \<Longrightarrow>
      \<not> stale_running now (whole_seconds vis) r) \<Longrightarrow>
    cl_step m reg c (c\<lparr>cl_db := Reaper_reclaim f now vis (cl_db c)\<rparr>)"
| heartbeat: "cl_step m reg c (c\<lparr>cl_db := Heartbeater_tick f now w (cl_db c)\<rparr>)"
| register: "cl_step m reg c (c\<lparr>cl_db := snd (WorkerRepo_Register f now wi (cl_db c))\<rparr>)"
| fire: "cl_step m reg c (c\<lparr>cl_db := snd (executeFire parse ff ids dbnow cj now (cl_db c))\<rparr>)"

section \<open>The nodes keep their invariants\<close>

definition nodes_ok :: "(uuid \<times> node) list \<Rightarrow> bool" where
  "nodes_ok ns \<longleftrightarrow> distinct (map fst ns) \<and> (\<forall>x\<in>set ns. \<exists>k. node_inv k (snd x))"

lemma nodes_ok_update:
  assumes "nodes_ok ns" and "k < length ns" and "ns ! k = (w, n)" and "\<And>i. node_inv i n \<Longrightarrow> node_inv i n'"
  shows "nodes_ok (ns[k := (w, n')])"
proof -
  obtain i where "node_inv i n" using assms(1-3) nth_mem [OF assms(2)] by (auto simp: nodes_ok_def)
  then have "\<exists>i. node_inv i n'" using assms(4) by blast
  moreover have "map fst (ns[k := (w, n')]) = map fst ns"
    using assms(2,3) by (metis fst_conv list_update_id map_update)
  moreover have "x = (w, n') \<or> x \<in> set ns" if "x \<in> set (ns[k := (w, n')])" for x
    using that set_update_subset_insert [of ns k "(w, n')"] by blast
  ultimately show ?thesis using assms(1) unfolding nodes_ok_def by (metis snd_conv)
qed

lemma nodes_ok_nth:
  assumes "nodes_ok ns" and "k < length ns" and "ns ! k = (w, n)"
  obtains i where "node_inv i n"
  using assms nth_mem [OF assms(2)] by (auto simp: nodes_ok_def)

lemma nodes_ok_filter: "nodes_ok ns \<Longrightarrow> nodes_ok (filter P ns)"
  by (auto simp: nodes_ok_def distinct_map_filter)

lemma nodes_ok_join: "nodes_ok ns \<Longrightarrow> w \<notin> fst ` set ns \<Longrightarrow> nodes_ok (ns @ [(w, node_start k)])"
  using node_inv_start [of k] by (auto simp: nodes_ok_def)

lemma claim_node_step:
  "n_disp n = DTick \<Longrightarrow> 0 < AvailableWorkers (n_pool n) \<Longrightarrow> node_inv i n \<Longrightarrow>
   node_inv i (n\<lparr>n_disp := DSubmit js, n_claimed := n_claimed n @ js\<rparr>)"
  by (rule node_inv_step [OF node_step.disp_claim])

lemma cl_step_nodes: "cl_step m reg c c' \<Longrightarrow> nodes_ok (cl_nodes c) \<Longrightarrow> nodes_ok (cl_nodes c')"
proof (induction rule: cl_step.induct)
  case (internal k c w n n')
  then show ?case using nodes_ok_update [OF internal.prems internal.hyps(1,2) node_inv_step [OF internal.hyps(3)]] by simp
next
  case (claim k c w n dsp qe q js d')
  then show ?case using nodes_ok_update [OF claim.prems claim.hyps(1,2) claim_node_step [OF claim.hyps(3,4)]] by simp
next
  case (execute k c w n i j p f now env d')
  then show ?case
    using nodes_ok_update [OF execute.prems execute.hyps(1,2) node_inv_step [OF node_step.work [OF execute.hyps(5)]]] by simp
qed (simp_all add: nodes_ok_filter nodes_ok_join)

section \<open>The jobs of the cluster under a step\<close>

lemma outstanding_update:
  assumes "k < length ns" and "ns ! k = (w, n)"
  shows "outstanding (ns[k := (w, n')]) + tagged (w, n) = outstanding ns + tagged (w, n')"
  using sum_list_update_split [OF assms(1), of tagged "(w, n')"] assms(2) by (simp add: outstanding_def)

lemma outstanding_append [simp]: "outstanding (ns @ ms) = outstanding ns + outstanding ms"
  by (simp add: outstanding_def)

lemma outstanding_same:
  assumes "k < length ns" and "ns ! k = (w, n)" and "node_jobs n' = node_jobs n"
  shows "outstanding (ns[k := (w, n')]) = outstanding ns"
  using outstanding_update [OF assms(1,2), of n'] assms(3) by (simp add: tagged_def)

lemma outstanding_more:
  assumes "k < length ns" and "ns ! k = (w, n)" and "node_jobs n' = node_jobs n + mset js"
  shows "outstanding (ns[k := (w, n')]) = outstanding ns + mset (map (Pair w) js)"
  using outstanding_update [OF assms(1,2), of n'] assms(3) by (simp add: tagged_def)

lemma outstanding_less:
  assumes "k < length ns" and "ns ! k = (w, n)" and "node_jobs n = add_mset j (node_jobs n')"
  shows "outstanding ns = add_mset (w, j) (outstanding (ns[k := (w, n')]))"
  using outstanding_update [OF assms(1,2), of n'] assms(3) by (simp add: tagged_def)

lemma tagged_filter: "filter_mset (\<lambda>y. fst y \<noteq> w) (tagged x) = (if fst x = w then {#} else tagged x)"
  by (simp add: tagged_def filter_mset_image_mset)

lemma outstanding_filter: "outstanding (filter (\<lambda>x. fst x \<noteq> w) ns) = filter_mset (\<lambda>y. fst y \<noteq> w) (outstanding ns)"
  by (induction ns) (simp_all add: outstanding_def tagged_filter)

lemma running_outstanding: "mset (running_slots c) \<subseteq># outstanding (cl_nodes c)"
proof -
  have "mset (concat (map (\<lambda>(w, n). map (Pair w) (executing (pl_workers (n_pool n)))) ns)) \<subseteq># outstanding ns" for ns
  proof (induction ns)
    case (Cons x ns)
    obtain w n where x: "x = (w, n)" by (cases x)
    have "image_mset (Pair w) (mset (executing (pl_workers (n_pool n)))) \<subseteq># tagged x"
      unfolding tagged_def x by (simp add: image_mset_subseteq_mono executing_jobs)
    then show ?case using Cons.IH by (simp add: outstanding_def x subset_mset.add_mono)
  qed (simp add: outstanding_def)
  then show ?thesis by (simp add: running_slots_def)
qed

section \<open>The cluster refines the system\<close>

definition cl_match :: "cluster \<Rightarrow> sys \<Rightarrow> bool" where
  "cl_match c s \<longleftrightarrow> nodes_ok (cl_nodes c) \<and> s_db s = cl_db c \<and> mset (s_inflight s) = outstanding (cl_nodes c)"

lemma match_same:
  "cl_match c s \<Longrightarrow> nodes_ok ns \<Longrightarrow> outstanding ns = outstanding (cl_nodes c) \<Longrightarrow>
   \<exists>s'. (world_step m reg)\<^sup>=\<^sup>= s s' \<and> cl_match (c\<lparr>cl_nodes := ns\<rparr>) s'"
  by (rule exI [of _ s]) (simp add: cl_match_def)

lemma match_db:
  assumes "cl_match c s" and "world_step m reg s (s\<lparr>s_db := d'\<rparr>)"
  shows "\<exists>s'. (world_step m reg)\<^sup>=\<^sup>= s s' \<and> cl_match (c\<lparr>cl_db := d'\<rparr>) s'"
  using assms by (intro exI [of _ "s\<lparr>s_db := d'\<rparr>"]) (simp add: cl_match_def)

lemma match_drop:
  assumes "cl_match c s"
  shows "\<exists>s'. (world_step m reg)\<^sup>=\<^sup>= s s' \<and> cl_match (c\<lparr>cl_nodes := filter (\<lambda>x. fst x \<noteq> w) (cl_nodes c)\<rparr>) s'"
  using assms world_step.crash [of m reg s w]
  by (intro exI [of _ "s\<lparr>s_inflight := filter (\<lambda>x. fst x \<noteq> w) (s_inflight s)\<rparr>"])
    (simp add: cl_match_def nodes_ok_filter outstanding_filter)

lemma dispatchQueue_step:
  assumes "dispatchQueue dsp qe q (s_db s) = (js, d')"
  shows "(world_step m reg)\<^sup>=\<^sup>= s (s\<lparr>s_db := d', s_inflight := s_inflight s @ map (Pair (D_workerID dsp)) js\<rparr>)"
  using assms
proof (cases rule: dispatchQueue_cases)
  case (claimed n)
  then show ?thesis using world_step.claim [of _ _ _ _ "D_workerID dsp"] by blast
qed simp

lemma execute_panic: "execute_job f now reg env j d = (ExecPanic, d') \<Longrightarrow> d' = d"
  by (auto simp: execute_job_def Executor_Execute_def Let_def split: sum.splits hresult.splits option.splits if_splits)

lemma cl_step_simulated:
  assumes "cl_step m reg c c'" and "cl_match c s"
  shows "\<exists>s'. (world_step m reg)\<^sup>=\<^sup>= s s' \<and> cl_match c' s'"
  using assms
proof (induction rule: cl_step.induct)
  case (internal k c w n n')
  have ok: "nodes_ok (cl_nodes c)" using internal.prems by (simp add: cl_match_def)
  obtain i where "node_inv i n" using nodes_ok_nth [OF ok internal.hyps(1,2)] .
  then show ?case
    using match_same [OF internal.prems] nodes_ok_update [OF ok internal.hyps(1,2) node_inv_step [OF internal.hyps(3)]]
      outstanding_same [OF internal.hyps(1,2) node_jobs_silent [OF _ internal.hyps(3-5)]] by blast
next
  case (claim k c w n dsp qe q js d')
  let ?n = "n\<lparr>n_disp := DSubmit js, n_claimed := n_claimed n @ js\<rparr>"
  let ?s = "s\<lparr>s_db := d', s_inflight := s_inflight s @ map (Pair w) js\<rparr>"
  have "(world_step m reg)\<^sup>=\<^sup>= s ?s"
    using dispatchQueue_step [of dsp qe q s js d' m reg] claim.hyps(5,6) claim.prems by (simp add: cl_match_def)
  moreover have "cl_match (c\<lparr>cl_db := d', cl_nodes := (cl_nodes c)[k := (w, ?n)]\<rparr>) ?s"
    using claim.prems nodes_ok_update [OF _ claim.hyps(1,2) claim_node_step [OF claim.hyps(3,4)]]
      outstanding_more [OF claim.hyps(1,2) node_jobs_claim [OF claim.hyps(3)]] by (simp add: cl_match_def)
  ultimately show ?case by blast
next
  case (execute k c w n i j p f now env d')
  let ?n = "n\<lparr>n_pool := p\<rparr>"
  let ?s = "s\<lparr>s_db := d', s_inflight := remove1 (w, j) (s_inflight s)\<rparr>"
  note o = outstanding_less [OF execute.hyps(1,2) node_jobs_execute [OF execute.hyps(3-5)]]
  have "(w, j) \<in> set (s_inflight s)"
    using execute.prems o unfolding cl_match_def by (metis set_mset_mset union_single_eq_member)
  then have "world_step m reg s ?s" using world_step.finish execute.hyps(6) execute.prems by (simp add: cl_match_def)
  moreover have "cl_match (c\<lparr>cl_db := d', cl_nodes := (cl_nodes c)[k := (w, ?n)]\<rparr>) ?s"
    using execute.prems nodes_ok_update [OF _ execute.hyps(1,2) node_inv_step [OF node_step.work [OF execute.hyps(5)]]]
    by (simp add: cl_match_def o)
  ultimately show ?case by blast
next
  case (panic w n c i j f now env d')
  then show ?case using match_drop [of c s m reg w] execute_panic [OF panic.hyps(4)] by simp
next
  case (kill c w)
  then show ?case by (rule match_drop)
next
  case (join w c sz)
  then show ?case
    by (intro match_same) (simp_all add: nodes_ok_join cl_match_def, simp add: outstanding_def tagged_def node_jobs_start)
next
  case (request E c v f h rq cn)
  then have "list_all (\<lambda>x. \<not> drawn E (J_ID (snd x))) (s_inflight s)"
    unfolding cl_match_def list_all_iff by (metis set_mset_mset)
  then show ?case using world_step.request [OF request.hyps(1), of s m reg v f h rq cn] request.prems
    by (intro match_db) (simp_all add: cl_match_def)
next
  case (reclaim c now vis f)
  then have "no_inflight_stale now vis s"
    unfolding cl_match_def no_inflight_stale_def list_all_iff by (auto simp flip: set_mset_mset split: option.split)
  then show ?case using world_step.reclaim [of now vis s m reg f] reclaim.prems
    by (intro match_db) (simp_all add: cl_match_def)
next
  case (promote c f now)
  then show ?case using world_step.promote [of m reg s f now] by (intro match_db) (simp_all add: cl_match_def)
next
  case (heartbeat c f now w)
  then show ?case using world_step.heartbeat [of m reg s f now w] by (intro match_db) (simp_all add: cl_match_def)
next
  case (register c f now wi)
  then show ?case using world_step.register [of m reg s f now wi] by (intro match_db) (simp_all add: cl_match_def)
next
  case (fire c parse ff ids dbnow cj now)
  then show ?case using world_step.fire [of m reg s parse ff ids dbnow cj now] by (intro match_db) (simp_all add: cl_match_def)
qed

interpretation cl: stutter_simulation "cl_step m reg" "world_step m reg" cl_match for m reg
  by unfold_locales (rule cl_step_simulated)

lemma match_start: "cl_match (cluster_start d) (sys_start d)"
  by (simp add: cl_match_def cluster_start_def sys_start_def nodes_ok_def outstanding_def)



section \<open>A run of a cluster\<close>

text \<open>A process with one slot claims the only job of \<open>busy_db\<close> and its goroutine starts executing it.\<close>

lemma one_node_step:
  "node_step n n' \<Longrightarrow> n_claimed n' = n_claimed n \<Longrightarrow> pl_executed (n_pool n') = pl_executed (n_pool n) \<Longrightarrow>
   cl_step m reg \<lparr>cl_db = d, cl_nodes = [(w, n)]\<rparr> \<lparr>cl_db = d, cl_nodes = [(w, n')]\<rparr>"
  using cl_step.internal [of 0 "\<lparr>cl_db = d, cl_nodes = [(w, n)]\<rparr>" w n n' m reg] by simp

definition one_slot :: "disp \<Rightarrow> Job list \<Rightarrow> wphase \<Rightarrow> int \<Rightarrow> Job list \<Rightarrow> node" where
  "one_slot dp chan w act js = \<lparr>n_cancelled = False, n_loops = replicate 4 LWait, n_disp = dp, n_main = MRun,
     n_pool = \<lparr>pl_concurrency = 1, pl_chan = chan, pl_closed = False, pl_workers = [w], pl_active = act,
       pl_submitted = js, pl_executed = []\<rparr>, n_claimed = [sample_job 1 StatusPending 5 0]\<rparr>"

definition busy_cluster :: cluster where
  "busy_cluster = \<lparr>cl_db = claim_update 77 100 [1] busy_db,
     cl_nodes = [(77, one_slot (DSubmit []) [] (WRun (sample_job 1 StatusPending 5 0)) 1 [sample_job 1 StatusPending 5 0])]\<rparr>"

lemma busy_dispatch: "dispatchQueue sample_dispatcher sample_qenv sample_queue busy_db =
    ([sample_job 1 StatusPending 5 0], claim_update 77 100 [1] busy_db)"
  by (simp add: dispatchQueue_def sample_dispatcher_def sample_qenv_def JobRepo_ClaimBatch_def no_claim_faults_def running_count_def
      busy_db_def claim_select_def sql_select_def sql_order_def claim_eligible_def Let_def)

lemma busy_cluster_reach: "(cl_step m reg)\<^sup>*\<^sup>* (cluster_start busy_db) busy_cluster"
proof -
  let ?j = "sample_job 1 StatusPending 5 0" and ?d = "claim_update 77 100 [1] busy_db" and ?n = "(node_start 1)\<lparr>n_disp := DTick\<rparr>"
  let ?c = "\<lambda>d n. \<lparr>cl_db = d, cl_nodes = [(77, n)]\<rparr>"
  have 1: "cl_step m reg (cluster_start busy_db) (?c busy_db (node_start 1))"
    using cl_step.join [of 77 "cluster_start busy_db" m reg 1] by (simp add: cluster_start_def)
  have 2: "cl_step m reg (?c busy_db (node_start 1)) (?c busy_db ?n)"
    by (intro one_node_step node_step.disp_tick) (simp_all add: node_start_def)
  have 3: "cl_step m reg (?c busy_db ?n) (?c ?d (one_slot (DSubmit [?j]) [] WIdle 0 []))"
    using cl_step.claim [of 0 "?c busy_db ?n" 77 ?n sample_dispatcher sample_qenv sample_queue "[?j]" ?d m reg] busy_dispatch
    by (simp add: node_start_def Pool_Start_def NewPool_def AvailableWorkers_def sample_dispatcher_def one_slot_def)
  have 4: "cl_step m reg (?c ?d (one_slot (DSubmit [?j]) [] WIdle 0 [])) (?c ?d (one_slot (DSubmit []) [?j] WIdle 0 [?j]))"
    by (intro one_node_step node_step.disp_submit) (simp_all add: one_slot_def submit_step_def Pool_Submit_def)
  have 5: "cl_step m reg (?c ?d (one_slot (DSubmit []) [?j] WIdle 0 [?j])) (?c ?d (one_slot (DSubmit []) [] (WGot ?j) 0 [?j]))"
    using node_step.work [of 0 "one_slot (DSubmit []) [?j] WIdle 0 [?j]"]
    by (intro one_node_step) (simp_all add: one_slot_def worker_step_def)
  have 6: "cl_step m reg (?c ?d (one_slot (DSubmit []) [] (WGot ?j) 0 [?j])) busy_cluster"
    using node_step.work [of 0 "one_slot (DSubmit []) [] (WGot ?j) 0 [?j]"] unfolding busy_cluster_def
    by (intro one_node_step) (simp_all add: one_slot_def worker_step_def)
  show ?thesis using 1 2 3 4 5 6 by (meson rtranclp.rtrancl_into_rtrancl rtranclp.rtrancl_refl)
qed


end
