(* ===== verification/Timing.thy ===== *)
theory Timing
  imports System
begin

text \<open>
  When jobs run, in the whole system: no job is claimed before its run time, whatever its run time comes from (the
  request, the backoff of a failed attempt, a manual retry), and the run time of a waiting job does not move.
\<close>

definition started_on_time :: "Job \<Rightarrow> bool" where
  "started_on_time r \<longleftrightarrow> J_Status r \<noteq> StatusRunning \<or> (case J_ClaimedAt r of None \<Rightarrow> False | Some c \<Rightarrow> J_RunAt r \<le> c)"

definition on_time :: "db \<Rightarrow> bool" where
  "on_time d \<longleftrightarrow> list_all started_on_time (jobs d)"

lemma on_time_rows:
  assumes "distinct (map J_ID (jobs d))"
  shows "on_time d \<longleftrightarrow> (\<forall>i r. job_at d i = Some r \<longrightarrow> started_on_time r)"
  unfolding on_time_def list_all_iff job_at_def using sql_row_key [OF assms] sql_row_Some by fast

lemma started_core: "core r' = core r \<Longrightarrow> started_on_time r \<Longrightarrow> started_on_time r'"
  by (simp add: started_on_time_def core_eq(3,11,12) [of r' r] cong: option.case_cong)

text \<open>A step starts no job before its time.\<close>

lemma started_step:
  assumes "world_step m reg s s'" and "documented_router m" and "world_ok s"
    and "\<And>i r. job_at (s_db s) i = Some r \<Longrightarrow> started_on_time r" and "job_at (s_db s') i = Some y'"
  shows "started_on_time y'"
  using assms(1,3-5)
proof (induction rule: world_step.induct)
  case (request E s v f n q c)
  have "rooted (s_db s)" using request.prems by (auto simp: world_ok_def tenancy_def)
  from sound_request [OF assms(2) this request.hyps(1), of q v f n c]
  have e: "job_effect (drawn E) (RQ_Method q = DELETE) (s_db s) (snd (api_request m v f n E q c (s_db s)))"
    by (simp add: sound_def)
  show ?case
  proof (cases "J_Status y' = StatusRunning")
    case True
    then obtain r where "job_at (s_db s) i = Some r" "core y' = core r" using job_effectD(4) [OF e _ True] request.prems(3) by auto
    then show ?thesis using started_core request.prems(2) by blast
  qed (simp add: started_on_time_def)
next
  case (claim cf locked now qid wid k conc s js d')
  have d: "distinct (map J_ID (jobs (s_db s)))" using claim.prems(1) by (simp add: world_ok_def jobs_ok_def)
  obtain r where r: "job_at (s_db s) i = Some r"
    using claim_job_at_None [OF claim.hyps d] claim.prems(3) by (cases "job_at (s_db s) i") auto
  have "J_RunAt r \<le> now" if "i \<in> J_ID ` set js"
    using claim_rows(4) [OF claim.hyps d] that r by (auto simp: claim_eligible_def)
  then show ?case using claim_row_status [OF claim.hyps d r] claim.prems(2,3) r
    by (auto simp: started_on_time_def mark_running_def split: if_splits)
next
  case (finish w j s f now env d')
  show ?case
  proof (cases "job_at (s_db s) i")
    case None
    have "job_at d' i = None"
      using finish.hyps(2) repo.Execute_frame [of i j f now reg env "s_db s"] None
        repo.Execute_row [where f = f and now = now and reg = reg and env = env and j = j and s = "s_db s"]
      by (cases "i = J_ID j") (auto simp: execute_job_def)
    then show ?thesis using finish.prems(3) by simp
  next
    case (Some r)
    then show ?thesis using finish_row [OF Some, of f now reg env j] finish.hyps(2) finish.prems(2,3)
      by (auto simp: started_on_time_def set_row_defs)
  qed
next
  case (promote s f now)
  then show ?case by (auto simp: promote_row started_on_time_def split: if_splits)
next
  case (reclaim now vis s f)
  then show ?case by (auto simp: reclaim_row started_on_time_def split: if_splits)
next
  case (heartbeat s f now w)
  then show ?case using only_same [OF worker_frames(5), of TJobs "s_db s" f now w] by (auto simp: job_at_def)
next
  case (register s f now wi)
  then show ?case using only_same [OF worker_frames(6), of TJobs "s_db s" f now wi] by (auto simp: job_at_def)
next
  case (fire s parse ff k dbnow cj now)
  then show ?case by (auto simp: job_at_def executeFire_jobs)
qed auto

lemma on_time_reach:
  assumes "(world_step m reg)\<^sup>*\<^sup>* s s'" and "documented_router m" and "world_ok s" and "on_time (s_db s)"
  shows "on_time (s_db s')"
  using assms(1)
proof (induction rule: rtranclp_induct)
  case (step s1 s2)
  have ok: "world_ok s1" "world_ok s2"
    using world_reach [OF step.hyps(1) assms(2,3)] world_step_ok [OF step.hyps(2) assms(2)] by auto
  then have "distinct (map J_ID (jobs (s_db s1)))" "distinct (map J_ID (jobs (s_db s2)))" by (simp_all add: world_ok_def jobs_ok_def)
  then show ?case using step.IH started_step [OF step.hyps(2) assms(2) ok(1)] by (simp add: on_time_rows)
qed (rule assms(4))



end
