(* ===== verification/Attempts.thy ===== *)
theory Attempts
  imports System
begin

text \<open>
  How often a job is executed, in the whole system of \<open>System\<close>. \<open>job_run\<close> follows the life of one row and
  counts the executions that ended, the manual retries and the times the reaper returned the job; the number of
  executions is bounded by the attempts the job was given and by the two other counts.
\<close>

section \<open>The life of a row\<close>

text \<open>Counts of one job: executions that ended, manual retries, returns by the reaper.\<close>

record tally =
  t_execs :: nat
  t_retries :: nat
  t_reclaims :: nat

definition executed_ids :: "sys \<Rightarrow> uuid set" where
  "executed_ids s = J_ID ` snd ` set (s_inflight s)"

text \<open>What a step other than the end of an execution adds, by the row before and after it.\<close>

definition tally_step :: "Job \<Rightarrow> Job \<Rightarrow> tally \<Rightarrow> tally" where
  "tally_step y y' t =
     (if J_Status y' \<noteq> StatusPending then t
      else if J_Status y = StatusDead \<or> J_Status y = StatusFailed then t\<lparr>t_retries := t_retries t + 1\<rparr>
      else if J_Status y = StatusRunning then t\<lparr>t_reclaims := t_reclaims t + 1\<rparr>
      else t)"

text \<open>
  A run of the system as long as the row of job \<open>i\<close> exists. The end of an execution of the job is a step of its
  own; any other step leaves its execution in progress or, in a crash, the database as it is. (An execution whose
  outcome could not be stored looks like a crash, and may be counted or not.)
\<close>

inductive job_run :: "router \<Rightarrow> registry \<Rightarrow> uuid \<Rightarrow> sys \<Rightarrow> tally \<Rightarrow> sys \<Rightarrow> bool" for m reg i s0 where
  start: "job_run m reg i s0 \<lparr>t_execs = 0, t_retries = 0, t_reclaims = 0\<rparr> s0"
| execution: "job_run m reg i s0 t s \<Longrightarrow> (w, j) \<in> set (s_inflight s) \<Longrightarrow> J_ID j = i \<Longrightarrow>
    execute_job f now reg env j (s_db s) = (ExecDone, d') \<Longrightarrow>
    job_run m reg i s0 (t\<lparr>t_execs := t_execs t + 1\<rparr>) (s\<lparr>s_db := d', s_inflight := remove1 (w, j) (s_inflight s)\<rparr>)"
| other: "job_run m reg i s0 t s \<Longrightarrow> world_step m reg s s' \<Longrightarrow> job_at (s_db s) i = Some y \<Longrightarrow> job_at (s_db s') i = Some y' \<Longrightarrow>
    s_db s' = s_db s \<or> (i \<in> executed_ids s \<longrightarrow> i \<in> executed_ids s') \<Longrightarrow> job_run m reg i s0 (tally_step y y' t) s'"

section \<open>Executions and rows\<close>

lemma executed_running:
  assumes "world_ok s" and "i \<in> executed_ids s" and "job_at (s_db s) i = Some y"
  shows "J_Status y = StatusRunning"
  using assms by (auto simp: executed_ids_def world_ok_def list_all_iff held_def)

lemma executed_removed:
  assumes "world_ok s" and "(w, j) \<in> set (s_inflight s)"
  shows "J_ID j \<notin> executed_ids (s\<lparr>s_db := d', s_inflight := remove1 (w, j) (s_inflight s)\<rparr>)"
proof
  assume "J_ID j \<in> executed_ids (s\<lparr>s_db := d', s_inflight := remove1 (w, j) (s_inflight s)\<rparr>)"
  then obtain x where x: "x \<in> set (remove1 (w, j) (s_inflight s))" "(J_ID \<circ> snd) x = (J_ID \<circ> snd) (w, j)"
    by (auto simp: executed_ids_def)
  have d: "distinct (s_inflight s)" "inj_on (J_ID \<circ> snd) (set (s_inflight s))"
    using assms(1) by (simp_all add: world_ok_def distinct_map)
  then have "x \<in> set (s_inflight s)" "x \<noteq> (w, j)" using x(1) by simp_all
  then show False using inj_onD [OF d(2) x(2) _ assms(2)] by blast
qed

text \<open>Executions start with a claim, of a pending row.\<close>

lemma inflight_grows:
  assumes "world_step m reg s s'" and "world_ok s" and "x \<in> set (s_inflight s')"
  shows "x \<in> set (s_inflight s) \<or> (job_at (s_db s) (J_ID (snd x)) = Some (snd x) \<and> J_Status (snd x) = StatusPending)"
  using assms
proof (induction rule: world_step.induct)
  case (claim cf locked now qid wid k conc s js d')
  have "distinct (map J_ID (jobs (s_db s)))" using claim.prems(1) by (simp add: world_ok_def jobs_ok_def)
  from claim_rows(4) [OF claim.hyps this] show ?case using claim.prems(2) by (auto simp: claim_eligible_def)
next
  case (finish w j s f now env d')
  then show ?case using notin_set_remove1 [of x "s_inflight s" "(w, j)"] by auto
qed simp_all

text \<open>Only the end of an execution changes the attempt count; other steps leave a running row or return it.\<close>

lemma attempts_kept:
  assumes "world_step m reg s s'" and "documented_router m" and "world_ok s" and "job_at (s_db s) i = Some y"
    and "job_at (s_db s') i = Some y'" and "s_db s' = s_db s \<or> (i \<in> executed_ids s \<longrightarrow> i \<in> executed_ids s')"
  shows "J_AttemptCount y' = J_AttemptCount y \<and>
    (J_Status y = StatusRunning \<longrightarrow> J_Status y' = StatusRunning \<or> J_Status y' = StatusPending)"
proof (cases "J_Status y = StatusRunning")
  case False
  then show ?thesis using world_row [OF assms(1-5)] by (auto simp: row_step_def dest: core_eq(9))
next
  case True
  from assms(1,3-6) True show ?thesis
  proof (induction rule: world_step.induct)
    case (request E s v f n q c)
    have "rooted (s_db s)" using request.prems by (auto simp: world_ok_def tenancy_def)
    from sound_request [OF assms(2) this request.hyps(1), of q v f n c]
    have e: "job_effect (drawn E) (RQ_Method q = DELETE) (s_db s) (snd (api_request m v f n E q c (s_db s)))"
      by (simp add: sound_def)
    have "job_at (snd (api_request m v f n E q c (s_db s))) i = Some y'" using request.prems(3) by simp
    then show ?case using job_effectD(3) [OF e request.prems(2)] request.prems(5) core_eq(3,9) by metis
  next
    case (claim cf locked now qid wid k conc s js d')
    have "distinct (map J_ID (jobs (s_db s)))" using claim.prems(1) by (simp add: world_ok_def jobs_ok_def)
    from claim_row_status [OF claim.hyps this claim.prems(2)] claim.prems(3) show ?case
      by (auto simp: mark_running_def split: if_splits)
  next
    case (finish w j s f now env d')
    show ?case
    proof (cases "i = J_ID j")
      case True
      have "J_ID j \<in> executed_ids s" using finish.hyps(1) by (force simp: executed_ids_def)
      then have "d' = s_db s" using finish.prems(4) executed_removed [OF finish.prems(1) finish.hyps(1), of d'] True by simp
      then show ?thesis using finish.prems(2,3,5) by simp
    next
      case False
      then show ?thesis using finish.prems(2,3,5) repo.Execute_frame [of i j f now reg env "s_db s"] finish.hyps(2)
        by (simp add: execute_job_def)
    qed
  next
    case (promote s f now)
    then show ?case by (auto simp: promote_row split: if_splits)
  next
    case (reclaim now vis s f)
    then show ?case by (auto simp: reclaim_row split: if_splits)
  next
    case (heartbeat s f now w)
    then show ?case using only_same [OF worker_frames(5), of TJobs "s_db s" f now w] by (simp add: job_at_def)
  next
    case (register s f now wi)
    then show ?case using only_same [OF worker_frames(6), of TJobs "s_db s" f now wi] by (simp add: job_at_def)
  next
    case (fire s parse ff k dbnow cj now)
    then show ?case by (simp add: job_at_def executeFire_jobs)
  qed simp
qed

section \<open>The invariant of a run\<close>

text \<open>The room that is left: \<open>b\<close> is the bound of the attempt count.\<close>

definition room :: "int \<Rightarrow> Job \<Rightarrow> bool \<Rightarrow> tally \<Rightarrow> bool" where
  "room b y busy t \<longleftrightarrow> (let a = J_AttemptCount y; e = int (t_execs t) - int (t_reclaims t) in case J_Status y of
       StatusPending \<Rightarrow> e \<le> a \<and> a + 1 \<le> b
     | StatusScheduled \<Rightarrow> e \<le> a \<and> a + 1 \<le> b
     | StatusRunning \<Rightarrow> e + of_bool busy \<le> a + 1 \<and> a + 1 \<le> b
     | StatusSucceeded \<Rightarrow> e \<le> a + 1 \<and> a + 1 \<le> b
     | _ \<Rightarrow> e \<le> a \<and> a \<le> b)"

definition run_inv :: "uuid \<Rightarrow> int \<Rightarrow> tally \<Rightarrow> sys \<Rightarrow> bool" where
  "run_inv i M t s \<longleftrightarrow> world_ok s \<and> (\<forall>x\<in>set (s_inflight s). J_ID (snd x) = i \<longrightarrow> J_MaxRetries (snd x) = M) \<and>
     (case job_at (s_db s) i of None \<Rightarrow> False
      | Some y \<Rightarrow> J_MaxRetries y = M \<and> room (max 1 M + int (t_retries t)) y (i \<in> executed_ids s) t)"

lemma room_bound: "room b y busy t \<Longrightarrow> int (t_execs t) \<le> b + int (t_reclaims t)"
  by (cases busy; cases "J_Status y") (auto simp: room_def Let_def)

lemma run_inv_start:
  assumes "world_ok s" and "job_at (s_db s) i = Some y" and "J_Status y = StatusPending \<or> J_Status y = StatusScheduled"
    and "J_AttemptCount y = 0"
  shows "run_inv i (J_MaxRetries y) \<lparr>t_execs = 0, t_retries = 0, t_reclaims = 0\<rparr> s"
proof -
  have "J_ID (snd x) \<noteq> i" if "x \<in> set (s_inflight s)" for x
    using assms(1-3) that executed_running [OF assms(1) _ assms(2)] by (auto simp: executed_ids_def)
  then show ?thesis using assms by (auto simp: run_inv_def room_def)
qed

lemma run_inv_execution:
  assumes inv: "run_inv i M t s" and m: "(w, j) \<in> set (s_inflight s)" "J_ID j = i" and doc: "documented_router r"
    and x: "execute_job f now reg env j (s_db s) = (ExecDone, d')"
  shows "run_inv i M (t\<lparr>t_execs := t_execs t + 1\<rparr>) (s\<lparr>s_db := d', s_inflight := remove1 (w, j) (s_inflight s)\<rparr>)"
    (is "run_inv i M ?t ?s")
proof -
  have b: "i \<in> executed_ids s" using m by (force simp: executed_ids_def)
  obtain y where y: "job_at (s_db s) i = Some y" using inv by (auto simp: run_inv_def split: option.splits)
  have rm: "J_MaxRetries y = M" "room (max 1 M + int (t_retries t)) y True t" using inv b y by (simp_all add: run_inv_def)
  have ok: "world_ok s" and M: "J_MaxRetries j = M" using inv m by (auto simp: run_inv_def)
  have h: "J_Status y = StatusRunning" "J_AttemptCount y = J_AttemptCount j"
    using ok m y by (auto simp: world_ok_def list_all_iff held_def)
  obtain y' where y': "job_at d' i = Some y'"
    "y' = y \<or> (\<exists>t. y' = set_succeeded now t y) \<or> (\<exists>m t. y' = set_dead now m t y) \<or>
       (J_AttemptCount j + 1 < J_MaxRetries j \<and> (\<exists>t. y' = set_retry now t (J_AttemptCount j + 1) y))"
    using finish_row [OF y, of f now reg env j] unfolding x snd_conv by blast
  have "room (max 1 M + int (t_retries ?t)) y' False ?t" "J_MaxRetries y' = M"
    using y'(2) rm h M by (auto simp: room_def Let_def set_row_defs)
  moreover have "world_ok ?s" using world_step_ok [OF world_step.finish [OF m(1) x] doc ok] .
  moreover have "i \<notin> executed_ids ?s" using executed_removed [OF ok m(1)] m(2) by blast
  moreover have "set (s_inflight ?s) \<subseteq> set (s_inflight s)" by (simp add: set_remove1_subset)
  ultimately show ?thesis using inv y'(1) by (auto simp: run_inv_def)
qed

lemma room_step:
  assumes "room (B + int (t_retries t)) y busy t" and "status_step (J_Status y) (J_Status y')"
    and "J_AttemptCount y' = J_AttemptCount y \<and> (J_Status y = StatusRunning \<longrightarrow> J_Status y' = StatusRunning \<or> J_Status y' = StatusPending)"
    and "busy' \<longrightarrow> J_Status y' = StatusRunning \<and> (busy \<or> J_Status y = StatusPending)"
  shows "room (B + int (t_retries (tally_step y y' t))) y' busy' (tally_step y y' t)"
  using assms
  by (cases "J_Status y"; cases "J_Status y'") (auto simp: room_def Let_def tally_step_def of_bool_def split: if_splits)

lemma run_inv_other:
  assumes inv: "run_inv i M t s" and doc: "documented_router m" and st: "world_step m reg s s'"
    and y: "job_at (s_db s) i = Some y" and y': "job_at (s_db s') i = Some y'"
    and q: "s_db s' = s_db s \<or> (i \<in> executed_ids s \<longrightarrow> i \<in> executed_ids s')"
  shows "run_inv i M (tally_step y y' t) s'"
proof -
  have ok: "world_ok s" and M: "J_MaxRetries y = M" and rm: "room (max 1 M + int (t_retries t)) y (i \<in> executed_ids s) t"
    using inv y by (auto simp: run_inv_def)
  have ok': "world_ok s'" by (rule world_step_ok [OF st doc ok])
  have row: "row_step (core y) (core y')" by (rule world_row [OF st doc ok y y'])
  note a = attempts_kept [OF st doc ok y y' q]
  have ms: "J_MaxRetries y' = M" "status_step (J_Status y) (J_Status y')"
    using row M by (auto simp: row_step_def dest: core_eq(3,10))
  have grow: "x \<in> set (s_inflight s) \<or> (snd x = y \<and> J_Status y = StatusPending)" if "x \<in> set (s_inflight s')" "J_ID (snd x) = i" for x
    using inflight_grows [OF st ok that(1)] that(2) y by auto
  have "J_Status y' = StatusRunning \<and> (i \<in> executed_ids s \<or> J_Status y = StatusPending)" if i: "i \<in> executed_ids s'"
  proof -
    obtain x where "x \<in> set (s_inflight s')" "J_ID (snd x) = i" using i by (auto simp: executed_ids_def)
    from grow [OF this] this(2) show ?thesis using executed_running [OF ok' i y'] by (auto simp: executed_ids_def)
  qed
  then have "room (max 1 M + int (t_retries (tally_step y y' t))) y' (i \<in> executed_ids s') (tally_step y y' t)"
    by (intro room_step [OF rm ms(2) a]) blast
  moreover have "\<forall>x\<in>set (s_inflight s'). J_ID (snd x) = i \<longrightarrow> J_MaxRetries (snd x) = M"
    using grow M inv by (auto simp: run_inv_def)
  ultimately show ?thesis using ok' ms(1) y' by (simp add: run_inv_def)
qed

lemma run_inv_run: "job_run m reg i s0 t s \<Longrightarrow> documented_router m \<Longrightarrow> run_inv i M \<lparr>t_execs = 0, t_retries = 0, t_reclaims = 0\<rparr> s0 \<Longrightarrow> run_inv i M t s"
proof (induction rule: job_run.induct)
  case (execution t s w j f now env d')
  then show ?case using run_inv_execution by blast
next
  case (other t s s' y y')
  then show ?case using run_inv_other by blast
qed


text \<open>The job of \<open>busy_db\<close> is claimed and executed once.\<close>

lemma working_execution:
  "job_run m [''demo.echo'' \<mapsto> (\<lambda>t j. HOk)] 1 (sys_start busy_db) \<lparr>t_execs = 1, t_retries = 0, t_reclaims = 0\<rparr>
     \<lparr>s_db = snd (JobRepo_MarkSucceeded None 300 1 (X_end sample_env) (s_db working)), s_inflight = []\<rparr>"
proof -
  let ?reg = "[''demo.echo'' \<mapsto> (\<lambda>t j. HOk)]"
  have "tally_step (sample_job 1 StatusPending 5 0) (mark_running 77 100 (sample_job 1 StatusPending 5 0)) t = t" for t
    by (simp add: tally_step_def mark_running_def)
  moreover have "1 \<notin> executed_ids (sys_start busy_db)" by (simp add: executed_ids_def sys_start_def)
  ultimately have "job_run m ?reg 1 (sys_start busy_db) \<lparr>t_execs = 0, t_retries = 0, t_reclaims = 0\<rparr> working"
    using job_run.other [OF job_run.start working_step busy_job(1,2)] by metis
  from job_run.execution [OF this, of 77 "sample_job 1 StatusPending 5 0" None 300 sample_env] show ?thesis
    by (simp add: working_def execute_job_def Executor_Execute_def Registry_Get_def)
qed

end
