(* ===== verification/Idempotency.thy ===== *)
theory Idempotency
  imports Attempts
begin

text \<open>
  Idempotency keys in the whole system: a key answers with its job as long as the row of the job exists, however long ago
  the job was accepted and whatever has happened to it since.
\<close>

lemma key_row:
  assumes "jobs_ok d" and "job_at d i = Some y" and "J_IdempotencyKey y = Some key"
  shows "sql_row (\<lambda>j. J_IdempotencyKey j = Some key) (jobs d) = Some y"
proof -
  have y: "y \<in> set (jobs d)" using assms(2) by (auto simp: job_at_def dest: sql_row_Some)
  have uniq: "z = y" if "z \<in> set (jobs d)" "J_IdempotencyKey z = Some key" for z
  proof -
    have "distinct (map J_IdempotencyKey (filter (\<lambda>j. J_IdempotencyKey j \<noteq> None) (jobs d)))"
      using assms(1) by (simp add: jobs_ok_def filter_map comp_def)
    then have inj: "inj_on J_IdempotencyKey (set (filter (\<lambda>j. J_IdempotencyKey j \<noteq> None) (jobs d)))" by (simp only: distinct_map)
    have "z \<in> set (filter (\<lambda>j. J_IdempotencyKey j \<noteq> None) (jobs d))" using that(1,2) by simp
    moreover have "y \<in> set (filter (\<lambda>j. J_IdempotencyKey j \<noteq> None) (jobs d))" using y assms(3) by simp
    moreover have "J_IdempotencyKey z = J_IdempotencyKey y" unfolding that(2) assms(3) ..
    ultimately show ?thesis by (intro inj_onD [OF inj])
  qed
  show ?thesis
  proof (cases "sql_row (\<lambda>j. J_IdempotencyKey j = Some key) (jobs d)")
    case None
    then show ?thesis using y assms(3) by (auto simp: sql_row_None)
  next
    case (Some z)
    then show ?thesis using uniq [of z] sql_row_Some [OF Some] by simp
  qed
qed

text \<open>The key, the queue and the identifier of a row never change.\<close>

lemma row_identity:
  assumes "world_step m reg s s'" and "documented_router m" and "world_ok s" and "job_at (s_db s) i = Some y"
    and "job_at (s_db s') i = Some y'"
  shows "J_IdempotencyKey y' = J_IdempotencyKey y \<and> J_QueueID y' = J_QueueID y"
  using world_row [OF assms] by (auto simp: row_step_def dest: core_eq(2,4))

definition key_inv :: "uuid \<Rightarrow> string option \<Rightarrow> uuid \<Rightarrow> sys \<Rightarrow> bool" where
  "key_inv i key qid s \<longleftrightarrow> world_ok s \<and> (case job_at (s_db s) i of None \<Rightarrow> False
     | Some y \<Rightarrow> J_IdempotencyKey y = key \<and> J_QueueID y = qid)"

lemma key_inv_run:
  assumes "job_run m reg i s0 t s" and "documented_router m" and "key_inv i key qid s0"
  shows "key_inv i key qid s"
  using assms(1)
proof (induction rule: job_run.induct)
  case (execution t s w j f now env d')
  have ok: "world_ok s" using execution.IH by (simp add: key_inv_def)
  note st = world_step.finish [where m = m, OF execution.hyps(2,4)]
  obtain y where y: "job_at (s_db s) i = Some y" using execution.IH by (auto simp: key_inv_def split: option.splits)
  then obtain y' where y': "job_at d' i = Some y'" using finish_row [OF y, of f now reg env j] execution.hyps(4) by auto
  show ?case using row_identity [OF st assms(2) ok y] y y' execution.IH world_step_ok [OF st assms(2) ok] by (simp add: key_inv_def)
next
  case (other t s s' y y')
  have ok: "world_ok s" using other.IH by (simp add: key_inv_def)
  show ?case using row_identity [OF other.hyps(2) assms(2) ok other.hyps(3,4)] other.hyps(3,4) other.IH
      world_step_ok [OF other.hyps(2) assms(2) ok] by (simp add: key_inv_def)
qed (rule assms(3))

text \<open>What an Enqueue with a key leaves.\<close>

lemma enqueue_world_ok:
  assumes "world_ok s" and "job_svc_Enqueue f1 f2 f3 i t qid req (s_db s) = (r, d1)" and "i \<notin> executed_ids s"
  shows "world_ok (s\<lparr>s_db := d1\<rparr>)"
proof (rule world_quiet [OF assms(1)])
  have d1: "d1 = snd (job_svc_Enqueue f1 f2 f3 i t qid req (s_db s))" using assms(2) by simp
  show "tenancy d1" unfolding d1 using tenancy_worker [OF job_frames(1)] assms(1) by (simp add: world_ok_def)
  show "jobs_ok d1" using jobs_ok_enqueue [OF assms(2)] assms(1) by (simp add: world_ok_def)
  fix x assume "x \<in> set (s_inflight s)"
  then have "\<not> J_ID (snd x) = i" using assms(3) by (auto simp: executed_ids_def)
  moreover have "sound (\<lambda>k. k = i) False (s_db s) d1"
    unfolding d1 by (rule sound_job_writes(1)) simp
  ultimately show "claim_kept (s_db s) d1 (J_ID (snd x))" by (intro claim_kept_sound)
qed

lemma keyed_row:
  assumes "jobs_ok d" and "job_svc_Enqueue f1 f2 f3 i t qid req d = (Inr resp, d1)" and "ER_IdempotencyKey req = Some key" and "key \<noteq> []"
  shows "\<exists>y. job_at d1 (JR_ID resp) = Some y \<and> J_IdempotencyKey y = Some key \<and> J_QueueID y = JR_QueueID resp"
proof -
  have ok: "distinct (map J_ID (jobs d1))" using jobs_ok_enqueue [OF assms(2,1)] by (simp add: jobs_ok_def)
  obtain j where "j \<in> set (jobs d1)" "resp = toJobResponse j" "J_IdempotencyKey j = Some key"
    using assms(2)
  proof (cases rule: Enqueue_cases)
    case (existing k j)
    then show ?thesis using that [of j] sql_row_Some [OF existing(4)] assms(3) by auto
  next
    case (new q)
    then show ?thesis using that [of "new_job i t qid req q"] assms(3) by simp
  qed (use assms(3,4) in auto)
  then show ?thesis using sql_row_key [OF ok, of j] by (auto simp: job_at_def toJobResponse_def)
qed

text \<open>C13: Idempotency outlives time: once a request with an idempotency key was accepted, every later request with the key, in
  any state the system reaches while the row of the job exists, is answered with that job, its identifier and its
  queue, and adds nothing, whatever else it asks for, whichever queue it names, and whatever has become of the
  job and of its queue.\<close>

theorem idempotency_outlives_time:
  assumes "documented_router m" and "tenancy d" and "jobs_ok d" and "(world_step m reg)\<^sup>*\<^sup>* (sys_start d) s"
    and "job_svc_Enqueue f1 f2 f3 i clock qid req (s_db s) = (Inr resp, d1)" and "i \<notin> executed_ids s"
    and "ER_IdempotencyKey req = Some key" and "key \<noteq> []" and "ER_IdempotencyKey req' = Some key"
    and "job_run m reg (JR_ID resp) (s\<lparr>s_db := d1\<rparr>) t s'"
  shows "\<exists>resp'. job_svc_Enqueue None f2' f3' i' clock' qid' req' (s_db s') = (Inr resp', s_db s') \<and>
    JR_ID resp' = JR_ID resp \<and> JR_QueueID resp' = JR_QueueID resp"
proof -
  have ok: "world_ok s" by (rule world_reach [OF assms(4,1) world_start [OF assms(2,3)]])
  then have "jobs_ok (s_db s)" by (simp add: world_ok_def)
  from keyed_row [OF this assms(5,7,8)] enqueue_world_ok [OF ok assms(5,6)]
  have "key_inv (JR_ID resp) (Some key) (JR_QueueID resp) (s\<lparr>s_db := d1\<rparr>)" by (auto simp: key_inv_def)
  from key_inv_run [OF assms(10,1) this] obtain y where y: "jobs_ok (s_db s')" "job_at (s_db s') (JR_ID resp) = Some y"
    "J_IdempotencyKey y = Some key" "J_QueueID y = JR_QueueID resp"
    by (auto simp: key_inv_def world_ok_def split: option.splits)
  have "J_ID y = JR_ID resp" using y(2) by (auto simp: job_at_def dest: sql_row_Some)
  then show ?thesis using key_row [OF y(1-3)] y(4) assms(8,9)
    by (simp add: job_svc_Enqueue_def idempotency_check_def GetByIdempotencyKey_row toJobResponse_def)
qed

section \<open>A run\<close>

definition keyed_job :: Job where
  "keyed_job = new_job 5 100 7 sample_request (sample_queue\<lparr>Q_ProjectID := 6\<rparr>)"

lemma keyed_enqueue:
  "job_svc_Enqueue None None None 5 100 7 sample_request busy_db =
     (Inr (toJobResponse keyed_job), busy_db\<lparr>jobs := [sample_job 1 StatusPending 5 0, keyed_job]\<rparr>)"
proof -
  have "job_violation keyed_job = None"
    by (simp add: keyed_job_def job_violation_def int4_def valid_strategy_def override_def sample_queue_def)
  then show ?thesis
    by (simp add: job_svc_Enqueue_def idempotency_check_def GetByIdempotencyKey_row QueueRepo_GetByID_def busy_db_def
        JobRepo_Create_def insert_job_def job_key_conflict_def exists_id_def job_fks_def fk_opt_def
        inserted_new_job Let_def keyed_job_def)
qed

theorem idempotency_outlives_time_witness:
  "\<exists>resp. job_svc_Enqueue None None None 6 999 8 sample_request
       (Scheduler_promote None 900 (busy_db\<lparr>jobs := [sample_job 1 StatusPending 5 0, keyed_job]\<rparr>)) =
     (Inr resp, Scheduler_promote None 900 (busy_db\<lparr>jobs := [sample_job 1 StatusPending 5 0, keyed_job]\<rparr>)) \<and> JR_ID resp = 5"
proof -
  let ?d = "busy_db\<lparr>jobs := [sample_job 1 StatusPending 5 0, keyed_job]\<rparr>" and ?s = "sys_start busy_db"
  have e: "job_svc_Enqueue None None None 5 100 7 sample_request (s_db ?s) = (Inr (toJobResponse keyed_job), ?d)"
    using keyed_enqueue by (simp add: sys_start_def)
  have i: "JR_ID (toJobResponse keyed_job) = 5" by (simp add: toJobResponse_def keyed_job_def)
  have x: "5 \<notin> executed_ids ?s" "ER_IdempotencyKey sample_request = Some ''k1''" "''k1'' \<noteq> []"
    by (simp_all add: executed_ids_def sys_start_def)
  have y: "job_at ?d 5 = Some keyed_job" by (simp add: job_at_def keyed_job_def)
  then obtain y' where y': "job_at (Scheduler_promote None 900 ?d) 5 = Some y'" by (simp add: promote_row)
  have st: "world_step seg_router echo_registry (?s\<lparr>s_db := ?d\<rparr>) (?s\<lparr>s_db := Scheduler_promote None 900 ?d\<rparr>)"
    using world_step.promote [of seg_router echo_registry "?s\<lparr>s_db := ?d\<rparr>" None 900] by simp
  have "\<exists>t. job_run seg_router echo_registry (JR_ID (toJobResponse keyed_job)) (?s\<lparr>s_db := ?d\<rparr>) t
      (?s\<lparr>s_db := Scheduler_promote None 900 ?d\<rparr>)"
    unfolding i using job_run.other [OF job_run.start st, of 5 keyed_job y'] y y'
    by (auto simp: executed_ids_def sys_start_def)
  then obtain t where run: "job_run seg_router echo_registry (JR_ID (toJobResponse keyed_job)) (?s\<lparr>s_db := ?d\<rparr>) t
      (?s\<lparr>s_db := Scheduler_promote None 900 ?d\<rparr>)" ..
  show ?thesis
    using idempotency_outlives_time [OF seg_router_documented busy_ok rtranclp.rtrancl_refl e x x(2) run,
        of None None 6 999 8] i by auto
qed

end
