(* ===== verification/Sessions.thy ===== *)
theory Sessions
  imports System
begin

text \<open>
  Refresh tokens in the whole system: whatever requests and worker steps follow, the row of a token keeps its user
  and its expiry and a revoked one stays revoked, so a session that was ended stays ended. The look-up of a logout is the
  exception: where it fails, the logout is reported as done and the session lives on.
\<close>

definition token_row :: "db \<Rightarrow> string \<Rightarrow> RefreshToken option" where
  "token_row d h = sql_row (\<lambda>r. RT_TokenHash r = h) (refresh_tokens d)"

text \<open>Tokens only age: none disappears, none is renewed, none is given to another user.\<close>

definition aged :: "db \<Rightarrow> db \<Rightarrow> bool" where
  "aged d d' \<longleftrightarrow> (\<forall>h. case token_row d h of None \<Rightarrow> True | Some t \<Rightarrow>
     (case token_row d' h of None \<Rightarrow> False
      | Some t' \<Rightarrow> RT_UserID t' = RT_UserID t \<and> RT_ExpiresAt t' = RT_ExpiresAt t \<and> (RT_Revoked t \<longrightarrow> RT_Revoked t')))"

lemma aged_refl [simp]: "aged d d"
  by (simp add: aged_def split: option.split)

lemma aged_trans: "aged d d1 \<Longrightarrow> aged d1 d2 \<Longrightarrow> aged d d2"
  unfolding aged_def by (fastforce split: option.splits)

lemma agedD:
  assumes "aged d d'" and "token_row d h = Some t"
  obtains t' where "token_row d' h = Some t'" "RT_UserID t' = RT_UserID t" "RT_ExpiresAt t' = RT_ExpiresAt t"
    "RT_Revoked t \<Longrightarrow> RT_Revoked t'"
  using assms(1) [unfolded aged_def, rule_format, of h] assms(2) by (auto split: option.splits)

lemma aged_same: "refresh_tokens d' = refresh_tokens d \<Longrightarrow> aged d d'"
  by (simp add: aged_def token_row_def split: option.split)

lemma aged_frame: "only ts d d' \<Longrightarrow> TTokens \<notin> set ts \<Longrightarrow> aged d d'"
  using only_same [of ts d d' TTokens] by (simp add: aged_same)

lemma sql_row_app: "sql_row P (rows @ rows') = (case sql_row P rows of None \<Rightarrow> sql_row P rows' | Some r \<Rightarrow> Some r)"
  by (induction rows) auto

lemma token_row_revoke:
  "token_row (d\<lparr>refresh_tokens := sql_update P (\<lambda>r. r\<lparr>RT_Revoked := True\<rparr>) (refresh_tokens d)\<rparr>) h =
   map_option (\<lambda>t. if P t then t\<lparr>RT_Revoked := True\<rparr> else t) (token_row d h)"
proof -
  have "sql_row (\<lambda>r. RT_TokenHash r = h) (sql_update P (\<lambda>r. r\<lparr>RT_Revoked := True\<rparr>) ts) =
      map_option (\<lambda>t. if P t then t\<lparr>RT_Revoked := True\<rparr> else t) (sql_row (\<lambda>r. RT_TokenHash r = h) ts)" for ts
    by (induction ts) (auto simp: sql_update_def)
  then show ?thesis by (simp add: token_row_def)
qed

lemma aged_Login: "aged d (snd (auth_Login env cfg req ua ip d))"
proof -
  have c: "aged d d'" if "RefreshTokenRepo_Create f t d = (r, d')" for f t r d'
    using that by (cases rule: token_Create_cases) (simp_all add: aged_def token_row_def sql_row_app split: option.split)
  show ?thesis by (auto simp: auth_Login_def Let_def dest: c split: sum.split prod.split)
qed

lemma aged_revoke: "aged d (snd (RefreshTokenRepo_RevokeByID f i d))"
  by (cases f) (auto simp: RefreshTokenRepo_RevokeByID_def revoke_where_def aged_def token_row_revoke split: option.split)

lemma aged_Logout: "aged d (snd (auth_Logout env raw d))"
  by (auto simp: auth_Logout_def aged_revoke split: sum.split)

section \<open>Requests and workers\<close>

lemma aged_endpoint:
  assumes "rooted d" and "ws_pure E"
  shows "aged d (snd (run_endpoint E ep c d))"
proof (cases "TTokens \<in> set (writes ep)")
  case False
  then show ?thesis using aged_frame [OF endpoint_frame [OF _ assms(2)]] assms(1) by blast
next
  case True
  then have "ep = AuthLogin \<or> ep = AuthLogout" by (cases ep) (simp_all add: below_defs)
  then show ?thesis
    by (elim disjE) (auto simp: core_handler_defs aged_Login aged_Logout intro!: holds_steps [where Q = "aged d"] split: sum.split)
qed

lemma aged_world:
  assumes "world_step m reg s s'" and "documented_router m" and "world_ok s"
  shows "aged (s_db s) (s_db s')"
  using assms(1,3)
proof (induction rule: world_step.induct)
  case (request E s v f n q c)
  have "rooted (s_db s)" using request.prems by (auto simp: world_ok_def tenancy_def)
  from aged_endpoint [OF this request.hyps(1)] show ?case
    using api_request_reaches [OF assms(2), of v f n E q c "s_db s"] aged_refl by auto
next
  case (claim cf locked now qid wid k conc s js d')
  then show ?case using aged_frame [OF worker_frames(1)] by simp
next
  case (finish w j s f now env d')
  then show ?case using aged_frame [OF worker_frames(2) [of "s_db s" f now reg env j]] by simp
next
  case (promote s f now)
  then show ?case using aged_frame [OF worker_frames(3)] by simp
next
  case (reclaim now vis s f)
  then show ?case using aged_frame [OF worker_frames(4)] by simp
next
  case (heartbeat s f now w)
  then show ?case using aged_frame [OF worker_frames(5)] by simp
next
  case (register s f now wi)
  then show ?case using aged_frame [OF worker_frames(6)] by simp
next
  case (fire s parse ff i dbnow cj now)
  then show ?case using aged_frame [OF worker_frames(7)] by simp
qed simp

lemma aged_reach:
  assumes "(world_step m reg)\<^sup>*\<^sup>* s s'" and "documented_router m" and "world_ok s"
  shows "aged (s_db s) (s_db s')"
  using assms(1)
proof (induction rule: rtranclp_induct)
  case (step s1 s2)
  then show ?case using aged_world [OF step.hyps(2) assms(2) world_reach [OF step.hyps(1) assms(2,3)]] aged_trans by blast
qed simp

section \<open>Ended sessions\<close>

lemma stale_refused:
  assumes "token_row d (HashRefreshToken (ae_sha256_hex env) raw) = Some t" and "RT_Revoked t \<or> RT_ExpiresAt t < ae_now env"
  shows "\<exists>msg. auth_Refresh env cfg raw d = Inl (Unauthorized msg)"
  using assms by (cases "ae_f1 env") (auto simp: auth_Refresh_def RefreshTokenRepo_GetByHash_def IsValid_def IsExpired_def time_After_def token_row_def)

lemma logout_row:
  assumes "token_row d (HashRefreshToken (ae_sha256_hex env) raw) = Some t" and "ae_f1 env = None" and "ae_f2 env = None"
  shows "auth_Logout env raw d = (Inr (), snd (auth_Logout env raw d))"
    and "token_row (snd (auth_Logout env raw d)) (HashRefreshToken (ae_sha256_hex env) raw) = Some (t\<lparr>RT_Revoked := True\<rparr>)"
proof -
  let ?h = "HashRefreshToken (ae_sha256_hex env) raw"
  have e: "auth_Logout env raw d = (Inr (), d\<lparr>refresh_tokens :=
      sql_update (\<lambda>r. RT_ID r = RT_ID t) (\<lambda>r. r\<lparr>RT_Revoked := True\<rparr>) (refresh_tokens d)\<rparr>)"
    using assms by (simp add: auth_Logout_def RefreshTokenRepo_GetByHash_def token_row_def
        RefreshTokenRepo_RevokeByID_def revoke_where_def)
  then show "auth_Logout env raw d = (Inr (), snd (auth_Logout env raw d))" by simp
  show "token_row (snd (auth_Logout env raw d)) ?h = Some (t\<lparr>RT_Revoked := True\<rparr>)"
    using assms(1) by (simp add: e token_row_revoke)
qed

lemma aged_logout_world:
  assumes "world_ok s"
  shows "world_ok (s\<lparr>s_db := snd (auth_Logout env raw (s_db s))\<rparr>)"
proof (rule world_quiet [OF assms])
  let ?d = "snd (auth_Logout env raw (s_db s))"
  have o: "only [TTokens] (s_db s) ?d" by (rule auth_frames(3))
  have j: "jobs ?d = jobs (s_db s)" "queues ?d = queues (s_db s)"
    using only_same [OF o, of TJobs] only_same [OF o, of TQueues] by auto
  show "tenancy ?d" using tenancy_frame [OF _ o] assms by (auto simp: world_ok_def tenancy_tables_def)
  show "jobs_ok ?d" using assms j by (simp add: world_ok_def jobs_ok_def)
  show "claim_kept (s_db s) ?d (J_ID (snd x))" for x using j by (intro claim_kept_same) (simp add: job_at_def)
qed

text \<open>C35: An ended session stays ended: after a logout whose statements succeeded, and after the expiry of the token,
  the token is refused for ever, whatever requests are served and whatever the workers do; and as long as neither
  has happened, its row keeps its user and its expiry. No statement of the system deletes or renews a token.\<close>

theorem ended_session_stays_ended:
  assumes "documented_router m" and "tenancy d" and "jobs_ok d" and "(world_step m reg)\<^sup>*\<^sup>* (sys_start d) s"
    and "sql_row (\<lambda>r. RT_TokenHash r = HashRefreshToken (ae_sha256_hex env) raw) (refresh_tokens (s_db s)) = Some t"
    and "ae_sha256_hex env2 = ae_sha256_hex env"
  shows "(ae_f1 env = None \<longrightarrow> ae_f2 env = None \<longrightarrow>
      (world_step m reg)\<^sup>*\<^sup>* (s\<lparr>s_db := snd (auth_Logout env raw (s_db s))\<rparr>) s' \<longrightarrow>
      fst (auth_Logout env raw (s_db s)) = Inr () \<and> (\<exists>msg. auth_Refresh env2 cfg raw (s_db s') = Inl (Unauthorized msg))) \<and>
    (RT_ExpiresAt t < ae_now env2 \<longrightarrow> (world_step m reg)\<^sup>*\<^sup>* s s' \<longrightarrow>
      (\<exists>msg. auth_Refresh env2 cfg raw (s_db s') = Inl (Unauthorized msg))) \<and>
    ((world_step m reg)\<^sup>*\<^sup>* s s' \<longrightarrow> (\<exists>t'. RefreshTokenRepo_GetByHash None (HashRefreshToken (ae_sha256_hex env) raw) (s_db s') = Inr t' \<and>
      RT_UserID t' = RT_UserID t \<and> RT_ExpiresAt t' = RT_ExpiresAt t))"
proof (intro conjI impI)
  let ?h = "HashRefreshToken (ae_sha256_hex env) raw"
  let ?s = "s\<lparr>s_db := snd (auth_Logout env raw (s_db s))\<rparr>"
  have h: "HashRefreshToken (ae_sha256_hex env2) raw = ?h" using assms(6) by (simp add: HashRefreshToken_def)
  have ok: "world_ok s" by (rule world_reach [OF assms(4,1) world_start [OF assms(2,3)]])
  have t: "token_row (s_db s) ?h = Some t" using assms(5) by (simp add: token_row_def)
  {
    assume f: "ae_f1 env = None" "ae_f2 env = None" and run: "(world_step m reg)\<^sup>*\<^sup>* ?s s'"
    note out = logout_row [OF t f]
    show "fst (auth_Logout env raw (s_db s)) = Inr ()" using out(1) by (metis fst_conv)
    have "aged (s_db ?s) (s_db s')" by (rule aged_reach [OF run assms(1) aged_logout_world [OF ok]])
    then obtain t' where "token_row (s_db s') ?h = Some t'" "RT_Revoked t'"
      by (rule agedD [where h = ?h]) (use out(2) in auto)
    then show "\<exists>msg. auth_Refresh env2 cfg raw (s_db s') = Inl (Unauthorized msg)"
      by (intro stale_refused [of _ env2 raw t']) (simp_all add: h)
  next
    assume run: "(world_step m reg)\<^sup>*\<^sup>* s s'"
    obtain t' where t': "token_row (s_db s') ?h = Some t'" "RT_UserID t' = RT_UserID t" "RT_ExpiresAt t' = RT_ExpiresAt t"
      by (rule agedD [OF aged_reach [OF run assms(1) ok] t])
    then show "\<exists>t'. RefreshTokenRepo_GetByHash None ?h (s_db s') = Inr t' \<and> RT_UserID t' = RT_UserID t \<and> RT_ExpiresAt t' = RT_ExpiresAt t"
      by (simp add: RefreshTokenRepo_GetByHash_def token_row_def)
    assume "RT_ExpiresAt t < ae_now env2"
    then show "\<exists>msg. auth_Refresh env2 cfg raw (s_db s') = Inl (Unauthorized msg)"
      using t' by (intro stale_refused [of _ env2 raw t']) (simp_all add: h)
  }
qed

text \<open>Where the look-up fails, the logout still answers that all is well, and the token goes on working.\<close>

theorem failed_logout_reported_done:
  assumes "ae_f1 env = Some e"
  shows "auth_Logout env raw d = (Inr (), d) \<and> auth_h_Logout env (Inr raw) c d = (NoContent, d)"
  using assms by (simp add: auth_Logout_def auth_h_Logout_def RefreshTokenRepo_GetByHash_def)

section \<open>A run\<close>

definition session_token :: RefreshToken where
  "session_token = \<lparr>RT_ID = 8, RT_UserID = 1, RT_TokenHash = ae_sha256_hex plain_env ''rnd'', RT_ExpiresAt = 100, RT_Revoked = False,
     RT_UserAgent = [], RT_IPAddress = [], RT_CreatedAt = 0\<rparr>"

definition session_db :: db where
  "session_db = busy_db\<lparr>refresh_tokens := [session_token]\<rparr>"

lemma session_ok: "tenancy session_db" "jobs_ok session_db"
  using busy_ok by (simp_all add: session_db_def tenancy_def rooted_def accounts_ok_def orgs_ok_def members_ok_def jobs_ok_def)

theorem ended_session_stays_ended_witness:
  "\<exists>msg. auth_Refresh plain_env plain_cfg ''rnd'' (Scheduler_promote None 50 (snd (auth_Logout plain_env ''rnd'' session_db))) =
     Inl (Unauthorized msg)"
proof -
  let ?s = "sys_start session_db"
  have t: "sql_row (\<lambda>r. RT_TokenHash r = HashRefreshToken (ae_sha256_hex plain_env) ''rnd'') (refresh_tokens (s_db ?s)) = Some session_token"
    by (simp add: sys_start_def session_db_def session_token_def HashRefreshToken_def)
  have f: "ae_f1 plain_env = None" "ae_f2 plain_env = None" by (simp_all add: plain_env_def)
  have run: "(world_step seg_router echo_registry)\<^sup>*\<^sup>* (?s\<lparr>s_db := snd (auth_Logout plain_env ''rnd'' (s_db ?s))\<rparr>)
      (?s\<lparr>s_db := Scheduler_promote None 50 (snd (auth_Logout plain_env ''rnd'' session_db))\<rparr>)"
    using world_step.promote [of seg_router echo_registry "?s\<lparr>s_db := snd (auth_Logout plain_env ''rnd'' (s_db ?s))\<rparr>" None 50]
    by (simp add: sys_start_def r_into_rtranclp)
  show ?thesis
    using ended_session_stays_ended [OF seg_router_documented session_ok rtranclp.rtrancl_refl t refl] f run by fastforce
qed
end
