(* ===== verification/Requests.thy ===== *)
theory Requests
  imports Api
begin

text \<open>
  The validation tags of the request types (\<open>validate:"..."\<close> in \<open>internal/service/*/service.go\<close> and the
  handlers), as the validator library documents them: the tags of a field are checked in order up to the
  first that fails, \<open>min\<close> and \<open>max\<close> bound the length of a string, \<open>gte\<close> and \<open>lte\<close> a number; a slice without \<open>dive\<close>
  is not descended into. What an address looks like is the parameter \<open>is_email\<close>. From the tags: which
  errors of the database a request that passes the validation can still run into.
\<close>

section \<open>Tags\<close>

type_synonym tag_check = "bool \<times> string \<times> string"

fun field_failures :: "string \<Rightarrow> tag_check list \<Rightarrow> vfailure list" where
  "field_failures f [] = []"
| "field_failures f ((ok, tag, param) # cs) =
     (if ok then field_failures f cs else [\<lparr>vf_Field = f, vf_Tag = tag, vf_Param = param\<rparr>])"

definition t_required :: "string \<Rightarrow> tag_check" where "t_required s = (s \<noteq> [], ''required'', [])"
definition t_present :: "bool \<Rightarrow> tag_check" where "t_present b = (b, ''required'', [])"
definition t_min :: "nat \<Rightarrow> string \<Rightarrow> tag_check" where "t_min n s = (n \<le> length s, ''min'', show_nat n)"
definition t_max :: "nat \<Rightarrow> string \<Rightarrow> tag_check" where "t_max n s = (length s \<le> n, ''max'', show_nat n)"
definition t_gte :: "int \<Rightarrow> int \<Rightarrow> tag_check" where "t_gte n i = (n \<le> i, ''gte'', show_int n)"
definition t_lte :: "int \<Rightarrow> int \<Rightarrow> tag_check" where "t_lte n i = (i \<le> n, ''lte'', show_int n)"
definition t_oneof :: "string list \<Rightarrow> string \<Rightarrow> tag_check" where
  "t_oneof ss s = (s \<in> set ss, ''oneof'', join_blank ss)"
definition t_slug :: "string \<Rightarrow> tag_check" where "t_slug s = (validateSlug s, ''slug'', [])"
definition t_email :: "(string \<Rightarrow> bool) \<Rightarrow> string \<Rightarrow> tag_check" where "t_email is_email s = (is_email s, ''email'', [])"

lemmas tag_defs = t_required_def t_present_def t_min_def t_max_def t_gte_def t_lte_def t_oneof_def t_slug_def t_email_def

definition struct_result :: "vfailure list list \<Rightarrow> vfailure list option" where
  "struct_result fs = (let failures = concat fs in if failures = [] then None else Some failures)"

lemma field_failures_none: "field_failures f cs = [] \<longleftrightarrow> list_all fst cs"
  by (induction f cs rule: field_failures.induct) auto

declare field_failures.simps [simp del]

lemma struct_result_none: "struct_result fs = None \<longleftrightarrow> list_all (\<lambda>f. f = []) fs"
  by (auto simp: struct_result_def Let_def list_all_iff)

section \<open>The request types\<close>

definition register_tags :: "(string \<Rightarrow> bool) \<Rightarrow> RegisterRequest \<Rightarrow> vfailure list option" where
  "register_tags is_email r = struct_result
     [field_failures ''email'' [t_required (RR_Email r), t_email is_email (RR_Email r)],
      field_failures ''password'' [t_required (RR_Password r), t_min 8 (RR_Password r), t_max 128 (RR_Password r)],
      field_failures ''full_name'' [t_required (RR_FullName r), t_min 2 (RR_FullName r), t_max 100 (RR_FullName r)]]"

definition login_tags :: "(string \<Rightarrow> bool) \<Rightarrow> LoginRequest \<Rightarrow> vfailure list option" where
  "login_tags is_email r = struct_result
     [field_failures ''email'' [t_required (LQ_Email r), t_email is_email (LQ_Email r)],
      field_failures ''password'' [t_required (LQ_Password r)]]"

definition org_create_tags :: "OrgCreateRequest \<Rightarrow> vfailure list option" where
  "org_create_tags r = struct_result
     [field_failures ''name'' [t_required (OC_Name r), t_min 2 (OC_Name r), t_max 100 (OC_Name r)],
      field_failures ''slug'' [t_required (OC_Slug r), t_slug (OC_Slug r), t_max 60 (OC_Slug r)],
      field_failures ''description'' [t_max 500 (OC_Description r)]]"

definition org_update_tags :: "OrgUpdateRequest \<Rightarrow> vfailure list option" where
  "org_update_tags r = struct_result
     [field_failures ''name'' [t_required (OU_Name r), t_min 2 (OU_Name r), t_max 100 (OU_Name r)],
      field_failures ''description'' [t_max 500 (OU_Description r)]]"

text \<open>The tag \<open>oneof\<close> of a role: the roles of the datatype are the accepted ones, a body with another text
  counts as one that does not parse.\<close>

definition add_member_tags :: "AddMemberRequest \<Rightarrow> vfailure list option" where
  "add_member_tags r = struct_result
     [field_failures ''user_id'' [t_present (AM_UserID r \<noteq> uuid_Nil)],
      field_failures ''role'' [t_required (org_role_str (AM_Role r)),
        t_oneof [''owner'', ''admin'', ''member''] (org_role_str (AM_Role r))]]"

definition role_tags :: "OrgRole \<Rightarrow> vfailure list option" where
  "role_tags r = struct_result
     [field_failures ''role'' [t_required (org_role_str r), t_oneof [''owner'', ''admin'', ''member''] (org_role_str r)]]"

definition project_create_tags :: "ProjectCreateRequest \<Rightarrow> vfailure list option" where
  "project_create_tags r = struct_result
     [field_failures ''name'' [t_required (PC_Name r), t_min 2 (PC_Name r), t_max 100 (PC_Name r)],
      field_failures ''slug'' [t_required (PC_Slug r), t_slug (PC_Slug r), t_max 60 (PC_Slug r)],
      field_failures ''description'' [t_max 500 (PC_Description r)]]"

definition project_update_tags :: "ProjectUpdateRequest \<Rightarrow> vfailure list option" where
  "project_update_tags r = struct_result
     [field_failures ''name'' [t_required (PU_Name r), t_min 2 (PU_Name r), t_max 100 (PU_Name r)],
      field_failures ''description'' [t_max 500 (PU_Description r)]]"

definition strategies :: "string list" where
  "strategies = [''fixed'', ''linear'', ''exponential'']"

definition queue_create_tags :: "QueueCreateRequest \<Rightarrow> vfailure list option" where
  "queue_create_tags r = struct_result
     [field_failures ''name'' [t_required (QR_Name r), t_min 1 (QR_Name r), t_max 100 (QR_Name r)],
      field_failures ''description'' [t_max 500 (QR_Description r)],
      field_failures ''priority'' [t_gte 1 (QR_Priority r), t_lte 10 (QR_Priority r)],
      field_failures ''concurrency'' [t_gte 1 (QR_Concurrency r), t_lte 1000 (QR_Concurrency r)],
      field_failures ''max_retries'' [t_gte 0 (QR_MaxRetries r), t_lte 100 (QR_MaxRetries r)],
      field_failures ''retry_strategy'' [t_oneof strategies (QR_RetryStrategy r)],
      field_failures ''retry_delay_sec'' [t_gte 1 (QR_RetryDelaySec r)],
      field_failures ''visibility_timeout_sec'' [t_gte 10 (QR_VisibilityTimeoutSec r)],
      field_failures ''job_timeout_sec'' [t_gte 1 (QR_JobTimeoutSec r)]]"

definition queue_update_tags :: "QueueUpdateRequest \<Rightarrow> vfailure list option" where
  "queue_update_tags r = struct_result
     [field_failures ''description'' [t_max 500 (QU_Description r)],
      field_failures ''priority'' [t_gte 1 (QU_Priority r), t_lte 10 (QU_Priority r)],
      field_failures ''concurrency'' [t_gte 1 (QU_Concurrency r), t_lte 1000 (QU_Concurrency r)],
      field_failures ''max_retries'' [t_gte 0 (QU_MaxRetries r), t_lte 100 (QU_MaxRetries r)],
      field_failures ''retry_strategy'' [t_oneof strategies (QU_RetryStrategy r)],
      field_failures ''retry_delay_sec'' [t_gte 1 (QU_RetryDelaySec r)],
      field_failures ''visibility_timeout_sec'' [t_gte 10 (QU_VisibilityTimeoutSec r)],
      field_failures ''job_timeout_sec'' [t_gte 1 (QU_JobTimeoutSec r)]]"

text \<open>Of a job only the type is checked; of the jobs of a batch, without \<open>dive\<close>, nothing. A list of jobs that is
  absent fails \<open>required\<close> rather than \<open>min\<close>; both are the empty list here.\<close>

definition enqueue_tags :: "EnqueueRequest \<Rightarrow> vfailure list option" where
  "enqueue_tags r = struct_result
     [field_failures ''type'' [t_required (ER_Type r), t_min 1 (ER_Type r), t_max 255 (ER_Type r)]]"

definition batch_tags :: "CreateBatchRequest \<Rightarrow> vfailure list option" where
  "batch_tags r = struct_result
     [field_failures ''name'' [t_required (BR_Name r)],
      field_failures ''jobs'' [(BR_Jobs r \<noteq> [], ''min'', ''1'')]]"

definition cron_tags :: "CreateCronRequest \<Rightarrow> vfailure list option" where
  "cron_tags r = struct_result
     [field_failures ''name'' [t_required (CR_Name r)],
      field_failures ''cron_expr'' [t_required (CR_CronExpr r)],
      field_failures ''job_type'' [t_required (CR_JobType r)],
      field_failures ''payload'' [t_present (CR_Payload r \<noteq> None)]]"

definition declared_validators :: "(string \<Rightarrow> bool) \<Rightarrow> validators" where
  "declared_validators is_email = \<lparr>V_register = register_tags is_email, V_login = login_tags is_email,
     V_org_create = org_create_tags, V_org_update = org_update_tags, V_add_member = add_member_tags, V_role = role_tags,
     V_project_create = project_create_tags, V_project_update = project_update_tags, V_queue_create = queue_create_tags,
     V_queue_update = queue_update_tags, V_enqueue = enqueue_tags, V_batch = batch_tags, V_cron = cron_tags\<rparr>"

lemmas request_tags = register_tags_def login_tags_def org_create_tags_def org_update_tags_def add_member_tags_def
  role_tags_def project_create_tags_def project_update_tags_def queue_create_tags_def queue_update_tags_def
  enqueue_tags_def batch_tags_def cron_tags_def

lemmas passes = request_tags struct_result_none field_failures_none tag_defs

lemma Validate_struct: "Validate val req = None \<longleftrightarrow> val req = None \<or> val req = Some []"
  by (auto simp: Validate_def Let_def split: option.split)

lemma struct_result_nonempty: "struct_result fs \<noteq> Some []"
  by (auto simp: struct_result_def Let_def split: if_splits)

lemma validated:
  "Validate queue_create_tags qr = None \<longleftrightarrow> queue_create_tags qr = None"
  "Validate queue_update_tags qu = None \<longleftrightarrow> queue_update_tags qu = None"
  "Validate enqueue_tags er = None \<longleftrightarrow> enqueue_tags er = None"
  "Validate (register_tags is_email) rr = None \<longleftrightarrow> register_tags is_email rr = None"
  "Validate org_create_tags oc = None \<longleftrightarrow> org_create_tags oc = None"
  by (auto simp: Validate_struct request_tags struct_result_nonempty)

lemma TrimSpace_length: "length (TrimSpace s) \<le> length s"
  using length_dropWhile_le [of is_space] by (simp add: TrimSpace_def TrimLeft_def) (metis le_trans length_rev)

section \<open>Queues\<close>

text \<open>What the tags leave to the defaults and to the database: the only default a validated request
  for a queue still gets is the one of \<open>max_retries\<close> (the tags refuse the zero of every other field, which the
  defaults are for), and the only constraint of the table it can still violate is the range of its three
  times in seconds, which have a lower bound only.\<close>

theorem validated_queue_fits:
  assumes "Validate queue_create_tags req = None"
  shows "queue_setDefaults req = req\<lparr>QR_MaxRetries := (if QR_MaxRetries req = 0 then 3 else QR_MaxRetries req)\<rparr> \<and>
    queue_violation (new_queue i t pid (queue_setDefaults req)) =
      (if QR_RetryDelaySec req < 2 ^ 31 \<and> QR_VisibilityTimeoutSec req < 2 ^ 31 \<and> QR_JobTimeoutSec req < 2 ^ 31
       then None else Some out_of_range)"
proof -
  have ok: "length (QR_Name req) \<le> 100" "1 \<le> QR_Priority req" "QR_Priority req \<le> 10" "1 \<le> QR_Concurrency req"
    "QR_Concurrency req \<le> 1000" "0 \<le> QR_MaxRetries req" "QR_MaxRetries req \<le> 100" "QR_RetryStrategy req \<in> set strategies"
    "1 \<le> QR_RetryDelaySec req" "10 \<le> QR_VisibilityTimeoutSec req" "1 \<le> QR_JobTimeoutSec req"
    using assms unfolding validated by (simp_all add: passes)
  then have d: "queue_setDefaults req = req\<lparr>QR_MaxRetries := (if QR_MaxRetries req = 0 then 3 else QR_MaxRetries req)\<rparr>"
    by (auto simp: queue_setDefaults_def strategies_def)
  have "length (TrimSpace (QR_Name req)) \<le> 255" using TrimSpace_length [of "QR_Name req"] ok(1) by linarith
  then show ?thesis using ok unfolding d
    by (auto simp: queue_violation_def new_queue_def int4_def valid_strategy_def strategies_def)
qed

section \<open>Jobs\<close>


section \<open>Accounts and organizations\<close>

text \<open>What becomes of a validated registration, the database answering: the validation admits passwords of
  up to 128 characters although bcrypt takes 72, so the longer ones end in a 500; so do addresses too long
  for their column, which the tags do not bound; an address that is taken gives a 409 and every other
  request a 201.\<close>

theorem validated_register_outcome:
  assumes "Validate (register_tags is_email) req = None"
    and "hash (RR_Password req) = (if 72 < length (RR_Password req) then Inl (PlainErr m) else Inr h)" and "length h \<le> 255"
    and "\<not> exists_id U_ID i (users d)"
  shows "\<exists>x d'. auth_h_Register (register_tags is_email) hash None i t (Inr req) c d = (x, d') \<and>
    http_status x = (if 72 < length (RR_Password req) \<or> 255 < length (normalize_email (RR_Email req)) then 500
      else if normalize_email (RR_Email req) \<in> U_Email ` set (users d) then 409 else 201) \<and>
    (http_status x \<noteq> 201 \<longrightarrow> d' = d)"
proof -
  have "length (RR_FullName req) \<le> 100" using assms(1) unfolding validated by (simp add: passes)
  then have n: "length (TrimSpace (RR_FullName req)) \<le> 255" using TrimSpace_length [of "RR_FullName req"] by linarith
  have e: "auth_h_Register (register_tags is_email) hash None i t (Inr req) c d =
      reply 201 (auth_Register hash None i t req d)"
    using assms(1) by (simp add: auth_h_Register_def handler_steps)
  show ?thesis
  proof (cases "72 < length (RR_Password req)")
    case True
    then show ?thesis using e assms(2) by (simp add: auth_Register_def reply_def RespondError_def)
  next
    case False
    let ?u = "\<lparr>U_ID = i, U_Email = normalize_email (RR_Email req), U_PasswordHash = h,
      U_FullName = TrimSpace (RR_FullName req), U_IsActive = True, U_CreatedAt = t, U_UpdatedAt = t\<rparr>"
    have r: "auth_Register hash None i t req d =
        (case UserRepo_Create None ?u d of (Inl e, d') \<Rightarrow> (Inl e, d') | (Inr _, d') \<Rightarrow> (Inr (toUserDTO ?u), d'))"
      using False assms(2) by (simp add: auth_Register_def Let_def)
    consider (long) "255 < length (normalize_email (RR_Email req))"
      | (taken) "\<not> 255 < length (normalize_email (RR_Email req))" "normalize_email (RR_Email req) \<in> U_Email ` set (users d)"
      | (new) "\<not> 255 < length (normalize_email (RR_Email req))" "normalize_email (RR_Email req) \<notin> U_Email ` set (users d)"
      by blast
    then show ?thesis
    proof cases
      case long
      then have "UserRepo_Create None ?u d = (Inl (WrapErr ''create user'' string_too_long), d)"
        by (simp add: UserRepo_Create_def insert_user_def insert_err_def pg_error_defs)
      then show ?thesis using e r long by (simp add: reply_def RespondError_def pg_error_defs)
    next
      case taken
      then have "\<exists>v\<in>set (users d). U_Email v = U_Email ?u" by auto
      then have "UserRepo_Create None ?u d = (Inl (AlreadyExists ''email''), d)"
        using taken(1) n assms(3) by (simp add: UserRepo_Create_def insert_user_def insert_err_def pg_error_defs)
      then show ?thesis using e r taken False by (simp add: reply_def RespondError_def AlreadyExists_def err_New_def)
    next
      case new
      then have "\<not> (\<exists>v\<in>set (users d). U_Email v = U_Email ?u)" by force
      then have "UserRepo_Create None ?u d = (Inr (), d\<lparr>users := users d @ [?u]\<rparr>)"
        using new(1) n assms(3,4) by (simp add: UserRepo_Create_def insert_user_def)
      then show ?thesis using e r new False by (simp add: reply_def)
    qed
  qed
qed

text \<open>What becomes of a validated request for an organization, the database answering: the slug is stored as it
  was sent and always fits its column, so nothing but a slug that is taken refuses it; the name is only
  bounded before it is trimmed, so it can be stored empty.\<close>

theorem validated_org_outcome:
  assumes "Validate org_create_tags req = None" and "exists_id U_ID (GetUserID c) (users d)"
    and "\<not> exists_id O_ID i (organizations d)"
  shows "\<exists>x d'. org_h_Create org_create_tags None None f i t (Inr req) c d = (x, d') \<and>
    (if OC_Slug req \<in> O_Slug ` set (organizations d) then http_status x = 409 \<and> d' = d
     else http_status x = 201 \<and> organizations d' = organizations d @ [new_org i t req] \<and>
       O_Slug (new_org i t req) = OC_Slug req)"
proof -
  have v: "validateSlug (OC_Slug req)" "length (OC_Slug req) \<le> 60" "length (OC_Name req) \<le> 100"
    using assms(1) unfolding validated by (simp_all add: passes)
  have s: "O_Slug (new_org i t req) = OC_Slug req" using slug_shape [of "OC_Slug req"] v(1) by (simp add: new_org_def)
  have n: "length (O_Name (new_org i t req)) \<le> 255"
    using TrimSpace_length [of "OC_Name req"] v(3) by (simp add: new_org_def)
  have i: "O_ID (new_org i t req) = i" by (simp add: new_org_def)
  have e: "org_h_Create org_create_tags None None f i t (Inr req) c d =
      reply 201 (org_svc_Create None None f i t (GetUserID c) req d)"
    using assms(1) by (simp add: org_h_Create_def handler_steps)
  show ?thesis
  proof (cases "OC_Slug req \<in> O_Slug ` set (organizations d)")
    case True
    then have "\<exists>r\<in>set (organizations d). O_Slug r = O_Slug (new_org i t req)" using s by auto
    then have "OrgRepo_Create None (new_org i t req) d = (Inl (AlreadyExists ''organization slug''), d)"
      using n s v(2) by (simp add: OrgRepo_Create_def insert_org_def pg_error_defs)
    then show ?thesis using e True by (simp add: org_svc_Create_def Let_def reply_def RespondError_def AlreadyExists_def err_New_def)
  next
    case False
    let ?d1 = "d\<lparr>organizations := organizations d @ [new_org i t req]\<rparr>"
    have "\<not> (\<exists>r\<in>set (organizations d). O_Slug r = O_Slug (new_org i t req))" using False s by force
    then have c: "OrgRepo_Create None (new_org i t req) d = (Inr (), ?d1)"
      using n s v(2) i assms(3) by (simp add: OrgRepo_Create_def insert_org_def)
    have "\<exists>d2. OrgRepo_AddMember None t i (GetUserID c) RoleOwner ?d1 = (Inr (), d2) \<and> organizations d2 = organizations ?d1"
      using assms(2) i by (auto simp: OrgRepo_AddMember_def upsert_org_member_def exists_id_def)
    then show ?thesis using e c False s i by (auto simp: org_svc_Create_def Let_def reply_def)
  qed
qed

theorem blank_name_stored:
  "Validate org_create_tags \<lparr>OC_Name = ''   '', OC_Slug = ''o'', OC_Description = []\<rparr> = None \<and>
   O_Name (new_org i t \<lparr>OC_Name = ''   '', OC_Slug = ''o'', OC_Description = []\<rparr>) = []"
proof -
  have "validateSlug ''o''" by code_simp
  then show ?thesis by (simp add: validated passes new_org_def TrimSpace_def TrimLeft_def)
qed

section \<open>Concrete requests\<close>

definition forty_queue_request :: QueueCreateRequest where
  "forty_queue_request = \<lparr>QR_Name = ''mail'', QR_Description = [], QR_Priority = 5, QR_Concurrency = 4, QR_MaxRetries = 0,
     QR_RetryStrategy = ''fixed'', QR_RetryDelaySec = 3000000000, QR_VisibilityTimeoutSec = 40, QR_JobTimeoutSec = 40,
     QR_DLQQueueID = None, QR_Metadata = None\<rparr>"

theorem validated_queue_fits_witness:
  "queue_violation (new_queue 9 5 6 (queue_setDefaults forty_queue_request)) = Some out_of_range"
proof -
  have v: "Validate queue_create_tags forty_queue_request = None"
    unfolding validated by (simp add: passes forty_queue_request_def strategies_def)
  have n: "\<not> (QR_RetryDelaySec forty_queue_request < 2 ^ 31 \<and> QR_VisibilityTimeoutSec forty_queue_request < 2 ^ 31 \<and>
      QR_JobTimeoutSec forty_queue_request < 2 ^ 31)"
    by (simp add: forty_queue_request_def)
  show ?thesis using validated_queue_fits [OF v, of 9 5 6, unfolded if_not_P [OF n]] by blast
qed

definition eleven_request :: EnqueueRequest where
  "eleven_request = sample_request\<lparr>ER_Type := ''demo.echo'', ER_Priority := Some 11, ER_IdempotencyKey := None\<rparr>"


definition long_register :: RegisterRequest where
  "long_register = \<lparr>RR_Email = ''ann@x'', RR_Password = replicate 73 (CHR ''a''), RR_FullName = ''ann''\<rparr>"

theorem validated_register_outcome_witness:
  "\<exists>x. auth_h_Register (register_tags (\<lambda>_. True)) (\<lambda>p. if 72 < length p then Inl (PlainErr ''too long'') else Inr ''h'')
     None 1 0 (Inr long_register) queue_ctx empty_db = (x, empty_db) \<and> http_status x = 500"
proof -
  let ?hash = "\<lambda>p. if 72 < length p then Inl (PlainErr ''too long'') else Inr ''h''"
  have v: "Validate (register_tags (\<lambda>_. True)) long_register = None" unfolding validated by (simp add: passes long_register_def)
  have l: "\<not> exists_id U_ID 1 (users empty_db)" by (simp add: exists_id_def empty_db_def)
  show ?thesis
    using validated_register_outcome [where hash = ?hash and m = "''too long''" and h = "''h''" and t = 0 and c = queue_ctx, OF v _ _ l]
    by (auto simp: long_register_def)
qed

theorem validated_org_outcome_witness:
  "\<exists>x d'. org_h_Create org_create_tags None None None 5 0 (Inr \<lparr>OC_Name = ''   '', OC_Slug = ''o'', OC_Description = []\<rparr>)
     guard_ctx guard_db = (x, d') \<and> http_status x = 201"
proof -
  have u: "exists_id U_ID (GetUserID guard_ctx) (users guard_db)" "\<not> exists_id O_ID 5 (organizations guard_db)"
    "organizations guard_db = []"
    by (simp_all add: guard_db_def guard_ctx_def exists_id_def ann_db_def empty_db_def GetUserID_def local_uuid_def
        SetUserID_def bearer_ctx_def ctx_defs)
  have v: "Validate org_create_tags \<lparr>OC_Name = ''   '', OC_Slug = ''o'', OC_Description = []\<rparr> = None"
    using blank_name_stored by blast
  show ?thesis using validated_org_outcome [OF v u(1,2), where f = None and t = 0] u(3) by auto
qed

end
