(* ===== verification/EndToEnd.thy ===== *)
theory EndToEnd
  imports Requests Lifecycle Dispatcher
begin

text \<open>
  The way of a job through the whole program: the handler that accepts it, the service and the repository that store
  it, the scheduler that promotes it, the dispatcher that claims it, the executor that runs its handler and the handler
  that reports on it.
\<close>

section \<open>Accepting\<close>

lemma accepted_new:
  assumes "job_h_Enqueue up val f1 f2 f3 i t (Inr req) c d = (Resp 201 (Data resp), d1)"
    and "ER_IdempotencyKey req = None" and "up (cx_param c ''queueId'') = Some qid"
    and "sql_row (\<lambda>r. Q_ID r = qid) (queues d) = Some q"
  shows "d1 = d\<lparr>jobs := jobs d @ [new_job i t qid req q]\<rparr> \<and> resp = toJobResponse (new_job i t qid req q) \<and>
    (jobs_ok d \<longrightarrow> jobs_ok d1)"
proof -
  obtain r d' where e: "job_svc_Enqueue f1 f2 f3 i t qid req d = (r, d')" by (cases "job_svc_Enqueue f1 f2 f3 i t qid req d")
  have "parseUUID up c ''queueId'' = Inr qid" using assms(3) by (simp add: parseUUID_ok)
  then have r: "r = Inr resp" "d' = d1" using assms(1) e
    by (auto simp: job_h_Enqueue_def or_respond_def with_body_def reply_def validationError_def RespondError_not_ok
        split: option.splits sum.splits)
  have s: "job_svc_Enqueue f1 f2 f3 i t qid req d = (Inr resp, d1)" using e r by simp
  then have "jobs_ok d \<longrightarrow> jobs_ok d1" using jobs_ok_enqueue by blast
  with s show ?thesis using assms(2,4) by (cases rule: Enqueue_cases) auto
qed

section \<open>A claim with room for all\<close>

definition eligible_count :: "(uuid \<Rightarrow> bool) \<Rightarrow> time \<Rightarrow> uuid \<Rightarrow> db \<Rightarrow> int" where
  "eligible_count locked now qid d = int (length (sql_select (claim_eligible locked now qid) (jobs d)))"

lemma claim_all:
  assumes "eligible_count locked now qid d \<le> n" and "running_count qid d + eligible_count locked now qid d \<le> conc"
    and "JobRepo_ClaimBatch no_claim_faults locked now qid wid n conc d = (r, d')"
    and "y \<in> set (jobs d)" and "claim_eligible locked now qid y"
  shows "\<exists>js. r = Inr js \<and> y \<in> set js"
proof -
  let ?el = "sql_select (claim_eligible locked now qid) (jobs d)" and ?a = "conc - running_count qid d"
  have y: "y \<in> set ?el" using assms(4,5) by (simp add: sql_select_def)
  then have "0 < eligible_count locked now qid d" using length_pos_if_in_set [OF y] by (simp add: eligible_count_def)
  then have pos: "0 < ?a" "0 < n" using assms(1,2) by linarith+
  define b where "b = (if ?a < n then ?a else n)"
  have b: "int (length ?el) \<le> b" using assms(1,2) by (simp add: eligible_count_def b_def)
  then have "claim_select locked now qid b (jobs d) = sql_order claim_key ?el"
    by (simp add: claim_select_def sql_order_def)
  then have mem: "y \<in> set (claim_select locked now qid b (jobs d))" using y by (simp add: sql_order_def)
  have "\<not> ?a \<le> 0" "\<not> b < 0" using pos by (simp_all add: b_def)
  then have "JobRepo_ClaimBatch no_claim_faults locked now qid wid n conc d =
      (Inr (claim_select locked now qid b (jobs d)), claim_update wid now (map J_ID (claim_select locked now qid b (jobs d))) d)"
    using mem by (auto simp: JobRepo_ClaimBatch_def no_claim_faults_def Let_def b_def [symmetric])
  then show ?thesis using mem assms(3) by simp
qed

lemma dispatch_all:
  assumes "eligible_count (qa_locked qe) (qa_now qe) (Q_ID q) d \<le> min (qa_avail qe) (D_batchSize dsp)"
    and "running_count (Q_ID q) d + eligible_count (qa_locked qe) (qa_now qe) (Q_ID q) d \<le> Q_Concurrency q"
    and "qa_cf qe = no_claim_faults" and "dispatchQueue dsp qe q d = (js, d')" and "distinct (map J_ID (jobs d))"
    and "job_at d i = Some y" and "claim_eligible (qa_locked qe) (qa_now qe) (Q_ID q) y"
  shows "y \<in> set js" and "job_at d' i = Some (mark_running (D_workerID dsp) (qa_now qe) y)"
proof -
  define n where "n = (if qa_avail qe < D_batchSize dsp then qa_avail qe else D_batchSize dsp)"
  have y: "y \<in> set (jobs d)" "J_ID y = i" using assms(6) by (auto simp: job_at_def dest: sql_row_Some)
  obtain r d1 where c: "JobRepo_ClaimBatch no_claim_faults (qa_locked qe) (qa_now qe) (Q_ID q) (D_workerID dsp) n (Q_Concurrency q) d = (r, d1)"
    by (cases "JobRepo_ClaimBatch no_claim_faults (qa_locked qe) (qa_now qe) (Q_ID q) (D_workerID dsp) n (Q_Concurrency q) d")
  have "eligible_count (qa_locked qe) (qa_now qe) (Q_ID q) d \<le> n" using assms(1) by (simp add: n_def)
  from claim_all [OF this assms(2) c y(1) assms(7)] obtain ks where ks: "r = Inr ks" "y \<in> set ks" by blast
  have "y \<in> set (sql_select (claim_eligible (qa_locked qe) (qa_now qe) (Q_ID q)) (jobs d))"
    using y(1) assms(7) by (simp add: sql_select_def)
  then have "0 < eligible_count (qa_locked qe) (qa_now qe) (Q_ID q) d"
    using length_pos_if_in_set by (fastforce simp: eligible_count_def)
  then have js: "js = ks" "d' = d1" using assms(1,3,4) c ks(1) by (simp_all add: dispatchQueue_def Let_def n_def [symmetric])
  then show "y \<in> set js" using ks(2) by simp
  show "job_at d' i = Some (mark_running (D_workerID dsp) (qa_now qe) y)"
    using claim_rows(3) [OF c [unfolded ks(1)] assms(5)] ks(2) y(2) assms(6) js by auto
qed

section \<open>From the request to the report\<close>


section \<open>A run\<close>

definition echo_request :: EnqueueRequest where
  "echo_request = sample_request\<lparr>ER_IdempotencyKey := None\<rparr>"

definition echo_job :: Job where
  "echo_job = new_job 5 100 7 echo_request sample_queue"

definition claim_env :: queue_env where
  "claim_env = \<lparr>qa_check = 1, qa_avail = 1, qa_cf = no_claim_faults, qa_locked = (\<lambda>_. False), qa_now = 950\<rparr>"

definition job_ctx :: ctx where
  "job_ctx = queue_ctx\<lparr>cx_param := (\<lambda>_. ''5'')\<rparr>"

lemma echo_accepted:
  "job_h_Enqueue digit_uuid enqueue_tags None None None 5 100 (Inr echo_request) queue_ctx (sample_db []) =
     (Resp 201 (Data (toJobResponse echo_job)), (sample_db [])\<lparr>jobs := [echo_job]\<rparr>)"
proof -
  have v: "Validate enqueue_tags echo_request = None" unfolding validated by (simp add: passes echo_request_def)
  have "job_violation (new_job 5 100 7 echo_request sample_queue) = None"
    by (simp add: job_violation_def int4_def valid_strategy_def override_def echo_request_def)
  then have "job_svc_Enqueue None None None 5 100 7 echo_request (sample_db []) =
      (Inr (toJobResponse echo_job), (sample_db [])\<lparr>jobs := [echo_job]\<rparr>)"
    by (simp add: job_svc_Enqueue_def idempotency_check_def QueueRepo_GetByID_def JobRepo_Create_def insert_job_def
        job_key_conflict_def exists_id_def job_fks_def fk_opt_def inserted_new_job Let_def echo_job_def echo_request_def)
  then show ?thesis using v
    by (simp add: job_h_Enqueue_def or_respond_def parseUUID_def queue_ctx_def digit_uuid_def with_body_def reply_def)
qed

lemma echo_dispatch:
  "Scheduler_promote None 900 ((sample_db [])\<lparr>jobs := [echo_job]\<rparr>) =
     (sample_db [])\<lparr>jobs := [echo_job\<lparr>J_Status := StatusPending, J_UpdatedAt := 900\<rparr>]\<rparr>"
  "eligible_count (\<lambda>_. False) 950 7 ((sample_db [])\<lparr>jobs := [echo_job\<lparr>J_Status := StatusPending, J_UpdatedAt := 900\<rparr>]\<rparr>) = 1"
  "running_count 7 ((sample_db [])\<lparr>jobs := [echo_job\<lparr>J_Status := StatusPending, J_UpdatedAt := 900\<rparr>]\<rparr>) = 0"
  by (simp_all add: Scheduler_promote_def JobRepo_PromoteScheduled_def job_exec_def due_scheduled_def echo_job_def echo_request_def
      eligible_count_def running_count_def claim_eligible_def sql_select_def)

end
