(* ===== verification/WsHub.thy ===== *)
theory WsHub
  imports Startup
begin

text \<open>
  The WebSocket hub (\<open>internal/handler/ws/ws.go\<close>): the goroutine that broadcasts (\<open>run\<close>), the one that
  receives from Redis (\<open>subscribeToRedis\<close>), and the goroutine of each connection, interleaved. The broadcast
  loop holds the clients' mutex for reading while it goes over the set, in any order, so no connection joins
  or leaves meanwhile; the writes themselves take time: the loop and a connection that answers a ping can be
  in the midst of one at once. Connections are numbers; whether a write succeeds is the network's choice.
  \<open>h_log\<close> and \<open>h_joined\<close> are ghosts: the messages broadcast so far and their number when a client was added.
\<close>

section \<open>State and operations\<close>

text \<open>A frame written to a client: a broadcast event, or the answer to a ping.\<close>

datatype frame = Event string | Answer string

text \<open>The broadcast loop waits for a message, has taken one, or goes over the clients still to be served:
  the flag says that the write to the first of them is in progress.\<close>

datatype run_phase = Waiting | Holding string | Serving string "nat list" bool

datatype conn_phase = Absent | Reading | Answering | Leaving

record hub =
  h_clients :: "nat list"
  h_broadcast :: "string list"
  h_run :: run_phase
  h_conn :: "nat \<Rightarrow> conn_phase"
  h_written :: "nat \<Rightarrow> frame list"
  h_closed :: "nat \<Rightarrow> bool"
  h_log :: "string list"
  h_joined :: "nat \<Rightarrow> nat"

definition NewHub :: hub where
  "NewHub = \<lparr>h_clients = [], h_broadcast = [], h_run = Waiting, h_conn = (\<lambda>_. Absent), h_written = (\<lambda>_. []),
     h_closed = (\<lambda>_. False), h_log = [], h_joined = (\<lambda>_. 0)\<rparr>"

definition broadcast_capacity :: nat where "broadcast_capacity = 256"

text \<open>\<open>WriteMessage\<close>: it fails on a closed connection. A client whose write of an event fails is closed and
  stays in the set; the result of answering a ping is ignored.\<close>

definition write_frame :: "bool \<Rightarrow> frame \<Rightarrow> nat \<Rightarrow> hub \<Rightarrow> bool \<times> hub" where
  "write_frame ok fr c h = (if ok \<and> \<not> h_closed h c
     then (True, h\<lparr>h_written := (h_written h)(c := h_written h c @ [fr])\<rparr>) else (False, h))"

definition hub_close :: "nat \<Rightarrow> hub \<Rightarrow> hub" where
  "hub_close c h = h\<lparr>h_closed := (h_closed h)(c := True)\<rparr>"

definition hub_write :: "bool \<Rightarrow> string \<Rightarrow> nat \<Rightarrow> hub \<Rightarrow> hub" where
  "hub_write ok msg c h = (case write_frame ok (Event msg) c h of
     (True, h') \<Rightarrow> h' | (False, h') \<Rightarrow> hub_close c h')"

definition hub_answer :: "bool \<Rightarrow> nat \<Rightarrow> hub \<Rightarrow> hub" where
  "hub_answer ok c h = (snd (write_frame ok (Answer ''pong'') c h))\<lparr>h_conn := (h_conn h)(c := Reading)\<rparr>"

definition hub_register :: "nat \<Rightarrow> hub \<Rightarrow> hub" where
  "hub_register c h = h\<lparr>h_clients := h_clients h @ [c], h_joined := (h_joined h)(c := length (h_log h)),
     h_conn := (h_conn h)(c := Reading)\<rparr>"

definition hub_unregister :: "nat \<Rightarrow> hub \<Rightarrow> hub" where
  "hub_unregister c h = hub_close c (h\<lparr>h_clients := removeAll c (h_clients h), h_conn := (h_conn h)(c := Absent)\<rparr>)"

text \<open>A connection is a fresh object: it was never registered, closed or written to.\<close>

definition fresh_conn :: "nat \<Rightarrow> hub \<Rightarrow> bool" where
  "fresh_conn c h \<longleftrightarrow> c \<notin> set (h_clients h) \<and> \<not> h_closed h c \<and> h_written h c = []"

definition read_locked :: "hub \<Rightarrow> bool" where
  "read_locked h \<longleftrightarrow> (case h_run h of Serving _ _ _ \<Rightarrow> True | _ \<Rightarrow> False)"

text \<open>What a connection's goroutine does after \<open>ReadMessage\<close>: leave on an error, answer the text \<open>ping\<close>,
  and read on otherwise.\<close>

definition after_read :: "(bool \<times> string) option \<Rightarrow> conn_phase" where
  "after_read r = (case r of None \<Rightarrow> Leaving
     | Some (is_text, msg) \<Rightarrow> if is_text \<and> msg = ''ping'' then Answering else Reading)"

inductive hub_step :: "hub \<Rightarrow> hub \<Rightarrow> bool" where
  receive: "length (h_broadcast h) < broadcast_capacity \<Longrightarrow> hub_step h (h\<lparr>h_broadcast := h_broadcast h @ [msg]\<rparr>)"
| take_msg: "h_run h = Waiting \<Longrightarrow> h_broadcast h = msg # rest \<Longrightarrow>
    hub_step h (h\<lparr>h_broadcast := rest, h_run := Holding msg\<rparr>)"
| lock: "h_run h = Holding msg \<Longrightarrow> distinct cs \<Longrightarrow> set cs = set (h_clients h) \<Longrightarrow>
    hub_step h (h\<lparr>h_run := Serving msg cs False, h_log := h_log h @ [msg]\<rparr>)"
| write_begin: "h_run h = Serving msg (c # cs) False \<Longrightarrow> hub_step h (h\<lparr>h_run := Serving msg (c # cs) True\<rparr>)"
| write_end: "h_run h = Serving msg (c # cs) True \<Longrightarrow>
    hub_step h (hub_write ok msg c (h\<lparr>h_run := Serving msg cs False\<rparr>))"
| unlock: "h_run h = Serving msg [] False \<Longrightarrow> hub_step h (h\<lparr>h_run := Waiting\<rparr>)"
| join: "fresh_conn c h \<Longrightarrow> \<not> read_locked h \<Longrightarrow> hub_step h (hub_register c h)"
| read: "h_conn h c = Reading \<Longrightarrow> hub_step h (h\<lparr>h_conn := (h_conn h)(c := after_read r)\<rparr>)"
| answer: "h_conn h c = Answering \<Longrightarrow> hub_step h (hub_answer ok c h)"
| leave: "h_conn h c = Leaving \<Longrightarrow> \<not> read_locked h \<Longrightarrow> hub_step h (hub_unregister c h)"

inductive_cases hub_stepE: "hub_step h h'"

section \<open>Order of delivery\<close>

fun events :: "frame list \<Rightarrow> string list" where
  "events [] = []"
| "events (Event m # fs) = m # events fs"
| "events (Answer _ # fs) = events fs"

lemma events_append [simp]: "events (fs @ gs) = events fs @ events gs"
  by (induction fs rule: events.induct) simp_all

text \<open>The message the loop still has to write to a client.\<close>

definition due :: "hub \<Rightarrow> nat \<Rightarrow> string list" where
  "due h c = (case h_run h of Serving msg cs _ \<Rightarrow> if c \<in> set cs then [msg] else [] | _ \<Rightarrow> [])"

definition served_in_order :: "hub \<Rightarrow> nat \<Rightarrow> bool" where
  "served_in_order h c \<longleftrightarrow> h_joined h c \<le> length (h_log h) \<and>
     (h_closed h c \<or> events (h_written h c) @ due h c = drop (h_joined h c) (h_log h))"

definition run_ok :: "run_phase \<Rightarrow> nat list \<Rightarrow> bool" where
  "run_ok p clients \<longleftrightarrow> (case p of Serving _ cs b \<Rightarrow> distinct cs \<and> set cs \<subseteq> set clients \<and> (b \<longrightarrow> cs \<noteq> []) | _ \<Rightarrow> True)"

definition hub_inv :: "hub \<Rightarrow> bool" where
  "hub_inv h \<longleftrightarrow> distinct (h_clients h) \<and> length (h_broadcast h) \<le> broadcast_capacity \<and>
     run_ok (h_run h) (h_clients h) \<and> (\<forall>c. h_conn h c \<noteq> Absent \<longleftrightarrow> c \<in> set (h_clients h)) \<and>
     (\<forall>c\<in>set (h_clients h). served_in_order h c)"

lemmas hub_op_defs = hub_write_def hub_answer_def hub_register_def hub_unregister_def hub_close_def write_frame_def

lemma hub_write_rest [simp]:
  "h_clients (hub_write ok msg c h) = h_clients h" "h_broadcast (hub_write ok msg c h) = h_broadcast h"
  "h_run (hub_write ok msg c h) = h_run h" "h_conn (hub_write ok msg c h) = h_conn h"
  by (simp_all add: hub_op_defs)

lemma hub_answer_rest [simp]:
  "h_clients (hub_answer ok c h) = h_clients h" "h_broadcast (hub_answer ok c h) = h_broadcast h"
  "h_run (hub_answer ok c h) = h_run h" "h_conn (hub_answer ok c h) = (h_conn h)(c := Reading)"
  by (simp_all add: hub_op_defs)

lemma served_write:
  assumes "h_run h = Serving msg (c # cs) b" and "distinct (c # cs)" and "served_in_order h x"
  shows "served_in_order (hub_write ok msg c (h\<lparr>h_run := Serving msg cs False\<rparr>)) x"
  using assms by (cases "x = c") (auto simp: served_in_order_def due_def hub_op_defs)

lemma served_answer: "served_in_order h x \<Longrightarrow> served_in_order (hub_answer ok c h) x"
  by (auto simp: served_in_order_def due_def hub_op_defs)

lemma hub_inv_step: "hub_step h h' \<Longrightarrow> hub_inv h \<Longrightarrow> hub_inv h'"
proof (induction rule: hub_step.induct)
  case (write_end h msg c cs ok)
  then show ?case using served_write [OF write_end(1), of _ ok] by (auto simp: hub_inv_def run_ok_def)
next
  case (answer h c ok)
  then show ?case using served_answer [of h _ ok c] by (auto simp: hub_inv_def)
next
  case (join c h)
  then show ?case
    by (auto simp: hub_inv_def run_ok_def served_in_order_def due_def fresh_conn_def hub_register_def read_locked_def
        split: run_phase.splits)
next
  case (leave h c)
  then show ?case
    by (auto simp: hub_inv_def run_ok_def served_in_order_def due_def hub_unregister_def hub_close_def read_locked_def
        distinct_removeAll split: run_phase.splits)
next
  case (read h c r)
  then show ?case
    by (auto simp: hub_inv_def served_in_order_def due_def after_read_def split: option.splits run_phase.splits)
qed (auto simp: hub_inv_def run_ok_def served_in_order_def due_def split: if_splits)

lemma hub_reachable_inv: "hub_step\<^sup>*\<^sup>* NewHub h \<Longrightarrow> hub_inv h"
  by (induction rule: rtranclp_induct) (auto simp: hub_inv_step, simp add: hub_inv_def NewHub_def run_ok_def)

text \<open>C40: A connected client whose writes have all succeeded receives exactly the messages broadcast
  since it joined, each once and in their order: what it has received, and the message the loop is about to
  write to it if any, make up that part of the log, however connections, disconnections, pings and failing
  writes of others interleave; and the channel never holds more than 256 messages.\<close>

theorem hub_delivers_in_order:
  assumes "hub_step\<^sup>*\<^sup>* NewHub h" and "c \<in> set (h_clients h)" and "\<not> h_closed h c"
  shows "events (h_written h c) @ due h c = drop (h_joined h c) (h_log h) \<and> length (h_broadcast h) \<le> 256"
  using hub_reachable_inv [OF assms(1)] assms(2,3) by (auto simp: hub_inv_def served_in_order_def broadcast_capacity_def)

text \<open>A run with one client: it joins, a message arrives and its write begins, and the client sends a ping.\<close>

definition ping_run :: "nat \<Rightarrow> hub" where
  "ping_run c = \<lparr>h_clients = [c], h_broadcast = [], h_run = Serving ''m'' [c] True, h_conn = (\<lambda>_. Absent)(c := Answering),
     h_written = (\<lambda>_. []), h_closed = (\<lambda>_. False), h_log = [''m''], h_joined = (\<lambda>_. 0)(c := 0)\<rparr>"

lemma ping_run_reachable: "hub_step\<^sup>*\<^sup>* NewHub (ping_run c)"
proof -
  let ?h1 = "hub_register c NewHub"
  let ?h2 = "?h1\<lparr>h_broadcast := h_broadcast ?h1 @ [''m'']\<rparr>"
  let ?h3 = "?h2\<lparr>h_broadcast := [], h_run := Holding ''m''\<rparr>"
  let ?h4 = "?h3\<lparr>h_run := Serving ''m'' [c] False, h_log := h_log ?h3 @ [''m'']\<rparr>"
  let ?h5 = "?h4\<lparr>h_run := Serving ''m'' [c] True\<rparr>"
  let ?h6 = "?h5\<lparr>h_conn := (h_conn ?h5)(c := after_read (Some (True, ''ping'')))\<rparr>"
  have "hub_step NewHub ?h1" by (rule hub_step.join) (simp_all add: fresh_conn_def NewHub_def read_locked_def)
  moreover have "hub_step ?h1 ?h2" by (rule hub_step.receive) (simp add: hub_register_def NewHub_def broadcast_capacity_def)
  moreover have "hub_step ?h2 ?h3" by (rule hub_step.take_msg) (simp_all add: hub_register_def NewHub_def)
  moreover have "hub_step ?h3 ?h4" by (rule hub_step.lock) (simp_all add: hub_register_def NewHub_def)
  moreover have "hub_step ?h4 ?h5" by (rule hub_step.write_begin) simp
  moreover have "hub_step ?h5 ?h6" by (rule hub_step.read) (simp add: hub_register_def)
  moreover have "?h6 = ping_run c" by (simp add: ping_run_def hub_register_def NewHub_def after_read_def fun_eq_iff)
  ultimately show ?thesis by (metis (no_types, lifting) rtranclp.rtrancl_into_rtrancl rtranclp.rtrancl_refl)
qed

theorem hub_delivers_in_order_witness:
  "\<exists>h. hub_step\<^sup>*\<^sup>* NewHub h \<and> events (h_written h 1) = [''m''] \<and> h_log h = [''m'']"
proof -
  let ?h = "hub_write True ''m'' 1 (ping_run 1\<lparr>h_run := Serving ''m'' [] False\<rparr>)"
  have "hub_step (ping_run 1) ?h" by (rule hub_step.write_end) (simp add: ping_run_def)
  then have r: "hub_step\<^sup>*\<^sup>* NewHub ?h" using ping_run_reachable [of 1] by (rule rtranclp.rtrancl_into_rtrancl [rotated])
  have s: "1 \<in> set (h_clients ?h)" "\<not> h_closed ?h 1" "h_joined ?h 1 = 0" "h_log ?h = [''m'']" "due ?h 1 = []"
    by (simp_all add: ping_run_def hub_op_defs due_def)
  show ?thesis using r hub_delivers_in_order [OF r s(1,2)] s(3,4,5) by auto
qed

section \<open>Two writers on one connection\<close>

text \<open>The WebSocket library supports one concurrent writer on a connection. Nothing here sees to it: the
  broadcast loop and the goroutine of the connection answering a ping write at once.\<close>

definition two_writers :: "hub \<Rightarrow> nat \<Rightarrow> bool" where
  "two_writers h c \<longleftrightarrow> h_conn h c = Answering \<and> (case h_run h of Serving _ (x # _) True \<Rightarrow> x = c | _ \<Rightarrow> False)"

theorem hub_two_writers: "\<exists>h. hub_step\<^sup>*\<^sup>* NewHub h \<and> two_writers h c"
  using ping_run_reachable [of c] by (intro exI [of _ "ping_run c"]) (simp add: two_writers_def ping_run_def)

section \<open>Publishing an event\<close>

text \<open>\<open>json.Marshal\<close> and the Redis command are parameters; nothing in the program calls this function.\<close>

record 'd event =
  ev_type :: string
  ev_data :: 'd
  ev_time :: time

definition Publish :: "('d event \<Rightarrow> string res) \<Rightarrow> (string \<Rightarrow> string \<Rightarrow> 's \<Rightarrow> int res \<times> 's) \<Rightarrow> time \<Rightarrow> string \<Rightarrow> 'd \<Rightarrow>
    's \<Rightarrow> unit res \<times> 's" where
  "Publish json_Marshal rdb now eventType data s =
     (case json_Marshal \<lparr>ev_type = eventType, ev_data = data, ev_time = now\<rparr> of
        Inl err \<Rightarrow> (Inl err, s)
      | Inr payload \<Rightarrow> redisClient_Publish rdb ''scheduler_events'' payload s)"

lemma Publish_unencodable: "json_Marshal \<lparr>ev_type = ty, ev_data = d, ev_time = now\<rparr> = Inl err \<Longrightarrow>
    Publish json_Marshal rdb now ty d s = (Inl err, s)"
  by (simp add: Publish_def)

end
