(* ===== verification/Logger.thy ===== *)
theory Logger
  imports Domain
begin

text \<open>
  The logger (\<open>internal/platform/logger/logger.go\<close>): levels, child loggers, the typed fields and their
  dispatch onto the methods of a zerolog event. The library is used as it documents itself: an event below
  the global level is not written, a field method appends its key without looking for an equal one, \<open>Err\<close>
  writes under the key \<open>error\<close>, \<open>Fatal\<close> ends the process. Parsing a level is the parameter \<open>ParseLevel\<close>; the
  time stamp of an entry is left out.
\<close>

section \<open>Fields\<close>

text \<open>The dynamic types the callers pass in a field; \<open>VNil\<close> is the nil interface.\<close>

datatype fvalue =
    VString string | VInt int | VInt64 int | VBool bool | VError goerr | VNil | VStrings "string list" | VFloat64 rat
  | VJson json

record Field =
  Key :: string
  Value :: fvalue

definition log_String :: "string \<Rightarrow> string \<Rightarrow> Field" where "log_String k v = \<lparr>Key = k, Value = VString v\<rparr>"
definition log_Int :: "string \<Rightarrow> int \<Rightarrow> Field" where "log_Int k v = \<lparr>Key = k, Value = VInt v\<rparr>"
definition log_Int64 :: "string \<Rightarrow> int \<Rightarrow> Field" where "log_Int64 k v = \<lparr>Key = k, Value = VInt64 v\<rparr>"
definition log_Bool :: "string \<Rightarrow> bool \<Rightarrow> Field" where "log_Bool k v = \<lparr>Key = k, Value = VBool v\<rparr>"
definition log_Err :: "goerr option \<Rightarrow> Field" where
  "log_Err e = \<lparr>Key = ''error'', Value = (case e of None \<Rightarrow> VNil | Some g \<Rightarrow> VError g)\<rparr>"
definition log_Duration :: "string \<Rightarrow> int \<Rightarrow> Field" where "log_Duration k ms = \<lparr>Key = k, Value = VInt64 ms\<rparr>"
definition log_Strings :: "string \<Rightarrow> string list \<Rightarrow> Field" where "log_Strings k v = \<lparr>Key = k, Value = VStrings v\<rparr>"
definition log_Any :: "string \<Rightarrow> fvalue \<Rightarrow> Field" where "log_Any k v = \<lparr>Key = k, Value = v\<rparr>"
definition log_Float64 :: "string \<Rightarrow> rat \<Rightarrow> Field" where "log_Float64 k v = \<lparr>Key = k, Value = VFloat64 v\<rparr>"

lemmas field_defs = log_String_def log_Int_def log_Int64_def log_Bool_def log_Err_def log_Duration_def
  log_Strings_def log_Any_def log_Float64_def

section \<open>Events\<close>

text \<open>The calls of zerolog's field methods on one event, in order.\<close>

datatype zcall =
    ZStr string string | ZInt string int | ZInt64 string int | ZBool string bool | ZErr goerr
  | ZInterface string fvalue

fun apply_field :: "zcall list \<Rightarrow> Field \<Rightarrow> zcall list" where
  "apply_field event f = event @ [case Value f of
     VString v \<Rightarrow> ZStr (Key f) v
   | VInt v \<Rightarrow> ZInt (Key f) v
   | VInt64 v \<Rightarrow> ZInt64 (Key f) v
   | VBool v \<Rightarrow> ZBool (Key f) v
   | VError e \<Rightarrow> ZErr e
   | v \<Rightarrow> ZInterface (Key f) v]"

definition applyFields :: "zcall list \<Rightarrow> Field list \<Rightarrow> zcall list" where
  "applyFields event fs = foldl apply_field event fs"

fun zkey :: "zcall \<Rightarrow> string" where
  "zkey (ZStr k _) = k" | "zkey (ZInt k _) = k" | "zkey (ZInt64 k _) = k" | "zkey (ZBool k _) = k"
| "zkey (ZErr _) = ''error''" | "zkey (ZInterface k _) = k"

section \<open>Loggers\<close>

text \<open>The levels of the library are numbers, in the order of severity.\<close>

type_synonym level = int

definition DebugLevel :: level where "DebugLevel = 0"
definition InfoLevel :: level where "InfoLevel = 1"
definition WarnLevel :: level where "WarnLevel = 2"
definition ErrorLevel :: level where "ErrorLevel = 3"
definition FatalLevel :: level where "FatalLevel = 4"

lemmas level_defs = DebugLevel_def InfoLevel_def WarnLevel_def ErrorLevel_def FatalLevel_def

record entry =
  e_level :: level
  e_fields :: "zcall list"
  e_msg :: string

text \<open>The global state of the library: its level and what has been written, with the format of the output.\<close>

record log_world =
  w_level :: level
  w_pretty :: bool
  w_out :: "entry list"
  w_exited :: bool

type_synonym logger = "zcall list"

definition logger_New :: "(string \<Rightarrow> level option) \<Rightarrow> string \<Rightarrow> string \<Rightarrow> log_world \<Rightarrow> logger \<times> log_world" where
  "logger_New ParseLevel cfg_level cfg_format w =
     (let level = (case ParseLevel (ToLower cfg_level) of None \<Rightarrow> InfoLevel | Some l \<Rightarrow> l)
      in ([ZStr ''service'' ''job-scheduler''],
          w\<lparr>w_level := level, w_pretty := (ToLower cfg_format = ''pretty'')\<rparr>))"

definition With :: "string \<Rightarrow> string \<Rightarrow> logger \<Rightarrow> logger" where "With k v l = l @ [ZStr k v]"
definition WithField :: "string \<Rightarrow> string \<Rightarrow> logger \<Rightarrow> logger" where "WithField k v l = l @ [ZStr k v]"
definition WithError :: "goerr \<Rightarrow> logger \<Rightarrow> logger" where "WithError e l = l @ [ZErr e]"

definition log_msg :: "level \<Rightarrow> logger \<Rightarrow> string \<Rightarrow> Field list \<Rightarrow> log_world \<Rightarrow> log_world" where
  "log_msg lvl l msg fs w = (if w_level w \<le> lvl
     then w\<lparr>w_out := w_out w @ [\<lparr>e_level = lvl, e_fields = applyFields l fs, e_msg = msg\<rparr>]\<rparr> else w)"

definition log_Debug :: "logger \<Rightarrow> string \<Rightarrow> Field list \<Rightarrow> log_world \<Rightarrow> log_world" where "log_Debug = log_msg DebugLevel"
definition log_Info :: "logger \<Rightarrow> string \<Rightarrow> Field list \<Rightarrow> log_world \<Rightarrow> log_world" where "log_Info = log_msg InfoLevel"
definition log_Warn :: "logger \<Rightarrow> string \<Rightarrow> Field list \<Rightarrow> log_world \<Rightarrow> log_world" where "log_Warn = log_msg WarnLevel"
definition log_Error :: "logger \<Rightarrow> string \<Rightarrow> Field list \<Rightarrow> log_world \<Rightarrow> log_world" where "log_Error = log_msg ErrorLevel"
definition log_Fatal :: "logger \<Rightarrow> string \<Rightarrow> Field list \<Rightarrow> log_world \<Rightarrow> log_world" where
  "log_Fatal l msg fs w = (log_msg FatalLevel l msg fs w)\<lparr>w_exited := True\<rparr>"

section \<open>Facts\<close>

lemma applyFields_append: "applyFields l fs = l @ applyFields [] fs"
proof (induction fs rule: rev_induct)
  case (snoc f fs)
  then show ?case by (simp add: applyFields_def)
qed (simp add: applyFields_def)

lemma applyFields_one: "applyFields l [f] = apply_field l f"
  by (simp add: applyFields_def)

text \<open>Fields are written in the order they are given, after those of the logger, each under its own key, but
  an error always under \<open>error\<close>.\<close>

theorem logged_keys:
  "map zkey (applyFields l fs) = map zkey l @ map (\<lambda>f. case Value f of VError _ \<Rightarrow> ''error'' | _ \<Rightarrow> Key f) fs"
proof (induction fs rule: rev_induct)
  case (snoc f fs)
  then show ?case by (simp add: applyFields_def split: fvalue.split)
qed (simp add: applyFields_def)

text \<open>What the callers write is what \<open>Err\<close> makes: the key of an error field is never lost, and \<open>Err(nil)\<close> is not
  an error call.\<close>

theorem Err_field: "applyFields l [log_Err e] = l @ [case e of None \<Rightarrow> ZInterface ''error'' VNil | Some g \<Rightarrow> ZErr g]"
  by (simp add: applyFields_one log_Err_def split: option.split)

text \<open>An error handed to \<open>Any\<close> under another key is written under \<open>error\<close> and its key is nowhere.\<close>

theorem Any_error_key: "map zkey (applyFields [] [log_Any k (VError g)]) = [''error'']"
  by (simp add: logged_keys log_Any_def)

text \<open>A level that cannot be read counts as \<open>info\<close>: debug messages are dropped, the others written.\<close>

theorem bad_level_is_info:
  assumes "ParseLevel (ToLower cfg_level) = None" and "logger_New ParseLevel cfg_level fmt w = (l, w')"
  shows "log_Debug l m fs w' = w' \<and> w_out (log_Info l m fs w') = w_out w' @ [\<lparr>e_level = InfoLevel, e_fields = applyFields l fs, e_msg = m\<rparr>]"
  using assms by (auto simp: logger_New_def log_Debug_def log_Info_def log_msg_def level_defs)

text \<open>The services name themselves in a field \<open>service\<close> that the root logger already carries: every entry of a
  service has that key twice.\<close>

theorem service_key_twice:
  assumes "logger_New ParseLevel lvl fmt w = (rl, w1)" and "w_out (log_msg lv (WithField ''service'' name rl) m fs w2) \<noteq> w_out w2"
  shows "\<exists>rest. map zkey (e_fields (last (w_out (log_msg lv (WithField ''service'' name rl) m fs w2)))) = ''service'' # ''service'' # rest"
  using assms by (auto simp: logger_New_def WithField_def log_msg_def logged_keys split: if_splits)

end
