(* ===== verification/Loops.thy ===== *)
theory Loops
  imports System WorkerService Logger
begin

text \<open>
  The background goroutines of a worker, loop and log included (\<open>Start\<close> of
  \<open>internal/worker/{reaper,scheduler,heartbeater,cron,dispatcher}.go\<close>): a ticker and a \<open>select\<close> between it and
  the cancellation of the context. A run is given by what the \<open>select\<close> takes, one wake after another; the
  body of a loop works on the database and the log. Proved: a failed tick is logged and changes nothing, the
  next tick goes on; and whatever the loops do to the database is a sequence of steps of \<open>System\<close>.
\<close>

section \<open>A ticker loop\<close>

datatype 'e wake = Tick 'e | Done

text \<open>\<open>time.NewTicker\<close> panics on an interval that is not positive. Without a \<open>Done\<close> the loop waits.\<close>

datatype 's ended = Panicked | Waiting 's | Returned 's

fun select_loop :: "('e \<Rightarrow> 's \<Rightarrow> 's) \<Rightarrow> ('s \<Rightarrow> 's) \<Rightarrow> 'e wake list \<Rightarrow> 's \<Rightarrow> 's ended" where
  "select_loop body stop [] s = Waiting s"
| "select_loop body stop (Done # es) s = Returned (stop s)"
| "select_loop body stop (Tick e # es) s = select_loop body stop es (body e s)"

definition ticker_loop :: "duration \<Rightarrow> ('e \<Rightarrow> 's \<Rightarrow> 's) \<Rightarrow> ('s \<Rightarrow> 's) \<Rightarrow> 'e wake list \<Rightarrow> 's \<Rightarrow> 's ended" where
  "ticker_loop interval body stop es s = (if sint interval \<le> 0 then Panicked else select_loop body stop es s)"

fun final :: "'s ended \<Rightarrow> 's option" where
  "final Panicked = None" | "final (Waiting s) = Some s" | "final (Returned s) = Some s"

definition logged :: "(log_world \<Rightarrow> log_world) \<Rightarrow> 'd \<times> log_world \<Rightarrow> 'd \<times> log_world" where
  "logged f s = (fst s, f (snd s))"

lemma logged_fst [simp]: "fst (logged f s) = fst s" "snd (logged f s) = f (snd s)"
  by (simp_all add: logged_def)

section \<open>Reaper, scheduler, heartbeater\<close>

definition reaper_tick :: "Reaper \<Rightarrow> logger \<Rightarrow> fault \<times> time \<Rightarrow> db \<times> log_world \<Rightarrow> db \<times> log_world" where
  "reaper_tick r l e s = (case JobRepo_ReclaimStale (fst e) (snd e) (R_visibilityTimeout r) (fst s) of
     (Inl err, d') \<Rightarrow> (d', log_Error l ''failed to reclaim stale jobs'' [log_Err (Some err)] (snd s))
   | (Inr n, d') \<Rightarrow>
       (d', if n > 0 then log_Warn l ''reclaimed stale jobs'' [log_Int64 ''count'' (int n)] (snd s) else snd s))"

definition Reaper_Start ::
  "(duration \<Rightarrow> string) \<Rightarrow> Reaper \<Rightarrow> logger \<Rightarrow> (fault \<times> time) wake list \<Rightarrow> db \<times> log_world \<Rightarrow> (db \<times> log_world) ended" where
  "Reaper_Start dur_str r l es s = ticker_loop (R_pollInterval r) (reaper_tick r l)
     (logged (log_Info l ''reaper stopping'' [])) es
     (logged (log_Info l ''reaper started'' [log_String ''poll_interval'' (dur_str (R_pollInterval r)),
        log_String ''visibility_timeout'' (dur_str (R_visibilityTimeout r))]) s)"

definition scheduler_tick :: "logger \<Rightarrow> fault \<times> time \<Rightarrow> db \<times> log_world \<Rightarrow> db \<times> log_world" where
  "scheduler_tick l e s = (case JobRepo_PromoteScheduled (fst e) (snd e) (fst s) of
     (Inl err, d') \<Rightarrow> (d', log_Error l ''failed to promote scheduled jobs'' [log_Err (Some err)] (snd s))
   | (Inr n, d') \<Rightarrow>
       (d', if n > 0 then log_Debug l ''promoted scheduled jobs'' [log_Int64 ''count'' (int n)] (snd s) else snd s))"

definition Scheduler_Start ::
  "(duration \<Rightarrow> string) \<Rightarrow> duration \<Rightarrow> logger \<Rightarrow> (fault \<times> time) wake list \<Rightarrow> db \<times> log_world \<Rightarrow> (db \<times> log_world) ended" where
  "Scheduler_Start dur_str interval l es s = ticker_loop interval (scheduler_tick l)
     (logged (log_Info l ''scheduler stopping'' [])) es
     (logged (log_Info l ''scheduler started'' [log_String ''poll_interval'' (dur_str interval)]) s)"

definition heartbeater_tick :: "uuid \<Rightarrow> logger \<Rightarrow> fault \<times> time \<Rightarrow> db \<times> log_world \<Rightarrow> db \<times> log_world" where
  "heartbeater_tick wid l e s = (case WorkerRepo_Heartbeat (fst e) (snd e) wid (fst s) of
     (Inl err, d') \<Rightarrow> (d', log_Error l ''failed to heartbeat'' [log_Err (Some err)] (snd s))
   | (Inr _, d') \<Rightarrow> (d', snd s))"

definition milliseconds :: "duration \<Rightarrow> int" where
  "milliseconds d = sgn (sint d) * (\<bar>sint d\<bar> div 1000000)"

definition Heartbeater_Start ::
  "Heartbeater \<Rightarrow> logger \<Rightarrow> (fault \<times> time) wake list \<Rightarrow> db \<times> log_world \<Rightarrow> (db \<times> log_world) ended" where
  "Heartbeater_Start h l es s = ticker_loop (H_interval h) (heartbeater_tick (H_workerID h) l)
     (logged (log_Info l ''heartbeater stopping'' [])) es
     (logged (log_Info l ''starting heartbeater'' [log_Duration ''interval'' (milliseconds (H_interval h))]) s)"

section \<open>Cron engine and dispatcher\<close>

text \<open>A tick of the cron engine: the environment of its fires, the fault of its query and the clock. The
  state is the lock store and the database; the log is that of the loop alone.\<close>

definition CronEngine_Start :: "(duration \<Rightarrow> string) \<Rightarrow> CronEngine \<Rightarrow> logger \<Rightarrow>
    (('s, 'm) cron_env_scheme \<times> fault \<times> time) wake list \<Rightarrow> ('s \<times> db) \<times> log_world \<Rightarrow> (('s \<times> db) \<times> log_world) ended" where
  "CronEngine_Start dur_str ce l es s = ticker_loop (CE_pollInterval ce)
     (\<lambda>(env, f, now) x. (cron_evaluate env f now (fst x),
        case CronRepo_ListDue f now (snd (fst x)) of
          Inl err \<Rightarrow> log_Error l ''failed to list due cron jobs'' [log_Err (Some err)] (snd x) | Inr _ \<Rightarrow> snd x))
     (logged (log_Info l ''cron engine stopping'' [])) es
     (logged (log_Info l ''cron engine started'' [log_String ''poll_interval'' (dur_str (CE_pollInterval ce))]) s)"

text \<open>A tick of the dispatcher: the fault of its query and the environment of its queues. The state is the jobs
  submitted to the pool so far and the database.\<close>

definition Dispatcher_Start :: "(string \<Rightarrow> int) \<Rightarrow> (duration \<Rightarrow> string) \<Rightarrow> Dispatcher \<Rightarrow> logger \<Rightarrow>
    (fault \<times> (nat \<Rightarrow> queue_env)) wake list \<Rightarrow> (Job list \<times> db) \<times> log_world \<Rightarrow> ((Job list \<times> db) \<times> log_world) ended" where
  "Dispatcher_Start collate dur_str dsp l es s = ticker_loop (D_pollInterval dsp)
     (\<lambda>(f, env) x. (let (js, d') = dispatchAll collate f dsp env (snd (fst x)) in (fst (fst x) @ js, d'),
        case QueueRepo_ListActivePrioritized collate f (snd (fst x)) of
          Inl err \<Rightarrow> log_Error l ''failed to list active queues'' [log_Err (Some err)] (snd x) | Inr _ \<Rightarrow> snd x))
     (logged (log_Info l ''dispatcher stopping (context canceled)'' [])) es
     (logged (log_Info l ''dispatcher started'' [log_String ''poll_interval'' (dur_str (D_pollInterval dsp)),
        log_Int ''batch_size'' (D_batchSize dsp)]) s)"

section \<open>Errors are logged and survived\<close>

definition errors :: "log_world \<Rightarrow> nat" where
  "errors w = length (filter (\<lambda>e. e_level e = ErrorLevel) (w_out w))"

fun failed_ticks :: "(fault \<times> time) wake list \<Rightarrow> nat" where
  "failed_ticks [] = 0"
| "failed_ticks (Done # es) = 0"
| "failed_ticks (Tick e # es) = (if fst e = None then 0 else 1) + failed_ticks es"

fun good_ticks :: "(fault \<times> time) wake list \<Rightarrow> time list" where
  "good_ticks [] = []"
| "good_ticks (Done # es) = []"
| "good_ticks (Tick e # es) = (if fst e = None then [snd e] else []) @ good_ticks es"

definition audible :: "log_world \<Rightarrow> bool" where
  "audible w \<longleftrightarrow> w_level w \<le> ErrorLevel"

lemma log_level [simp]: "w_level (log_msg lvl l m fs w) = w_level w"
  by (simp add: log_msg_def)

lemmas log_defs = log_Debug_def log_Info_def log_Warn_def log_Error_def

lemma audible_log [simp]: "audible (log_msg lvl l m fs w) = audible w"
  by (simp add: audible_def)

lemma errors_log [simp]:
  "lvl \<noteq> ErrorLevel \<Longrightarrow> errors (log_msg lvl l m fs w) = errors w"
  "audible w \<Longrightarrow> errors (log_msg ErrorLevel l m fs w) = Suc (errors w)"
  by (simp_all add: errors_def log_msg_def audible_def)

text \<open>What the three loops share: a failed tick logs one error and leaves the state, the others log none and
  change the state whatever the log.\<close>

definition quiet :: "log_world \<Rightarrow> log_world \<Rightarrow> bool" where
  "quiet w w' \<longleftrightarrow> w' = w \<or> (\<exists>lvl l m fs. lvl \<noteq> ErrorLevel \<and> w' = log_msg lvl l m fs w)"

lemma quiet_log: "lvl \<noteq> ErrorLevel \<Longrightarrow> quiet w (log_msg lvl l m fs w)"
  unfolding quiet_def by blast

lemma quiet_intros [simp]: "quiet w w" "quiet w (log_Debug l m fs w)" "quiet w (log_Warn l m fs w)"
  unfolding log_defs by (simp add: quiet_def) (rule quiet_log, simp add: level_defs)+

locale housekeeping =
  fixes body :: "fault \<times> time \<Rightarrow> db \<times> log_world \<Rightarrow> db \<times> log_world" and effect :: "time \<Rightarrow> db \<Rightarrow> db"
  assumes bad: "\<exists>l m fs. body (Some f, now) s = (fst s, log_msg ErrorLevel l m fs (snd s))"
    and good: "\<exists>w'. body (None, now) s = (effect now (fst s), w') \<and> quiet (snd s) w'"
begin

lemma tick:
  assumes "audible (snd s)"
  shows "\<exists>w'. body e s = (if fst e = None then effect (snd e) (fst s) else fst s, w') \<and> audible w' \<and>
    errors w' = errors (snd s) + (if fst e = None then 0 else 1)"
proof (cases "fst e")
  case None
  then show ?thesis using good [of "snd e" s] assms by (cases e) (auto simp: quiet_def)
next
  case (Some f)
  then show ?thesis using bad [of f "snd e" s] assms by (cases e) auto
qed

lemma run:
  assumes "audible w"
  shows "\<exists>w'. final (select_loop body (logged (log_msg InfoLevel l m fs)) es (d, w)) = Some (fold effect (good_ticks es) d, w') \<and>
    errors w' = errors w + failed_ticks es"
  using assms
proof (induction es arbitrary: d w)
  case (Cons x es)
  show ?case
  proof (cases x)
    case Done
    then show ?thesis by (simp add: logged_def level_defs)
  next
    case (Tick e)
    obtain w1 where "body e (d, w) = (if fst e = None then effect (snd e) d else d, w1)" "audible w1"
      "errors w1 = errors w + (if fst e = None then 0 else 1)"
      using tick [of "(d, w)" e] Cons.prems by auto
    then show ?thesis using Tick Cons.IH [of w1 "if fst e = None then effect (snd e) d else d"] by auto
  qed
qed simp

lemma started:
  assumes "audible w" and "0 < sint interval"
  shows "\<exists>w'. final (ticker_loop interval body (logged (log_msg InfoLevel l m fs)) es (logged (log_msg InfoLevel l' m' fs') (d, w))) =
      Some (fold effect (good_ticks es) d, w') \<and> errors w' = errors w + failed_ticks es"
  using run [of "log_msg InfoLevel l' m' fs' w"] assms by (simp add: ticker_loop_def logged_def level_defs)

end

interpretation reap: housekeeping "reaper_tick r l" "\<lambda>now. Reaper_reclaim None now (R_visibilityTimeout r)" for r l
proof
  show "\<exists>l' m fs. reaper_tick r l (Some f, now) s = (fst s, log_msg ErrorLevel l' m fs (snd s))" for f now s
    by (auto simp: reaper_tick_def JobRepo_ReclaimStale_def job_exec_def log_defs)
  show "\<exists>w'. reaper_tick r l (None, now) s = (Reaper_reclaim None now (R_visibilityTimeout r) (fst s), w') \<and> quiet (snd s) w'" for now s
    by (simp add: reaper_tick_def Reaper_reclaim_def JobRepo_ReclaimStale_def job_exec_def)
qed

interpretation promoter: housekeeping "scheduler_tick l" "Scheduler_promote None" for l
proof
  show "\<exists>l' m fs. scheduler_tick l (Some f, now) s = (fst s, log_msg ErrorLevel l' m fs (snd s))" for f now s
    by (auto simp: scheduler_tick_def JobRepo_PromoteScheduled_def job_exec_def log_defs)
  show "\<exists>w'. scheduler_tick l (None, now) s = (Scheduler_promote None now (fst s), w') \<and> quiet (snd s) w'" for now s
    by (simp add: scheduler_tick_def Scheduler_promote_def JobRepo_PromoteScheduled_def job_exec_def)
qed

interpretation beat: housekeeping "heartbeater_tick wid l" "\<lambda>now. Heartbeater_tick None now wid" for wid l
proof
  show "\<exists>l' m fs. heartbeater_tick wid l (Some f, now) s = (fst s, log_msg ErrorLevel l' m fs (snd s))" for f now s
    by (auto simp: heartbeater_tick_def WorkerRepo_Heartbeat_def log_defs)
  show "\<exists>w'. heartbeater_tick wid l (None, now) s = (Heartbeater_tick None now wid (fst s), w') \<and> quiet (snd s) w'" for now s
    by (simp add: heartbeater_tick_def Heartbeater_tick_def WorkerRepo_Heartbeat_def)
qed

text \<open>C25: The reaper, the scheduler and the heartbeater survive errors: whatever wakes them, the database they
  leave is that of their successful ticks up to the cancellation, applied in order, a failed tick neither
  changes it nor ends the loop, and the log has gained exactly one error per failed tick.\<close>

theorem housekeeping_survives_errors:
  assumes "audible w" and "0 < sint (R_pollInterval r)" and "0 < sint si" and "0 < sint (H_interval h)"
  shows "(\<exists>w'. final (Reaper_Start dur_str r l es (d, w)) =
        Some (fold (\<lambda>now. Reaper_reclaim None now (R_visibilityTimeout r)) (good_ticks es) d, w') \<and>
        errors w' = errors w + failed_ticks es) \<and>
    (\<exists>w'. final (Scheduler_Start dur_str si l es (d, w)) = Some (fold (Scheduler_promote None) (good_ticks es) d, w') \<and>
        errors w' = errors w + failed_ticks es) \<and>
    (\<exists>w'. final (Heartbeater_Start h l es (d, w)) =
        Some (fold (\<lambda>now. Heartbeater_tick None now (H_workerID h)) (good_ticks es) d, w') \<and>
        errors w' = errors w + failed_ticks es)"
  unfolding Reaper_Start_def Scheduler_Start_def Heartbeater_Start_def log_Info_def
  by (intro conjI reap.started promoter.started beat.started assms)

text \<open>The poll interval is read from the environment and never checked: with one that is not positive, zero for
  a text that is no duration among them, all the loops of a node but the heartbeater panic at their start.\<close>

theorem bad_interval_panics:
  assumes "NewService wid cfg = Some svc" and "sint (WC_PollInterval cfg) \<le> 0"
  shows "Reaper_Start dur_str (S_reaper svc) l es s = Panicked \<and> Scheduler_Start dur_str (S_scheduler svc) l es s = Panicked \<and>
    CronEngine_Start dur_str (S_cronEngine svc) l es' s' = Panicked \<and>
    Dispatcher_Start collate dur_str (S_dispatcher svc) l es'' s'' = Panicked"
  using assms by (auto simp: NewService_def NewDispatcher_def Reaper_Start_def Scheduler_Start_def CronEngine_Start_def
      Dispatcher_Start_def ticker_loop_def split: if_splits)

section \<open>The loops as steps of the system\<close>

lemma select_loop_inv:
  assumes "\<And>e x. P x \<Longrightarrow> P (body e x)" and "\<And>x. P x \<Longrightarrow> P (stop x)" and "P s"
    and "final (select_loop body stop es s) = Some s'"
  shows "P s'"
  using assms(3,4)
proof (induction es arbitrary: s)
  case (Cons x es)
  then show ?case using assms(1,2) by (cases x) auto
qed simp

lemma ticker_loop_inv:
  assumes "final (ticker_loop interval body stop es s) = Some s'" and "P s" and "\<And>e x. P x \<Longrightarrow> P (body e x)"
    and "\<And>x. P x \<Longrightarrow> P (stop x)"
  shows "P s'"
  using select_loop_inv [of P body stop, OF assms(3,4,2)] assms(1) by (simp add: ticker_loop_def split: if_splits)

definition node_sys :: "sys \<Rightarrow> uuid \<Rightarrow> Job list \<Rightarrow> db \<Rightarrow> sys" where
  "node_sys s wid js d = \<lparr>s_db = d, s_inflight = s_inflight s @ map (Pair wid) js\<rparr>"

lemma node_sys_sel [simp]: "s_db (node_sys s wid js d) = d" "s_inflight (node_sys s wid js d) = s_inflight s @ map (Pair wid) js"
  "node_sys s wid js d\<lparr>s_db := d'\<rparr> = node_sys s wid js d'"
  by (simp_all add: node_sys_def)

lemma node_sys_eq: "node_sys s wid [] d = s\<lparr>s_db := d\<rparr>"
  "node_sys s wid js d = s\<lparr>s_db := d, s_inflight := s_inflight s @ map (Pair wid) js\<rparr>"
  by (cases s; simp add: node_sys_def)+

definition leads :: "router \<Rightarrow> registry \<Rightarrow> sys \<Rightarrow> uuid \<Rightarrow> Job list \<Rightarrow> db \<Rightarrow> bool" where
  "leads m reg s wid js d \<longleftrightarrow> (world_step m reg)\<^sup>*\<^sup>* s (node_sys s wid js d)"

lemma leads_start [simp]: "leads m reg s wid [] (s_db s)"
  by (cases s) (simp add: leads_def node_sys_def)

lemma leads_step:
  assumes "leads m reg s wid js d" and "world_step m reg (node_sys s wid js d) (node_sys s wid js' d')"
  shows "leads m reg s wid js' d'"
  using assms unfolding leads_def by (rule rtranclp.rtrancl_into_rtrancl)

lemma leads_db:
  assumes "leads m reg s wid js d"
  shows "leads m reg s wid js (Scheduler_promote f now d)" "leads m reg s wid js (Heartbeater_tick f now w d)"
    "leads m reg s wid js (snd (executeFire parse ff i dbnow cj now d))"
  using world_step.promote [of m reg "node_sys s wid js d" f now]
    world_step.heartbeat [of m reg "node_sys s wid js d" f now w]
    world_step.fire [of m reg "node_sys s wid js d" parse ff i dbnow cj now]
  by (auto intro: leads_step [OF assms])

lemma leads_reclaim:
  assumes "leads m reg s wid [] d" and "s_inflight s = []"
  shows "leads m reg s wid [] (Reaper_reclaim f now vis d)"
  using world_step.reclaim [of now vis "node_sys s wid [] d" m reg f] assms(2)
  by (intro leads_step [OF assms(1)]) (simp add: no_inflight_stale_def)

lemma tick_fst [simp]:
  "fst (scheduler_tick l e x) = Scheduler_promote (fst e) (snd e) (fst x)"
  "fst (heartbeater_tick hid l e x) = Heartbeater_tick (fst e) (snd e) hid (fst x)"
  "fst (reaper_tick r l e x) = Reaper_reclaim (fst e) (snd e) (R_visibilityTimeout r) (fst x)"
  by (simp_all add: scheduler_tick_def Scheduler_promote_def heartbeater_tick_def Heartbeater_tick_def reaper_tick_def
      Reaper_reclaim_def split: sum.split prod.split)

lemma leads_fire:
  assumes "leads m reg s wid js (snd sd)"
  shows "leads m reg s wid js (snd (fireCron env n c now sd))"
proof -
  have "snd (fireCron env n c now sd) = snd sd \<or>
      snd (fireCron env n c now sd) = snd (executeFire (ce_parse env) (ce_faults env n) (ce_id env n) (ce_dbnow env) c now (snd sd))"
    by (auto simp: fireCron_def Manager_TryWithLock_def Let_def split: prod.splits sum.splits)
  then show ?thesis using assms leads_db(3) by metis
qed

lemma leads_evaluate:
  assumes "leads m reg s wid js (snd sd)"
  shows "leads m reg s wid js (snd (cron_evaluate env f now sd))"
proof -
  have "leads m reg s wid js (snd sd) \<Longrightarrow> leads m reg s wid js (snd (fire_all env n cs now sd))" for n cs sd
    by (induction cs arbitrary: n sd) (simp_all add: leads_fire)
  then show ?thesis using assms by (simp add: cron_evaluate_def split: sum.split)
qed

lemma leads_dispatchQueue:
  assumes "leads m reg s (D_workerID dsp) js d" and "dispatchQueue dsp qe q d = (js', d')"
  shows "leads m reg s (D_workerID dsp) (js @ js') d'"
proof -
  let ?k = "if qa_avail qe < D_batchSize dsp then qa_avail qe else D_batchSize dsp"
  let ?c = "JobRepo_ClaimBatch (qa_cf qe) (qa_locked qe) (qa_now qe) (Q_ID q) (D_workerID dsp) ?k (Q_Concurrency q) d"
  show ?thesis
  proof (cases "qa_avail qe \<le> 0")
    case True
    then show ?thesis using assms by (simp add: dispatchQueue_def)
  next
    case False
    then consider (err) e where "?c = (Inl e, d')" "js' = []" | (ok) "?c = (Inr js', d')"
      using assms(2) by (cases ?c; cases "fst ?c") (auto simp: dispatchQueue_def Let_def)
    then show ?thesis
    proof cases
      case err
      then show ?thesis using assms(1) ClaimBatch_error [OF err(1)] by simp
    next
      case ok
      then show ?thesis
        using world_step.claim [of "qa_cf qe" "qa_locked qe" "qa_now qe" "Q_ID q" "D_workerID dsp" ?k "Q_Concurrency q"
            "node_sys s (D_workerID dsp) js d" js' d' m reg]
        by (intro leads_step [OF assms(1)]) (simp add: node_sys_def)
    qed
  qed
qed

lemma leads_dispatchAll:
  assumes "leads m reg s (D_workerID dsp) js d" and "dispatchAll collate f dsp env d = (js', d')"
  shows "leads m reg s (D_workerID dsp) (js @ js') d'"
proof -
  have "leads m reg s (D_workerID dsp) js d \<Longrightarrow> dispatch_loop dsp env n qs d = (js', d') \<Longrightarrow>
      leads m reg s (D_workerID dsp) (js @ js') d'" for n qs js d js' d'
  proof (induction qs arbitrary: n js d js')
    case (Cons q qs)
    show ?case
    proof (cases "qa_check (env n) \<le> 0")
      case False
      obtain js1 d1 where q: "dispatchQueue dsp (env n) q d = (js1, d1)" by fastforce
      obtain js2 where r: "dispatch_loop dsp env (Suc n) qs d1 = (js2, d')" "js' = js1 @ js2"
        using Cons.prems(2) False q by (auto split: prod.splits)
      show ?thesis using Cons.IH [OF leads_dispatchQueue [OF Cons.prems(1) q] r(1)] r(2) by simp
    qed (use Cons.prems in simp)
  qed simp
  then show ?thesis using assms by (auto simp: dispatchAll_def split: sum.splits if_splits)
qed


section \<open>Concrete runs\<close>

definition still_log :: log_world where
  "still_log = \<lparr>w_level = InfoLevel, w_pretty = False, w_out = [], w_exited = False\<rparr>"

lemma still_audible [simp]: "audible still_log" "errors still_log = 0"
  by (simp_all add: audible_def errors_def still_log_def level_defs)

definition outage :: "(fault \<times> time) wake list" where
  "outage = [Tick (Some ''connection refused'', 5), Tick (None, 10), Done, Tick (None, 20)]"

theorem housekeeping_survives_errors_witness:
  "\<exists>w'. final (Scheduler_Start (\<lambda>_. []) 1 [] outage (busy_db, still_log)) = Some (Scheduler_promote None 10 busy_db, w') \<and> errors w' = 1"
proof -
  have i: "0 < sint (R_pollInterval \<lparr>R_pollInterval = 1, R_visibilityTimeout = 1\<rparr>)" "0 < sint (1 :: duration)"
    "0 < sint (H_interval \<lparr>H_workerID = 77, H_interval = 1\<rparr>)" by simp_all
  show ?thesis
    using housekeeping_survives_errors [OF still_audible(1) i, where l = "[]" and es = outage and d = busy_db and dur_str = "\<lambda>_. []"]
    by (simp add: outage_def)
qed


definition no_interval :: WorkerConfig where
  "no_interval = \<lparr>WC_Concurrency = 10, WC_PollInterval = 0, WC_HeartbeatInterval = 5, WC_HeartbeatTimeout = 30,
     WC_VisibilityTimeout = 300, WC_DrainTimeout = 60, WC_MaxBatchSize = 10\<rparr>"

theorem bad_interval_panics_witness:
  "\<exists>svc. NewService 77 no_interval = Some svc \<and> Scheduler_Start (\<lambda>_. []) (S_scheduler svc) [] outage (busy_db, still_log) = Panicked"
proof -
  obtain svc where s: "NewService 77 no_interval = Some svc" by (simp add: NewService_def no_interval_def)
  have "sint (WC_PollInterval no_interval) \<le> 0" by (simp add: no_interval_def)
  from bad_interval_panics [OF s this, where dur_str = "\<lambda>_. []" and l = "[]"] s show ?thesis by blast
qed

end
