(* ===== verification/Processes.thy ===== *)
theory Processes
  imports Startup Loops Requests
begin

text \<open>
  The two processes from start to end (\<open>cmd/api/main.go\<close>, \<open>cmd/worker/main.go\<close>): what they log and how they end,
  the registration of a worker and the heartbeats it is followed by, the answer of the rate limiter in
  front of the routes, and the clock package.
\<close>

section \<open>Clocks\<close>

datatype Clock = RealClock | FixedClock time

fun Clock_Now :: "time \<Rightarrow> Clock \<Rightarrow> time" where
  "Clock_Now system RealClock = system"
| "Clock_Now system (FixedClock t) = t"

definition NewFixed :: "time \<Rightarrow> Clock" where "NewFixed t = FixedClock t"
definition default_clock :: Clock where "default_clock = RealClock"

section \<open>The API server\<close>

text \<open>How the serving ends: the listener fails, or a signal arrives and the shutdown has a result.\<close>

datatype api_end = ListenFailed goerr | Signalled "goerr option"

datatype exit = ExitFailure | ExitSuccess

definition api_serve :: "int \<Rightarrow> logger \<Rightarrow> api_end \<Rightarrow> log_world \<Rightarrow> exit \<times> log_world" where
  "api_serve port l ev w =
     (let w1 = log_Info l ''HTTP server listening'' [log_String ''addr'' ('':'' @ show_int port)] w in
      case ev of
        ListenFailed e \<Rightarrow> (ExitFailure, log_Fatal l ''server error'' [log_Err (Some e)] w1)
      | Signalled shutdownErr \<Rightarrow>
          (let w2 = log_Info l ''shutdown signal received'' [] w1;
               w3 = (case shutdownErr of None \<Rightarrow> w2
                     | Some e \<Rightarrow> log_Error l ''graceful shutdown error'' [log_Err (Some e)] w2)
           in (ExitSuccess, log_Info l ''API server stopped cleanly'' [] w3)))"

text \<open>The logger exists only once the configuration is loaded; before, the error goes to the standard error.\<close>

definition api_main :: "(string \<Rightarrow> level option) \<Rightarrow> boot_env \<Rightarrow> api_end \<Rightarrow> log_world \<Rightarrow> exit \<times> log_world" where
  "api_main ParseLevel env ev w = (case Load (be_casts env) (be_vars env) of
     Inl err \<Rightarrow> (ExitFailure, w)
   | Inr cfg \<Rightarrow>
       (let (l, w1) = logger_New ParseLevel (LC_Level (Cfg_Logger cfg)) (LC_Format (Cfg_Logger cfg)) w;
            w2 = log_Info l ''starting job-scheduler API''
                   [log_String ''env'' (AC_Env (Cfg_App cfg)), log_Int ''port'' (AC_Port (Cfg_App cfg))] w1
        in case api_startup env of
             Fatal m e \<Rightarrow> (ExitFailure, log_Fatal l m [log_Err (Some e)] w2)
           | Up _ \<Rightarrow> api_serve (AC_Port (Cfg_App cfg)) l ev w2))"

text \<open>What the limiter answers in place of the routes; when it does is the library's.\<close>

definition LimitReached :: "'b http" where
  "LimitReached = Resp 429 (ErrBody (code_str CodeRateLimited) ''rate limit exceeded'' None)"

lemma LimitReached_error: "LimitReached = RespondError RateLimited"
  by (simp add: LimitReached_def RespondError_def err_defs)

text \<open>What the server sets in front of its routes, in the order of its Use calls. What the handlers of these third-party
  packages do is not modelled; the options they get are the program's. The limiter counts by the address of the
  client, in a Redis storage of its own.\<close>

record FiberConfig =
  FC_AppName :: string
  FC_ReadTimeout :: duration
  FC_WriteTimeout :: duration
  FC_IdleTimeout :: duration
  FC_DisableStartupMessage :: bool

record CorsOptions =
  CO_AllowOrigins :: string
  CO_AllowHeaders :: string
  CO_AllowMethods :: string
  CO_AllowCredentials :: bool

record LimiterOptions =
  LO_Max :: int
  LO_Expiration :: duration
  LO_KeyGenerator :: "ctx \<Rightarrow> string"
  LO_StorageHost :: string
  LO_StoragePort :: int
  LO_StorageReset :: bool

datatype front = Recover bool | RequestID | Helmet | Compress | Cors CorsOptions | Limiter LimiterOptions

definition fiber_config :: "Config \<Rightarrow> FiberConfig" where
  "fiber_config cfg = \<lparr>FC_AppName = ''Job Scheduler API v1'', FC_ReadTimeout = 30 * time_Second,
     FC_WriteTimeout = 30 * time_Second, FC_IdleTimeout = 120 * time_Second,
     FC_DisableStartupMessage = (AC_Env (Cfg_App cfg) = ''production'')\<rparr>"

definition cors_options :: "Config \<Rightarrow> CorsOptions" where
  "cors_options cfg = \<lparr>CO_AllowOrigins = joinStrings (CC_AllowedOrigins (Cfg_CORS cfg)),
     CO_AllowHeaders = ''Origin, Content-Type, Accept, Authorization, X-Request-ID'',
     CO_AllowMethods = ''GET, POST, PUT, PATCH, DELETE, OPTIONS'', CO_AllowCredentials = True\<rparr>"

definition limiter_options :: "Config \<Rightarrow> LimiterOptions" where
  "limiter_options cfg = \<lparr>LO_Max = 100, LO_Expiration = 60 * time_Second, LO_KeyGenerator = cx_ip,
     LO_StorageHost = RC_Host (Cfg_Redis cfg), LO_StoragePort = RC_Port (Cfg_Redis cfg), LO_StorageReset = False\<rparr>"

definition api_front :: "Config \<Rightarrow> front list" where
  "api_front cfg = [Recover (AC_Env (Cfg_App cfg) \<noteq> ''production''), RequestID, Helmet, Compress,
     Cors (cors_options cfg), Limiter (limiter_options cfg)]"

text \<open>The front does not know the password and the database of Redis, nor the settings of the rate limit.\<close>

theorem front_ignores_settings:
  assumes "Cfg_App cfg' = Cfg_App cfg" and "Cfg_CORS cfg' = Cfg_CORS cfg"
    and "RC_Host (Cfg_Redis cfg') = RC_Host (Cfg_Redis cfg)" and "RC_Port (Cfg_Redis cfg') = RC_Port (Cfg_Redis cfg)"
  shows "api_front cfg' = api_front cfg \<and> fiber_config cfg' = fiber_config cfg"
  using assms by (simp add: api_front_def cors_options_def limiter_options_def fiber_config_def)

section \<open>The worker\<close>

text \<open>The process up to the start of its loops: the service, whether its registration failed, the registry.\<close>

record worker_up =
  wu_service :: Service
  wu_registry :: registry
  wu_db :: db

datatype worker_end = WorkerExit | WorkerPanic | WorkerRuns worker_up

definition worker_main :: "(string \<Rightarrow> level option) \<Rightarrow> boot_env \<Rightarrow> uuid \<Rightarrow> string \<Rightarrow> int \<Rightarrow> fault \<Rightarrow> time \<Rightarrow> bool \<Rightarrow>
    db \<times> log_world \<Rightarrow> worker_end \<times> log_world" where
  "worker_main ParseLevel env wid hostname pid f now tie s = (case Load (be_casts env) (be_vars env) of
     Inl err \<Rightarrow> (WorkerExit, snd s)
   | Inr cfg \<Rightarrow>
       (let (l, w1) = logger_New ParseLevel (LC_Level (Cfg_Logger cfg)) (LC_Format (Cfg_Logger cfg)) (snd s);
            w2 = log_Info l ''starting job-scheduler worker'' [log_String ''env'' (AC_Env (Cfg_App cfg)),
                   log_Int ''concurrency'' (WC_Concurrency (Cfg_Worker cfg))] w1
        in case worker_startup env of
             Fatal m e \<Rightarrow> (WorkerExit, log_Fatal l m [log_Err (Some e)] w2)
           | Up _ \<Rightarrow> (case NewService wid (Cfg_Worker cfg) of
               None \<Rightarrow> (WorkerPanic, w2)
             | Some svc \<Rightarrow>
                 (let (r, d') = WorkerRepo_Register f now (worker_info (S_id svc) hostname pid (Cfg_Worker cfg)) (fst s);
                      w3 = (case r of Inr _ \<Rightarrow> w2 | Inl e \<Rightarrow> log_Error l ''failed to register worker'' [log_Err (Some e)] w2)
                  in case builtin_registry tie of
                       None \<Rightarrow> (WorkerPanic, w3)
                     | Some reg \<Rightarrow> (WorkerRuns \<lparr>wu_service = svc, wu_registry = reg, wu_db = d'\<rparr>, w3)))))"

section \<open>How the processes end\<close>

lemma api_startup_config: "api_startup env = Up cfg \<Longrightarrow> Load (be_casts env) (be_vars env) = Inr cfg"
  by (auto simp: api_startup_def connect_stores_def split: sum.splits boot.splits option.splits started.splits)

lemma worker_startup_config: "worker_startup env = Up cfg \<Longrightarrow> Load (be_casts env) (be_vars env) = Inr cfg"
  by (auto simp: worker_startup_def connect_stores_def split: sum.splits started.splits)

text \<open>The API server ends with success exactly when it came up and was told to stop by a signal, whatever the
  shutdown itself returned; once the configuration is loaded every other end is a fatal log entry.\<close>

theorem api_process_end:
  assumes "api_main ParseLevel env ev w = (x, w')"
  shows "(x = ExitSuccess \<longleftrightarrow> (\<exists>cfg. api_startup env = Up cfg) \<and> (\<exists>e. ev = Signalled e)) \<and>
    (x = ExitFailure \<and> (\<exists>cfg. Load (be_casts env) (be_vars env) = Inr cfg) \<longrightarrow> w_exited w')"
  using assms api_startup_config [of env]
  by (cases "Load (be_casts env) (be_vars env)"; cases "api_startup env"; cases ev)
    (auto simp: api_main_def api_serve_def Let_def log_Fatal_def split: prod.splits option.splits)

text \<open>A shutdown that fails is logged as an error and then as a clean stop.\<close>

theorem clean_stop_after_error:
  assumes "w_level w \<le> InfoLevel" and "api_serve port l (Signalled (Some e)) w = (x, w')"
  shows "x = ExitSuccess \<and> (\<exists>h. map (\<lambda>n. (e_level n, e_msg n)) (w_out w') =
    h @ [(ErrorLevel, ''graceful shutdown error''), (InfoLevel, ''API server stopped cleanly'')])"
  using assms by (auto simp: api_serve_def Let_def log_defs log_msg_def level_defs)

lemma worker_main_cases:
  assumes "worker_main ParseLevel env wid hostname pid f now tie (d, w) = (x, w')"
  obtains (exit) "\<And>cfg. worker_startup env \<noteq> Up cfg" "x = WorkerExit"
    | (panic) cfg where "worker_startup env = Up cfg" "WC_Concurrency (Cfg_Worker cfg) < 0" "x = WorkerPanic"
    | (runs) cfg svc reg r d' l w2 where "worker_startup env = Up cfg" "0 \<le> WC_Concurrency (Cfg_Worker cfg)"
        "NewService wid (Cfg_Worker cfg) = Some svc" "builtin_registry tie = Some reg"
        "WorkerRepo_Register f now (worker_info wid hostname pid (Cfg_Worker cfg)) d = (r, d')"
        "x = WorkerRuns \<lparr>wu_service = svc, wu_registry = reg, wu_db = d'\<rparr>"
        "w' = (case r of Inr _ \<Rightarrow> w2 | Inl e \<Rightarrow> log_Error l ''failed to register worker'' [log_Err (Some e)] w2)"
proof (cases "worker_startup env")
  case (Fatal m e)
  then have "x = WorkerExit" using assms by (auto simp: worker_main_def Let_def split: sum.splits prod.splits)
  then show ?thesis using exit Fatal by simp
next
  case (Up cfg)
  have load: "Load (be_casts env) (be_vars env) = Inr cfg" using worker_startup_config [OF Up] .
  obtain l w1 where l: "logger_New ParseLevel (LC_Level (Cfg_Logger cfg)) (LC_Format (Cfg_Logger cfg)) w = (l, w1)" by fastforce
  show ?thesis
  proof (cases "NewService wid (Cfg_Worker cfg)")
    case None
    then show ?thesis using assms Up load l panic [OF Up]
      by (simp add: worker_main_def NewService_def split: if_splits)
  next
    case (Some svc)
    then have c: "0 \<le> WC_Concurrency (Cfg_Worker cfg)" "S_id svc = wid" by (auto simp: NewService_def split: if_splits)
    obtain reg where reg: "builtin_registry tie = Some reg" using builtin_types by blast
    obtain r d' where r: "WorkerRepo_Register f now (worker_info wid hostname pid (Cfg_Worker cfg)) d = (r, d')" by fastforce
    show ?thesis using assms Up load l Some reg r c(2)
      by (intro runs [OF Up c(1) Some reg r]) (auto simp: worker_main_def Let_def)
  qed
qed

lemma Register_row:
  assumes "WorkerRepo_Register f now (worker_info wid hostname pid cfg) d = (r, d')"
  shows "case r of Inr _ \<Rightarrow> exists_id W_ID wid (workers d') | Inl _ \<Rightarrow> d' = d"
  using assms by (cases f) (auto simp: WorkerRepo_Register_def worker_info_def split: if_splits, simp add: exists_id_def)

text \<open>The worker runs exactly when its stores answer and its pool can be made; a negative concurrency, which the
  configuration does not refuse, ends it in a panic. Running, it knows the two demo handlers, and its row is
  in the database unless the registration failed, which is logged and nothing else.\<close>

theorem worker_process_start:
  assumes "worker_main ParseLevel env wid hostname pid f now tie (d, w) = (x, w')"
  shows "(x = WorkerExit \<longleftrightarrow> (\<forall>cfg. worker_startup env \<noteq> Up cfg)) \<and>
    (x = WorkerPanic \<longleftrightarrow> (\<exists>cfg. worker_startup env = Up cfg \<and> WC_Concurrency (Cfg_Worker cfg) < 0)) \<and>
    (\<forall>up. x = WorkerRuns up \<longrightarrow> Registry_Types (wu_registry up) = {''demo.echo'', ''demo.sleep''} \<and>
       (exists_id W_ID wid (workers (wu_db up)) \<or> wu_db up = d))"
  using assms
proof (cases rule: worker_main_cases)
  case (runs cfg svc reg r d' l w2)
  then show ?thesis using builtin_types [of tie] Register_row [OF runs(5)] by (auto split: sum.splits)
qed auto

text \<open>A worker whose registration failed stays out of the books for good: it runs, but its heartbeats find no row
  to update and report no error, so after any number of them the database has no row of it.\<close>

theorem unregistered_stays_unregistered:
  assumes "worker_main ParseLevel env wid hostname pid (Some m) now tie (d, w) = (WorkerRuns up, w')"
    and "\<not> exists_id W_ID wid (workers d)"
    and "final (Heartbeater_Start (S_heartbeater (wu_service up)) l es (wu_db up, w1)) = Some (d', w2)" and "audible w1"
  shows "d' = d \<and> errors w2 = errors w1 + failed_ticks es"
  using assms(1)
proof (cases rule: worker_main_cases)
  case (runs cfg svc reg r d1 l1 w3)
  have h: "S_heartbeater (wu_service up) = \<lparr>H_workerID = wid, H_interval = 5 * time_Second\<rparr>" "wu_db up = d"
    using runs(3,5,6) by (auto simp: NewService_def WorkerRepo_Register_def split: if_splits)
  have none: "Heartbeater_tick None t wid d = d" for t
    using assms(2) by (simp add: Heartbeater_tick_def WorkerRepo_Heartbeat_def sql_update_none exists_id_def)
  have "fold (\<lambda>t. Heartbeater_tick None t wid) ts d = d" for ts
    by (induction ts) (simp_all add: none)
  moreover obtain w3 where "final (Heartbeater_Start (S_heartbeater (wu_service up)) l es (wu_db up, w1)) =
      Some (fold (\<lambda>t. Heartbeater_tick None t wid) (good_ticks es) d, w3)" "errors w3 = errors w1 + failed_ticks es"
    using beat.started [OF assms(4), of "5 * time_Second"] by (fastforce simp: Heartbeater_Start_def log_Info_def time_Second_def h)
  ultimately show ?thesis using assms(3) by simp
qed simp_all

section \<open>A concrete start\<close>

definition calm :: boot_env where
  "calm = \<lparr>be_casts = plain_casts, be_vars = map_of plain_vars,
     be_connect = \<lparr>ce_parse = (\<lambda>_. None), ce_new = (\<lambda>_. None), ce_ping = (\<lambda>_. None), ce_done = (\<lambda>_. None)\<rparr>,
     be_ping = \<lparr>pe_ping = (\<lambda>_. None), pe_done = (\<lambda>_. None)\<rparr>, be_new = (\<lambda>_ _. None), be_up = UpDone\<rparr>"

definition calm_config :: Config where
  "calm_config = read_config plain_casts (map_of plain_vars)"

lemma calm_load: "Load plain_casts (map_of plain_vars) = Inr calm_config"
  by (simp add: Load_def Let_def cfg_validate_def calm_config_def read_config_def viper_value_def plain_casts_def plain_vars_def)

lemma calm_concurrency: "WC_Concurrency (Cfg_Worker calm_config) = 10"
  by (simp add: calm_config_def read_config_def Let_def viper_value_def plain_casts_def plain_vars_def cfg_setDefaults_def)

lemma calm_stores: "connect_stores m1 m2 calm cfg = Up cfg"
  by (simp add: connect_stores_def calm_def Connect_def connect_loop.simps [of _ "Suc 0"] cache_New_def cache_loop.simps
      try_connect_def maxAttempts_def)

lemma calm_up: "worker_startup calm = Up calm_config" "api_startup calm = Up calm_config"
  using calm_load calm_stores by (simp_all add: worker_startup_def api_startup_def calm_def RunMigrations_def)

definition unregistered_worker :: "worker_end \<times> log_world" where
  "unregistered_worker = worker_main (\<lambda>_. None) calm 9 ''host'' 1 (Some ''connection reset'') 5 False (busy_db, still_log)"

theorem unregistered_stays_unregistered_witness:
  "\<exists>up w' d' w2. unregistered_worker = (WorkerRuns up, w') \<and>
     final (Heartbeater_Start (S_heartbeater (wu_service up)) [] outage (wu_db up, still_log)) = Some (d', w2) \<and>
     workers d' = workers busy_db \<and> errors w2 = 1"
proof -
  obtain x w' where u: "unregistered_worker = (x, w')" by fastforce
  obtain up where up: "x = WorkerRuns up"
    using u [unfolded unregistered_worker_def] calm_up(1) calm_concurrency by (cases rule: worker_main_cases) auto
  have g: "\<not> exists_id W_ID 9 (workers busy_db)"
    by (simp add: busy_db_def tenant_db_def exists_id_def ann_db_def empty_db_def)
  have "0 < sint (H_interval (S_heartbeater (wu_service up)))"
    using u [unfolded unregistered_worker_def] calm_up(1) up
    by (cases rule: worker_main_cases) (auto simp: NewService_def time_Second_def split: if_splits)
  then obtain d' w2 where f: "final (Heartbeater_Start (S_heartbeater (wu_service up)) [] outage (wu_db up, still_log)) = Some (d', w2)"
    using beat.started [OF still_audible(1)] by (fastforce simp: Heartbeater_Start_def log_Info_def)
  show ?thesis
    using unregistered_stays_unregistered [OF _ g f still_audible(1)] u up f by (auto simp: unregistered_worker_def outage_def)
qed

end
