(* ===== verification/Rows.thy ===== *)
theory Rows
  imports Http QueueRepo JobRepo CronRepo SmallRepos "HOL-Library.Monad_Syntax"
begin

text \<open>
  The statements of the repositories column by column: the column list and the arguments of each INSERT and
  UPDATE, the column list of each SELECT and the destinations of its \<open>Scan\<close>, which the driver matches by
  position (\<open>internal/repository/postgres/*.go\<close>, the functions \<open>scanUser\<close> to \<open>scanJob\<close>). The record tables
  of \<open>Database\<close> stand on the facts proved here: what a statement writes is what the next SELECT scans, with its
  times to the microsecond. The JSON codec of the two maps is a parameter.
\<close>

section \<open>Cells, rows and statements\<close>

datatype cell =
    CNull | CUuid uuid | CText string | CInt int | CBool bool | CTime time | CJson string | CTexts "string list"

type_synonym row = "string \<Rightarrow> cell"

text \<open>A \<open>timestamptz\<close> holds microseconds: the driver drops the nanoseconds below.\<close>

definition pg_time :: "time \<Rightarrow> time" where
  "pg_time t = t div 1000 * 1000"

lemma pg_time_idem [simp]: "pg_time (pg_time t) = pg_time t"
  by (simp add: pg_time_def)

text \<open>The columns an INSERT leaves out have the default NULL in every table it is used for here.\<close>

definition row_insert :: "string list \<Rightarrow> cell list \<Rightarrow> row" where
  "row_insert cols args = (\<lambda>c. case map_of (zip cols args) c of None \<Rightarrow> CNull | Some v \<Rightarrow> v)"

text \<open>The trigger \<open>trigger_set_updated_at\<close> runs before every UPDATE and has the last word on \<open>updated_at\<close>.\<close>

definition row_update :: "time \<Rightarrow> string list \<Rightarrow> cell list \<Rightarrow> row \<Rightarrow> row" where
  "row_update now cols args r = (\<lambda>c. if c = ''updated_at'' then CTime (pg_time now)
     else case map_of (zip cols args) c of None \<Rightarrow> r c | Some v \<Rightarrow> v)"

definition row_select :: "string list \<Rightarrow> row \<Rightarrow> cell list" where
  "row_select cols r = map r cols"

section \<open>Destinations\<close>

fun as_uuid :: "cell \<Rightarrow> uuid option" where "as_uuid (CUuid i) = Some i" | "as_uuid _ = None"
fun as_text :: "cell \<Rightarrow> string option" where "as_text (CText s) = Some s" | "as_text _ = None"
fun as_int :: "cell \<Rightarrow> int option" where "as_int (CInt n) = Some n" | "as_int _ = None"
fun as_bool :: "cell \<Rightarrow> bool option" where "as_bool (CBool b) = Some b" | "as_bool _ = None"
fun as_time :: "cell \<Rightarrow> time option" where "as_time (CTime t) = Some t" | "as_time _ = None"
fun as_texts :: "cell \<Rightarrow> string list option option" where
  "as_texts CNull = Some None" | "as_texts (CTexts ss) = Some (Some ss)" | "as_texts _ = None"

text \<open>A pointer takes NULL as nil; any other destination refuses it.\<close>

fun as_ptr :: "(cell \<Rightarrow> 'a option) \<Rightarrow> cell \<Rightarrow> 'a option option" where
  "as_ptr f CNull = Some None"
| "as_ptr f c = map_option Some (f c)"

text \<open>A JSON column is scanned into bytes; empty ones are not decoded and an error of the decoder is dropped,
  which leaves the map nil.\<close>

fun as_map :: "(string \<Rightarrow> jsonmap option res) \<Rightarrow> cell \<Rightarrow> jsonmap option option" where
  "as_map unm CNull = Some None"
| "as_map unm (CJson b) = Some (if b = [] then None else case unm b of Inl _ \<Rightarrow> None | Inr m \<Rightarrow> m)"
| "as_map unm _ = None"

fun opt_cell :: "('a \<Rightarrow> cell) \<Rightarrow> 'a option \<Rightarrow> cell" where
  "opt_cell f None = CNull"
| "opt_cell f (Some v) = f v"

definition time_cell :: "time \<Rightarrow> cell" where "time_cell t = CTime (pg_time t)"

lemma as_ptr_opt_cell [simp]:
  "as_ptr as_uuid (opt_cell CUuid i) = Some i" "as_ptr as_text (opt_cell CText s) = Some s"
  "as_ptr as_int (opt_cell CInt n) = Some n" "as_ptr as_time (opt_cell time_cell t) = Some (map_option pg_time t)"
  "as_texts (opt_cell CTexts ss) = Some ss" "as_time (time_cell u) = Some (pg_time u)"
  by (cases i; cases s; cases n; cases t; cases ss; simp add: time_cell_def)+

text \<open>\<open>QueryRow(...).Scan\<close>: no row is the driver's \<open>ErrNoRows\<close>, a cell that does not fit its destination an
  error of the driver.\<close>

definition scan_row :: "(cell list \<Rightarrow> 'a option) \<Rightarrow> cell list option \<Rightarrow> 'a res" where
  "scan_row dest row = (case row of
     None \<Rightarrow> Inl ErrNoRows
   | Some cells \<Rightarrow> (case dest cells of None \<Rightarrow> Inl (PlainErr ''cannot scan row'') | Some a \<Rightarrow> Inr a))"

lemma scan_row_simps [simp]:
  "scan_row dest None = Inl ErrNoRows" "dest cells = Some a \<Longrightarrow> scan_row dest (Some cells) = Inr a"
  by (simp_all add: scan_row_def)

text \<open>The loop over a result: the first row that does not scan drops the rows before it; after the last one
  the error that ended the iteration, if any, is returned with the rows.\<close>

fun scan_rows_from :: "(cell list \<Rightarrow> 'a option) \<Rightarrow> 'a list \<Rightarrow> goerr option \<Rightarrow> cell list list \<Rightarrow> 'a list \<times> goerr option" where
  "scan_rows_from dest acc rows_err [] = (acc, rows_err)"
| "scan_rows_from dest acc rows_err (r # rs) = (case scan_row dest (Some r) of
     Inl e \<Rightarrow> ([], Some e)
   | Inr a \<Rightarrow> scan_rows_from dest (acc @ [a]) rows_err rs)"

definition scan_rows :: "(cell list \<Rightarrow> 'a option) \<Rightarrow> goerr option \<Rightarrow> cell list list \<Rightarrow> 'a list \<times> goerr option" where
  "scan_rows dest rows_err rs = scan_rows_from dest [] rows_err rs"

lemma scan_rows_all:
  assumes "map (\<lambda>r. dest (cells r)) rs = map Some as"
  shows "scan_rows dest e (map cells rs) = (as, e)"
proof -
  have "map (\<lambda>r. dest (cells r)) rs = map Some as \<Longrightarrow>
      scan_rows_from dest acc e (map cells rs) = (acc @ as, e)" for acc
  proof (induction rs arbitrary: "as" acc)
    case (Cons r rs)
    then show ?case by (cases "as") auto
  qed simp
  from this [OF assms, of "[]"] show ?thesis by (simp add: scan_rows_def)
qed

lemmas row_defs = row_insert_def row_update_def row_select_def

section \<open>Users and refresh tokens\<close>

definition user_columns :: "string list" where
  "user_columns = [''id'', ''email'', ''password_hash'', ''full_name'', ''is_active'', ''created_at'', ''updated_at'']"

definition user_args :: "User \<Rightarrow> cell list" where
  "user_args u = [CUuid (U_ID u), CText (U_Email u), CText (U_PasswordHash u), CText (U_FullName u),
     CBool (U_IsActive u), time_cell (U_CreatedAt u), time_cell (U_UpdatedAt u)]"

definition user_dest :: "cell list \<Rightarrow> User option" where
  "user_dest cells = (case cells of [c1, c2, c3, c4, c5, c6, c7] \<Rightarrow> do {
       i \<leftarrow> as_uuid c1; email \<leftarrow> as_text c2; hash \<leftarrow> as_text c3; name \<leftarrow> as_text c4; act \<leftarrow> as_bool c5;
       created \<leftarrow> as_time c6; updated \<leftarrow> as_time c7;
       Some \<lparr>U_ID = i, U_Email = email, U_PasswordHash = hash, U_FullName = name, U_IsActive = act,
         U_CreatedAt = created, U_UpdatedAt = updated\<rparr> }
     | _ \<Rightarrow> None)"

definition scanUser :: "cell list option \<Rightarrow> User res" where "scanUser = scan_row user_dest"

definition user_stored :: "User \<Rightarrow> User" where
  "user_stored u = u\<lparr>U_CreatedAt := pg_time (U_CreatedAt u), U_UpdatedAt := pg_time (U_UpdatedAt u)\<rparr>"

definition user_update_columns :: "string list" where
  "user_update_columns = [''email'', ''full_name'', ''is_active'', ''updated_at'']"

definition user_update_args :: "User \<Rightarrow> cell list" where
  "user_update_args u = [CText (U_Email u), CText (U_FullName u), CBool (U_IsActive u), time_cell (U_UpdatedAt u)]"

theorem user_row_roundtrip: "scanUser (Some (row_select user_columns (row_insert user_columns (user_args u)))) = Inr (user_stored u)"
  by (simp add: scanUser_def row_defs user_columns_def user_args_def user_dest_def user_stored_def)

definition token_columns :: "string list" where
  "token_columns = [''id'', ''user_id'', ''token_hash'', ''expires_at'', ''revoked'', ''user_agent'', ''ip_address'', ''created_at'']"

definition token_args :: "RefreshToken \<Rightarrow> cell list" where
  "token_args rt = [CUuid (RT_ID rt), CUuid (RT_UserID rt), CText (RT_TokenHash rt), time_cell (RT_ExpiresAt rt),
     CBool (RT_Revoked rt), CText (RT_UserAgent rt), CText (RT_IPAddress rt), time_cell (RT_CreatedAt rt)]"

definition token_dest :: "cell list \<Rightarrow> RefreshToken option" where
  "token_dest cells = (case cells of [c1, c2, c3, c4, c5, c6, c7, c8] \<Rightarrow> do {
       i \<leftarrow> as_uuid c1; uid \<leftarrow> as_uuid c2; hash \<leftarrow> as_text c3; expires \<leftarrow> as_time c4; revoked \<leftarrow> as_bool c5;
       agent \<leftarrow> as_text c6; ip \<leftarrow> as_text c7; created \<leftarrow> as_time c8;
       Some \<lparr>RT_ID = i, RT_UserID = uid, RT_TokenHash = hash, RT_ExpiresAt = expires, RT_Revoked = revoked,
         RT_UserAgent = agent, RT_IPAddress = ip, RT_CreatedAt = created\<rparr> }
     | _ \<Rightarrow> None)"

theorem token_row_roundtrip: "scan_row token_dest (Some (row_select token_columns (row_insert token_columns (token_args rt)))) =
    Inr (rt\<lparr>RT_ExpiresAt := pg_time (RT_ExpiresAt rt), RT_CreatedAt := pg_time (RT_CreatedAt rt)\<rparr>)"
  by (simp add: row_defs token_columns_def token_args_def token_dest_def)

section \<open>Organizations, projects and their members\<close>

definition org_columns :: "string list" where
  "org_columns = [''id'', ''name'', ''slug'', ''description'', ''created_at'', ''updated_at'']"

definition org_args :: "Organization \<Rightarrow> cell list" where
  "org_args o1 = [CUuid (O_ID o1), CText (O_Name o1), CText (O_Slug o1), CText (O_Description o1),
     time_cell (O_CreatedAt o1), time_cell (O_UpdatedAt o1)]"

definition org_dest :: "cell list \<Rightarrow> Organization option" where
  "org_dest cells = (case cells of [c1, c2, c3, c4, c5, c6] \<Rightarrow> do {
       i \<leftarrow> as_uuid c1; name \<leftarrow> as_text c2; slug \<leftarrow> as_text c3; descr \<leftarrow> as_text c4; created \<leftarrow> as_time c5;
       updated \<leftarrow> as_time c6;
       Some \<lparr>O_ID = i, O_Name = name, O_Slug = slug, O_Description = descr, O_CreatedAt = created, O_UpdatedAt = updated\<rparr> }
     | _ \<Rightarrow> None)"

definition scanOrg :: "cell list option \<Rightarrow> Organization res" where "scanOrg = scan_row org_dest"

definition org_update_columns :: "string list" where "org_update_columns = [''name'', ''description'', ''updated_at'']"

definition org_update_args :: "Organization \<Rightarrow> cell list" where
  "org_update_args o1 = [CText (O_Name o1), CText (O_Description o1), time_cell (O_UpdatedAt o1)]"

theorem org_row_roundtrip: "scanOrg (Some (row_select org_columns (row_insert org_columns (org_args o1)))) =
    Inr (o1\<lparr>O_CreatedAt := pg_time (O_CreatedAt o1), O_UpdatedAt := pg_time (O_UpdatedAt o1)\<rparr>)"
  by (simp add: scanOrg_def row_defs org_columns_def org_args_def org_dest_def)

text \<open>The roles of the schema's enumerations are those of the datatypes.\<close>

definition as_org_role :: "cell \<Rightarrow> OrgRole option" where
  "as_org_role c = Option.bind (as_text c) (\<lambda>s. find (\<lambda>r. org_role_str r = s) [RoleOwner, RoleAdmin, RoleMember])"

lemma as_org_role_str [simp]: "as_org_role (CText (org_role_str r)) = Some r"
  by (cases r) (simp_all add: as_org_role_def)

definition member_dest :: "cell list \<Rightarrow> OrgMember option" where
  "member_dest cells = (case cells of [c1, c2, c3, c4, c5, c6] \<Rightarrow> do {
       oid \<leftarrow> as_uuid c1; uid \<leftarrow> as_uuid c2; role \<leftarrow> as_org_role c3; joined \<leftarrow> as_time c4; email \<leftarrow> as_text c5;
       name \<leftarrow> as_text c6;
       Some \<lparr>OM_OrgID = oid, OM_UserID = uid, OM_Role = role, OM_JoinedAt = joined, OM_UserEmail = email,
         OM_UserFullName = name\<rparr> }
     | _ \<Rightarrow> None)"

definition scanMember :: "cell list option \<Rightarrow> OrgMember res" where "scanMember = scan_row member_dest"

text \<open>The columns \<open>om.org_id, om.user_id, om.role, om.joined_at, u.email, u.full_name\<close> of the join.\<close>

definition member_cells :: "row \<Rightarrow> row \<Rightarrow> cell list" where
  "member_cells om u = row_select [''org_id'', ''user_id'', ''role'', ''joined_at''] om @ row_select [''email'', ''full_name''] u"

definition org_member_row :: "OrgMemberRow \<Rightarrow> row" where
  "org_member_row m = row_insert [''org_id'', ''user_id'', ''role'', ''joined_at'']
     [CUuid (omr_org_id m), CUuid (omr_user_id m), CText (org_role_str (omr_role m)), time_cell (omr_joined_at m)]"

theorem member_row_roundtrip:
  "sql_row (\<lambda>u. U_ID u = omr_user_id m) (users d) = Some u \<Longrightarrow>
   scanMember (Some (member_cells (org_member_row m) (row_insert user_columns (user_args u)))) =
     Inr (the (org_member_join d (m\<lparr>omr_joined_at := pg_time (omr_joined_at m)\<rparr>)))"
  by (simp add: scanMember_def member_cells_def org_member_row_def row_defs user_columns_def user_args_def member_dest_def
      org_member_join_def)

definition project_columns :: "string list" where
  "project_columns = [''id'', ''org_id'', ''name'', ''slug'', ''description'', ''api_key_hash'',
     ''api_key_prefix'', ''is_active'', ''created_at'', ''updated_at'']"

definition project_args :: "Project \<Rightarrow> cell list" where
  "project_args p = [CUuid (P_ID p), CUuid (P_OrgID p), CText (P_Name p), CText (P_Slug p),
     CText (P_Description p), CText (P_APIKeyHash p), CText (P_APIKeyPrefix p), CBool (P_IsActive p),
     time_cell (P_CreatedAt p), time_cell (P_UpdatedAt p)]"

definition project_dest :: "cell list \<Rightarrow> Project option" where
  "project_dest cells = (case cells of [c1, c2, c3, c4, c5, c6, c7, c8, c9, c10] \<Rightarrow> do {
       i \<leftarrow> as_uuid c1; oid \<leftarrow> as_uuid c2; name \<leftarrow> as_text c3;
       slug \<leftarrow> as_text c4; descr \<leftarrow> as_text c5; hash \<leftarrow> as_text c6;
       prefix \<leftarrow> as_text c7; act \<leftarrow> as_bool c8; created \<leftarrow> as_time c9;
       updated \<leftarrow> as_time c10;
       Some \<lparr>P_ID = i, P_OrgID = oid, P_Name = name, P_Slug = slug, P_Description = descr,
         P_APIKeyHash = hash, P_APIKeyPrefix = prefix, P_IsActive = act, P_CreatedAt = created,
         P_UpdatedAt = updated\<rparr> }
     | _ \<Rightarrow> None)"

definition scanProject :: "cell list option \<Rightarrow> Project res" where "scanProject = scan_row project_dest"

definition project_update_columns :: "string list" where
  "project_update_columns = [''name'', ''description'', ''api_key_hash'', ''api_key_prefix'', ''is_active'',
     ''updated_at'']"

definition project_update_args :: "Project \<Rightarrow> cell list" where
  "project_update_args p = [CText (P_Name p), CText (P_Description p), CText (P_APIKeyHash p),
     CText (P_APIKeyPrefix p), CBool (P_IsActive p), time_cell (P_UpdatedAt p)]"

definition project_stored :: "Project \<Rightarrow> Project" where
  "project_stored p = p\<lparr>P_CreatedAt := pg_time (P_CreatedAt p), P_UpdatedAt := pg_time (P_UpdatedAt p)\<rparr>"

theorem project_row_roundtrip:
  "scanProject (Some (row_select project_columns (row_insert project_columns (project_args p)))) = Inr (project_stored p)"
  by (simp add: scanProject_def row_defs project_columns_def project_args_def project_dest_def project_stored_def)

text \<open>The UPDATE statements set what the models of \<open>UserRepo_Update\<close>, \<open>OrgRepo_Update\<close> and \<open>ProjectRepo_Update\<close> set.\<close>

theorem user_row_update:
  assumes "user_dest (row_select user_columns r) = Some u0"
  shows "user_dest (row_select user_columns (row_update now user_update_columns (user_update_args u) r)) =
    Some (u0\<lparr>U_Email := U_Email u, U_FullName := U_FullName u, U_IsActive := U_IsActive u, U_UpdatedAt := pg_time now\<rparr>)"
  using assms by (auto simp: row_defs user_columns_def user_update_columns_def user_update_args_def user_dest_def bind_eq_Some_conv)

theorem org_row_update:
  assumes "org_dest (row_select org_columns r) = Some o0"
  shows "org_dest (row_select org_columns (row_update now org_update_columns (org_update_args o1) r)) =
    Some (o0\<lparr>O_Name := O_Name o1, O_Description := O_Description o1, O_UpdatedAt := pg_time now\<rparr>)"
  using assms by (auto simp: row_defs org_columns_def org_update_columns_def org_update_args_def org_dest_def bind_eq_Some_conv)

theorem project_row_update:
  assumes "project_dest (row_select project_columns r) = Some p0"
  shows "project_dest (row_select project_columns (row_update now project_update_columns (project_update_args p) r)) =
    Some (set_project_columns p (pg_time now) p0)"
  using assms by (auto simp: row_defs project_columns_def project_update_columns_def project_update_args_def project_dest_def
      set_project_columns_def bind_eq_Some_conv)

section \<open>Queues\<close>

definition queueColumns :: "string list" where
  "queueColumns = [''id'', ''project_id'', ''name'', ''description'', ''priority'', ''concurrency'',
     ''max_retries'', ''retry_strategy'', ''retry_delay_sec'', ''visibility_timeout_sec'', ''job_timeout_sec'',
     ''is_paused'', ''is_dlq'', ''dlq_queue_id'', ''metadata'', ''created_at'', ''updated_at'']"

definition queue_args :: "(jsonmap option \<Rightarrow> string) \<Rightarrow> Queue \<Rightarrow> cell list" where
  "queue_args mar q = [CUuid (Q_ID q), CUuid (Q_ProjectID q), CText (Q_Name q), CText (Q_Description q),
     CInt (Q_Priority q), CInt (Q_Concurrency q), CInt (Q_MaxRetries q), CText (Q_RetryStrategy q),
     CInt (Q_RetryDelaySec q), CInt (Q_VisibilityTimeoutSec q), CInt (Q_JobTimeoutSec q), CBool (Q_IsPaused q),
     CBool (Q_IsDLQ q), opt_cell CUuid (Q_DLQQueueID q), CJson (mar (Q_Metadata q)), time_cell (Q_CreatedAt q),
     time_cell (Q_UpdatedAt q)]"

definition queue_dest :: "(string \<Rightarrow> jsonmap option res) \<Rightarrow> cell list \<Rightarrow> Queue option" where
  "queue_dest unm cells = (case cells of [c1, c2, c3, c4, c5, c6, c7, c8, c9, c10, c11, c12, c13, c14, c15, c16, c17] \<Rightarrow> do {
       i \<leftarrow> as_uuid c1; pid \<leftarrow> as_uuid c2; name \<leftarrow> as_text c3;
       descr \<leftarrow> as_text c4; priority \<leftarrow> as_int c5; concurrency \<leftarrow> as_int c6;
       retries \<leftarrow> as_int c7; strategy \<leftarrow> as_text c8; delay \<leftarrow> as_int c9;
       visibility \<leftarrow> as_int c10; timeout \<leftarrow> as_int c11; paused \<leftarrow> as_bool c12;
       dlq \<leftarrow> as_bool c13; dlq_id \<leftarrow> as_ptr as_uuid c14; meta \<leftarrow> as_map unm c15;
       created \<leftarrow> as_time c16; updated \<leftarrow> as_time c17;
       Some \<lparr>Q_ID = i, Q_ProjectID = pid, Q_Name = name, Q_Description = descr, Q_Priority = priority,
         Q_Concurrency = concurrency, Q_MaxRetries = retries, Q_RetryStrategy = strategy,
         Q_RetryDelaySec = delay, Q_VisibilityTimeoutSec = visibility, Q_JobTimeoutSec = timeout,
         Q_IsPaused = paused, Q_IsDLQ = dlq, Q_DLQQueueID = dlq_id, Q_Metadata = meta, Q_CreatedAt = created,
         Q_UpdatedAt = updated\<rparr> }
     | _ \<Rightarrow> None)"

definition scanQueue :: "(string \<Rightarrow> jsonmap option res) \<Rightarrow> cell list option \<Rightarrow> Queue res" where
  "scanQueue unm = scan_row (queue_dest unm)"

definition scanQueues :: "(string \<Rightarrow> jsonmap option res) \<Rightarrow> goerr option \<Rightarrow> cell list list \<Rightarrow> Queue list \<times> goerr option" where
  "scanQueues unm = scan_rows (queue_dest unm)"

definition queue_update_columns :: "string list" where
  "queue_update_columns = [''name'', ''description'', ''priority'', ''concurrency'', ''max_retries'',
     ''retry_strategy'', ''retry_delay_sec'', ''visibility_timeout_sec'', ''job_timeout_sec'',
     ''dlq_queue_id'', ''metadata'', ''updated_at'']"

definition queue_update_args :: "(jsonmap option \<Rightarrow> string) \<Rightarrow> Queue \<Rightarrow> cell list" where
  "queue_update_args mar q = [CText (Q_Name q), CText (Q_Description q), CInt (Q_Priority q),
     CInt (Q_Concurrency q), CInt (Q_MaxRetries q), CText (Q_RetryStrategy q), CInt (Q_RetryDelaySec q),
     CInt (Q_VisibilityTimeoutSec q), CInt (Q_JobTimeoutSec q), opt_cell CUuid (Q_DLQQueueID q),
     CJson (mar (Q_Metadata q)), time_cell (Q_UpdatedAt q)]"

text \<open>The laws of the codec on one map: it is encoded to some bytes and decoded back from them.\<close>

definition codec_ok :: "(jsonmap option \<Rightarrow> string) \<Rightarrow> (string \<Rightarrow> jsonmap option res) \<Rightarrow> jsonmap option \<Rightarrow> bool" where
  "codec_ok mar unm m \<longleftrightarrow> mar m \<noteq> [] \<and> unm (mar m) = Inr m"

lemma as_map_codec [simp]: "codec_ok mar unm m \<Longrightarrow> as_map unm (CJson (mar m)) = Some m"
  by (simp add: codec_ok_def)

definition queue_stored :: "Queue \<Rightarrow> Queue" where
  "queue_stored q = q\<lparr>Q_CreatedAt := pg_time (Q_CreatedAt q), Q_UpdatedAt := pg_time (Q_UpdatedAt q)\<rparr>"

lemma queue_dest_insert:
  assumes "codec_ok mar unm (Q_Metadata q)"
  shows "queue_dest unm (row_select queueColumns (row_insert queueColumns (queue_args mar q))) = Some (queue_stored q)"
  using assms by (simp add: row_defs queueColumns_def queue_args_def queue_dest_def queue_stored_def del: as_map.simps)

text \<open>A table of rows against the table of records it is scanned into.\<close>

definition represents :: "(cell list \<Rightarrow> 'a option) \<Rightarrow> string list \<Rightarrow> row list \<Rightarrow> 'a list \<Rightarrow> bool" where
  "represents dest cols rs as \<longleftrightarrow> map (\<lambda>r. dest (row_select cols r)) rs = map Some as"

lemma represents_insert: "represents dest cols rs as \<Longrightarrow> dest (row_select cols r) = Some a \<Longrightarrow> represents dest cols (rs @ [r]) (as @ [a])"
  by (simp add: represents_def)

lemma represents_update:
  assumes "represents dest cols rs as" and "\<And>r a. dest (row_select cols r) = Some a \<Longrightarrow> P r = Q a"
    and "\<And>r a. dest (row_select cols r) = Some a \<Longrightarrow> dest (row_select cols (u r)) = Some (f a)"
  shows "represents dest cols (sql_update P u rs) (sql_update Q f as)"
  using assms(1) unfolding represents_def
proof (induction rs arbitrary: "as")
  case (Cons r rs)
  then obtain a bs where "as = a # bs" "dest (row_select cols r) = Some a" "map (\<lambda>r. dest (row_select cols r)) rs = map Some bs"
    by auto
  then show ?case using Cons.IH [of bs] assms(2,3) by (simp add: sql_update_def)
qed (simp add: sql_update_def)

lemma represents_select:
  assumes "represents dest cols rs as" and "\<And>r a. dest (row_select cols r) = Some a \<Longrightarrow> P r = Q a"
  shows "scan_rows dest e (map (row_select cols) (sql_select P rs)) = (sql_select Q as, e)"
proof -
  have "map (\<lambda>r. dest (row_select cols r)) (filter P rs) = map Some (filter Q as)"
    using assms(1) unfolding represents_def
  proof (induction rs arbitrary: "as")
    case (Cons r rs)
    then obtain a bs where "as = a # bs" "dest (row_select cols r) = Some a" "map (\<lambda>r. dest (row_select cols r)) rs = map Some bs"
      by auto
    then show ?case using Cons.IH [of bs] assms(2) by simp
  qed simp
  from scan_rows_all [OF this] show ?thesis by (simp add: sql_select_def)
qed

definition row_id :: "uuid \<Rightarrow> row \<Rightarrow> bool" where
  "row_id i r \<longleftrightarrow> r ''id'' = CUuid i"

lemma as_uuid_Some: "as_uuid c = Some i \<longleftrightarrow> c = CUuid i"
  by (cases c) simp_all

lemma queue_dest_id: "queue_dest unm (row_select queueColumns r) = Some q \<Longrightarrow> row_id i r \<longleftrightarrow> Q_ID q = i"
  by (auto simp: row_defs queueColumns_def queue_dest_def row_id_def as_uuid_Some bind_eq_Some_conv)

lemma queue_dest_Some:
  "queue_dest unm [c1, c2, c3, c4, c5, c6, c7, c8, c9, c10, c11, c12, c13, c14, c15, c16, c17] = Some q \<longleftrightarrow>
     as_uuid c1 = Some (Q_ID q) \<and> as_uuid c2 = Some (Q_ProjectID q) \<and> as_text c3 = Some (Q_Name q) \<and>
     as_text c4 = Some (Q_Description q) \<and> as_int c5 = Some (Q_Priority q) \<and> as_int c6 = Some (Q_Concurrency q) \<and>
     as_int c7 = Some (Q_MaxRetries q) \<and> as_text c8 = Some (Q_RetryStrategy q) \<and> as_int c9 = Some (Q_RetryDelaySec q) \<and>
     as_int c10 = Some (Q_VisibilityTimeoutSec q) \<and> as_int c11 = Some (Q_JobTimeoutSec q) \<and>
     as_bool c12 = Some (Q_IsPaused q) \<and> as_bool c13 = Some (Q_IsDLQ q) \<and> as_ptr as_uuid c14 = Some (Q_DLQQueueID q) \<and>
     as_map unm c15 = Some (Q_Metadata q) \<and> as_time c16 = Some (Q_CreatedAt q) \<and> as_time c17 = Some (Q_UpdatedAt q)"
  by (cases q) (simp add: queue_dest_def bind_eq_Some_conv)

lemma queue_dest_update:
  assumes "codec_ok mar unm (Q_Metadata q)" and "queue_dest unm (row_select queueColumns r) = Some q0"
  shows "queue_dest unm (row_select queueColumns (row_update now queue_update_columns (queue_update_args mar q) r)) =
    Some (set_queue_columns q (pg_time now) q0)"
  using assms by (simp add: row_defs queueColumns_def queue_update_columns_def queue_update_args_def queue_dest_Some
      set_queue_columns_def del: as_map.simps)

text \<open>C23: The record table of queues stands for the SQL table: where the repository's model accepts a queue or a
  change of one, or pauses one, the INSERT or UPDATE of the code leaves rows that scan to the records of
  the model, and the query for a project scans to the records of its queues (with times in microseconds).\<close>

theorem queue_table_refined:
  assumes "represents (queue_dest unm) queueColumns rs (queues d)" and "codec_ok mar unm (Q_Metadata q)"
    and "queue_stored q = q" and "pg_time now = now"
  shows "(QueueRepo_Create None q d = (Inr (), d1) \<longrightarrow>
      represents (queue_dest unm) queueColumns (rs @ [row_insert queueColumns (queue_args mar q)]) (queues d1)) \<and>
    (QueueRepo_Update None now q d = (Inr (), d2) \<longrightarrow> represents (queue_dest unm) queueColumns
      (sql_update (row_id (Q_ID q)) (row_update now queue_update_columns (queue_update_args mar q)) rs) (queues d2)) \<and>
    represents (queue_dest unm) queueColumns (sql_update (row_id i) (row_update now [''is_paused''] [CBool b]) rs)
      (queues (snd (QueueRepo_SetPaused None now i b d))) \<and>
    scanQueues unm e (map (row_select queueColumns) (sql_select (\<lambda>r. r ''project_id'' = CUuid pid) rs)) =
      (sql_select (\<lambda>q. Q_ProjectID q = pid) (queues d), e)"
proof (intro conjI impI)
  let ?rep = "represents (queue_dest unm) queueColumns"
  show "?rep (rs @ [row_insert queueColumns (queue_args mar q)]) (queues d1)" if "QueueRepo_Create None q d = (Inr (), d1)"
  proof -
    have "queues d1 = queues d @ [q]"
      using that by (auto simp: QueueRepo_Create_def insert_queue_def insert_err_def split: option.splits if_splits)
    then show ?thesis using represents_insert [OF assms(1) queue_dest_insert [OF assms(2)]] assms(3) by simp
  qed
  show "?rep (sql_update (row_id (Q_ID q)) (row_update now queue_update_columns (queue_update_args mar q)) rs) (queues d2)"
    if "QueueRepo_Update None now q d = (Inr (), d2)"
  proof -
    have "queues d2 = sql_update (\<lambda>r. Q_ID r = Q_ID q) (set_queue_columns q now) (queues d)"
      using that by (auto simp: QueueRepo_Update_def exec_tag_def update_queue_def Let_def split: option.splits if_splits)
    then show ?thesis using queue_dest_update [OF assms(2), where now = now] assms(4)
      by simp (intro represents_update [OF assms(1)], auto simp: queue_dest_id)
  qed
  show "?rep (sql_update (row_id i) (row_update now [''is_paused''] [CBool b]) rs) (queues (snd (QueueRepo_SetPaused None now i b d)))"
    using assms(4) by (simp add: QueueRepo_SetPaused_def exec_tag_def)
      (intro represents_update [OF assms(1)], auto simp: queue_dest_id row_defs queueColumns_def queue_dest_Some)
  show "scanQueues unm e (map (row_select queueColumns) (sql_select (\<lambda>r. r ''project_id'' = CUuid pid) rs)) =
      (sql_select (\<lambda>q. Q_ProjectID q = pid) (queues d), e)"
    unfolding scanQueues_def
    by (rule represents_select [OF assms(1)]) (auto simp: row_defs queueColumns_def queue_dest_Some as_uuid_Some)
qed

section \<open>Cron jobs and batches\<close>

definition cronColumns :: "string list" where
  "cronColumns = [''id'', ''queue_id'', ''name'', ''description'', ''cron_expr'', ''timezone'', ''job_type'',
     ''payload'', ''max_retries'', ''retry_strategy'', ''is_active'', ''last_fired_at'', ''next_fire_at'',
     ''created_at'', ''updated_at'']"

definition cron_insert_columns :: "string list" where
  "cron_insert_columns = [''id'', ''queue_id'', ''name'', ''description'', ''cron_expr'', ''timezone'',
     ''job_type'', ''payload'', ''max_retries'', ''retry_strategy'', ''is_active'', ''next_fire_at'',
     ''created_at'', ''updated_at'']"

definition cron_args :: "(jsonmap option \<Rightarrow> string) \<Rightarrow> CronJob \<Rightarrow> cell list" where
  "cron_args mar c = [CUuid (C_ID c), CUuid (C_QueueID c), CText (C_Name c), CText (C_Description c),
     CText (C_CronExpr c), CText (C_Timezone c), CText (C_JobType c), CJson (mar (C_Payload c)),
     opt_cell CInt (C_MaxRetries c), opt_cell CText (C_RetryStrategy c), CBool (C_IsActive c),
     opt_cell time_cell (C_NextFireAt c), time_cell (C_CreatedAt c), time_cell (C_UpdatedAt c)]"

definition cron_dest :: "(string \<Rightarrow> jsonmap option res) \<Rightarrow> cell list \<Rightarrow> CronJob option" where
  "cron_dest unm cells = (case cells of [c1, c2, c3, c4, c5, c6, c7, c8, c9, c10, c11, c12, c13, c14, c15] \<Rightarrow> do {
       i \<leftarrow> as_uuid c1; qid \<leftarrow> as_uuid c2; name \<leftarrow> as_text c3;
       descr \<leftarrow> as_text c4; expr \<leftarrow> as_text c5; zone \<leftarrow> as_text c6;
       type \<leftarrow> as_text c7; payload \<leftarrow> as_map unm c8; retries \<leftarrow> as_ptr as_int c9;
       strategy \<leftarrow> as_ptr as_text c10; act \<leftarrow> as_bool c11;
       fired \<leftarrow> as_ptr as_time c12; fire \<leftarrow> as_ptr as_time c13;
       created \<leftarrow> as_time c14; updated \<leftarrow> as_time c15;
       Some \<lparr>C_ID = i, C_QueueID = qid, C_Name = name, C_Description = descr, C_CronExpr = expr,
         C_Timezone = zone, C_JobType = type, C_Payload = payload, C_MaxRetries = retries,
         C_RetryStrategy = strategy, C_IsActive = act, C_LastFiredAt = fired, C_NextFireAt = fire,
         C_CreatedAt = created, C_UpdatedAt = updated\<rparr> }
     | _ \<Rightarrow> None)"

definition scanCron :: "(string \<Rightarrow> jsonmap option res) \<Rightarrow> cell list option \<Rightarrow> CronJob res" where
  "scanCron unm = scan_row (cron_dest unm)"

theorem cron_row_roundtrip:
  assumes "codec_ok mar unm (C_Payload c)"
  shows "scanCron unm (Some (row_select cronColumns (row_insert cron_insert_columns (cron_args mar c)))) =
    Inr (c\<lparr>C_LastFiredAt := None, C_NextFireAt := map_option pg_time (C_NextFireAt c), C_CreatedAt := pg_time (C_CreatedAt c),
      C_UpdatedAt := pg_time (C_UpdatedAt c)\<rparr>)"
  using assms by (simp add: scanCron_def row_defs cronColumns_def cron_insert_columns_def cron_args_def cron_dest_def del: as_map.simps)

definition batch_columns :: "string list" where
  "batch_columns = [''id'', ''queue_id'', ''name'', ''total_jobs'', ''pending_count'', ''succeeded_count'',
     ''failed_count'', ''status'', ''created_at'', ''updated_at'']"

fun batch_status_str :: "BatchStatus \<Rightarrow> string" where
  "batch_status_str BatchPending = ''pending''"
| "batch_status_str BatchRunning = ''running''"
| "batch_status_str BatchCompleted = ''completed''"
| "batch_status_str BatchPartialFailure = ''partial_failure''"

definition as_batch_status :: "cell \<Rightarrow> BatchStatus option" where
  "as_batch_status c = Option.bind (as_text c)
     (\<lambda>s. find (\<lambda>b. batch_status_str b = s) [BatchPending, BatchRunning, BatchCompleted, BatchPartialFailure])"

lemma as_batch_status_str [simp]: "as_batch_status (CText (batch_status_str b)) = Some b"
  by (cases b) (simp_all add: as_batch_status_def)

definition batch_args :: "Batch \<Rightarrow> cell list" where
  "batch_args b = [CUuid (B_ID b), CUuid (B_QueueID b), CText (B_Name b), CInt (B_TotalJobs b),
     CInt (B_PendingCount b), CInt (B_SucceededCount b), CInt (B_FailedCount b),
     CText (batch_status_str (B_Status b)), time_cell (B_CreatedAt b), time_cell (B_UpdatedAt b)]"

definition batch_dest :: "cell list \<Rightarrow> Batch option" where
  "batch_dest cells = (case cells of [c1, c2, c3, c4, c5, c6, c7, c8, c9, c10] \<Rightarrow> do {
       i \<leftarrow> as_uuid c1; qid \<leftarrow> as_uuid c2; name \<leftarrow> as_text c3;
       all \<leftarrow> as_int c4; pending \<leftarrow> as_int c5; succeeded \<leftarrow> as_int c6;
       failed \<leftarrow> as_int c7; status \<leftarrow> as_batch_status c8; created \<leftarrow> as_time c9;
       updated \<leftarrow> as_time c10;
       Some \<lparr>B_ID = i, B_QueueID = qid, B_Name = name, B_TotalJobs = all, B_PendingCount = pending,
         B_SucceededCount = succeeded, B_FailedCount = failed, B_Status = status, B_CreatedAt = created,
         B_UpdatedAt = updated\<rparr> }
     | _ \<Rightarrow> None)"

theorem batch_row_roundtrip: "scan_row batch_dest (Some (row_select batch_columns (row_insert batch_columns (batch_args b)))) =
    Inr (b\<lparr>B_CreatedAt := pg_time (B_CreatedAt b), B_UpdatedAt := pg_time (B_UpdatedAt b)\<rparr>)"
  by (simp add: row_defs batch_columns_def batch_args_def batch_dest_def)

section \<open>Jobs\<close>

definition jobColumns :: "string list" where
  "jobColumns = [''id'', ''queue_id'', ''batch_id'', ''parent_job_id'', ''cron_job_id'', ''type'', ''payload'',
     ''idempotency_key'', ''status'', ''priority'', ''run_at'', ''max_retries'', ''attempt_count'',
     ''retry_strategy'', ''retry_delay_sec'', ''last_error'', ''last_error_at'', ''timeout_sec'',
     ''claimed_by'', ''claimed_at'', ''started_at'', ''completed_at'', ''tags'', ''metadata'', ''created_at'',
     ''updated_at'']"

definition job_insert_columns :: "string list" where
  "job_insert_columns = [''id'', ''queue_id'', ''batch_id'', ''parent_job_id'', ''cron_job_id'', ''type'',
     ''payload'', ''idempotency_key'', ''status'', ''priority'', ''run_at'', ''max_retries'',
     ''attempt_count'', ''retry_strategy'', ''retry_delay_sec'', ''timeout_sec'', ''tags'', ''metadata'',
     ''created_at'', ''updated_at'']"

definition job_args :: "(jsonmap option \<Rightarrow> string) \<Rightarrow> Job \<Rightarrow> cell list" where
  "job_args mar j = [CUuid (J_ID j), CUuid (J_QueueID j), opt_cell CUuid (J_BatchID j),
     opt_cell CUuid (J_ParentJobID j), opt_cell CUuid (J_CronJobID j), CText (J_Type j),
     CJson (mar (J_Payload j)), opt_cell CText (J_IdempotencyKey j), CText (job_status_str (J_Status j)),
     CInt (J_Priority j), time_cell (J_RunAt j), CInt (J_MaxRetries j), CInt (J_AttemptCount j),
     CText (J_RetryStrategy j), CInt (J_RetryDelaySec j), CInt (J_TimeoutSec j), opt_cell CTexts (J_Tags j),
     CJson (mar (J_Metadata j)), time_cell (J_CreatedAt j), time_cell (J_UpdatedAt j)]"

definition as_job_status :: "cell \<Rightarrow> JobStatus option" where
  "as_job_status c = Option.bind (as_text c) parse_job_status"

lemma as_job_status_str [simp]: "as_job_status (CText (job_status_str st)) = Some st"
  by (simp add: as_job_status_def)

definition job_dest :: "(string \<Rightarrow> jsonmap option res) \<Rightarrow> cell list \<Rightarrow> Job option" where
  "job_dest unm cells = (case cells of [c1, c2, c3, c4, c5, c6, c7, c8, c9, c10, c11, c12, c13,
       c14, c15, c16, c17, c18, c19, c20, c21, c22, c23, c24, c25, c26] \<Rightarrow> do {
       i \<leftarrow> as_uuid c1; qid \<leftarrow> as_uuid c2; batch \<leftarrow> as_ptr as_uuid c3;
       parent \<leftarrow> as_ptr as_uuid c4; cron \<leftarrow> as_ptr as_uuid c5;
       type \<leftarrow> as_text c6; payload \<leftarrow> as_map unm c7; key \<leftarrow> as_ptr as_text c8;
       status \<leftarrow> as_job_status c9; priority \<leftarrow> as_int c10; run_at \<leftarrow> as_time c11;
       retries \<leftarrow> as_int c12; attempts \<leftarrow> as_int c13; strategy \<leftarrow> as_text c14;
       delay \<leftarrow> as_int c15; err \<leftarrow> as_ptr as_text c16;
       err_at \<leftarrow> as_ptr as_time c17; timeout \<leftarrow> as_int c18;
       wid \<leftarrow> as_ptr as_uuid c19; claimed \<leftarrow> as_ptr as_time c20;
       started \<leftarrow> as_ptr as_time c21; completed \<leftarrow> as_ptr as_time c22;
       tags \<leftarrow> as_texts c23; meta \<leftarrow> as_map unm c24; created \<leftarrow> as_time c25;
       updated \<leftarrow> as_time c26;
       Some \<lparr>J_ID = i, J_QueueID = qid, J_BatchID = batch, J_ParentJobID = parent, J_CronJobID = cron,
         J_Type = type, J_Payload = payload, J_IdempotencyKey = key, J_Status = status, J_Priority = priority,
         J_RunAt = run_at, J_MaxRetries = retries, J_AttemptCount = attempts, J_RetryStrategy = strategy,
         J_RetryDelaySec = delay, J_LastError = err, J_LastErrorAt = err_at, J_TimeoutSec = timeout,
         J_ClaimedBy = wid, J_ClaimedAt = claimed, J_StartedAt = started, J_CompletedAt = completed,
         J_Tags = tags, J_Metadata = meta, J_CreatedAt = created, J_UpdatedAt = updated\<rparr> }
     | _ \<Rightarrow> None)"

definition scanJob :: "(string \<Rightarrow> jsonmap option res) \<Rightarrow> cell list option \<Rightarrow> Job res" where
  "scanJob unm = scan_row (job_dest unm)"

lemma job_dest_Some:
  "job_dest unm [c1, c2, c3, c4, c5, c6, c7, c8, c9, c10, c11, c12, c13,
       c14, c15, c16, c17, c18, c19, c20, c21, c22, c23, c24, c25, c26] = Some j \<longleftrightarrow>
     as_uuid c1 = Some (J_ID j) \<and> as_uuid c2 = Some (J_QueueID j) \<and>
     as_ptr as_uuid c3 = Some (J_BatchID j) \<and> as_ptr as_uuid c4 = Some (J_ParentJobID j) \<and>
     as_ptr as_uuid c5 = Some (J_CronJobID j) \<and> as_text c6 = Some (J_Type j) \<and>
     as_map unm c7 = Some (J_Payload j) \<and> as_ptr as_text c8 = Some (J_IdempotencyKey j) \<and>
     as_job_status c9 = Some (J_Status j) \<and> as_int c10 = Some (J_Priority j) \<and>
     as_time c11 = Some (J_RunAt j) \<and> as_int c12 = Some (J_MaxRetries j) \<and>
     as_int c13 = Some (J_AttemptCount j) \<and> as_text c14 = Some (J_RetryStrategy j) \<and>
     as_int c15 = Some (J_RetryDelaySec j) \<and> as_ptr as_text c16 = Some (J_LastError j) \<and>
     as_ptr as_time c17 = Some (J_LastErrorAt j) \<and> as_int c18 = Some (J_TimeoutSec j) \<and>
     as_ptr as_uuid c19 = Some (J_ClaimedBy j) \<and> as_ptr as_time c20 = Some (J_ClaimedAt j) \<and>
     as_ptr as_time c21 = Some (J_StartedAt j) \<and> as_ptr as_time c22 = Some (J_CompletedAt j) \<and>
     as_texts c23 = Some (J_Tags j) \<and> as_map unm c24 = Some (J_Metadata j) \<and>
     as_time c25 = Some (J_CreatedAt j) \<and> as_time c26 = Some (J_UpdatedAt j)"
  by (cases j) (simp add: job_dest_def bind_eq_Some_conv)

definition job_stored :: "Job \<Rightarrow> Job" where
  "job_stored j = j\<lparr>J_RunAt := pg_time (J_RunAt j), J_CreatedAt := pg_time (J_CreatedAt j), J_UpdatedAt := pg_time (J_UpdatedAt j)\<rparr>"

lemma job_dest_insert:
  assumes "codec_ok mar unm (J_Payload j)" and "codec_ok mar unm (J_Metadata j)"
  shows "job_dest unm (row_select jobColumns (row_insert job_insert_columns (job_args mar j))) = Some (job_stored (inserted_job j))"
  using assms by (simp add: row_defs jobColumns_def job_insert_columns_def job_args_def job_dest_Some job_stored_def
      inserted_job_def del: as_map.simps)

lemma job_dest_id: "job_dest unm (row_select jobColumns r) = Some j \<Longrightarrow> row_id i r \<longleftrightarrow> J_ID j = i"
  by (auto simp: row_defs jobColumns_def job_dest_Some row_id_def as_uuid_Some)

text \<open>The UPDATE statements of the repository: the SET clause, evaluated on the row, and the WHERE clause.
  A comparison with NULL is not true.\<close>

fun cell_incr :: "cell \<Rightarrow> cell" where "cell_incr (CInt n) = CInt (n + 1)" | "cell_incr c = c"
fun cell_le :: "cell \<Rightarrow> time \<Rightarrow> bool" where "cell_le (CTime t) u = (t \<le> u)" | "cell_le _ _ = False"
fun cell_less :: "cell \<Rightarrow> time \<Rightarrow> bool" where "cell_less (CTime t) u = (t < u)" | "cell_less _ _ = False"

definition row_status :: "JobStatus \<Rightarrow> row \<Rightarrow> bool" where
  "row_status st r \<longleftrightarrow> r ''status'' = CText (job_status_str st)"

definition status_cell :: "JobStatus \<Rightarrow> cell" where "status_cell st = CText (job_status_str st)"

definition sql_UpdateStatus :: "time \<Rightarrow> uuid \<Rightarrow> JobStatus \<Rightarrow> row list \<Rightarrow> row list" where
  "sql_UpdateStatus now i st = sql_update (row_id i) (row_update now [''status''] [status_cell st])"

definition sql_MarkSucceeded :: "time \<Rightarrow> uuid \<Rightarrow> time \<Rightarrow> row list \<Rightarrow> row list" where
  "sql_MarkSucceeded now i completedAt = sql_update (row_id i)
     (row_update now [''status'', ''completed_at''] [status_cell StatusSucceeded, time_cell completedAt])"

definition sql_MarkFailed :: "time \<Rightarrow> uuid \<Rightarrow> string \<Rightarrow> time \<Rightarrow> row list \<Rightarrow> row list" where
  "sql_MarkFailed now i errMsg failedAt = sql_update (row_id i)
     (\<lambda>r. row_update now [''status'', ''attempt_count'', ''last_error'', ''last_error_at'']
        [status_cell StatusFailed, cell_incr (r ''attempt_count''), CText errMsg, time_cell failedAt] r)"

definition sql_MarkDead :: "time \<Rightarrow> uuid \<Rightarrow> string \<Rightarrow> time \<Rightarrow> row list \<Rightarrow> row list" where
  "sql_MarkDead now i errMsg failedAt = sql_update (row_id i)
     (\<lambda>r. row_update now [''status'', ''attempt_count'', ''last_error'', ''last_error_at'', ''completed_at'']
        [status_cell StatusDead, cell_incr (r ''attempt_count''), CText errMsg, time_cell failedAt, time_cell failedAt] r)"

definition sql_ScheduleRetry :: "time \<Rightarrow> uuid \<Rightarrow> time \<Rightarrow> int \<Rightarrow> row list \<Rightarrow> row list" where
  "sql_ScheduleRetry now i runAt attemptCount = sql_update (row_id i)
     (row_update now [''status'', ''run_at'', ''attempt_count'', ''claimed_by'', ''claimed_at'']
        [status_cell StatusPending, time_cell runAt, CInt attemptCount, CNull, CNull])"

definition sql_Cancel :: "time \<Rightarrow> uuid \<Rightarrow> row list \<Rightarrow> row list" where
  "sql_Cancel now i = sql_update (\<lambda>r. row_id i r \<and> (row_status StatusPending r \<or> row_status StatusScheduled r))
     (row_update now [''status''] [status_cell StatusCancelled])"

definition sql_PromoteScheduled :: "time \<Rightarrow> row list \<Rightarrow> row list" where
  "sql_PromoteScheduled now = sql_update (\<lambda>r. row_status StatusScheduled r \<and> cell_le (r ''run_at'') now)
     (row_update now [''status''] [status_cell StatusPending])"

definition sql_ReclaimStale :: "time \<Rightarrow> int \<Rightarrow> row list \<Rightarrow> row list" where
  "sql_ReclaimStale now secs = sql_update
     (\<lambda>r. row_status StatusRunning r \<and> cell_less (r ''claimed_at'') (now - secs * 1000000000))
     (row_update now [''status'', ''claimed_by'', ''claimed_at''] [status_cell StatusPending, CNull, CNull])"

definition sql_claim :: "time \<Rightarrow> uuid \<Rightarrow> uuid list \<Rightarrow> row list \<Rightarrow> row list" where
  "sql_claim now wid ids = sql_update (\<lambda>r. list_ex (\<lambda>i. row_id i r) ids)
     (row_update now [''status'', ''claimed_by'', ''claimed_at'', ''started_at'']
        [status_cell StatusRunning, CUuid wid, CTime (pg_time now), CTime (pg_time now)])"

lemmas sql_job_defs = sql_UpdateStatus_def sql_MarkSucceeded_def sql_MarkFailed_def sql_MarkDead_def
  sql_ScheduleRetry_def sql_Cancel_def sql_PromoteScheduled_def sql_ReclaimStale_def sql_claim_def

lemma as_job_status_Some: "as_job_status c = Some st \<longleftrightarrow> c = CText (job_status_str st)"
  by (cases c) (auto simp: as_job_status_def dest: parse_job_status_sound)

lemma job_status_str_inj: "job_status_str a = job_status_str b \<longleftrightarrow> a = b"
  by (metis option.inject parse_job_status_str)

lemma as_int_Some: "as_int c = Some n \<longleftrightarrow> c = CInt n"
  by (cases c) simp_all

lemma as_time_Some: "as_time c = Some t \<longleftrightarrow> c = CTime t"
  by (cases c) simp_all

lemma cell_less_ptr: "as_ptr as_time c = Some t \<Longrightarrow> cell_less c u \<longleftrightarrow> null_less t u"
  by (cases c) auto

lemma job_cells:
  assumes "job_dest unm (row_select jobColumns r) = Some j"
  shows "row_id i r \<longleftrightarrow> J_ID j = i" "row_status st r \<longleftrightarrow> J_Status j = st" "cell_le (r ''run_at'') t \<longleftrightarrow> J_RunAt j \<le> t"
    "cell_less (r ''claimed_at'') t \<longleftrightarrow> null_less (J_ClaimedAt j) t" "r ''attempt_count'' = CInt (J_AttemptCount j)"
proof -
  have c: "as_uuid (r ''id'') = Some (J_ID j)" "as_job_status (r ''status'') = Some (J_Status j)"
    "as_time (r ''run_at'') = Some (J_RunAt j)" "as_ptr as_time (r ''claimed_at'') = Some (J_ClaimedAt j)"
    "as_int (r ''attempt_count'') = Some (J_AttemptCount j)"
    using assms by (simp_all add: row_select_def jobColumns_def job_dest_Some)
  then show "row_id i r \<longleftrightarrow> J_ID j = i" "row_status st r \<longleftrightarrow> J_Status j = st" "cell_le (r ''run_at'') t \<longleftrightarrow> J_RunAt j \<le> t"
    "cell_less (r ''claimed_at'') t \<longleftrightarrow> null_less (J_ClaimedAt j) t" "r ''attempt_count'' = CInt (J_AttemptCount j)"
    by (auto simp: row_id_def as_uuid_Some row_status_def as_job_status_Some job_status_str_inj as_time_Some as_int_Some
        cell_less_ptr)
qed

text \<open>One SET clause at a time: the row still scans, to the record with the fields changed.\<close>

lemma job_sets:
  assumes "job_dest unm (row_select jobColumns r) = Some j" and t: "pg_time now = now" "pg_time t = t"
  shows "job_dest unm (row_select jobColumns (row_update now [''status''] [status_cell st] r)) =
      Some (j\<lparr>J_Status := st, J_UpdatedAt := now\<rparr>)"
    "job_dest unm (row_select jobColumns (row_update now [''status'', ''completed_at''] [status_cell st, time_cell t] r)) =
      Some (j\<lparr>J_Status := st, J_CompletedAt := Some t, J_UpdatedAt := now\<rparr>)"
    "job_dest unm (row_select jobColumns (row_update now [''status'', ''attempt_count'', ''last_error'', ''last_error_at'']
        [status_cell st, CInt n, CText m, time_cell t] r)) =
      Some (j\<lparr>J_Status := st, J_AttemptCount := n, J_LastError := Some m, J_LastErrorAt := Some t, J_UpdatedAt := now\<rparr>)"
    "job_dest unm (row_select jobColumns (row_update now
        [''status'', ''attempt_count'', ''last_error'', ''last_error_at'', ''completed_at'']
        [status_cell st, CInt n, CText m, time_cell t, time_cell t] r)) =
      Some (j\<lparr>J_Status := st, J_AttemptCount := n, J_LastError := Some m, J_LastErrorAt := Some t, J_CompletedAt := Some t,
        J_UpdatedAt := now\<rparr>)"
    "job_dest unm (row_select jobColumns (row_update now [''status'', ''run_at'', ''attempt_count'', ''claimed_by'', ''claimed_at'']
        [status_cell st, time_cell t, CInt n, CNull, CNull] r)) =
      Some (j\<lparr>J_Status := st, J_RunAt := t, J_AttemptCount := n, J_ClaimedBy := None, J_ClaimedAt := None, J_UpdatedAt := now\<rparr>)"
    "job_dest unm (row_select jobColumns (row_update now [''status'', ''claimed_by'', ''claimed_at''] [status_cell st, CNull, CNull] r)) =
      Some (j\<lparr>J_Status := st, J_ClaimedBy := None, J_ClaimedAt := None, J_UpdatedAt := now\<rparr>)"
    "job_dest unm (row_select jobColumns (row_update now [''status'', ''claimed_by'', ''claimed_at'', ''started_at'']
        [status_cell StatusRunning, CUuid wid, CTime (pg_time now), CTime (pg_time now)] r)) = Some (mark_running wid now j)"
  using assms by (simp_all add: row_select_def row_update_def jobColumns_def job_dest_Some status_cell_def time_cell_def
      mark_running_def as_job_status_str [of StatusRunning, simplified])

text \<open>C16: The record table of jobs stands for the SQL table: the INSERT of a job and every UPDATE of the
  repository, run on rows that scan to the records of the model, leave rows that scan to what the model's
  operation leaves, with times in microseconds; so does the claim.\<close>

theorem job_table_refined:
  assumes rep: "represents (job_dest unm) jobColumns rs (jobs d)" and t: "pg_time now = now" "pg_time u = u"
    and "codec_ok mar unm (J_Payload j)" and "codec_ok mar unm (J_Metadata j)" and "job_stored j = j"
  shows "(insert_job j d = (Inr (), d1) \<and> \<not> job_key_conflict j (jobs d) \<longrightarrow>
      represents (job_dest unm) jobColumns (rs @ [row_insert job_insert_columns (job_args mar j)]) (jobs d1)) \<and>
    represents (job_dest unm) jobColumns (sql_UpdateStatus now i st rs) (jobs (snd (JobRepo_UpdateStatus None now i st d))) \<and>
    represents (job_dest unm) jobColumns (sql_MarkSucceeded now i u rs) (jobs (snd (JobRepo_MarkSucceeded None now i u d))) \<and>
    represents (job_dest unm) jobColumns (sql_MarkFailed now i m u rs) (jobs (snd (JobRepo_MarkFailed None now i m u d))) \<and>
    represents (job_dest unm) jobColumns (sql_MarkDead now i m u rs) (jobs (snd (JobRepo_MarkDead None now i m u d))) \<and>
    represents (job_dest unm) jobColumns (sql_ScheduleRetry now i u n rs) (jobs (snd (JobRepo_ScheduleRetry None now i u n d))) \<and>
    represents (job_dest unm) jobColumns (sql_Cancel now i rs) (jobs (snd (JobRepo_Cancel None now i d))) \<and>
    represents (job_dest unm) jobColumns (sql_PromoteScheduled now rs) (jobs (snd (JobRepo_PromoteScheduled None now d))) \<and>
    represents (job_dest unm) jobColumns (sql_ReclaimStale now (whole_seconds vis) rs)
      (jobs (snd (JobRepo_ReclaimStale None now vis d))) \<and>
    represents (job_dest unm) jobColumns (sql_claim now wid ids rs) (jobs (claim_update wid now ids d))"
    (is "?insert \<and> ?upd")
proof
  have k: "jobs d1 = jobs d @ [inserted_job j]" if "insert_job j d = (Inr (), d1)" "\<not> job_key_conflict j (jobs d)"
    using that by (auto simp: insert_job_def split: option.splits if_splits)
  have "job_stored (inserted_job j) = inserted_job j"
    using assms(6) by (cases j) (simp add: job_stored_def inserted_job_def)
  then show ?insert using represents_insert [OF rep job_dest_insert [OF assms(4,5)]] k by simp
  show ?upd
    unfolding sql_job_defs job_update_defs JobRepo_Cancel_def JobRepo_PromoteScheduled_def JobRepo_ReclaimStale_def
      claim_update_def
    by (intro conjI; simp split: if_splits; intro represents_update [OF rep])
      (auto simp: job_cells job_sets [OF _ t] job_sets(7) [OF _ t, unfolded t] t cancellable_def due_scheduled_def stale_running_def list_ex_iff)
qed

section \<open>Concrete rows\<close>

text \<open>A codec that is right on nil maps: \<open>null\<close>.\<close>

definition null_mar :: "jsonmap option \<Rightarrow> string" where "null_mar m = ''null''"
definition null_unm :: "string \<Rightarrow> jsonmap option res" where "null_unm b = Inr None"

lemma null_codec [simp]: "codec_ok null_mar null_unm None"
  by (simp add: codec_ok_def null_mar_def null_unm_def)

theorem queue_table_refined_witness:
  "scanQueues null_unm None (map (row_select queueColumns) (sql_select (\<lambda>r. r ''project_id'' = CUuid 70)
     [row_insert queueColumns (queue_args null_mar sample_queue)])) = ([sample_queue], None)"
proof -
  have s: "queue_stored sample_queue = sample_queue" "codec_ok null_mar null_unm (Q_Metadata sample_queue)"
    by (simp_all add: queue_stored_def sample_queue_def pg_time_def)
  have r: "represents (queue_dest null_unm) queueColumns [row_insert queueColumns (queue_args null_mar sample_queue)]
      (queues (sample_db []))"
    using queue_dest_insert [OF s(2)] s(1) by (simp add: represents_def sample_db_def)
  have "pg_time 2000 = 2000" by (simp add: pg_time_def)
  from queue_table_refined [OF r s(2,1) this, where e = None and pid = 70] show ?thesis
    by (simp add: sample_db_def sql_select_def sample_queue_def)
qed

theorem job_table_refined_witness:
  "represents (job_dest null_unm) jobColumns
     (sql_MarkSucceeded 2000 5 1000 [row_insert job_insert_columns (job_args null_mar (sample_job 5 StatusRunning 5 0))])
     (jobs (snd (JobRepo_MarkSucceeded None 2000 5 1000 (sample_db [sample_job 5 StatusRunning 5 0]))))"
proof -
  let ?j = "sample_job 5 StatusRunning 5 0"
  have s: "job_stored ?j = ?j" "inserted_job ?j = ?j" "codec_ok null_mar null_unm (J_Payload ?j)"
    "codec_ok null_mar null_unm (J_Metadata ?j)"
    by (simp_all add: job_stored_def sample_job_def zero_Job_def pg_time_def zero_time_def inserted_job_def)
  have r: "represents (job_dest null_unm) jobColumns [row_insert job_insert_columns (job_args null_mar ?j)]
      (jobs (sample_db [?j]))"
    using job_dest_insert [OF s(3,4)] s(1,2) by (simp add: represents_def sample_db_def)
  have t: "pg_time 2000 = 2000" "pg_time 1000 = 1000" by (simp_all add: pg_time_def)
  show ?thesis using job_table_refined [OF r t s(3,4,1)] by blast
qed

end
