(* ===== verification/RetryTests.thy ===== *)
theory RetryTests
  imports Retry
begin

text \<open>
  The unit tests of the backoff (\<open>pkg/retry/backoff_test.go\<close>) run on the model, for every draw of the random
  source: the table of exact delays passes, and the test of the jitter passes for the half of the draws only that stay
  within the documented 25 per cent.
\<close>

record backoff_test =
  bt_name :: string
  bt_policy :: Policy
  bt_attempt :: int
  bt_expected :: duration
  bt_jitter :: bool

text \<open>A field that a composite literal leaves out has its zero value.\<close>

definition test_policy :: "Strategy \<Rightarrow> int \<Rightarrow> int \<Rightarrow> bool \<Rightarrow> Policy" where
  "test_policy st base cap jitter = \<lparr>MaxRetries = 0, Strategy = st, BaseDelay = word_of_int base * time_Second,
     MaxDelay = word_of_int cap * time_Second, Jitter = jitter\<rparr>"

definition backoff_tests :: "backoff_test list" where
  "backoff_tests =
    [\<lparr>bt_name = ''fixed strategy'', bt_policy = test_policy StrategyFixed 5 0 False, bt_attempt = 3,
      bt_expected = 5 * time_Second, bt_jitter = False\<rparr>,
     \<lparr>bt_name = ''linear strategy'', bt_policy = test_policy StrategyLinear 5 0 False, bt_attempt = 3,
      bt_expected = 15 * time_Second, bt_jitter = False\<rparr>,
     \<lparr>bt_name = ''exponential without jitter'', bt_policy = test_policy StrategyExponential 2 0 False, bt_attempt = 4,
      bt_expected = 16 * time_Second, bt_jitter = False\<rparr>,
     \<lparr>bt_name = ''max delay cap'', bt_policy = test_policy StrategyExponential 10 30 False, bt_attempt = 10,
      bt_expected = 30 * time_Second, bt_jitter = False\<rparr>]"

text \<open>\<open>None\<close> as the delay is a panic, which fails a test.\<close>

definition TestNextDelay :: "(int \<Rightarrow> duration) \<Rightarrow> (int \<Rightarrow> int) \<Rightarrow> nat \<Rightarrow> backoff_test \<Rightarrow> bool" where
  "TestNextDelay conv rnd coin tt \<longleftrightarrow>
     bt_jitter tt \<or> NextDelay conv rnd coin (bt_policy tt) (bt_attempt tt) = Some (bt_expected tt)"

definition TestNextDelay_Jitter :: "(int \<Rightarrow> duration) \<Rightarrow> (int \<Rightarrow> int) \<Rightarrow> nat \<Rightarrow> bool" where
  "TestNextDelay_Jitter conv rnd coin \<longleftrightarrow>
     (case NextDelay conv rnd coin (test_policy StrategyExponential 10 0 True) 2 of
        None \<Rightarrow> False
      | Some delay \<Rightarrow> \<not> (sint delay < sint (15 * time_Second) \<or> sint (25 * time_Second) < sint delay))"

lemma backoff_table_passes: "list_all (TestNextDelay conv rnd coin) backoff_tests"
  by (simp add: backoff_tests_def TestNextDelay_def test_policy_def NextDelay_def raw_delay_def cap_delay_def effective_cap_def
      exp_delay_def f64_small strategy_defs time_Second_def time_Hour_def Duration_of_def Let_def)

theorem jitter_test_is_flaky:
  assumes "0 \<le> rnd 10000000000" and "rnd 10000000000 < 10000000000"
  shows "TestNextDelay_Jitter conv rnd coin \<longleftrightarrow> rnd 10000000000 \<le> 5000000000"
proof -
  let ?p = "test_policy StrategyExponential 10 0 True" and ?r = "rnd 10000000000"
  have p: "Strategy ?p = StrategyExponential" "Jitter ?p" "sint (BaseDelay ?p) = 10000000000"
    "sint (effective_cap ?p) = 86400000000000"
    by (simp_all add: test_policy_def effective_cap_def time_Second_def time_Hour_def)
  have half: "(20000000000 :: int) div 2 = 10000000000" by simp
  have "map_option sint (NextDelay conv rnd coin ?p 2) =
      Some (min (if coin = 0 then 20000000000 + ?r else 20000000000 - ?r) 86400000000000)"
    using NextDelay_jitter_range [of ?p 2 20000000000 rnd conv coin, unfolded half] p assms by (simp add: f64_small)
  then obtain w where "NextDelay conv rnd coin ?p 2 = Some w"
    "sint w = min (if coin = 0 then 20000000000 + ?r else 20000000000 - ?r) 86400000000000"
    by auto
  then show ?thesis using assms by (auto simp: TestNextDelay_Jitter_def time_Second_def)
qed

theorem jitter_test_is_flaky_witness:
  "TestNextDelay_Jitter amd64_conv (\<lambda>n. 0) 0 \<and> \<not> TestNextDelay_Jitter amd64_conv (\<lambda>n. n - 1) 0"
  using jitter_test_is_flaky [of "\<lambda>n. 0" amd64_conv 0] jitter_test_is_flaky [of "\<lambda>n. n - 1" amd64_conv 0] by simp

end
